(* ===== verification/Prelude.thy ===== *)
theory Prelude
  imports Main "HOL-Library.Word" "HOL-Library.AList" "HOL-Library.Multiset" "HOL-Library.Sublist"
begin

text \<open>
  What the component theories share: the fixed-width integers, the part of Rust's standard
  library the sources call (\<open>str\<close>, \<open>format!\<close>, \<open>HashMap\<close>, \<open>Result\<close>), and the two interfaces several
  components implement: a generation counter and a transition machine.

  Strings are lists of bytes (the UTF-8 encoding a Rust \<open>String\<close> holds). The case-folding and
  white-space functions act on the ASCII bytes and leave every other byte alone, which is what
  the Rust functions do on ASCII text.
\<close>

section \<open>Integers\<close>

type_synonym u16 = "16 word"
type_synonym u32 = "32 word"
type_synonym u64 = "64 word"

text \<open>An \<open>i64\<close> is a 64-bit word read as two's complement (\<^term>\<open>sint\<close>).\<close>

type_synonym i64 = "64 word"

text \<open>\<open>u64::saturating_sub\<close>.\<close>

definition u64_saturating_sub :: "u64 \<Rightarrow> u64 \<Rightarrow> u64" where
  "u64_saturating_sub a b = (if a < b then 0 else a - b)"

lemma u64_saturating_sub_self [simp]: "u64_saturating_sub a a = 0"
  by (simp add: u64_saturating_sub_def)

lemma u64_Suc_neq [simp]: "(a :: u64) + 1 \<noteq> a"
  by simp

text \<open>Ordinary \<open>+\<close> and \<open>fetch_add\<close> wrap (the release profile has no overflow checks).\<close>

lemma u64_add_of_nat_neq:
  assumes "0 < n" "n < 2 ^ 64"
  shows "(a :: u64) + of_nat n \<noteq> a"
proof
  assume "a + of_nat n = a"
  then have "(of_nat n :: u64) = 0" by simp
  then have "unat (of_nat n :: u64) = 0" by simp
  then show False using assms by (simp add: unat_of_nat)
qed

section \<open>Decimal formatting\<close>

definition digit_char :: "nat \<Rightarrow> char" where
  "digit_char d = char_of (48 + d)"

fun show_nat :: "nat \<Rightarrow> string" where
  "show_nat n = (if n < 10 then [digit_char n] else show_nat (n div 10) @ [digit_char (n mod 10)])"

declare show_nat.simps [simp del]

definition show_u64 :: "u64 \<Rightarrow> string" where
  "show_u64 w = show_nat (unat w)"

definition show_i64 :: "i64 \<Rightarrow> string" where
  "show_i64 w = (if sint w < 0 then ''-'' @ show_nat (nat (- sint w)) else show_nat (nat (sint w)))"

text \<open>\<open>{n:03}\<close>: left-pad with zeros to three characters.\<close>

definition show_pad3 :: "u64 \<Rightarrow> string" where
  "show_pad3 w = (let s = show_u64 w in replicate (3 - length s) CHR ''0'' @ s)"

definition read_nat :: "string \<Rightarrow> nat" where
  "read_nat s = foldl (\<lambda>a c. 10 * a + (of_char c - 48)) 0 s"

lemma of_digit_char: "d < 10 \<Longrightarrow> of_char (digit_char d) = 48 + d"
  by (simp add: digit_char_def)

lemma read_nat_show_nat: "read_nat (show_nat n) = n"
proof (induction n rule: show_nat.induct)
  case (1 n)
  show ?case
  proof (cases "n < 10")
    case True
    then show ?thesis by (subst show_nat.simps) (simp add: read_nat_def of_digit_char)
  next
    case False
    then have "read_nat (show_nat (n div 10)) = n div 10" using 1 by simp
    then show ?thesis using False
      by (subst show_nat.simps) (simp add: read_nat_def of_digit_char)
  qed
qed

lemma read_nat_pad: "read_nat (replicate k CHR ''0'' @ s) = read_nat s"
proof -
  have "foldl (\<lambda>a c. 10 * a + (of_char c - 48)) 0 (replicate k CHR ''0'') = (0 :: nat)"
    by (induction k) simp_all
  then show ?thesis by (simp add: read_nat_def)
qed

lemma show_pad3_inject [simp]: "show_pad3 a = show_pad3 b \<longleftrightarrow> a = b"
proof
  assume "show_pad3 a = show_pad3 b"
  then have "read_nat (show_pad3 a) = read_nat (show_pad3 b)" by simp
  then show "a = b"
    unfolding show_pad3_def Let_def read_nat_pad show_u64_def read_nat_show_nat
    by (simp only: word_unat_eq_iff)
qed simp

lemma show_nat_nonempty [simp]: "show_nat n \<noteq> []"
  by (subst show_nat.simps) simp

lemma show_pad3_nonempty [simp]: "show_pad3 n \<noteq> []"
  by (simp add: show_pad3_def Let_def show_u64_def)

lemma set_show_nat: "set (show_nat n) \<subseteq> digit_char ` {0..<10}"
proof (induction n rule: show_nat.induct)
  case (1 n)
  show ?case
  proof (cases "n < 10")
    case True
    then show ?thesis by (subst show_nat.simps) auto
  next
    case False
    then show ?thesis using 1 by (subst show_nat.simps) auto
  qed
qed

section \<open>Strings\<close>

definition is_ws :: "char \<Rightarrow> bool" where
  "is_ws c = (c = CHR '' '' \<or> (9 \<le> (of_char c :: nat) \<and> (of_char c :: nat) \<le> 13))"

definition lower_char :: "char \<Rightarrow> char" where
  "lower_char c = (if 65 \<le> (of_char c :: nat) \<and> (of_char c :: nat) \<le> 90
                   then char_of ((of_char c :: nat) + 32) else c)"

definition to_lowercase :: "string \<Rightarrow> string" where
  "to_lowercase s = map lower_char s"

definition eq_ignore_ascii_case :: "string \<Rightarrow> string \<Rightarrow> bool" where
  "eq_ignore_ascii_case a b = (to_lowercase a = to_lowercase b)"

fun is_prefix_of :: "string \<Rightarrow> string \<Rightarrow> bool" where
  "is_prefix_of [] s = True"
| "is_prefix_of (c # cs) [] = False"
| "is_prefix_of (c # cs) (d # ds) = (c = d \<and> is_prefix_of cs ds)"

text \<open>\<open>hay.contains(needle)\<close>.\<close>

fun str_contains :: "string \<Rightarrow> string \<Rightarrow> bool" where
  "str_contains [] n = (n = [])"
| "str_contains (c # cs) n = (is_prefix_of n (c # cs) \<or> str_contains cs n)"

lemma is_prefix_of_prefix: "is_prefix_of p s = prefix p s"
  by (induction p s rule: is_prefix_of.induct) auto

lemma str_contains_sublist: "str_contains h n = sublist n h"
  by (induction h n rule: str_contains.induct)
    (auto simp: is_prefix_of_prefix sublist_Cons_right)

lemma str_contains_refl [simp]: "str_contains s s"
  by (simp add: str_contains_sublist)

lemma str_contains_Nil [simp]: "str_contains s []"
  by (simp add: str_contains_sublist)

text \<open>\<open>strip_prefix\<close>, \<open>trim\<close>, \<open>split_whitespace\<close>, \<open>join\<close>.\<close>

definition strip_prefix :: "string \<Rightarrow> string \<Rightarrow> string option" where
  "strip_prefix p s = (if is_prefix_of p s then Some (drop (length p) s) else None)"

definition str_trim :: "string \<Rightarrow> string" where
  "str_trim s = rev (dropWhile is_ws (rev (dropWhile is_ws s)))"

function split_whitespace :: "string \<Rightarrow> string list" where
  "split_whitespace s =
     (case dropWhile is_ws s of
        [] \<Rightarrow> []
      | c # cs \<Rightarrow> takeWhile (\<lambda>x. \<not> is_ws x) (c # cs)
                 # split_whitespace (dropWhile (\<lambda>x. \<not> is_ws x) (c # cs)))"
  by pat_completeness auto
termination
proof (relation "measure length")
  fix s c cs
  assume *: "dropWhile is_ws s = c # cs"
  then have "\<not> is_ws c" by (simp add: dropWhile_eq_Cons_conv)
  then have "length (dropWhile (\<lambda>x. \<not> is_ws x) (c # cs)) \<le> length cs"
    by (simp add: length_dropWhile_le)
  also have "\<dots> < length s"
    using length_dropWhile_le [of is_ws s] * by simp
  finally show "(dropWhile (\<lambda>x. \<not> is_ws x) (c # cs), s) \<in> measure length" by simp
qed simp

declare split_whitespace.simps [simp del]

text \<open>The first white-space separated token of a string that starts with a token.\<close>

lemma dropWhile_ws_token:
  "t \<noteq> [] \<Longrightarrow> \<forall>c \<in> set t. \<not> is_ws c \<Longrightarrow> dropWhile is_ws (t @ rest) = t @ rest"
  by (cases t) auto

lemma takeWhile_token:
  "\<forall>c \<in> set t. \<not> is_ws c \<Longrightarrow> rest = [] \<or> is_ws (hd rest) \<Longrightarrow> takeWhile (\<lambda>x. \<not> is_ws x) (t @ rest) = t"
  by (induction t) (cases rest, auto)

lemma dropWhile_token:
  "\<forall>c \<in> set t. \<not> is_ws c \<Longrightarrow> rest = [] \<or> is_ws (hd rest) \<Longrightarrow> dropWhile (\<lambda>x. \<not> is_ws x) (t @ rest) = rest"
  by (induction t) (cases rest, auto)

lemma split_whitespace_first:
  assumes "t \<noteq> []" "\<forall>c \<in> set t. \<not> is_ws c" "rest = [] \<or> is_ws (hd rest)"
  shows "split_whitespace (t @ rest) = t # split_whitespace rest"
proof -
  obtain c cs where cs: "t @ rest = c # cs" using assms(1) by (cases t) auto
  show ?thesis
    unfolding split_whitespace.simps [of "t @ rest"] dropWhile_ws_token [OF assms(1,2)]
    by (simp add: cs takeWhile_token [OF assms(2,3), unfolded cs]
        dropWhile_token [OF assms(2,3), unfolded cs] del: takeWhile.simps dropWhile.simps)
qed

fun str_join :: "string \<Rightarrow> string list \<Rightarrow> string" where
  "str_join sep [] = []"
| "str_join sep [s] = s"
| "str_join sep (s # t # ss) = s @ sep @ str_join sep (t # ss)"

text \<open>
  \<open>{:?}\<close> of a string: quotes, and the escapes of \<open>str::escape_debug\<close> on the ASCII bytes
  (control characters other than the named ones print as \<open>\u{..}\<close>).
\<close>

definition hex_digit :: "nat \<Rightarrow> char" where
  "hex_digit d = (if d < 10 then char_of (48 + d) else char_of (87 + d))"

definition debug_char :: "char \<Rightarrow> string" where
  "debug_char c =
     (let n = (of_char c :: nat) in
      if n = 34 then [CHR 0x5C, CHR 0x22]
      else if n = 92 then [CHR 0x5C, CHR 0x5C]
      else if n = 0 then [CHR 0x5C, CHR ''0'']
      else if n = 9 then [CHR 0x5C, CHR ''t'']
      else if n = 10 then [CHR 0x5C, CHR ''n'']
      else if n = 13 then [CHR 0x5C, CHR ''r'']
      else if n < 16 then [CHR 0x5C] @ ''u{'' @ [hex_digit n] @ ''}''
      else if n < 32 \<or> n = 127 then [CHR 0x5C] @ ''u{'' @ [hex_digit (n div 16), hex_digit (n mod 16)] @ ''}''
      else [c])"

definition debug_str :: "string \<Rightarrow> string" where
  "debug_str s = [CHR 0x22] @ concat (map debug_char s) @ [CHR 0x22]"

text \<open>
  \<open>&s[..n]\<close> panics when byte \<open>n\<close> is inside a multi-byte character; \<^term>\<open>None\<close> is the panic.
\<close>

definition is_char_boundary :: "string \<Rightarrow> nat \<Rightarrow> bool" where
  "is_char_boundary s n =
     (n = 0 \<or> n = length s \<or>
      (n < length s \<and> \<not> (128 \<le> (of_char (s ! n) :: nat) \<and> (of_char (s ! n) :: nat) < 192)))"

definition slice_to :: "string \<Rightarrow> nat \<Rightarrow> string option" where
  "slice_to s n = (if is_char_boundary s n then Some (take n s) else None)"

definition is_ascii_str :: "string \<Rightarrow> bool" where
  "is_ascii_str s = (\<forall>c \<in> set s. (of_char c :: nat) < 128)"

lemma slice_to_ascii: "is_ascii_str s \<Longrightarrow> n \<le> length s \<Longrightarrow> slice_to s n = Some (take n s)"
proof -
  assume a: "is_ascii_str s" and n: "n \<le> length s"
  show ?thesis
  proof (cases "n = length s")
    case True
    then show ?thesis by (simp add: slice_to_def is_char_boundary_def)
  next
    case False
    then have "s ! n \<in> set s" using n by simp
    then have "(of_char (s ! n) :: nat) < 128" using a unfolding is_ascii_str_def by blast
    then show ?thesis using False n by (simp add: slice_to_def is_char_boundary_def)
  qed
qed

text \<open>\<open>{:?}\<close> of a \<open>Vec<String>\<close>, and the three non-ASCII characters of the sources' messages.\<close>

definition debug_strs :: "string list \<Rightarrow> string" where
  "debug_strs ss = ''['' @ str_join '', '' (map debug_str ss) @ '']''"

definition em_dash :: string where
  "em_dash = [CHR 0xE2, CHR 0x80, CHR 0x94]"

definition right_arrow :: string where
  "right_arrow = [CHR 0xE2, CHR 0x86, CHR 0x92]"

definition ellipsis :: string where
  "ellipsis = [CHR 0xE2, CHR 0x80, CHR 0xA6]"

section \<open>Options\<close>

text \<open>\<open>unwrap_or\<close>, \<open>or\<close>/\<open>or_else\<close>.\<close>

fun unwrap_or :: "'a \<Rightarrow> 'a option \<Rightarrow> 'a" where
  "unwrap_or d None = d"
| "unwrap_or d (Some x) = x"

fun or_else :: "'a option \<Rightarrow> 'a option \<Rightarrow> 'a option" where
  "or_else None b = b"
| "or_else (Some x) b = Some x"

lemma or_else_Some: "or_else a b = Some x \<longleftrightarrow> a = Some x \<or> (a = None \<and> b = Some x)"
  by (cases a) simp_all

section \<open>Result\<close>

text \<open>\<open>Result<T, E>\<close> is \<^typ>\<open>'e + 'a\<close> (\<^term>\<open>Inl\<close> the error); the operator \<open>?\<close> is \<open>try_then\<close>.\<close>

fun try_then :: "'e + 'a \<Rightarrow> ('a \<Rightarrow> 'e + 'b) \<Rightarrow> 'e + 'b" where
  "try_then (Inl e) f = Inl e"
| "try_then (Inr x) f = f x"

fun is_ok :: "'e + 'a \<Rightarrow> bool" where
  "is_ok (Inl e) = False"
| "is_ok (Inr x) = True"

lemma try_then_Inr: "try_then r f = Inr y \<longleftrightarrow> (\<exists>x. r = Inr x \<and> f x = Inr y)"
  by (cases r) auto

lemma try_then_Inl: "try_then r f = Inl e \<longleftrightarrow> r = Inl e \<or> (\<exists>x. r = Inr x \<and> f x = Inl e)"
  by (cases r) auto

lemma is_ok_iff: "is_ok r \<longleftrightarrow> (\<exists>x. r = Inr x)"
  by (cases r) auto

section \<open>Hash maps\<close>

text \<open>
  A \<open>HashMap\<close> is an association list with distinct keys. Its iteration order is unspecified
  and may change between calls: an operation that iterates takes the order as an argument, a
  function that permutes the entries (\<open>iter_order\<close>), and every theorem holds for all of them.
\<close>

type_synonym ('k, 'v) hashmap = "('k \<times> 'v) list"

definition iter_order :: "('a list \<Rightarrow> 'a list) \<Rightarrow> bool" where
  "iter_order ord = (\<forall>m. mset (ord m) = mset m)"

definition hm_get :: "('k, 'v) hashmap \<Rightarrow> 'k \<Rightarrow> 'v option" where
  "hm_get m k = map_of m k"

definition hm_insert :: "'k \<Rightarrow> 'v \<Rightarrow> ('k, 'v) hashmap \<Rightarrow> ('k, 'v) hashmap" where
  "hm_insert k v m = AList.update k v m"

definition hm_remove :: "'k \<Rightarrow> ('k, 'v) hashmap \<Rightarrow> ('k, 'v) hashmap" where
  "hm_remove k m = AList.delete k m"

definition hm_contains :: "('k, 'v) hashmap \<Rightarrow> 'k \<Rightarrow> bool" where
  "hm_contains m k = (hm_get m k \<noteq> None)"

text \<open>\<open>if let Some(v) = m.get_mut(k) { *v = f(v) }\<close>.\<close>

definition hm_modify :: "'k \<Rightarrow> ('v \<Rightarrow> 'v) \<Rightarrow> ('k, 'v) hashmap \<Rightarrow> ('k, 'v) hashmap" where
  "hm_modify k f m = (case hm_get m k of None \<Rightarrow> m | Some v \<Rightarrow> hm_insert k (f v) m)"

text \<open>\<open>m.entry(k).and_modify(f).or_insert_with(v)\<close>.\<close>

definition hm_entry :: "'k \<Rightarrow> ('v \<Rightarrow> 'v) \<Rightarrow> 'v \<Rightarrow> ('k, 'v) hashmap \<Rightarrow> ('k, 'v) hashmap" where
  "hm_entry k f v0 m = (case hm_get m k of None \<Rightarrow> hm_insert k v0 m | Some v \<Rightarrow> hm_insert k (f v) m)"

text \<open>\<open>for v in m.values_mut() { *v = f(v) }\<close> and \<open>m.retain\<close>.\<close>

definition hm_map_values :: "('v \<Rightarrow> 'v) \<Rightarrow> ('k, 'v) hashmap \<Rightarrow> ('k, 'v) hashmap" where
  "hm_map_values f m = map (\<lambda>(k, v). (k, f v)) m"

definition hm_retain :: "('k \<Rightarrow> 'v \<Rightarrow> bool) \<Rightarrow> ('k, 'v) hashmap \<Rightarrow> ('k, 'v) hashmap" where
  "hm_retain P m = filter (\<lambda>(k, v). P k v) m"

definition hm_values :: "(('k \<times> 'v) list \<Rightarrow> ('k \<times> 'v) list) \<Rightarrow> ('k, 'v) hashmap \<Rightarrow> 'v list" where
  "hm_values ord m = map snd (ord m)"

definition hm_first_key :: "(('k \<times> 'v) list \<Rightarrow> ('k \<times> 'v) list) \<Rightarrow> ('k, 'v) hashmap \<Rightarrow> 'k option" where
  "hm_first_key ord m = (case ord m of [] \<Rightarrow> None | (k, v) # _ \<Rightarrow> Some k)"

definition hm_ok :: "('k, 'v) hashmap \<Rightarrow> bool" where
  "hm_ok m = distinct (map fst m)"

lemma iter_order_id: "iter_order (\<lambda>m. m)"
  by (simp add: iter_order_def)

lemma iter_order_rev: "iter_order rev"
  by (simp add: iter_order_def)

lemma iter_order_set [simp]: "iter_order ord \<Longrightarrow> set (ord m) = set m"
  by (metis iter_order_def set_mset_mset)

lemma iter_order_length [simp]: "iter_order ord \<Longrightarrow> length (ord m) = length m"
  by (metis iter_order_def size_mset)

lemma iter_order_Nil [simp]: "iter_order ord \<Longrightarrow> ord m = [] \<longleftrightarrow> m = []"
  by (metis iter_order_length length_0_conv)

lemma iter_order_distinct [simp]: "iter_order ord \<Longrightarrow> distinct (ord m) = distinct m"
  by (metis iter_order_def mset_eq_imp_distinct_iff)

lemma hm_get_Nil [simp]: "hm_get [] k = None"
  by (simp add: hm_get_def)

lemma hm_get_insert [simp]: "hm_get (hm_insert k v m) j = (if j = k then Some v else hm_get m j)"
  by (simp add: hm_get_def hm_insert_def update_conv)

lemma hm_get_remove [simp]: "hm_get (hm_remove k m) j = (if j = k then None else hm_get m j)"
  by (simp add: hm_get_def hm_remove_def delete_conv)

lemma hm_get_modify [simp]:
  "hm_get (hm_modify k f m) j = (if j = k then map_option f (hm_get m k) else hm_get m j)"
  by (auto simp: hm_modify_def split: option.splits)

lemma hm_get_entry [simp]:
  "hm_get (hm_entry k f v0 m) j =
     (if j = k then Some (case hm_get m k of None \<Rightarrow> v0 | Some v \<Rightarrow> f v) else hm_get m j)"
  by (auto simp: hm_entry_def split: option.splits)

lemma hm_get_map_values [simp]: "hm_get (hm_map_values f m) k = map_option f (hm_get m k)"
  by (induction m) (auto simp: hm_get_def hm_map_values_def)

lemma hm_get_retain:
  "hm_ok m \<Longrightarrow> hm_get (hm_retain P m) k = (case hm_get m k of None \<Rightarrow> None | Some v \<Rightarrow> if P k v then Some v else None)"
proof (induction m)
  case (Cons kv m)
  obtain k' v' where kv: "kv = (k', v')" by (cases kv)
  have "k' \<notin> set (map fst m)" and IH: "hm_get (hm_retain P m) k =
      (case hm_get m k of None \<Rightarrow> None | Some v \<Rightarrow> if P k v then Some v else None)"
    using Cons kv by (auto simp: hm_ok_def)
  then have "hm_get m k' = None" by (auto simp: hm_get_def map_of_eq_None_iff)
  then show ?case using IH kv by (auto simp: hm_get_def hm_retain_def)
qed (simp add: hm_get_def hm_retain_def)

lemma hm_ok_Nil [simp]: "hm_ok []"
  by (simp add: hm_ok_def)

lemma hm_ok_insert [simp]: "hm_ok m \<Longrightarrow> hm_ok (hm_insert k v m)"
  by (simp add: hm_ok_def hm_insert_def distinct_update)

lemma hm_ok_remove [simp]: "hm_ok m \<Longrightarrow> hm_ok (hm_remove k m)"
  by (simp add: hm_ok_def hm_remove_def distinct_delete)

lemma hm_ok_modify [simp]: "hm_ok m \<Longrightarrow> hm_ok (hm_modify k f m)"
  by (simp add: hm_modify_def split: option.splits)

lemma hm_ok_entry [simp]: "hm_ok m \<Longrightarrow> hm_ok (hm_entry k f v m)"
  by (simp add: hm_entry_def split: option.splits)

lemma hm_ok_map_values [simp]: "hm_ok (hm_map_values f m) = hm_ok m"
  by (simp add: hm_ok_def hm_map_values_def comp_def split_def)

lemma hm_ok_retain [simp]: "hm_ok m \<Longrightarrow> hm_ok (hm_retain P m)"
  by (simp add: hm_ok_def hm_retain_def distinct_map_filter)

lemma hm_in_set: "hm_ok m \<Longrightarrow> (k, v) \<in> set m \<longleftrightarrow> hm_get m k = Some v"
  by (simp add: hm_ok_def hm_get_def)

lemma hm_get_in_set: "hm_get m k = Some v \<Longrightarrow> (k, v) \<in> set m"
  by (simp add: hm_get_def map_of_SomeD)

lemma hm_values_set:
  "iter_order ord \<Longrightarrow> hm_ok m \<Longrightarrow> v \<in> set (hm_values ord m) \<longleftrightarrow> (\<exists>k. hm_get m k = Some v)"
  by (force simp: hm_values_def hm_in_set [symmetric])

lemma hm_first_key_Some:
  "iter_order ord \<Longrightarrow> hm_first_key ord m = Some k \<Longrightarrow> \<exists>v. hm_get m k = Some v"
proof -
  assume o: "iter_order ord" and f: "hm_first_key ord m = Some k"
  then obtain v rest where "ord m = (k, v) # rest"
    by (auto simp: hm_first_key_def split: list.splits)
  then have "(k, v) \<in> set m" using o by (metis iter_order_set list.set_intros(1))
  then show ?thesis by (metis hm_get_def map_of_eq_None_iff not_Some_eq fst_conv image_eqI)
qed

lemma hm_first_key_None: "iter_order ord \<Longrightarrow> hm_first_key ord m = None \<longleftrightarrow> m = []"
  by (cases "ord m") (auto simp: hm_first_key_def dest: iter_order_Nil [of ord m])

text \<open>A filter of the values yields the same elements, and as many, in every order.\<close>

lemma hm_values_filter_length:
  "iter_order ord \<Longrightarrow> length (filter P (hm_values ord m)) = length (filter P (map snd m))"
proof -
  assume "iter_order ord"
  then have "mset (hm_values ord m) = mset (map snd m)"
    by (simp add: hm_values_def iter_order_def)
  then have "mset (filter P (hm_values ord m)) = mset (filter P (map snd m))"
    by (metis mset_filter)
  then show ?thesis by (metis size_mset)
qed

section \<open>Generation counters\<close>

text \<open>
  The contract the generation stores offer to the components that stamp references: bumping
  moves the counter to its successor. A stamp taken before a bump differs from the counter
  after it, also when the counter wraps, and keeps differing for \<open>2^64 - 1\<close> bumps.
\<close>

locale generation_counter =
  fixes cur :: "'s \<Rightarrow> u64" and bump :: "'s \<Rightarrow> 's"
  assumes cur_bump: "cur (bump s) = cur s + 1"
begin

lemma stale_after_bump: "cur (bump s) \<noteq> cur s"
  by (simp add: cur_bump)

lemma cur_bumps: "cur ((bump ^^ n) s) = cur s + of_nat n"
  by (induction n) (simp_all add: cur_bump)

lemma stale_after_bumps: "0 < n \<Longrightarrow> n < 2 ^ 64 \<Longrightarrow> cur ((bump ^^ n) s) \<noteq> cur s"
  unfolding cur_bumps by (rule u64_add_of_nat_neq)

end

section \<open>Transition machines\<close>

text \<open>
  The contract of the two state enums with a \<open>can_transition_to\<close>: a final state has no way out.
  A ranked machine also moves upwards in every step, so its runs are bounded and never repeat
  a state.
\<close>

locale transition_machine =
  fixes can :: "'s \<Rightarrow> 's \<Rightarrow> bool" and final :: "'s \<Rightarrow> bool"
  assumes final_stuck: "final s \<Longrightarrow> \<not> can s t"
begin

lemma final_stays: "can\<^sup>*\<^sup>* s t \<Longrightarrow> final s \<Longrightarrow> t = s"
  by (induction rule: rtranclp_induct) (auto simp: final_stuck)

end

fun is_path :: "('s \<Rightarrow> 's \<Rightarrow> bool) \<Rightarrow> 's \<Rightarrow> 's list \<Rightarrow> bool" where
  "is_path can s [] = True"
| "is_path can s (t # ts) = (can s t \<and> is_path can t ts)"

locale ranked_machine = transition_machine +
  fixes rank :: "'s \<Rightarrow> nat"
  assumes rank_step: "can s t \<Longrightarrow> rank s < rank t"
begin

lemma rank_path: "is_path can s ts \<Longrightarrow> rank s + length ts \<le> rank (last (s # ts))"
proof (induction ts arbitrary: s)
  case (Cons t ts)
  then have "rank t + length ts \<le> rank (last (t # ts))" and "rank s < rank t"
    by (auto dest: rank_step)
  then show ?case by simp
qed simp

lemma no_cycle: "\<not> can\<^sup>+\<^sup>+ s s"
proof
  assume "can\<^sup>+\<^sup>+ s s"
  moreover have "can\<^sup>+\<^sup>+ a b \<Longrightarrow> rank a < rank b" for a b
    by (induction rule: tranclp_induct) (auto dest: rank_step)
  ultimately show False by blast
qed

end

section \<open>Bounded logs\<close>

definition keep_last :: "nat \<Rightarrow> 'a list \<Rightarrow> 'a list" where
  "keep_last n xs = drop (length xs - n) xs"

lemma keep_last_Nil [simp]: "keep_last n [] = []"
  by (simp add: keep_last_def)

lemma length_keep_last [simp]: "length (keep_last n xs) = min n (length xs)"
  by (simp add: keep_last_def)

lemma set_keep_last: "set (keep_last n xs) \<subseteq> set xs"
  by (simp add: keep_last_def set_drop_subset)

lemma keep_last_snoc:
  "0 < n \<Longrightarrow> keep_last n (xs @ [x]) = (if n \<le> length (keep_last n xs) then tl (keep_last n xs) else keep_last n xs) @ [x]"
  by (auto simp: keep_last_def Suc_diff_le tl_drop drop_Suc [symmetric] not_le)

lemma keep_last_keep_last: "rev (take n (rev (keep_last k xs))) = keep_last (min n k) xs"
proof -
  have "length xs - (length xs - k) - n + (length xs - k) = length xs - min n k" by arith
  then show ?thesis by (simp add: keep_last_def rev_take)
qed

text \<open>
  The contract of the bounded queues (the journal, the two traces, the latency window): a push drops
  the oldest entry when the queue is full. What they hold is the end of what was pushed, and one entry
  even at capacity 0.
\<close>

locale bounded_log =
  fixes push :: "'a \<Rightarrow> 's \<Rightarrow> 's" and view :: "'s \<Rightarrow> 'a list" and cap :: "'s \<Rightarrow> nat"
  assumes view_push: "view (push x s) = (if cap s \<le> length (view s) then tl (view s) else view s) @ [x]"
    and cap_push: "cap (push x s) = cap s"
begin

lemma cap_run: "cap (foldl (\<lambda>s x. push x s) s xs) = cap s"
  by (induction xs arbitrary: s) (simp_all add: cap_push)

lemma view_run: "view s = [] \<Longrightarrow> view (foldl (\<lambda>s x. push x s) s xs) = keep_last (max 1 (cap s)) xs"
proof (induction xs rule: rev_induct)
  case (snoc x xs)
  then have v: "view (foldl (\<lambda>s x. push x s) s xs) = keep_last (max 1 (cap s)) xs" by simp
  show ?case
  proof (cases "cap s")
    case 0
    have "length (keep_last (Suc 0) xs) \<le> 1" by simp
    then have "tl (keep_last (Suc 0) xs) = []" by (cases "keep_last (Suc 0) xs") auto
    then show ?thesis using 0 v by (simp add: view_push cap_run) (simp add: keep_last_def)
  next
    case (Suc n)
    then have "max 1 (cap s) = cap s" by simp
    then show ?thesis using Suc v by (simp add: view_push cap_run keep_last_snoc)
  qed
qed simp

lemma view_bounded: "length (view s) \<le> max 1 (cap s) \<Longrightarrow> length (view (push x s)) \<le> max 1 (cap (push x s))"
  by (auto simp: view_push cap_push)

end

end
