(* ===== verification/Json_Value.thy ===== *)
theory Json_Value
  imports Complex_Main Prelude
begin

text \<open>
  The JSON values of \<open>serde_json\<close> are code outside the repository. They are a parameter: a type
  \<open>'v\<close> and the accessors and constructors the sources call, collected in \<open>json_ops\<close>. The locale
  \<open>json_value\<close> names the documented laws the encoders and decoders rely on (what an accessor
  returns on what a constructor built). \<open>std_json\<close> is a concrete value type on which they hold.
  The theory also holds the \<open>CdpEvent\<close> of \<open>connection.rs\<close>.
\<close>

section \<open>Accessors and constructors\<close>

record 'v json_ops =
  j_get :: "'v \<Rightarrow> string \<Rightarrow> 'v option"
  j_as_str :: "'v \<Rightarrow> string option"
  j_as_i64 :: "'v \<Rightarrow> i64 option"
  j_as_u64 :: "'v \<Rightarrow> u64 option"
  j_as_array :: "'v \<Rightarrow> 'v list option"
  j_null :: "'v"
  j_bool :: "bool \<Rightarrow> 'v"
  j_str :: "string \<Rightarrow> 'v"
  j_i64 :: "i64 \<Rightarrow> 'v"
  j_u64 :: "u64 \<Rightarrow> 'v"
  j_arr :: "'v list \<Rightarrow> 'v"
  j_obj :: "(string \<times> 'v) list \<Rightarrow> 'v"
  j_debug :: "'v \<Rightarrow> string"

text \<open>\<open>v.get(k).and_then(Value::as_str)\<close> and its siblings.\<close>

definition get_str :: "'v json_ops \<Rightarrow> 'v \<Rightarrow> string \<Rightarrow> string option" where
  "get_str J v k = Option.bind (j_get J v k) (j_as_str J)"

definition get_i64 :: "'v json_ops \<Rightarrow> 'v \<Rightarrow> string \<Rightarrow> i64 option" where
  "get_i64 J v k = Option.bind (j_get J v k) (j_as_i64 J)"

definition get_u64 :: "'v json_ops \<Rightarrow> 'v \<Rightarrow> string \<Rightarrow> u64 option" where
  "get_u64 J v k = Option.bind (j_get J v k) (j_as_u64 J)"

definition get_array :: "'v json_ops \<Rightarrow> 'v \<Rightarrow> string \<Rightarrow> 'v list option" where
  "get_array J v k = Option.bind (j_get J v k) (j_as_array J)"

text \<open>\<open>json!\<close> of an \<open>Option\<close> and of a \<open>Vec<String>\<close>.\<close>

definition j_opt :: "'v json_ops \<Rightarrow> ('a \<Rightarrow> 'v) \<Rightarrow> 'a option \<Rightarrow> 'v" where
  "j_opt J f x = (case x of None \<Rightarrow> j_null J | Some y \<Rightarrow> f y)"

definition j_strs :: "'v json_ops \<Rightarrow> string list \<Rightarrow> 'v" where
  "j_strs J ss = j_arr J (map (j_str J) ss)"

section \<open>The laws\<close>

locale json_value =
  fixes J :: "'v json_ops"
  assumes get_obj: "distinct (map fst kvs) \<Longrightarrow> j_get J (j_obj J kvs) k = map_of kvs k"
    and as_str_str: "j_as_str J (j_str J s) = Some s"
    and as_i64_i64: "j_as_i64 J (j_i64 J i) = Some i"
    and as_u64_u64: "j_as_u64 J (j_u64 J n) = Some n"
    and as_array_arr: "j_as_array J (j_arr J vs) = Some vs"
begin

lemma get_str_obj:
  "distinct (map fst kvs) \<Longrightarrow> map_of kvs k = Some (j_str J s) \<Longrightarrow> get_str J (j_obj J kvs) k = Some s"
  by (simp add: get_str_def get_obj as_str_str)

lemma get_u64_obj:
  "distinct (map fst kvs) \<Longrightarrow> map_of kvs k = Some (j_u64 J n) \<Longrightarrow> get_u64 J (j_obj J kvs) k = Some n"
  by (simp add: get_u64_def get_obj as_u64_u64)

lemma get_i64_obj:
  "distinct (map fst kvs) \<Longrightarrow> map_of kvs k = Some (j_i64 J n) \<Longrightarrow> get_i64 J (j_obj J kvs) k = Some n"
  by (simp add: get_i64_def get_obj as_i64_i64)

lemma get_array_obj:
  "distinct (map fst kvs) \<Longrightarrow> map_of kvs k = Some (j_arr J vs) \<Longrightarrow> get_array J (j_obj J kvs) k = Some vs"
  by (simp add: get_array_def get_obj as_array_arr)

lemmas get_simps = get_str_obj get_u64_obj get_i64_obj get_array_obj

lemma map_filter_strs: "List.map_filter (j_as_str J) (map (j_str J) ss) = ss"
  by (induction ss) (simp_all add: as_str_str)

end

section \<open>A concrete value type\<close>

datatype json =
    JNull
  | JBool bool
  | JNum int
  | JReal rat
  | JStr string
  | JArr "json list"
  | JObj "(string \<times> json) list"

fun json_get :: "json \<Rightarrow> string \<Rightarrow> json option" where
  "json_get (JObj kvs) k = map_of kvs k"
| "json_get _ k = None"

fun json_as_str :: "json \<Rightarrow> string option" where
  "json_as_str (JStr s) = Some s"
| "json_as_str _ = None"

fun json_as_i64 :: "json \<Rightarrow> i64 option" where
  "json_as_i64 (JNum n) = (if - (2 ^ 63) \<le> n \<and> n < 2 ^ 63 then Some (word_of_int n) else None)"
| "json_as_i64 _ = None"

fun json_as_u64 :: "json \<Rightarrow> u64 option" where
  "json_as_u64 (JNum n) = (if 0 \<le> n \<and> n < 2 ^ 64 then Some (word_of_int n) else None)"
| "json_as_u64 _ = None"

fun json_as_array :: "json \<Rightarrow> json list option" where
  "json_as_array (JArr vs) = Some vs"
| "json_as_array _ = None"

fun json_debug :: "json \<Rightarrow> string" where
  "json_debug JNull = ''Null''"
| "json_debug (JBool b) = (if b then ''Bool(true)'' else ''Bool(false)'')"
| "json_debug (JNum n) = ''Number('' @ (if n < 0 then ''-'' @ show_nat (nat (- n)) else show_nat (nat n)) @ '')''"
| "json_debug (JReal q) = (let (n, d) = quotient_of q in
     ''Number('' @ (if n < 0 then ''-'' @ show_nat (nat (- n)) else show_nat (nat n)) @ ''/'' @ show_nat (nat d) @ '')'')"
| "json_debug (JStr s) = ''String('' @ debug_str s @ '')''"
| "json_debug (JArr vs) = ''Array ['' @ str_join '', '' (map json_debug vs) @ '']''"
| "json_debug (JObj kvs) = ''Object {'' @ str_join '', '' (map (\<lambda>(k, v). debug_str k @ '': '' @ json_debug v) kvs) @ ''}''"

definition std_json :: "json json_ops" where
  "std_json = \<lparr>j_get = json_get, j_as_str = json_as_str, j_as_i64 = json_as_i64, j_as_u64 = json_as_u64,
     j_as_array = json_as_array, j_null = JNull, j_bool = JBool, j_str = JStr,
     j_i64 = (\<lambda>i. JNum (sint i)), j_u64 = (\<lambda>n. JNum (uint n)), j_arr = JArr, j_obj = JObj,
     j_debug = json_debug\<rparr>"

lemma std_json_sel [simp]:
  "j_get std_json = json_get" "j_as_str std_json = json_as_str" "j_as_i64 std_json = json_as_i64"
  "j_as_u64 std_json = json_as_u64" "j_as_array std_json = json_as_array" "j_null std_json = JNull"
  "j_bool std_json = JBool" "j_str std_json = JStr" "j_arr std_json = JArr" "j_obj std_json = JObj"
  "j_i64 std_json i = JNum (sint i)" "j_u64 std_json n = JNum (uint n)" "j_debug std_json = json_debug"
  by (simp_all add: std_json_def)

interpretation std: json_value std_json
proof
  fix i :: i64
  have "- (2 ^ 63) \<le> sint i" "sint i < 2 ^ 63"
    using sint_greater_eq [of i] sint_less [of i] by simp_all
  then show "j_as_i64 std_json (j_i64 std_json i) = Some i" by simp
next
  fix n :: u64
  have "0 \<le> uint n" "uint n < 2 ^ 64" using uint_lt2p [of n] by simp_all
  then show "j_as_u64 std_json (j_u64 std_json n) = Some n" by simp
qed simp_all

section \<open>CDP events\<close>

text \<open>
  \<open>connection::CdpEvent\<close>: the time stamp is not read by any modelled code and is left out.
\<close>

record 'v cdp_event =
  ev_method :: string
  ev_params :: 'v
  ev_session_id :: "string option"
  ev_sequence :: u64

end
