(* ===== verification/Errors.thy ===== *)
theory Errors
  imports Json_Value
begin

text \<open>
  \<open>src/browser_runtime/error.rs\<close>: the structured runtime errors, their \<open>Display\<close>, the IPC envelope
  they are encoded into and the decoder of that envelope.
\<close>

datatype runtime_error =
    ConnectionFailed string
  | RuntimeDead string
  | Timeout string u64
  | CdpError string i64 string
  | InvalidResponse string
  | UnsupportedBrowserProtocol string
  | NotReady string
  | Reconnecting string
  | ShuttingDown string
  | Degraded string
  | ProtocolMismatch u32 u32
  | HandshakeRequired string
  | DaemonAlreadyRunning string
  | Socket string
  | StaleElementRef string
  | AmbiguousElement "string list" string
  | ResolutionFailed string
  | ElementNotInteractable string
  | InvalidSelector string

type_synonym 'a runtime_result = "runtime_error + 'a"

text \<open>A CDP call, the session, the method and the parameters given; what it returns is the browser's.\<close>

type_synonym 'v cdp_call = "string option \<Rightarrow> string \<Rightarrow> 'v \<Rightarrow> 'v runtime_result"

fun error_display :: "runtime_error \<Rightarrow> string" where
  "error_display (ConnectionFailed d) = ''CDP connection failed: '' @ d"
| "error_display (RuntimeDead d) = ''browser runtime is dead: '' @ d"
| "error_display (Timeout m t) = ''CDP call '' @ m @ '' timed out after '' @ show_u64 t @ ''ms''"
| "error_display (CdpError m c msg) = ''CDP '' @ m @ '' error '' @ show_i64 c @ '': '' @ msg"
| "error_display (InvalidResponse d) = ''invalid CDP response: '' @ d"
| "error_display (UnsupportedBrowserProtocol d) =
     ''unsupported browser protocol (flat session required): '' @ d"
| "error_display (NotReady d) = ''browser runtime not ready: '' @ d"
| "error_display (Reconnecting d) = ''browser runtime reconnecting: '' @ d"
| "error_display (ShuttingDown d) = ''browser runtime shutting down: '' @ d"
| "error_display (Degraded d) = ''browser runtime degraded (read-only): '' @ d"
| "error_display (ProtocolMismatch e g) =
     ''IPC protocol mismatch: daemon speaks '' @ show_nat (unat e) @ '', client spoke '' @ show_nat (unat g)"
| "error_display (HandshakeRequired d) = ''IPC handshake required before commands: '' @ d"
| "error_display (DaemonAlreadyRunning d) = ''browser runtime daemon already running: '' @ d"
| "error_display (Socket d) = ''browser runtime socket error: '' @ d"
| "error_display (StaleElementRef d) = ''stale element ref: '' @ d"
| "error_display (AmbiguousElement cs d) =
     ''ambiguous element ('' @ d @ ''): candidates='' @ debug_strs cs"
| "error_display (ResolutionFailed d) = ''resolution failed: '' @ d"
| "error_display (ElementNotInteractable d) = ''element not interactable: '' @ d"
| "error_display (InvalidSelector d) = ''invalid selector: '' @ d"

fun wire_type :: "runtime_error \<Rightarrow> string" where
  "wire_type (ConnectionFailed _) = ''ConnectionFailed''"
| "wire_type (RuntimeDead _) = ''RuntimeDead''"
| "wire_type (Timeout _ _) = ''Timeout''"
| "wire_type (CdpError _ _ _) = ''CdpError''"
| "wire_type (InvalidResponse _) = ''InvalidResponse''"
| "wire_type (UnsupportedBrowserProtocol _) = ''UnsupportedBrowserProtocol''"
| "wire_type (NotReady _) = ''NotReady''"
| "wire_type (Reconnecting _) = ''Reconnecting''"
| "wire_type (ShuttingDown _) = ''ShuttingDown''"
| "wire_type (Degraded _) = ''Degraded''"
| "wire_type (ProtocolMismatch _ _) = ''ProtocolMismatch''"
| "wire_type (HandshakeRequired _) = ''HandshakeRequired''"
| "wire_type (DaemonAlreadyRunning _) = ''DaemonAlreadyRunning''"
| "wire_type (Socket _) = ''Socket''"
| "wire_type (StaleElementRef _) = ''StaleElementRef''"
| "wire_type (AmbiguousElement _ _) = ''AmbiguousElement''"
| "wire_type (ResolutionFailed _) = ''ResolutionFailed''"
| "wire_type (ElementNotInteractable _) = ''ElementNotInteractable''"
| "wire_type (InvalidSelector _) = ''InvalidSelector''"

definition detail_envelope :: "'v json_ops \<Rightarrow> runtime_error \<Rightarrow> string \<Rightarrow> 'v" where
  "detail_envelope J e d = j_obj J [(''type'', j_str J (wire_type e)), (''detail'', j_str J d)]"

fun to_wire :: "'v json_ops \<Rightarrow> runtime_error \<Rightarrow> 'v" where
  "to_wire J (Timeout m t) =
     j_obj J [(''type'', j_str J ''Timeout''), (''method'', j_str J m), (''timeout_ms'', j_u64 J t)]"
| "to_wire J (CdpError m c msg) =
     j_obj J [(''type'', j_str J ''CdpError''), (''method'', j_str J m), (''code'', j_i64 J c),
              (''message'', j_str J msg)]"
| "to_wire J (ProtocolMismatch e g) =
     j_obj J [(''type'', j_str J ''ProtocolMismatch''), (''expected'', j_u64 J (ucast e)),
              (''got'', j_u64 J (ucast g))]"
| "to_wire J (AmbiguousElement cs d) =
     j_obj J [(''type'', j_str J ''AmbiguousElement''), (''candidates'', j_strs J cs),
              (''detail'', j_str J d)]"
| "to_wire J (ConnectionFailed d) = detail_envelope J (ConnectionFailed d) d"
| "to_wire J (RuntimeDead d) = detail_envelope J (RuntimeDead d) d"
| "to_wire J (NotReady d) = detail_envelope J (NotReady d) d"
| "to_wire J (Reconnecting d) = detail_envelope J (Reconnecting d) d"
| "to_wire J (ShuttingDown d) = detail_envelope J (ShuttingDown d) d"
| "to_wire J (Degraded d) = detail_envelope J (Degraded d) d"
| "to_wire J (HandshakeRequired d) = detail_envelope J (HandshakeRequired d) d"
| "to_wire J (DaemonAlreadyRunning d) = detail_envelope J (DaemonAlreadyRunning d) d"
| "to_wire J (Socket d) = detail_envelope J (Socket d) d"
| "to_wire J (InvalidResponse d) = detail_envelope J (InvalidResponse d) d"
| "to_wire J (UnsupportedBrowserProtocol d) = detail_envelope J (UnsupportedBrowserProtocol d) d"
| "to_wire J (StaleElementRef d) = detail_envelope J (StaleElementRef d) d"
| "to_wire J (ResolutionFailed d) = detail_envelope J (ResolutionFailed d) d"
| "to_wire J (ElementNotInteractable d) = detail_envelope J (ElementNotInteractable d) d"
| "to_wire J (InvalidSelector d) = detail_envelope J (InvalidSelector d) d"

definition from_wire :: "'v json_ops \<Rightarrow> 'v \<Rightarrow> runtime_error option" where
  "from_wire J v =
     Option.bind (get_str J v ''type'') (\<lambda>t.
       let str = (\<lambda>k. unwrap_or [] (get_str J v k)); detail = str ''detail''
       in if t = ''ConnectionFailed'' then Some (ConnectionFailed detail)
          else if t = ''RuntimeDead'' then Some (RuntimeDead detail)
          else if t = ''Timeout'' then Some (Timeout (str ''method'') (unwrap_or 0 (get_u64 J v ''timeout_ms'')))
          else if t = ''CdpError'' then
            Some (CdpError (str ''method'') (unwrap_or 0 (get_i64 J v ''code'')) (str ''message''))
          else if t = ''InvalidResponse'' then Some (InvalidResponse detail)
          else if t = ''UnsupportedBrowserProtocol'' then Some (UnsupportedBrowserProtocol detail)
          else if t = ''NotReady'' then Some (NotReady detail)
          else if t = ''Reconnecting'' then Some (Reconnecting detail)
          else if t = ''ShuttingDown'' then Some (ShuttingDown detail)
          else if t = ''Degraded'' then Some (Degraded detail)
          else if t = ''ProtocolMismatch'' then
            Some (ProtocolMismatch (ucast (unwrap_or 0 (get_u64 J v ''expected'')))
                                   (ucast (unwrap_or 0 (get_u64 J v ''got''))))
          else if t = ''HandshakeRequired'' then Some (HandshakeRequired detail)
          else if t = ''DaemonAlreadyRunning'' then Some (DaemonAlreadyRunning detail)
          else if t = ''Socket'' then Some (Socket detail)
          else if t = ''StaleElementRef'' then Some (StaleElementRef detail)
          else if t = ''AmbiguousElement'' then
            Some (AmbiguousElement
                   (unwrap_or [] (map_option (List.map_filter (j_as_str J)) (get_array J v ''candidates''))) detail)
          else if t = ''ResolutionFailed'' then Some (ResolutionFailed detail)
          else if t = ''ElementNotInteractable'' then Some (ElementNotInteractable detail)
          else if t = ''InvalidSelector'' then Some (InvalidSelector detail)
          else None)"

section \<open>The envelope\<close>

lemma ucast_u32_u64 [simp]: "(ucast (ucast (w :: u32) :: u64) :: u32) = w"
  by transfer simp

context json_value
begin

lemma roundtrip: "from_wire J (to_wire J e) = Some e"
  by (cases e) (simp_all add: from_wire_def detail_envelope_def get_simps j_strs_def map_filter_strs)

lemma wire_tag: "get_str J (to_wire J e) ''type'' = Some (wire_type e)"
  by (cases e) (simp_all add: detail_envelope_def get_simps)

end

definition wire_tags :: "string list" where
  "wire_tags = [''ConnectionFailed'', ''RuntimeDead'', ''Timeout'', ''CdpError'', ''InvalidResponse'',
     ''UnsupportedBrowserProtocol'', ''NotReady'', ''Reconnecting'', ''ShuttingDown'', ''Degraded'',
     ''ProtocolMismatch'', ''HandshakeRequired'', ''DaemonAlreadyRunning'', ''Socket'', ''StaleElementRef'',
     ''AmbiguousElement'', ''ResolutionFailed'', ''ElementNotInteractable'', ''InvalidSelector'']"

lemma wire_type_in_tags: "wire_type e \<in> set wire_tags"
  by (cases e) (simp_all add: wire_tags_def)

lemma from_wire_known: "from_wire J v = Some e \<Longrightarrow> get_str J v ''type'' = Some (wire_type e)"
  by (cases "get_str J v ''type''") (auto simp: from_wire_def Let_def split: if_splits)

lemma from_wire_defined: "get_str J v ''type'' = Some t \<Longrightarrow> t \<in> set wire_tags \<Longrightarrow> from_wire J v \<noteq> None"
  by (auto simp: from_wire_def wire_tags_def Let_def)

section \<open>Properties\<close>

text \<open>
  C36: decoding the IPC envelope of an error gives the error back, for every variant and every
  payload, on any JSON implementation with the documented accessor laws.
\<close>

theorem from_wire_to_wire:
  assumes "json_value J"
  shows "from_wire J (to_wire J e) = Some e"
  using assms by (rule json_value.roundtrip)

theorem from_wire_to_wire_witness:
  "from_wire std_json (to_wire std_json (AmbiguousElement [''e_001'', ''e_002''] ''two'')) =
     Some (AmbiguousElement [''e_001'', ''e_002''] ''two'')"
  by (rule from_wire_to_wire [OF std.json_value_axioms])

text \<open>
  The decoder accepts exactly the envelopes whose tag is one of the nineteen wire tags, and
  what it returns is the variant of that tag: an unknown tag of a newer daemon never decodes to
  a guessed variant.
\<close>

lemma from_wire_tags:
  "(from_wire J v \<noteq> None) = (\<exists>t \<in> set wire_tags. get_str J v ''type'' = Some t)
   \<and> (from_wire J v = Some e \<longrightarrow> get_str J v ''type'' = Some (wire_type e))"
  using from_wire_known [of J v] from_wire_defined [of J v] wire_type_in_tags by blast

end
