(* ===== verification/Lifecycle.thy ===== *)
theory Lifecycle
  imports Errors
begin

text \<open>
  \<open>src/browser_runtime/state.rs\<close>: the lifecycle states of the runtime daemon, the permission gate
  \<open>check\<close> at the top of every request handler, the legal transitions, and the daemon's own
  \<open>transition\<close> (\<open>server.rs\<close>), which keeps the state when a transition is rejected.
\<close>

datatype request_kind = Read | StateChanging

datatype lifecycle_state =
    Starting
  | Connecting
  | Connected
  | Degraded
  | Reconnecting
  | Disconnected
  | Stopping
  | Stopped
  | is_Failed: Failed string

fun lifecycle_name :: "lifecycle_state \<Rightarrow> string" where
  "lifecycle_name Starting = ''Starting''"
| "lifecycle_name Connecting = ''Connecting''"
| "lifecycle_name Connected = ''Connected''"
| "lifecycle_name Degraded = ''Degraded''"
| "lifecycle_name Reconnecting = ''Reconnecting''"
| "lifecycle_name Disconnected = ''Disconnected''"
| "lifecycle_name Stopping = ''Stopping''"
| "lifecycle_name Stopped = ''Stopped''"
| "lifecycle_name (Failed _) = ''Failed''"

fun lifecycle_check :: "lifecycle_state \<Rightarrow> request_kind \<Rightarrow> unit runtime_result" where
  "lifecycle_check Connected _ = Inr ()"
| "lifecycle_check Starting Read = Inr ()"
| "lifecycle_check Connecting Read = Inr ()"
| "lifecycle_check Starting StateChanging =
     Inl (NotReady ''runtime is starting; browser actions not accepted yet'')"
| "lifecycle_check Connecting StateChanging =
     Inl (NotReady ''runtime is connecting to the browser; try again shortly'')"
| "lifecycle_check Degraded Read = Inr ()"
| "lifecycle_check Degraded StateChanging =
     Inl (runtime_error.Degraded ''runtime is degraded; state-changing dispatch paused, reads still served'')"
| "lifecycle_check Reconnecting Read = Inr ()"
| "lifecycle_check Reconnecting StateChanging =
     Inl (runtime_error.Reconnecting ''runtime is reconnecting; retry after it returns to Connected'')"
| "lifecycle_check Disconnected Read = Inr ()"
| "lifecycle_check (Failed _) Read = Inr ()"
| "lifecycle_check Disconnected StateChanging =
     Inl (RuntimeDead ''runtime is disconnected; no browser actions possible'')"
| "lifecycle_check (Failed reason) StateChanging =
     Inl (RuntimeDead (''runtime failed and is not usable: '' @ reason))"
| "lifecycle_check Stopping Read = Inr ()"
| "lifecycle_check Stopping StateChanging =
     Inl (ShuttingDown ''runtime is stopping; no new actions accepted'')"
| "lifecycle_check Stopped _ = Inl (RuntimeDead ''runtime is stopped'')"

definition lifecycle_can_transition_to :: "lifecycle_state \<Rightarrow> lifecycle_state \<Rightarrow> bool" where
  "lifecycle_can_transition_to s next =
     (if next = Stopping then s \<noteq> Stopped
      else if next = Stopped then s = Stopping
      else if is_Failed next then \<not> (s = Stopped \<or> s = Stopping)
      else if s = Stopped \<or> s = Stopping \<or> is_Failed s then False
      else (s, next) \<in> set [(Starting, Connecting), (Connecting, Connected), (Connecting, Disconnected),
             (Connected, Degraded), (Connected, Disconnected), (Connected, Reconnecting),
             (Degraded, Connected), (Degraded, Reconnecting), (Degraded, Disconnected),
             (Reconnecting, Connected), (Reconnecting, Disconnected), (Disconnected, Reconnecting)])"

text \<open>\<open>LifecycleState::transition_to\<close>: the result and the state afterwards.\<close>

definition lifecycle_transition_to ::
  "lifecycle_state \<Rightarrow> lifecycle_state \<Rightarrow> unit runtime_result \<times> lifecycle_state" where
  "lifecycle_transition_to s next =
     (if lifecycle_can_transition_to s next then (Inr (), next)
      else (Inl (InvalidResponse (''illegal lifecycle transition '' @ lifecycle_name s @ '' -> ''
              @ lifecycle_name next)), s))"

text \<open>\<open>BrowserRuntimeServer::transition\<close>: a rejected transition is logged and the state kept.\<close>

definition server_transition :: "lifecycle_state \<Rightarrow> lifecycle_state \<Rightarrow> lifecycle_state" where
  "server_transition s next = snd (lifecycle_transition_to s next)"

section \<open>The transition machine\<close>

interpretation lc: transition_machine lifecycle_can_transition_to "\<lambda>s. s = Stopped"
  by unfold_locales (auto simp: lifecycle_can_transition_to_def)

lemma server_transition_alt:
  "server_transition s next = (if lifecycle_can_transition_to s next then next else s)"
  by (simp add: server_transition_def lifecycle_transition_to_def)

lemma server_run_path:
  "lifecycle_can_transition_to\<^sup>*\<^sup>* s (foldl server_transition s ns)"
proof (induction ns rule: rev_induct)
  case (snoc n ns)
  then show ?case by (auto simp: server_transition_alt intro: rtranclp.rtrancl_into_rtrancl)
qed simp

definition shut_down :: "lifecycle_state \<Rightarrow> bool" where
  "shut_down s = (is_Failed s \<or> s = Stopping \<or> s = Stopped)"

lemma shut_down_step: "lifecycle_can_transition_to s t \<Longrightarrow> shut_down s \<Longrightarrow> shut_down t"
  by (cases s; cases t) (simp_all add: lifecycle_can_transition_to_def shut_down_def)

lemma shut_down_path: "lifecycle_can_transition_to\<^sup>*\<^sup>* s t \<Longrightarrow> shut_down s \<Longrightarrow> shut_down t"
  by (induction rule: rtranclp_induct) (auto dest: shut_down_step)

lemma check_state_changing: "lifecycle_check s StateChanging = Inr () \<longleftrightarrow> s = Connected"
  by (cases s) simp_all

lemma check_read: "lifecycle_check s Read = Inr () \<longleftrightarrow> s \<noteq> Stopped"
  by (cases s) simp_all

section \<open>Properties\<close>

text \<open>
  The permission gate lets a state-changing request through in the state Connected only, and a
  read in every state but Stopped.
\<close>

lemma lifecycle_gate:
  "(lifecycle_check s StateChanging = Inr ()) = (s = Connected)
   \<and> (lifecycle_check s Read = Inr ()) = (s \<noteq> Stopped)"
  by (simp add: check_state_changing check_read)

text \<open>
  Once the daemon has failed, is stopping or has stopped, no sequence of transition requests
  makes it accept a state-changing request again; from Stopped it does not move at all.
\<close>

lemma lifecycle_shutdown_is_final:
  assumes "is_Failed s \<or> s = Stopping \<or> s = Stopped"
  shows "lifecycle_check (foldl server_transition s ns) StateChanging \<noteq> Inr ()
         \<and> (s = Stopped \<longrightarrow> foldl server_transition s ns = Stopped)"
proof -
  have "shut_down (foldl server_transition s ns)"
    using server_run_path shut_down_path assms unfolding shut_down_def by blast
  then have "lifecycle_check (foldl server_transition s ns) StateChanging \<noteq> Inr ()"
    by (auto simp: check_state_changing shut_down_def)
  moreover have "foldl server_transition s ns = Stopped" if "s = Stopped"
    using lc.final_stays [OF server_run_path that] that by simp
  ultimately show ?thesis by blast
qed

end
