(* ===== verification/Actions.thy ===== *)
theory Actions
  imports Prelude
begin

text \<open>
  \<open>src/browser_runtime/action.rs\<close>: verification results, step outcomes, the action state machine,
  the action record and the production-profile tag. The clock is an argument (milliseconds since
  the epoch), the process environment a function from names to values, and the static
  \<open>ACTION_COUNTER\<close> is passed and returned. The type variable \<open>'v\<close> stands for the JSON payload of a
  verified result.
\<close>

datatype 'v verification_result =
    Verified 'v
  | Contradicted string
  | Inconclusive string

fun is_verified :: "'v verification_result \<Rightarrow> bool" where
  "is_verified (Verified _) = True"
| "is_verified _ = False"

fun is_contradicted :: "'v verification_result \<Rightarrow> bool" where
  "is_contradicted (Contradicted _) = True"
| "is_contradicted _ = False"

fun is_inconclusive :: "'v verification_result \<Rightarrow> bool" where
  "is_inconclusive (Inconclusive _) = True"
| "is_inconclusive _ = False"

datatype 'v step_outcome =
    Ok "'v verification_result"
  | Failed string
  | Skipped string

fun outcome_is_ok :: "'v step_outcome \<Rightarrow> bool" where
  "outcome_is_ok (Ok _) = True"
| "outcome_is_ok _ = False"

fun outcome_is_failed :: "'v step_outcome \<Rightarrow> bool" where
  "outcome_is_failed (Failed _) = True"
| "outcome_is_failed _ = False"

fun outcome_is_skipped :: "'v step_outcome \<Rightarrow> bool" where
  "outcome_is_skipped (Skipped _) = True"
| "outcome_is_skipped _ = False"

fun should_cascade_skip :: "'v step_outcome \<Rightarrow> bool" where
  "should_cascade_skip (Failed _) = True"
| "should_cascade_skip (Ok v) = is_contradicted v"
| "should_cascade_skip (Skipped _) = False"

datatype action_state =
    Accepted
  | Resolving
  | Resolved
  | PreconditionCheck
  | Dispatching
  | Dispatched
  | Verifying
  | Completed
  | Failed
  | Contradicted
  | Inconclusive
  | Unknown
  | Cancelled

fun action_state_name :: "action_state \<Rightarrow> string" where
  "action_state_name Accepted = ''Accepted''"
| "action_state_name Resolving = ''Resolving''"
| "action_state_name Resolved = ''Resolved''"
| "action_state_name PreconditionCheck = ''PreconditionCheck''"
| "action_state_name Dispatching = ''Dispatching''"
| "action_state_name Dispatched = ''Dispatched''"
| "action_state_name Verifying = ''Verifying''"
| "action_state_name Completed = ''Completed''"
| "action_state_name action_state.Failed = ''Failed''"
| "action_state_name action_state.Contradicted = ''Contradicted''"
| "action_state_name action_state.Inconclusive = ''Inconclusive''"
| "action_state_name Unknown = ''Unknown''"
| "action_state_name Cancelled = ''Cancelled''"

definition is_terminal :: "action_state \<Rightarrow> bool" where
  "is_terminal s = (s \<in> set [Completed, action_state.Failed, action_state.Contradicted,
                             action_state.Inconclusive, Unknown, Cancelled])"

definition is_cancellable :: "action_state \<Rightarrow> bool" where
  "is_cancellable s = (s \<in> set [Accepted, Resolving, Resolved, PreconditionCheck])"

definition action_edges :: "(action_state \<times> action_state) list" where
  "action_edges =
    [(Accepted, Resolving), (Resolving, Resolved), (Resolving, action_state.Failed),
     (Resolving, Cancelled), (Resolved, PreconditionCheck), (Resolved, action_state.Failed),
     (PreconditionCheck, Dispatching), (PreconditionCheck, action_state.Failed),
     (PreconditionCheck, Cancelled), (Dispatching, Dispatched), (Dispatching, Unknown),
     (Dispatching, action_state.Failed), (Dispatched, Verifying), (Verifying, Completed),
     (Verifying, action_state.Failed), (Verifying, action_state.Contradicted),
     (Verifying, action_state.Inconclusive), (Verifying, Unknown),
     (Accepted, Cancelled), (Accepted, action_state.Failed)]"

definition action_can_transition_to :: "action_state \<Rightarrow> action_state \<Rightarrow> bool" where
  "action_can_transition_to s next = ((s, next) \<in> set action_edges)"

section \<open>Action records\<close>

text \<open>\<open>next_action_id\<close>: the id and the counter after \<open>fetch_add\<close>.\<close>

definition next_action_id :: "nat \<Rightarrow> u64 \<Rightarrow> string \<times> u64" where
  "next_action_id ms counter = (''act-'' @ show_u64 counter @ ''-'' @ show_nat ms, counter + 1)"

record 'v action_record =
  ar_action_id :: string
  ar_target_id :: string
  ar_target_generation :: u64
  ar_session_id :: "string option"
  ar_step_index :: nat
  ar_action :: string
  ar_capability_class :: string
  ar_started_at :: u64
  ar_completed_at :: "u64 option"
  ar_runtime_generation :: u64
  ar_dom_version_before :: u64
  ar_dom_version_after :: u64
  ar_frame_tree_version_before :: u64
  ar_frame_tree_version_after :: u64
  ar_resolution_method :: string
  ar_verification :: "'v verification_result option"
  ar_outcome :: "'v step_outcome"
  ar_state :: action_state
  ar_production_profile :: bool
  ar_latency_ms :: u64
  ar_error_detail :: "string option"

text \<open>
  \<open>ActionRecord::new\<close>: \<open>now\<close> is the clock at its first reading, \<open>now_id\<close> at the reading inside
  \<open>next_action_id\<close>.
\<close>

definition action_record_new ::
  "nat \<Rightarrow> nat \<Rightarrow> u64 \<Rightarrow> string \<Rightarrow> u64 \<Rightarrow> string option \<Rightarrow> nat \<Rightarrow> string \<Rightarrow> string \<Rightarrow> u64 \<Rightarrow> u64 \<Rightarrow> u64 \<Rightarrow> bool
     \<Rightarrow> 'v action_record \<times> u64" where
  "action_record_new now now_id counter target_id target_generation session_id step_index action
       capability_class runtime_generation dom_version_before frame_tree_version_before production_profile =
     (let (aid, counter') = next_action_id now_id counter in
      (\<lparr>ar_action_id = aid, ar_target_id = target_id, ar_target_generation = target_generation,
        ar_session_id = session_id, ar_step_index = step_index, ar_action = action,
        ar_capability_class = capability_class, ar_started_at = of_nat now, ar_completed_at = None,
        ar_runtime_generation = runtime_generation, ar_dom_version_before = dom_version_before,
        ar_dom_version_after = dom_version_before,
        ar_frame_tree_version_before = frame_tree_version_before,
        ar_frame_tree_version_after = frame_tree_version_before, ar_resolution_method = [],
        ar_verification = None, ar_outcome = step_outcome.Failed ''not yet completed'',
        ar_state = Accepted, ar_production_profile = production_profile, ar_latency_ms = 0,
        ar_error_detail = None\<rparr>, counter'))"

definition action_record_complete :: "nat \<Rightarrow> u64 \<Rightarrow> u64 \<Rightarrow> 'v action_record \<Rightarrow> 'v action_record" where
  "action_record_complete now dom_after frame_after r =
     r\<lparr>ar_completed_at := Some (of_nat now), ar_dom_version_after := dom_after,
       ar_frame_tree_version_after := frame_after,
       ar_latency_ms := u64_saturating_sub (of_nat now) (ar_started_at r)\<rparr>"

section \<open>Production profile\<close>

definition is_ephemeral_test_dir :: "string \<Rightarrow> bool" where
  "is_ephemeral_test_dir dir =
     (let lower = to_lowercase dir in
      str_contains lower ''hyprfast-runtime-test''
      \<or> str_contains lower ''hyprfast_test''
      \<or> (str_contains lower ''/tmp/'' \<and> str_contains lower ''test'')
      \<or> (str_contains lower ''fixture'' \<and> str_contains lower ''test'')
      \<or> lower = ''/tmp'')"

text \<open>The part of \<open>is_production_profile\<close> after the two directory checks.\<close>

definition production_by_markers :: "(string \<Rightarrow> string option) \<Rightarrow> bool" where
  "production_by_markers env =
     (let test_profile = (env ''HYPRFAST_TEST_PROFILE'' = Some ''1'');
          sock_says_no = (case env ''HYPRFAST_BROWSER_SOCK'' of
              None \<Rightarrow> False
            | Some sock \<Rightarrow>
                (str_contains sock ''test'' \<or> (str_contains sock ''tmp'' \<and> str_contains sock ''hyprfast''))
                \<and> test_profile)
      in if sock_says_no then False else if test_profile then False else True)"

definition is_production_profile :: "(string \<Rightarrow> string option) \<Rightarrow> string option \<Rightarrow> bool" where
  "is_production_profile env user_data_dir =
     (case user_data_dir of
        Some dir \<Rightarrow> \<not> is_ephemeral_test_dir dir
      | None \<Rightarrow>
          (case env ''HYPRFAST_USER_DATA_DIR'' of
             None \<Rightarrow> production_by_markers env
           | Some dir \<Rightarrow>
               if is_ephemeral_test_dir dir then False
               else if dir \<noteq> [] then True
               else production_by_markers env))"

definition production_profile_for_target :: "(string \<Rightarrow> string option) \<Rightarrow> string \<Rightarrow> bool" where
  "production_profile_for_target env target_id = is_production_profile env None"

section \<open>The action machine\<close>

fun action_rank :: "action_state \<Rightarrow> nat" where
  "action_rank Accepted = 0"
| "action_rank Resolving = 1"
| "action_rank Resolved = 2"
| "action_rank PreconditionCheck = 3"
| "action_rank Dispatching = 4"
| "action_rank Dispatched = 5"
| "action_rank Verifying = 6"
| "action_rank _ = 7"

lemmas action_machine_defs = action_can_transition_to_def action_edges_def is_terminal_def is_cancellable_def

interpretation am: ranked_machine action_can_transition_to is_terminal action_rank
  by unfold_locales (auto simp: action_machine_defs)

lemma action_rank_le: "action_rank s \<le> 7"
  by (cases s) simp_all

lemma action_progress: "\<not> is_terminal s \<Longrightarrow> \<exists>t. action_can_transition_to s t"
  by (cases s) (auto simp: action_machine_defs)

definition dispatched_or_later :: "action_state \<Rightarrow> bool" where
  "dispatched_or_later s = (s \<in> set [Dispatching, Dispatched, Verifying, Completed, action_state.Failed,
      action_state.Contradicted, action_state.Inconclusive, Unknown])"

lemma dispatched_step: "action_can_transition_to s t \<Longrightarrow> dispatched_or_later s \<Longrightarrow> dispatched_or_later t"
  by (auto simp: action_machine_defs dispatched_or_later_def)

lemma dispatched_path: "action_can_transition_to\<^sup>*\<^sup>* s t \<Longrightarrow> dispatched_or_later s \<Longrightarrow> dispatched_or_later t"
  by (induction rule: rtranclp_induct) (auto dest: dispatched_step)

section \<open>Properties\<close>

text \<open>
  Every run of the action machine makes at most seven transitions and never visits a state
  twice, no terminal state has a successor, and every other state has one: an action that keeps
  moving ends in a terminal state.
\<close>

lemma action_runs_terminate:
  "(is_path action_can_transition_to s ts \<longrightarrow> length ts \<le> 7)
   \<and> \<not> action_can_transition_to\<^sup>+\<^sup>+ s s
   \<and> (is_terminal s \<longleftrightarrow> \<not> (\<exists>t. action_can_transition_to s t))"
  using am.rank_path [of s ts] action_rank_le [of "last (s # ts)"] am.no_cycle [of s]
    am.final_stuck [of s] action_progress [of s] by force

text \<open>
  Cancellation. Once an action is Dispatching no run of the machine cancels it. Every edge into
  Cancelled leaves a cancellable state, but Resolved, which is cancellable, has no such edge.
\<close>

lemma action_cancellation:
  "(action_can_transition_to\<^sup>*\<^sup>* Dispatching t \<longrightarrow> t \<noteq> Cancelled)
   \<and> (action_can_transition_to s Cancelled \<longleftrightarrow> is_cancellable s \<and> s \<noteq> Resolved)
   \<and> is_cancellable Resolved"
proof -
  have "t \<noteq> Cancelled" if "action_can_transition_to\<^sup>*\<^sup>* Dispatching t"
    using dispatched_path [OF that] by (auto simp: dispatched_or_later_def)
  moreover have "action_can_transition_to s Cancelled \<longleftrightarrow> is_cancellable s \<and> s \<noteq> Resolved"
    by (cases s) (simp_all add: action_machine_defs)
  ultimately show ?thesis by (simp add: is_cancellable_def)
qed

text \<open>
  The production tag. A known profile directory decides alone; without one the directory of the
  environment decides unless it is missing or empty; only then does the test marker count, and
  the socket path never changes the answer.
\<close>

lemma production_profile_spec:
  "is_production_profile env d =
     (case or_else d (case env ''HYPRFAST_USER_DATA_DIR'' of Some [] \<Rightarrow> None | e \<Rightarrow> e) of
        Some dir \<Rightarrow> \<not> is_ephemeral_test_dir dir
      | None \<Rightarrow> env ''HYPRFAST_TEST_PROFILE'' \<noteq> Some ''1'')"
proof -
  have "\<not> is_ephemeral_test_dir []"
    by (simp add: is_ephemeral_test_dir_def to_lowercase_def)
  then show ?thesis
    by (simp add: is_production_profile_def production_by_markers_def Let_def split: option.splits list.splits)
qed

end
