(* ===== verification/Journal.thy ===== *)
theory Journal
  imports Actions
begin

text \<open>
  \<open>src/browser_runtime/action_journal.rs\<close>: the bounded journal of completed actions, and the
  capability tags of \<open>server.rs\<close> it records. \<open>usize\<close> lengths are natural numbers (a journal holds
  far fewer than \<open>2^64\<close> entries), and the lock is assumed never poisoned.
\<close>

datatype capability_class =
    RuntimeEvaluate | Cookies | Clipboard | FileUpload | Download | Navigation | NoCapability

definition capability_parse :: "string \<Rightarrow> capability_class" where
  "capability_parse s =
     (if s = ''runtime_evaluate'' then RuntimeEvaluate
      else if s = ''cookies'' then Cookies
      else if s = ''clipboard'' then Clipboard
      else if s = ''file_upload'' then FileUpload
      else if s = ''download'' then Download
      else if s = ''navigation'' then Navigation
      else NoCapability)"

fun capability_as_str :: "capability_class \<Rightarrow> string" where
  "capability_as_str RuntimeEvaluate = ''runtime_evaluate''"
| "capability_as_str Cookies = ''cookies''"
| "capability_as_str Clipboard = ''clipboard''"
| "capability_as_str FileUpload = ''file_upload''"
| "capability_as_str Download = ''download''"
| "capability_as_str Navigation = ''navigation''"
| "capability_as_str NoCapability = ''none''"

definition capability_all :: "string list" where
  "capability_all = map capability_as_str
     [RuntimeEvaluate, Cookies, Clipboard, FileUpload, Download, Navigation]"

record 'v action_journal =
  aj_entries :: "'v action_record list"
  aj_max_entries :: nat

definition journal_new :: "nat \<Rightarrow> 'v action_journal" where
  "journal_new max_entries = \<lparr>aj_entries = [], aj_max_entries = max_entries\<rparr>"

text \<open>\<open>pop_front\<close> on an empty queue does nothing, as \<^const>\<open>tl\<close> does.\<close>

definition journal_append :: "'v action_record \<Rightarrow> 'v action_journal \<Rightarrow> 'v action_journal" where
  "journal_append r j =
     (let g = aj_entries j;
          g = (if aj_max_entries j \<le> length g then tl g else g)
      in j\<lparr>aj_entries := g @ [r]\<rparr>)"

definition journal_len :: "'v action_journal \<Rightarrow> nat" where
  "journal_len j = length (aj_entries j)"

definition journal_is_empty :: "'v action_journal \<Rightarrow> bool" where
  "journal_is_empty j = (journal_len j = 0)"

definition journal_snapshot :: "'v action_journal \<Rightarrow> 'v action_record list" where
  "journal_snapshot j = aj_entries j"

definition journal_for_target :: "string \<Rightarrow> 'v action_journal \<Rightarrow> 'v action_record list" where
  "journal_for_target tid j = filter (\<lambda>r. ar_target_id r = tid) (aj_entries j)"

definition journal_last_n :: "nat \<Rightarrow> 'v action_journal \<Rightarrow> 'v action_record list" where
  "journal_last_n n j = rev (take n (rev (aj_entries j)))"

definition journal_clear :: "'v action_journal \<Rightarrow> 'v action_journal" where
  "journal_clear j = j\<lparr>aj_entries := []\<rparr>"

text \<open>The counters of \<open>trace_snapshot\<close>: total, production, non-production, and per capability.\<close>

definition journal_total :: "'v action_journal \<Rightarrow> nat" where
  "journal_total j = length (journal_snapshot j)"

definition journal_production_count :: "'v action_journal \<Rightarrow> nat" where
  "journal_production_count j = length (filter ar_production_profile (journal_snapshot j))"

definition journal_non_production_count :: "'v action_journal \<Rightarrow> nat" where
  "journal_non_production_count j = journal_total j - journal_production_count j"

definition journal_by_capability :: "'v action_journal \<Rightarrow> (string, nat) hashmap" where
  "journal_by_capability j =
     foldl (\<lambda>m r. hm_entry (ar_capability_class r) Suc 1 m) [] (journal_snapshot j)"

definition journal_tags_for ::
  "(string \<Rightarrow> string option) \<Rightarrow> capability_class \<Rightarrow> string option \<Rightarrow> string \<times> bool" where
  "journal_tags_for env cap user_data_dir =
     (capability_as_str cap, is_production_profile env user_data_dir)"

section \<open>The abstract journal: the whole history, of which a suffix is kept\<close>

interpretation jr: bounded_log journal_append aj_entries aj_max_entries
  by unfold_locales (simp_all add: journal_append_def Let_def)

lemma journal_fold:
  "aj_max_entries (foldl (\<lambda>j r. journal_append r j) (journal_new n) rs) = n
   \<and> aj_entries (foldl (\<lambda>j r. journal_append r j) (journal_new n) rs) = keep_last (max 1 n) rs"
  using jr.view_run [of "journal_new n" rs] by (simp add: jr.cap_run) (simp add: journal_new_def)

lemma by_capability_count:
  "hm_get (foldl (\<lambda>m r. hm_entry (ar_capability_class r) Suc 1 m) m rs) c =
     (let n = length (filter (\<lambda>r. ar_capability_class r = c) rs) in
      case hm_get m c of None \<Rightarrow> if n = 0 then None else Some n | Some k \<Rightarrow> Some (k + n))"
  by (induction rs arbitrary: m) (auto simp: Let_def split: option.splits)

section \<open>Properties\<close>

text \<open>
  Refinement to the full history. After any sequence of appends to a new journal the entries
  are the last \<open>max 1 cap\<close> records appended, in order (a capacity of 0 still keeps one record),
  and \<open>last_n\<close> and \<open>for_target\<close> are the corresponding views of that suffix.
\<close>

lemma journal_keeps_suffix:
  "let j = foldl (\<lambda>j r. journal_append r j) (journal_new cap) rs in
     journal_snapshot j = keep_last (max 1 cap) rs
     \<and> journal_len j = min (max 1 cap) (length rs)
     \<and> journal_last_n n j = keep_last (min n (max 1 cap)) rs
     \<and> journal_for_target tid j = filter (\<lambda>r. ar_target_id r = tid) (keep_last (max 1 cap) rs)"
  using journal_fold [of cap rs]
  by (auto simp: Let_def journal_snapshot_def journal_len_def journal_last_n_def journal_for_target_def
      keep_last_keep_last)

text \<open>
  The diagnostic counters add up. Production and non-production entries partition the journal
  (the subtraction never underflows), and the count of each capability is the number of entries
  tagged with it, with no entry for a capability that does not occur.
\<close>

lemma journal_counters:
  "journal_production_count j + journal_non_production_count j = journal_total j
   \<and> journal_non_production_count j = length (filter (\<lambda>r. \<not> ar_production_profile r) (journal_snapshot j))
   \<and> hm_get (journal_by_capability j) c =
       (let n = length (filter (\<lambda>r. ar_capability_class r = c) (journal_snapshot j)) in
        if n = 0 then None else Some n)"
proof -
  have "length (filter ar_production_profile xs) + length (filter (\<lambda>r. \<not> ar_production_profile r) xs)
      = length xs" for xs :: "'a action_record list"
    by (rule sum_length_filter_compl)
  from this [of "journal_snapshot j"]
  have "journal_production_count j + journal_non_production_count j = journal_total j"
    "journal_non_production_count j = length (filter (\<lambda>r. \<not> ar_production_profile r) (journal_snapshot j))"
    unfolding journal_production_count_def journal_non_production_count_def journal_total_def by linarith+
  then show ?thesis by (simp add: journal_by_capability_def by_capability_count Let_def del: One_nat_def)
qed

end
