(* ===== verification/Dom_State.thy ===== *)
theory Dom_State
  imports Json_Value
begin

text \<open>
  \<open>src/browser_runtime/dom_state.rs\<close>: the authoritative generation counters and the live DOM state.
  The atomics are the fields of a record; the counters wrap at \<open>2^64\<close> as \<open>fetch_add\<close> does. The
  \<open>HashSet\<close> of touched parents is a list without duplicates; \<open>prune_affected\<close> removes the first
  elements of an unspecified iteration order, which is the argument \<open>ord\<close>.
\<close>

record dom_state =
  ds_runtime_generation :: u64
  ds_navigation_generation :: u64
  ds_dom_version :: u64
  ds_element_index_version :: u64
  ds_frame_tree_version :: u64
  ds_target_generation :: u64
  ds_ready_state :: string
  ds_lifecycle_state :: string
  ds_affected_parents :: "i64 list"
  ds_last_sequence :: u64

definition dom_state_new :: dom_state where
  "dom_state_new = \<lparr>ds_runtime_generation = 0, ds_navigation_generation = 0, ds_dom_version = 0,
     ds_element_index_version = 0, ds_frame_tree_version = 0, ds_target_generation = 0,
     ds_ready_state = ''unknown'', ds_lifecycle_state = ''init'', ds_affected_parents = [],
     ds_last_sequence = 0\<rparr>"

section \<open>Counters\<close>

definition bump_target_generation :: "dom_state \<Rightarrow> u64 \<times> dom_state" where
  "bump_target_generation s =
     (let s = s\<lparr>ds_target_generation := ds_target_generation s + 1\<rparr> in (ds_target_generation s, s))"

definition bump_connection_generation :: "dom_state \<Rightarrow> u64 \<times> dom_state" where
  "bump_connection_generation s =
     (let s = s\<lparr>ds_runtime_generation := ds_runtime_generation s + 1\<rparr> in (ds_runtime_generation s, s))"

text \<open>\<open>frame_tree_version.fetch_add(1) + 1\<close>, as \<open>FrameManager\<close> and the crash recovery call it.\<close>

definition bump_frame_tree_version :: "dom_state \<Rightarrow> u64 \<times> dom_state" where
  "bump_frame_tree_version s =
     (let s = s\<lparr>ds_frame_tree_version := ds_frame_tree_version s + 1\<rparr> in (ds_frame_tree_version s, s))"

definition bump_dom_version :: "dom_state \<Rightarrow> dom_state" where
  "bump_dom_version s = s\<lparr>ds_dom_version := ds_dom_version s + 1\<rparr>"

definition bump_element_index_version :: "dom_state \<Rightarrow> dom_state" where
  "bump_element_index_version s = s\<lparr>ds_element_index_version := ds_element_index_version s + 1\<rparr>"

definition bump_navigation_generation :: "dom_state \<Rightarrow> dom_state" where
  "bump_navigation_generation s = s\<lparr>ds_navigation_generation := ds_navigation_generation s + 1\<rparr>"

definition ds_is_stale :: "dom_state \<Rightarrow> u64 \<Rightarrow> u64 \<Rightarrow> bool" where
  "ds_is_stale s dom_version_created frame_tree_version_created =
     (dom_version_created \<noteq> ds_dom_version s \<or> frame_tree_version_created \<noteq> ds_frame_tree_version s)"

definition ds_on_connected :: "dom_state \<Rightarrow> dom_state" where
  "ds_on_connected s = snd (bump_connection_generation s)"

definition ds_on_reconnected :: "dom_state \<Rightarrow> (u64 \<times> u64) \<times> dom_state" where
  "ds_on_reconnected s =
     (let (new_tg, s) = bump_target_generation s;
          (new_cg, s) = bump_connection_generation s;
          s = bump_dom_version s;
          s = bump_element_index_version s;
          s = s\<lparr>ds_affected_parents := []\<rparr>
      in ((new_tg, new_cg), s))"

section \<open>Events\<close>

definition affected_cap :: nat where
  "affected_cap = 512"

definition prune_affected :: "(i64 list \<Rightarrow> i64 list) \<Rightarrow> i64 list \<Rightarrow> i64 list" where
  "prune_affected ord aff =
     (if affected_cap < length aff then
        let to_remove = length aff - affected_cap div 2;
            keys = take to_remove (ord aff)
        in filter (\<lambda>k. k \<notin> set keys) aff
      else aff)"

text \<open>\<open>g.insert(pid); Self::prune_affected(&mut g)\<close>, for a parameter that is present.\<close>

definition note_affected :: "(i64 list \<Rightarrow> i64 list) \<Rightarrow> i64 option \<Rightarrow> dom_state \<Rightarrow> dom_state" where
  "note_affected ord pid s =
     (case pid of None \<Rightarrow> s
      | Some p \<Rightarrow> s\<lparr>ds_affected_parents := prune_affected ord (List.insert p (ds_affected_parents s))\<rparr>)"

text \<open>A frame event is about the main frame when its \<open>frame\<close> parameter has no \<open>parentId\<close>.\<close>

definition is_main_frame :: "'v json_ops \<Rightarrow> 'v \<Rightarrow> bool" where
  "is_main_frame J params = (Option.bind (j_get J params ''frame'') (\<lambda>f. j_get J f ''parentId'') = None)"

definition ready_of_lifecycle :: "string \<Rightarrow> string" where
  "ready_of_lifecycle name =
     (if name = ''init'' then ''loading''
      else if name = ''DOMContentLoaded'' then ''interactive''
      else if name = ''load'' then ''complete''
      else if name = ''networkAlmostIdle'' \<or> name = ''networkIdle'' then ''complete''
      else name)"

definition ds_note_sequence :: "u64 \<Rightarrow> dom_state \<Rightarrow> dom_state" where
  "ds_note_sequence seq s = (if ds_last_sequence s \<le> seq then s\<lparr>ds_last_sequence := seq + 1\<rparr> else s)"

definition ds_on_event ::
  "'v json_ops \<Rightarrow> (i64 list \<Rightarrow> i64 list) \<Rightarrow> 'v cdp_event \<Rightarrow> dom_state \<Rightarrow> dom_state" where
  "ds_on_event J ord ev s0 =
     (let s = ds_note_sequence (ev_sequence ev) s0;
          m = ev_method ev; params = ev_params ev
      in if m = ''DOM.documentUpdated'' then
           (bump_element_index_version (bump_dom_version s))\<lparr>ds_affected_parents := []\<rparr>
         else if m = ''DOM.childNodeInserted'' then
           note_affected ord (get_i64 J params ''parentNodeId'') (bump_dom_version s)
         else if m = ''DOM.childNodeRemoved'' then
           note_affected ord (get_i64 J params ''parentNodeId'') (bump_dom_version s)
         else if m = ''DOM.attributeModified'' then
           note_affected ord (get_i64 J params ''nodeId'') (bump_dom_version s)
         else if m = ''Page.frameNavigated'' then
           (if is_main_frame J params then bump_dom_version (bump_navigation_generation s) else s)
         else if m = ''Page.lifecycleEvent'' then
           (case get_str J params ''name'' of
              None \<Rightarrow> s
            | Some name \<Rightarrow> s\<lparr>ds_lifecycle_state := name, ds_ready_state := ready_of_lifecycle name\<rparr>)
         else s)"

section \<open>The counters as generation counters\<close>

interpretation target_gen: generation_counter ds_target_generation "\<lambda>s. snd (bump_target_generation s)"
  by unfold_locales (simp add: bump_target_generation_def Let_def)

interpretation conn_gen: generation_counter ds_runtime_generation "\<lambda>s. snd (bump_connection_generation s)"
  by unfold_locales (simp add: bump_connection_generation_def Let_def)

interpretation frame_ver: generation_counter ds_frame_tree_version "\<lambda>s. snd (bump_frame_tree_version s)"
  by unfold_locales (simp add: bump_frame_tree_version_def Let_def)

interpretation dom_ver: generation_counter ds_dom_version bump_dom_version
  by unfold_locales (simp add: bump_dom_version_def)

interpretation reconnect_tg: generation_counter ds_target_generation "\<lambda>s. snd (ds_on_reconnected s)"
  by unfold_locales (simp add: ds_on_reconnected_def bump_target_generation_def bump_connection_generation_def
      bump_dom_version_def bump_element_index_version_def Let_def)

interpretation reconnect_cg: generation_counter ds_runtime_generation "\<lambda>s. snd (ds_on_reconnected s)"
  by unfold_locales (simp add: ds_on_reconnected_def bump_target_generation_def bump_connection_generation_def
      bump_dom_version_def bump_element_index_version_def Let_def)

lemmas ds_bump_defs = bump_target_generation_def bump_connection_generation_def bump_frame_tree_version_def
  bump_dom_version_def bump_element_index_version_def bump_navigation_generation_def

lemma ds_on_reconnected_eq:
  "ds_on_reconnected s =
     ((ds_target_generation s + 1, ds_runtime_generation s + 1),
      s\<lparr>ds_target_generation := ds_target_generation s + 1,
        ds_runtime_generation := ds_runtime_generation s + 1,
        ds_dom_version := ds_dom_version s + 1,
        ds_element_index_version := ds_element_index_version s + 1,
        ds_affected_parents := []\<rparr>)"
  by (simp add: ds_on_reconnected_def ds_bump_defs Let_def)

section \<open>Lemmas on events\<close>

lemma ds_note_sequence_sel [simp]:
  "ds_runtime_generation (ds_note_sequence q s) = ds_runtime_generation s"
  "ds_navigation_generation (ds_note_sequence q s) = ds_navigation_generation s"
  "ds_dom_version (ds_note_sequence q s) = ds_dom_version s"
  "ds_element_index_version (ds_note_sequence q s) = ds_element_index_version s"
  "ds_frame_tree_version (ds_note_sequence q s) = ds_frame_tree_version s"
  "ds_target_generation (ds_note_sequence q s) = ds_target_generation s"
  "ds_affected_parents (ds_note_sequence q s) = ds_affected_parents s"
  by (simp_all add: ds_note_sequence_def)

lemma note_affected_sel [simp]:
  "ds_runtime_generation (note_affected ord p s) = ds_runtime_generation s"
  "ds_navigation_generation (note_affected ord p s) = ds_navigation_generation s"
  "ds_dom_version (note_affected ord p s) = ds_dom_version s"
  "ds_element_index_version (note_affected ord p s) = ds_element_index_version s"
  "ds_frame_tree_version (note_affected ord p s) = ds_frame_tree_version s"
  "ds_target_generation (note_affected ord p s) = ds_target_generation s"
  by (simp_all add: note_affected_def split: option.splits)

text \<open>Which events bump which counter.\<close>

definition bumps_dom :: "'v json_ops \<Rightarrow> 'v cdp_event \<Rightarrow> bool" where
  "bumps_dom J ev =
     (ev_method ev \<in> set [''DOM.documentUpdated'', ''DOM.childNodeInserted'', ''DOM.childNodeRemoved'',
                           ''DOM.attributeModified'']
      \<or> (ev_method ev = ''Page.frameNavigated'' \<and> is_main_frame J (ev_params ev)))"

lemma ds_on_event_counters:
  "ds_runtime_generation (ds_on_event J ord ev s) = ds_runtime_generation s"
  "ds_target_generation (ds_on_event J ord ev s) = ds_target_generation s"
  "ds_frame_tree_version (ds_on_event J ord ev s) = ds_frame_tree_version s"
  "ds_dom_version (ds_on_event J ord ev s) = (if bumps_dom J ev then ds_dom_version s + 1 else ds_dom_version s)"
  "ds_element_index_version (ds_on_event J ord ev s) =
     (if ev_method ev = ''DOM.documentUpdated'' then ds_element_index_version s + 1 else ds_element_index_version s)"
  "ds_navigation_generation (ds_on_event J ord ev s) =
     (if ev_method ev = ''Page.frameNavigated'' \<and> is_main_frame J (ev_params ev)
      then ds_navigation_generation s + 1 else ds_navigation_generation s)"
  by (simp_all add: ds_on_event_def Let_def ds_bump_defs bumps_dom_def split: option.splits)

definition affected_ok :: "dom_state \<Rightarrow> bool" where
  "affected_ok s = (distinct (ds_affected_parents s) \<and> length (ds_affected_parents s) \<le> affected_cap)"

lemma prune_affected_ok:
  assumes "iter_order ord" "distinct xs" "length xs \<le> affected_cap + 1"
  shows "distinct (prune_affected ord xs) \<and> length (prune_affected ord xs) \<le> affected_cap"
proof (cases "affected_cap < length xs")
  case True
  let ?n = "length xs - affected_cap div 2"
  let ?ks = "take ?n (ord xs)"
  have ks: "distinct ?ks" "set ?ks \<subseteq> set xs" "length ?ks = ?n"
    using assms by (auto simp: iter_order_set dest: in_set_takeD)
  then have "card (set ?ks) = ?n" by (metis distinct_card)
  then have "card (set xs - set ?ks) = length xs - ?n"
    using ks assms(2) by (simp add: card_Diff_subset distinct_card)
  moreover have "set (filter (\<lambda>k. k \<notin> set ?ks) xs) = set xs - set ?ks" by auto
  ultimately have "length (filter (\<lambda>k. k \<notin> set ?ks) xs) = length xs - ?n"
    using assms(2) by (metis distinct_card distinct_filter)
  then show ?thesis using True assms(2) by (simp add: prune_affected_def Let_def affected_cap_def)
qed (use assms in \<open>simp add: prune_affected_def\<close>)

lemma note_affected_ok: "iter_order ord \<Longrightarrow> affected_ok s \<Longrightarrow> affected_ok (note_affected ord p s)"
proof (cases p)
  case (Some q)
  assume o: "iter_order ord" and s: "affected_ok s"
  have "distinct (List.insert q (ds_affected_parents s))"
    "length (List.insert q (ds_affected_parents s)) \<le> affected_cap + 1"
    using s by (auto simp: affected_ok_def List.insert_def)
  from prune_affected_ok [OF o this] show ?thesis using Some by (simp add: note_affected_def affected_ok_def)
qed (simp add: note_affected_def)

lemma ds_on_event_affected_ok:
  assumes "iter_order ord" "affected_ok s"
  shows "affected_ok (ds_on_event J ord ev s)"
proof -
  have *: "affected_ok (bump_dom_version (ds_note_sequence q s))" for q
    using assms(2) by (simp add: affected_ok_def bump_dom_version_def)
  show ?thesis
    using assms(2) note_affected_ok [OF assms(1) *]
    by (auto simp: ds_on_event_def Let_def ds_bump_defs affected_ok_def split: option.splits)
qed

section \<open>Properties\<close>

text \<open>
  What one event does to the six generation counters: \<open>dom_version\<close> moves exactly on the four
  DOM events and on a main-frame navigation, \<open>navigation_generation\<close> on the latter only,
  \<open>element_index_version\<close> on \<open>documentUpdated\<close> only, and no event moves the target, connection or
  frame-tree counters, which other owners bump.
\<close>

lemma dom_event_counters:
  "let s' = ds_on_event J ord ev s in
     ds_dom_version s' = (if bumps_dom J ev then ds_dom_version s + 1 else ds_dom_version s)
     \<and> ds_navigation_generation s' =
         (if ev_method ev = ''Page.frameNavigated'' \<and> is_main_frame J (ev_params ev)
          then ds_navigation_generation s + 1 else ds_navigation_generation s)
     \<and> ds_element_index_version s' =
         (if ev_method ev = ''DOM.documentUpdated'' then ds_element_index_version s + 1
          else ds_element_index_version s)
     \<and> ds_target_generation s' = ds_target_generation s
     \<and> ds_runtime_generation s' = ds_runtime_generation s
     \<and> ds_frame_tree_version s' = ds_frame_tree_version s"
  by (simp add: ds_on_event_counters Let_def)

text \<open>
  The set of touched parents stays bounded: whatever events arrive and however the set
  iterates, it never holds more than 512 ids and never one twice.
\<close>

lemma affected_parents_bounded:
  assumes "\<forall>(ord, ev) \<in> set evs. iter_order ord"
  shows "length (ds_affected_parents (foldl (\<lambda>s (ord, ev). ds_on_event J ord ev s) dom_state_new evs)) \<le> 512
         \<and> distinct (ds_affected_parents (foldl (\<lambda>s (ord, ev). ds_on_event J ord ev s) dom_state_new evs))"
proof -
  have "affected_ok (foldl (\<lambda>s (ord, ev). ds_on_event J ord ev s) dom_state_new evs)"
    using assms
  proof (induction evs rule: rev_induct)
    case Nil
    show ?case by (simp add: affected_ok_def dom_state_new_def)
  next
    case (snoc e evs)
    then show ?case by (auto intro: ds_on_event_affected_ok)
  qed
  then show ?thesis by (simp add: affected_ok_def affected_cap_def)
qed

end
