(* ===== verification/Frames.thy ===== *)
theory Frames
  imports Dom_State
begin

text \<open>
  \<open>src/browser_runtime/frames.rs\<close>: the frame tree and the per-frame versions. The manager shares the
  \<open>DomState\<close>; an operation that bumps its \<open>frame_tree_version\<close> takes and returns the pair of both.
\<close>

record frame_record =
  fr_frame_id :: string
  fr_parent_frame :: "string option"
  fr_execution_context_id :: "i64 option"
  fr_target_id :: "string option"
  fr_session_id :: "string option"
  fr_url :: string
  fr_name :: string
  fr_is_main :: bool

record frame_manager =
  fm_frames :: "(string, frame_record) hashmap"
  fm_frame_versions :: "(string, u64) hashmap"

definition frame_manager_new :: frame_manager where
  "frame_manager_new = \<lparr>fm_frames = [], fm_frame_versions = []\<rparr>"

definition fm_frame_version :: "frame_manager \<Rightarrow> string \<Rightarrow> u64" where
  "fm_frame_version fm fid = unwrap_or 0 (hm_get (fm_frame_versions fm) fid)"

definition fm_get_frame :: "frame_manager \<Rightarrow> string \<Rightarrow> frame_record option" where
  "fm_get_frame fm fid = hm_get (fm_frames fm) fid"

definition fm_list_frames ::
  "((string \<times> frame_record) list \<Rightarrow> (string \<times> frame_record) list) \<Rightarrow> frame_manager \<Rightarrow> frame_record list" where
  "fm_list_frames ord fm = hm_values ord (fm_frames fm)"

definition fm_frame_count :: "frame_manager \<Rightarrow> nat" where
  "fm_frame_count fm = length (fm_frames fm)"

type_synonym fm_state = "frame_manager \<times> dom_state"

definition bump_for_frame :: "string \<Rightarrow> fm_state \<Rightarrow> fm_state" where
  "bump_for_frame fid st =
     (let (fm, ds) = st;
          (new_global, ds) = bump_frame_tree_version ds
      in (fm\<lparr>fm_frame_versions := hm_insert fid new_global (fm_frame_versions fm)\<rparr>, ds))"

section \<open>Event handlers\<close>

definition on_frame_attached :: "'v json_ops \<Rightarrow> 'v cdp_event \<Rightarrow> fm_state \<Rightarrow> fm_state" where
  "on_frame_attached J ev st =
     (let fid = unwrap_or [] (get_str J (ev_params ev) ''frameId'') in
      if fid = [] then st
      else
        let (fm, ds) = st;
            parent = get_str J (ev_params ev) ''parentFrameId'';
            g = hm_entry fid
                  (\<lambda>r. r\<lparr>fr_parent_frame := parent, fr_is_main := (parent = None)\<rparr>)
                  \<lparr>fr_frame_id = fid, fr_parent_frame = parent, fr_execution_context_id = None,
                   fr_target_id = None, fr_session_id = ev_session_id ev, fr_url = [], fr_name = [],
                   fr_is_main = (parent = None)\<rparr>
                  (fm_frames fm);
            g = hm_modify fid
                  (\<lambda>r. if fr_session_id r = None then r\<lparr>fr_session_id := ev_session_id ev\<rparr> else r) g
        in bump_for_frame fid (fm\<lparr>fm_frames := g\<rparr>, ds))"

text \<open>The parameter \<open>frame\<close> of a navigation and a string field of it.\<close>

definition frame_param :: "'v json_ops \<Rightarrow> 'v \<Rightarrow> string \<Rightarrow> string option" where
  "frame_param J params k = Option.bind (j_get J params ''frame'') (\<lambda>f. get_str J f k)"

definition fm_on_frame_navigated :: "'v json_ops \<Rightarrow> 'v cdp_event \<Rightarrow> fm_state \<Rightarrow> fm_state" where
  "fm_on_frame_navigated J ev st =
     (let fid = unwrap_or [] (or_else (frame_param J (ev_params ev) ''id'')
                                      (get_str J (ev_params ev) ''frameId'')) in
      if fid = [] then st
      else
        let (fm, ds) = st;
            parent = frame_param J (ev_params ev) ''parentId'';
            url = unwrap_or [] (frame_param J (ev_params ev) ''url'');
            name = unwrap_or [] (frame_param J (ev_params ev) ''name'');
            upd = (\<lambda>r.
              let r = r\<lparr>fr_parent_frame := parent, fr_url := url\<rparr>;
                  r = (if name \<noteq> [] then r\<lparr>fr_name := name\<rparr> else r);
                  r = r\<lparr>fr_is_main := (parent = None)\<rparr>
              in if fr_session_id r = None then r\<lparr>fr_session_id := ev_session_id ev\<rparr> else r);
            new = \<lparr>fr_frame_id = fid, fr_parent_frame = parent, fr_execution_context_id = None,
                   fr_target_id = None, fr_session_id = ev_session_id ev, fr_url = url, fr_name = name,
                   fr_is_main = (parent = None)\<rparr>
        in bump_for_frame fid (fm\<lparr>fm_frames := hm_entry fid upd (upd new) (fm_frames fm)\<rparr>, ds))"

definition on_frame_detached :: "'v json_ops \<Rightarrow> 'v cdp_event \<Rightarrow> fm_state \<Rightarrow> fm_state" where
  "on_frame_detached J ev st =
     (let fid = unwrap_or [] (get_str J (ev_params ev) ''frameId'') in
      if fid = [] then st
      else
        let (fm, ds) = bump_for_frame fid st
        in (fm\<lparr>fm_frames := hm_remove fid (fm_frames fm)\<rparr>, ds))"

definition on_execution_context_created :: "'v json_ops \<Rightarrow> 'v cdp_event \<Rightarrow> fm_state \<Rightarrow> fm_state" where
  "on_execution_context_created J ev st =
     (let ctx = j_get J (ev_params ev) ''context'';
          ctx_id = Option.bind ctx (\<lambda>c. get_i64 J c ''id'');
          frame_id = Option.bind (Option.bind ctx (\<lambda>c. j_get J c ''auxData'')) (\<lambda>a. get_str J a ''frameId'')
      in case frame_id of None \<Rightarrow> st
         | Some fid \<Rightarrow>
           (case ctx_id of None \<Rightarrow> st
            | Some cid \<Rightarrow>
                let (fm, ds) = st in
                (fm\<lparr>fm_frames := hm_entry fid (\<lambda>r. r\<lparr>fr_execution_context_id := Some cid\<rparr>)
                     \<lparr>fr_frame_id = fid, fr_parent_frame = None, fr_execution_context_id = Some cid,
                      fr_target_id = None, fr_session_id = ev_session_id ev, fr_url = [], fr_name = [],
                      fr_is_main = False\<rparr> (fm_frames fm)\<rparr>, ds)))"

definition on_execution_context_destroyed :: "'v json_ops \<Rightarrow> 'v cdp_event \<Rightarrow> fm_state \<Rightarrow> fm_state" where
  "on_execution_context_destroyed J ev st =
     (case get_i64 J (ev_params ev) ''executionContextId'' of
        None \<Rightarrow> st
      | Some cid \<Rightarrow>
          let (fm, ds) = st in
          (fm\<lparr>fm_frames := hm_map_values
               (\<lambda>r. if fr_execution_context_id r = Some cid then r\<lparr>fr_execution_context_id := None\<rparr> else r)
               (fm_frames fm)\<rparr>, ds))"

definition on_execution_contexts_cleared :: "fm_state \<Rightarrow> fm_state" where
  "on_execution_contexts_cleared st =
     (let (fm, ds) = st in
      (fm\<lparr>fm_frames := hm_map_values (\<lambda>r. r\<lparr>fr_execution_context_id := None\<rparr>) (fm_frames fm)\<rparr>, ds))"

definition fm_on_event :: "'v json_ops \<Rightarrow> 'v cdp_event \<Rightarrow> fm_state \<Rightarrow> fm_state" where
  "fm_on_event J ev st =
     (let m = ev_method ev in
      if m = ''Page.frameAttached'' then on_frame_attached J ev st
      else if m = ''Page.frameNavigated'' then fm_on_frame_navigated J ev st
      else if m = ''Page.frameDetached'' then on_frame_detached J ev st
      else if m = ''Runtime.executionContextCreated'' then on_execution_context_created J ev st
      else if m = ''Runtime.executionContextDestroyed'' then on_execution_context_destroyed J ev st
      else if m = ''Runtime.executionContextsCleared'' then on_execution_contexts_cleared st
      else st)"

section \<open>Staleness, reconnect, trace\<close>

definition is_stale_for_frame :: "frame_manager \<Rightarrow> string \<Rightarrow> u64 \<Rightarrow> bool" where
  "is_stale_for_frame fm fid stored_version =
     (let cur = fm_frame_version fm fid in
      if cur = 0 \<and> stored_version = 0 then False else cur \<noteq> stored_version)"

definition fm_handle_reconnect :: "u64 \<Rightarrow> frame_manager \<Rightarrow> frame_manager" where
  "fm_handle_reconnect new_global fm = fm\<lparr>fm_frames := [], fm_frame_versions := []\<rparr>"

definition fm_trace_snapshot ::
  "'v json_ops \<Rightarrow> ((string \<times> frame_record) list \<Rightarrow> (string \<times> frame_record) list) \<Rightarrow> fm_state \<Rightarrow> 'v" where
  "fm_trace_snapshot J ord st =
     (let (fm, ds) = st;
          frames = map (\<lambda>r. j_obj J
            [(''frameId'', j_str J (fr_frame_id r)),
             (''parentFrame'', j_opt J (j_str J) (fr_parent_frame r)),
             (''executionContextId'', j_opt J (j_i64 J) (fr_execution_context_id r)),
             (''sessionId'', j_opt J (j_str J) (fr_session_id r)),
             (''url'', j_str J (fr_url r)),
             (''name'', j_str J (fr_name r)),
             (''isMain'', j_bool J (fr_is_main r)),
             (''frameVersion'', j_u64 J (fm_frame_version fm (fr_frame_id r)))]) (fm_list_frames ord fm)
      in j_obj J [(''frame_count'', j_u64 J (of_nat (length frames))), (''frames'', j_arr J frames),
                  (''frame_tree_version_global'', j_u64 J (ds_frame_tree_version ds))])"

section \<open>The frame an event bumps\<close>

definition frame_of_event :: "'v json_ops \<Rightarrow> 'v cdp_event \<Rightarrow> string option" where
  "frame_of_event J ev =
     (let m = ev_method ev;
          fid = (if m = ''Page.frameAttached'' \<or> m = ''Page.frameDetached''
                 then unwrap_or [] (get_str J (ev_params ev) ''frameId'')
                 else if m = ''Page.frameNavigated''
                 then unwrap_or [] (or_else (frame_param J (ev_params ev) ''id'')
                                            (get_str J (ev_params ev) ''frameId''))
                 else [])
      in if fid = [] then None else Some fid)"

lemma bump_for_frame_version:
  "fm_frame_version (fst (bump_for_frame fid (fm, ds))) f =
     (if f = fid then ds_frame_tree_version ds + 1 else fm_frame_version fm f)"
  "snd (bump_for_frame fid (fm, ds)) = ds\<lparr>ds_frame_tree_version := ds_frame_tree_version ds + 1\<rparr>"
  by (simp_all add: bump_for_frame_def bump_frame_tree_version_def fm_frame_version_def Let_def)

lemma bump_for_frame_frames: "fm_frames (fst (bump_for_frame fid (fm, ds))) = fm_frames fm"
  by (simp add: bump_for_frame_def bump_frame_tree_version_def Let_def)

lemma fm_version_frames_upd [simp]: "fm_frame_version (fm\<lparr>fm_frames := g\<rparr>) f = fm_frame_version fm f"
  by (simp add: fm_frame_version_def)

lemma fm_on_event_versions:
  "fm_frame_version (fst (fm_on_event J ev (fm, ds))) f =
     (if frame_of_event J ev = Some f then ds_frame_tree_version ds + 1 else fm_frame_version fm f)"
  "snd (fm_on_event J ev (fm, ds)) =
     (if frame_of_event J ev = None then ds else ds\<lparr>ds_frame_tree_version := ds_frame_tree_version ds + 1\<rparr>)"
  by (auto simp: fm_on_event_def frame_of_event_def on_frame_attached_def fm_on_frame_navigated_def
      on_frame_detached_def on_execution_context_created_def on_execution_context_destroyed_def
      on_execution_contexts_cleared_def Let_def bump_for_frame_version split_beta
      split: option.splits)

definition fm_run :: "'v json_ops \<Rightarrow> 'v cdp_event list \<Rightarrow> fm_state \<Rightarrow> fm_state" where
  "fm_run J evs st = foldl (\<lambda>st ev. fm_on_event J ev st) st evs"

lemma fm_run_simps [simp]:
  "fm_run J [] st = st" "fm_run J (ev # evs) st = fm_run J evs (fm_on_event J ev st)"
  "fm_run J (evs @ evs') st = fm_run J evs' (fm_run J evs st)"
  by (simp_all add: fm_run_def)

text \<open>Versions are bounded by the global counter, as long as it does not wrap.\<close>

definition versions_ok :: "fm_state \<Rightarrow> bool" where
  "versions_ok st = (\<forall>f. fm_frame_version (fst st) f \<le> ds_frame_tree_version (snd st))"

lemma unat_Suc_u64: "unat (w :: u64) < 2 ^ 64 - 1 \<Longrightarrow> unat (w + 1) = Suc (unat w)"
  by (subst unat_add_lem [THEN iffD1]) (simp_all)

lemma fm_on_event_ok:
  assumes "versions_ok st" "unat (ds_frame_tree_version (snd st)) < 2 ^ 64 - 1"
  shows "versions_ok (fm_on_event J ev st)
    \<and> unat (ds_frame_tree_version (snd (fm_on_event J ev st))) \<le> Suc (unat (ds_frame_tree_version (snd st)))
    \<and> ds_frame_tree_version (snd st) \<le> ds_frame_tree_version (snd (fm_on_event J ev st))"
proof -
  obtain fm ds where st: "st = (fm, ds)" by (cases st)
  have u: "unat (ds_frame_tree_version ds + 1) = Suc (unat (ds_frame_tree_version ds))"
    using assms(2) st by (intro unat_Suc_u64) simp
  then have le: "ds_frame_tree_version ds \<le> ds_frame_tree_version ds + 1" by (simp add: word_le_nat_alt)
  have "fm_frame_version fm f \<le> ds_frame_tree_version ds" for f
    using assms(1) st by (simp add: versions_ok_def)
  then have "fm_frame_version fm f \<le> ds_frame_tree_version ds + 1" for f
    using le order_trans by blast
  then show ?thesis
    using assms st u le by (simp add: versions_ok_def fm_on_event_versions)
qed

lemma fm_run_ok:
  assumes "versions_ok st" "unat (ds_frame_tree_version (snd st)) + length evs < 2 ^ 64"
  shows "versions_ok (fm_run J evs st)
    \<and> unat (ds_frame_tree_version (snd (fm_run J evs st))) \<le> unat (ds_frame_tree_version (snd st)) + length evs
    \<and> ds_frame_tree_version (snd st) \<le> ds_frame_tree_version (snd (fm_run J evs st))"
  using assms(2)
proof (induction evs rule: rev_induct)
  case Nil
  show ?case using assms(1) by simp
next
  case (snoc ev evs)
  then show ?case
    using fm_on_event_ok [of "fm_run J evs st" J ev] by (auto intro: order_trans)
qed

text \<open>The version of a frame after a run: unchanged without an event of that frame, else newer.\<close>

lemma fm_run_version:
  assumes "versions_ok st" "unat (ds_frame_tree_version (snd st)) + length evs < 2 ^ 64"
  shows "if \<exists>ev \<in> set evs. frame_of_event J ev = Some f
         then ds_frame_tree_version (snd st) < fm_frame_version (fst (fm_run J evs st)) f
         else fm_frame_version (fst (fm_run J evs st)) f = fm_frame_version (fst st) f"
  using assms(2)
proof (induction evs rule: rev_induct)
  case (snoc ev evs)
  let ?st = "fm_run J evs st"
  have ok: "unat (ds_frame_tree_version (snd ?st)) < 2 ^ 64 - 1"
    "ds_frame_tree_version (snd st) \<le> ds_frame_tree_version (snd ?st)"
    using fm_run_ok [OF assms(1), of evs J] snoc.prems by simp_all
  then have "ds_frame_tree_version (snd st) < ds_frame_tree_version (snd ?st) + 1"
    using unat_Suc_u64 [OF ok(1)] by (simp add: word_less_nat_alt word_le_nat_alt)
  then show ?case
    using snoc by (cases ?st) (auto simp: fm_on_event_versions split: if_splits)
qed simp

section \<open>Properties\<close>

text \<open>
  Staleness is per frame and exact. Take any run of events from a new manager and a reference
  that stores the version of its own frame after it. After any further events (fewer than
  \<open>2^64\<close> in all) the frame check reports the reference stale if and only if one of the further
  events attached, navigated or detached that very frame: events of other frames, execution
  contexts and unrelated methods never do.
\<close>

lemma frame_staleness_exact:
  assumes "unat (ds_frame_tree_version ds) + length evs1 + length evs2 < 2 ^ 64"
  shows "let st1 = fm_run J evs1 (frame_manager_new, ds); st2 = fm_run J evs2 st1 in
           is_stale_for_frame (fst st2) f (fm_frame_version (fst st1) f)
           = (\<exists>ev \<in> set evs2. frame_of_event J ev = Some f)"
proof -
  let ?st0 = "(frame_manager_new, ds)"
  let ?st1 = "fm_run J evs1 ?st0"
  have ok0: "versions_ok ?st0"
    by (simp add: versions_ok_def fm_frame_version_def frame_manager_new_def)
  have ok1: "versions_ok ?st1" "unat (ds_frame_tree_version (snd ?st1)) + length evs2 < 2 ^ 64"
    using fm_run_ok [OF ok0, of evs1 J] assms by simp_all
  have "fm_frame_version (fst ?st1) f \<le> ds_frame_tree_version (snd ?st1)"
    using ok1(1) by (simp add: versions_ok_def)
  then show ?thesis
    using fm_run_version [OF ok1, of J f] unfolding Let_def is_stale_for_frame_def
    by (metis leD order_le_less word_neq_0_conv)
qed

text \<open>
  A reconnect drops the frame tree, and from then on the frame check rejects every reference
  that stored a non-zero version, until its frame is seen again; the versions given out after the
  reconnect continue from the global counter, so no old reference becomes valid by coincidence.
\<close>

lemma frames_after_reconnect:
  assumes "unat (ds_frame_tree_version ds) + length evs < 2 ^ 64"
    and "v \<noteq> 0" "v \<le> ds_frame_tree_version ds"
  shows "fm_frame_count (fm_handle_reconnect g fm) = 0
         \<and> is_stale_for_frame (fst (fm_run J evs (fm_handle_reconnect g fm, ds))) f v"
proof -
  let ?st = "(fm_handle_reconnect g fm, ds)"
  have v0: "fm_frame_version (fst ?st) f' = 0" for f'
    by (simp add: fm_frame_version_def fm_handle_reconnect_def)
  then have ok: "versions_ok ?st" by (simp add: versions_ok_def)
  have "is_stale_for_frame (fst (fm_run J evs ?st)) f v"
    using fm_run_version [OF ok, of evs J f] assms v0 [of f]
    by (auto simp: is_stale_for_frame_def split: if_splits)
  then show ?thesis by (simp add: fm_frame_count_def fm_handle_reconnect_def)
qed

end
