(* ===== verification/Targets.thy ===== *)
theory Targets
  imports Dom_State Errors
begin

text \<open>
  \<open>src/browser_runtime/targets.rs\<close>: targets, flat sessions and the active target. The manager only
  reads the generation counters, so its operations take the \<open>DomState\<close> as an argument and return
  the manager. \<open>ord\<close> is the iteration order of the target map in that call, \<open>now\<close> the clock.
  The browser connection is represented by its liveness; a CDP call is the argument \<open>call\<close>.
\<close>

section \<open>References and records\<close>

record target_ref =
  tref_target_id :: string
  tref_target_generation :: u64

definition target_ref_is_valid :: "target_ref \<Rightarrow> u64 \<Rightarrow> bool" where
  "target_ref_is_valid r current_generation = (tref_target_generation r = current_generation)"

record session_ref =
  sref_session_id :: string
  sref_connection_generation :: u64

definition session_ref_is_valid :: "session_ref \<Rightarrow> u64 \<Rightarrow> bool" where
  "session_ref_is_valid r current_generation = (sref_connection_generation r = current_generation)"

datatype target_lifecycle = Created | Attached | Detached | Destroyed | Crashed | Navigated

fun target_lifecycle_as_str :: "target_lifecycle \<Rightarrow> string" where
  "target_lifecycle_as_str Created = ''created''"
| "target_lifecycle_as_str Attached = ''attached''"
| "target_lifecycle_as_str Detached = ''detached''"
| "target_lifecycle_as_str Destroyed = ''destroyed''"
| "target_lifecycle_as_str Crashed = ''crashed''"
| "target_lifecycle_as_str Navigated = ''navigated''"

record target_record =
  tr_target_id :: string
  tr_target_generation :: u64
  tr_session_id :: "string option"
  tr_connection_generation :: u64
  tr_url :: string
  tr_title :: string
  tr_target_type :: string
  tr_active :: bool
  tr_lifecycle :: target_lifecycle
  tr_created_at :: nat
  tr_crashed :: bool

definition target_record_ref :: "target_record \<Rightarrow> target_ref" where
  "target_record_ref r = \<lparr>tref_target_id = tr_target_id r, tref_target_generation = tr_target_generation r\<rparr>"

definition target_record_session_ref :: "target_record \<Rightarrow> session_ref option" where
  "target_record_session_ref r =
     map_option (\<lambda>s. \<lparr>sref_session_id = s, sref_connection_generation = tr_connection_generation r\<rparr>)
       (tr_session_id r)"

record target_manager =
  tm_targets :: "(string, target_record) hashmap"
  tm_session_to_target :: "(string, string) hashmap"
  tm_active_target_id :: "string option"
  tm_runtime :: "bool option"

definition target_manager_new :: "bool option \<Rightarrow> target_manager" where
  "target_manager_new runtime =
     \<lparr>tm_targets = [], tm_session_to_target = [], tm_active_target_id = None, tm_runtime = runtime\<rparr>"

definition tm_set_runtime :: "bool \<Rightarrow> target_manager \<Rightarrow> target_manager" where
  "tm_set_runtime alive tm = tm\<lparr>tm_runtime := Some alive\<rparr>"

type_synonym target_order = "(string \<times> target_record) list \<Rightarrow> (string \<times> target_record) list"

text \<open>\<open>if let Some(rec) = g.get_mut(id) { rec.active = b }\<close>.\<close>

definition set_active_flag :: "bool \<Rightarrow> string \<Rightarrow> (string, target_record) hashmap \<Rightarrow> (string, target_record) hashmap" where
  "set_active_flag b tid g = hm_modify tid (\<lambda>r. r\<lparr>tr_active := b\<rparr>) g"

section \<open>Event handlers\<close>

definition on_target_created ::
  "'v json_ops \<Rightarrow> nat \<Rightarrow> 'v cdp_event \<Rightarrow> dom_state \<Rightarrow> target_manager \<Rightarrow> target_manager" where
  "on_target_created J now ev ds tm =
     (let info = unwrap_or (j_null J) (j_get J (ev_params ev) ''targetInfo'');
          tid = unwrap_or [] (or_else (get_str J info ''targetId'') (get_str J (ev_params ev) ''targetId''))
      in if tid = [] then tm
         else
           let ttype = unwrap_or ''page'' (get_str J info ''type'');
               url = unwrap_or [] (get_str J info ''url'');
               title = unwrap_or [] (get_str J info ''title'');
               cur_tg = ds_target_generation ds;
               cur_cg = ds_runtime_generation ds;
               g = hm_entry tid
                     (\<lambda>r. let r = r\<lparr>tr_url := url, tr_title := title, tr_target_type := ttype\<rparr> in
                          if tr_lifecycle r = Destroyed
                          then r\<lparr>tr_lifecycle := Created, tr_crashed := False,
                                 tr_target_generation := cur_tg, tr_connection_generation := cur_cg\<rparr>
                          else r)
                     \<lparr>tr_target_id = tid, tr_target_generation = cur_tg, tr_session_id = None,
                      tr_connection_generation = cur_cg, tr_url = url, tr_title = title,
                      tr_target_type = ttype, tr_active = False, tr_lifecycle = Created,
                      tr_created_at = now, tr_crashed = False\<rparr>
                     (tm_targets tm)
           in if tm_active_target_id tm = None
              then tm\<lparr>tm_active_target_id := Some tid, tm_targets := set_active_flag True tid g\<rparr>
              else tm\<lparr>tm_targets := g\<rparr>)"

definition on_target_destroyed ::
  "'v json_ops \<Rightarrow> target_order \<Rightarrow> 'v cdp_event \<Rightarrow> target_manager \<Rightarrow> target_manager" where
  "on_target_destroyed J ord ev tm =
     (let tid = unwrap_or [] (get_str J (ev_params ev) ''targetId'') in
      if tid = [] then tm
      else
        let m = (case Option.bind (hm_get (tm_targets tm) tid) tr_session_id of
                   None \<Rightarrow> tm_session_to_target tm
                 | Some sid \<Rightarrow> hm_remove sid (tm_session_to_target tm));
            targets = hm_remove tid (tm_targets tm);
            (active, targets) =
              (if tm_active_target_id tm = Some tid then
                 (case hm_first_key ord targets of
                    None \<Rightarrow> (None, targets)
                  | Some next \<Rightarrow> (Some next, set_active_flag True next targets))
               else (tm_active_target_id tm, targets))
        in tm\<lparr>tm_targets := targets, tm_active_target_id := active,
              tm_session_to_target := hm_retain (\<lambda>_ t. t \<noteq> tid) m\<rparr>)"

definition on_target_crashed ::
  "'v json_ops \<Rightarrow> nat \<Rightarrow> 'v cdp_event \<Rightarrow> dom_state \<Rightarrow> target_manager \<Rightarrow> target_manager" where
  "on_target_crashed J now ev ds tm =
     (let tid = unwrap_or [] (get_str J (ev_params ev) ''targetId'') in
      if tid = [] then tm
      else
        let g = hm_entry tid
                  (\<lambda>r. r\<lparr>tr_crashed := True, tr_lifecycle := Crashed, tr_active := False\<rparr>)
                  \<lparr>tr_target_id = tid, tr_target_generation = ds_target_generation ds, tr_session_id = None,
                   tr_connection_generation = ds_runtime_generation ds, tr_url = [], tr_title = [],
                   tr_target_type = ''page'', tr_active = False, tr_lifecycle = Crashed,
                   tr_created_at = now, tr_crashed = True\<rparr>
                  (tm_targets tm)
        in tm\<lparr>tm_targets := g,
              tm_active_target_id := (if tm_active_target_id tm = Some tid then None else tm_active_target_id tm)\<rparr>)"

definition on_attached ::
  "'v json_ops \<Rightarrow> nat \<Rightarrow> 'v cdp_event \<Rightarrow> dom_state \<Rightarrow> target_manager \<Rightarrow> target_manager" where
  "on_attached J now ev ds tm =
     (let sid = unwrap_or [] (get_str J (ev_params ev) ''sessionId'') in
      if sid = [] then tm
      else
        let info = (\<lambda>k. Option.bind (j_get J (ev_params ev) ''targetInfo'') (\<lambda>v. get_str J v k));
            tid = unwrap_or [] (or_else (info ''targetId'') (get_str J (ev_params ev) ''targetId''));
            cur_cg = ds_runtime_generation ds
        in if tid = [] then tm
           else
             let upd = (\<lambda>r. r\<lparr>tr_session_id := Some sid, tr_connection_generation := cur_cg,
                              tr_lifecycle := Attached\<rparr>);
                 g = hm_entry tid upd
                       (upd \<lparr>tr_target_id = tid, tr_target_generation = ds_target_generation ds,
                             tr_session_id = None, tr_connection_generation = cur_cg,
                             tr_url = unwrap_or [] (info ''url''), tr_title = unwrap_or [] (info ''title''),
                             tr_target_type = unwrap_or ''page'' (info ''type''), tr_active = False,
                             tr_lifecycle = Created, tr_created_at = now, tr_crashed = False\<rparr>)
                       (tm_targets tm);
                 tm = tm\<lparr>tm_targets := g, tm_session_to_target := hm_insert sid tid (tm_session_to_target tm)\<rparr>
             in if tm_active_target_id tm = None
                then tm\<lparr>tm_active_target_id := Some tid, tm_targets := set_active_flag True tid (tm_targets tm)\<rparr>
                else tm)"

text \<open>The target promoted after a detach: the first with a session, else the first at all.\<close>

definition promote_after_detach :: "target_order \<Rightarrow> (string, target_record) hashmap \<Rightarrow> string option" where
  "promote_after_detach ord g =
     (case find (\<lambda>(_, r). tr_session_id r \<noteq> None) (ord g) of
        Some (tid, _) \<Rightarrow> Some tid
      | None \<Rightarrow> hm_first_key ord g)"

definition on_detached ::
  "'v json_ops \<Rightarrow> target_order \<Rightarrow> 'v cdp_event \<Rightarrow> target_manager \<Rightarrow> target_manager" where
  "on_detached J ord ev tm =
     (let sid = unwrap_or [] (get_str J (ev_params ev) ''sessionId'') in
      if sid = [] then tm
      else
        case or_else (hm_get (tm_session_to_target tm) sid) (get_str J (ev_params ev) ''targetId'') of
          None \<Rightarrow> tm\<lparr>tm_session_to_target := hm_remove sid (tm_session_to_target tm)\<rparr>
        | Some tid \<Rightarrow>
            let g = hm_modify tid
                      (\<lambda>r. if tr_session_id r = Some sid
                           then r\<lparr>tr_session_id := None, tr_lifecycle := Detached, tr_active := False\<rparr>
                           else r)
                      (tm_targets tm);
                tm = tm\<lparr>tm_targets := g, tm_session_to_target := hm_remove sid (tm_session_to_target tm)\<rparr>
            in if tm_active_target_id tm = Some tid then
                 (case promote_after_detach ord g of
                    None \<Rightarrow> tm\<lparr>tm_active_target_id := None\<rparr>
                  | Some t \<Rightarrow> tm\<lparr>tm_active_target_id := Some t, tm_targets := set_active_flag True t g\<rparr>)
               else tm)"

definition tm_on_frame_navigated ::
  "'v json_ops \<Rightarrow> 'v cdp_event \<Rightarrow> target_manager \<Rightarrow> target_manager" where
  "tm_on_frame_navigated J ev tm =
     (if \<not> is_main_frame J (ev_params ev) then tm
      else
        let field = (\<lambda>k. unwrap_or [] (Option.bind (j_get J (ev_params ev) ''frame'') (\<lambda>f. get_str J f k)));
            url = field ''url'';
            title_like = field ''name''
        in case Option.bind (ev_session_id ev) (hm_get (tm_session_to_target tm)) of
             Some tid \<Rightarrow>
               tm\<lparr>tm_targets := hm_modify tid
                    (\<lambda>r. let r = (if url \<noteq> [] then r\<lparr>tr_url := url\<rparr> else r);
                             r = (if title_like \<noteq> [] then r\<lparr>tr_title := title_like\<rparr> else r)
                         in if tr_lifecycle r \<noteq> Crashed \<and> tr_lifecycle r \<noteq> Destroyed
                            then r\<lparr>tr_lifecycle := Navigated\<rparr> else r)
                    (tm_targets tm)\<rparr>
           | None \<Rightarrow>
               (if ev_session_id ev = None then
                  (case tm_active_target_id tm of
                     None \<Rightarrow> tm
                   | Some tid \<Rightarrow>
                       tm\<lparr>tm_targets := hm_modify tid (\<lambda>r. if url \<noteq> [] then r\<lparr>tr_url := url\<rparr> else r)
                            (tm_targets tm)\<rparr>)
                else tm))"

definition tm_on_event ::
  "'v json_ops \<Rightarrow> target_order \<Rightarrow> nat \<Rightarrow> 'v cdp_event \<Rightarrow> dom_state \<Rightarrow> target_manager \<Rightarrow> target_manager" where
  "tm_on_event J ord now ev ds tm =
     (let m = ev_method ev in
      if m = ''Target.targetCreated'' then on_target_created J now ev ds tm
      else if m = ''Target.targetDestroyed'' then on_target_destroyed J ord ev tm
      else if m = ''Target.targetCrashed'' then on_target_crashed J now ev ds tm
      else if m = ''Target.attachedToTarget'' then on_attached J now ev ds tm
      else if m = ''Target.detachedFromTarget'' then on_detached J ord ev tm
      else if m = ''Page.frameNavigated'' then tm_on_frame_navigated J ev tm
      else tm)"

section \<open>Queries and reference checks\<close>

definition tm_list_targets :: "target_order \<Rightarrow> target_manager \<Rightarrow> target_record list" where
  "tm_list_targets ord tm = hm_values ord (tm_targets tm)"

definition tm_target_count :: "target_manager \<Rightarrow> nat" where
  "tm_target_count tm = length (tm_targets tm)"

definition tm_active_target :: "target_manager \<Rightarrow> target_record option" where
  "tm_active_target tm = Option.bind (tm_active_target_id tm) (hm_get (tm_targets tm))"

definition tm_get_target :: "target_manager \<Rightarrow> string \<Rightarrow> target_record option" where
  "tm_get_target tm tid = hm_get (tm_targets tm) tid"

definition is_target_ref_valid :: "dom_state \<Rightarrow> target_manager \<Rightarrow> target_ref \<Rightarrow> bool" where
  "is_target_ref_valid ds tm r =
     (if \<not> target_ref_is_valid r (ds_target_generation ds) then False
      else hm_contains (tm_targets tm) (tref_target_id r))"

definition is_session_ref_valid :: "dom_state \<Rightarrow> target_manager \<Rightarrow> session_ref \<Rightarrow> bool" where
  "is_session_ref_valid ds tm r =
     (if \<not> session_ref_is_valid r (ds_runtime_generation ds) then False
      else hm_contains (tm_session_to_target tm) (sref_session_id r))"

definition check_session_ref :: "dom_state \<Rightarrow> target_manager \<Rightarrow> session_ref \<Rightarrow> unit runtime_result" where
  "check_session_ref ds tm r =
     (if \<not> session_ref_is_valid r (ds_runtime_generation ds) then
        Inl (InvalidResponse (''stale SessionRef: session '' @ sref_session_id r @ '' generation ''
              @ show_u64 (sref_connection_generation r) @ '' != current '' @ show_u64 (ds_runtime_generation ds)))
      else if \<not> hm_contains (tm_session_to_target tm) (sref_session_id r) then
        Inl (InvalidResponse (''unknown session '' @ sref_session_id r))
      else Inr ())"

definition check_session_id ::
  "target_order \<Rightarrow> dom_state \<Rightarrow> target_manager \<Rightarrow> string \<Rightarrow> unit runtime_result" where
  "check_session_id ord ds tm sid =
     (let ref_of = (\<lambda>r. \<lparr>sref_session_id = sid, sref_connection_generation = tr_connection_generation r\<rparr>);
          mapped = Option.bind (hm_get (tm_session_to_target tm) sid) (hm_get (tm_targets tm));
          unknown = Inl (InvalidResponse (''unknown session '' @ sid));
          scan = (case find (\<lambda>r. tr_session_id r = Some sid) (hm_values ord (tm_targets tm)) of
                    Some r \<Rightarrow> check_session_ref ds tm (ref_of r)
                  | None \<Rightarrow>
                      (if \<not> is_session_ref_valid ds tm
                             \<lparr>sref_session_id = sid, sref_connection_generation = ds_runtime_generation ds\<rparr>
                       then unknown else unknown))
      in case mapped of
           Some r \<Rightarrow> if tr_session_id r = Some sid then check_session_ref ds tm (ref_of r) else scan
         | None \<Rightarrow> scan)"

definition is_session_id_valid :: "target_order \<Rightarrow> dom_state \<Rightarrow> target_manager \<Rightarrow> string \<Rightarrow> bool" where
  "is_session_id_valid ord ds tm sid = is_ok (check_session_id ord ds tm sid)"

definition check_target_ref :: "dom_state \<Rightarrow> target_manager \<Rightarrow> target_ref \<Rightarrow> unit runtime_result" where
  "check_target_ref ds tm r =
     (if \<not> target_ref_is_valid r (ds_target_generation ds) then
        Inl (InvalidResponse (''stale TargetRef: target '' @ tref_target_id r @ '' generation ''
              @ show_u64 (tref_target_generation r) @ '' != current '' @ show_u64 (ds_target_generation ds)))
      else if \<not> hm_contains (tm_targets tm) (tref_target_id r) then
        Inl (InvalidResponse (''unknown target '' @ tref_target_id r))
      else Inr ())"

section \<open>Commands\<close>

definition switch_target ::
  "dom_state \<Rightarrow> string \<Rightarrow> target_manager \<Rightarrow> target_record runtime_result \<times> target_manager" where
  "switch_target ds tid tm =
     (case hm_get (tm_targets tm) tid of
        None \<Rightarrow> (Inl (InvalidResponse (''unknown target '' @ tid)), tm)
      | Some rec \<Rightarrow>
          if tr_crashed rec then
            (Inl (InvalidResponse (''target '' @ tid @ '' is crashed'')), tm)
          else if tr_lifecycle rec = Destroyed then
            (Inl (InvalidResponse (''target '' @ tid @ '' is destroyed'')), tm)
          else if tr_target_generation rec \<noteq> ds_target_generation ds then
            (Inl (InvalidResponse (''stale target generation: target '' @ tid @ '' gen ''
                   @ show_u64 (tr_target_generation rec) @ '' != current '' @ show_u64 (ds_target_generation ds))), tm)
          else
            let g = (case tm_active_target_id tm of
                       None \<Rightarrow> tm_targets tm
                     | Some old \<Rightarrow> set_active_flag False old (tm_targets tm));
                tm' = tm\<lparr>tm_active_target_id := Some tid, tm_targets := set_active_flag True tid g\<rparr>
            in case tm_get_target tm' tid of
                 Some r \<Rightarrow> (Inr r, tm')
               | None \<Rightarrow> (Inl (InvalidResponse (''target '' @ tid @ '' vanished during switch'')), tm'))"

definition switch_target_ref ::
  "dom_state \<Rightarrow> target_ref \<Rightarrow> target_manager \<Rightarrow> target_record runtime_result \<times> target_manager" where
  "switch_target_ref ds r tm =
     (case check_target_ref ds tm r of
        Inl e \<Rightarrow> (Inl e, tm)
      | Inr _ \<Rightarrow> switch_target ds (tref_target_id r) tm)"

definition attach_target ::
  "'v json_ops \<Rightarrow> (string option \<Rightarrow> string \<Rightarrow> 'v \<Rightarrow> 'v runtime_result) \<Rightarrow> target_manager \<Rightarrow> string \<Rightarrow> 'v runtime_result" where
  "attach_target J call tm tid =
     (case tm_runtime tm of
        None \<Rightarrow> Inl (RuntimeDead ''no browser connection for attach'')
      | Some alive \<Rightarrow>
          if \<not> alive then Inl (RuntimeDead ''browser connection is dead'')
          else call None ''Target.attachToTarget''
                 (j_obj J [(''targetId'', j_str J tid), (''flatten'', j_bool J True)]))"

definition detach_target ::
  "'v json_ops \<Rightarrow> (string option \<Rightarrow> string \<Rightarrow> 'v \<Rightarrow> 'v runtime_result) \<Rightarrow> target_order \<Rightarrow> dom_state
     \<Rightarrow> target_manager \<Rightarrow> string \<Rightarrow> 'v runtime_result" where
  "detach_target J call ord ds tm sid =
     try_then (check_session_id ord ds tm sid) (\<lambda>_.
       case tm_runtime tm of
         None \<Rightarrow> Inl (RuntimeDead ''no browser connection for detach'')
       | Some alive \<Rightarrow>
           if \<not> alive then Inl (RuntimeDead ''browser connection is dead'')
           else call None ''Target.detachFromTarget'' (j_obj J [(''sessionId'', j_str J sid)]))"

definition sync_target_info ::
  "'v json_ops \<Rightarrow> nat \<Rightarrow> dom_state \<Rightarrow> 'v \<Rightarrow> (string, target_record) hashmap \<Rightarrow> (string, target_record) hashmap" where
  "sync_target_info J now ds info g =
     (case get_str J info ''targetId'' of
        None \<Rightarrow> g
      | Some tid \<Rightarrow>
          let ttype = unwrap_or ''page'' (get_str J info ''type'');
              url = unwrap_or [] (get_str J info ''url'');
              title = unwrap_or [] (get_str J info ''title'')
          in hm_entry tid (\<lambda>r. r\<lparr>tr_url := url, tr_title := title, tr_target_type := ttype\<rparr>)
               \<lparr>tr_target_id = tid, tr_target_generation = ds_target_generation ds, tr_session_id = None,
                tr_connection_generation = ds_runtime_generation ds, tr_url = url, tr_title = title,
                tr_target_type = ttype, tr_active = False, tr_lifecycle = Created, tr_created_at = now,
                tr_crashed = False\<rparr> g)"

definition sync_from_target_infos ::
  "'v json_ops \<Rightarrow> target_order \<Rightarrow> nat \<Rightarrow> dom_state \<Rightarrow> 'v list \<Rightarrow> target_manager \<Rightarrow> target_manager" where
  "sync_from_target_infos J ord now ds infos tm =
     (let g = foldl (\<lambda>g info. sync_target_info J now ds info g) (tm_targets tm) infos in
      if tm_active_target_id tm = None then
        (case hm_first_key ord g of
           None \<Rightarrow> tm\<lparr>tm_targets := g\<rparr>
         | Some first \<Rightarrow> tm\<lparr>tm_active_target_id := Some first, tm_targets := set_active_flag True first g\<rparr>)
      else tm\<lparr>tm_targets := g\<rparr>)"

definition tm_handle_reconnect :: "target_order \<Rightarrow> u64 \<Rightarrow> u64 \<Rightarrow> target_manager \<Rightarrow> target_manager" where
  "tm_handle_reconnect ord new_tg new_cg tm =
     (let g = hm_map_values
                (\<lambda>r. if tr_lifecycle r = Destroyed then r
                     else r\<lparr>tr_target_generation := new_tg, tr_connection_generation := new_cg,
                            tr_session_id := None\<rparr>)
                (tm_targets tm);
          tm = tm\<lparr>tm_targets := g, tm_session_to_target := [], tm_active_target_id := None\<rparr>
      in case hm_first_key ord g of
           None \<Rightarrow> tm
         | Some first \<Rightarrow> tm\<lparr>tm_active_target_id := Some first, tm_targets := set_active_flag True first g\<rparr>)"

definition count_generation_mismatches :: "target_order \<Rightarrow> u64 \<Rightarrow> target_manager \<Rightarrow> nat" where
  "count_generation_mismatches ord expected tm =
     length (filter (\<lambda>r. tr_lifecycle r \<noteq> Destroyed \<and> tr_target_generation r \<noteq> expected)
       (hm_values ord (tm_targets tm)))"

definition tm_trace_snapshot :: "'v json_ops \<Rightarrow> target_order \<Rightarrow> dom_state \<Rightarrow> target_manager \<Rightarrow> 'v" where
  "tm_trace_snapshot J ord ds tm =
     (let targets = tm_list_targets ord tm in
      j_obj J
       [(''target_count'', j_u64 J (of_nat (length targets))),
        (''targets'', j_arr J (map (\<lambda>r. j_obj J
          [(''targetId'', j_str J (tr_target_id r)),
           (''sessionId'', j_opt J (j_str J) (tr_session_id r)),
           (''target_generation'', j_u64 J (tr_target_generation r)),
           (''connection_generation'', j_u64 J (tr_connection_generation r)),
           (''url'', j_str J (tr_url r)),
           (''title'', j_str J (tr_title r)),
           (''type'', j_str J (tr_target_type r)),
           (''lifecycle'', j_str J (target_lifecycle_as_str (tr_lifecycle r))),
           (''active'', j_bool J (tr_active r)),
           (''crashed'', j_bool J (tr_crashed r))]) targets)),
        (''active_target'', j_opt J (\<lambda>r. j_str J (tr_target_id r)) (tm_active_target tm)),
        (''current_target_generation'', j_u64 J (ds_target_generation ds)),
        (''current_connection_generation'', j_u64 J (ds_runtime_generation ds))])"

end
