(* ===== verification/Targets_Inv.thy ===== *)
theory Targets_Inv
  imports Targets
begin

text \<open>
  The target manager's invariant, its preservation by every event and command, and what holds of
  references across a reconnect.
\<close>

section \<open>The invariant\<close>

text \<open>
  The maps have distinct keys, a record carries its own key, no record stays Destroyed, a session is
  mapped to a tracked target, and the active target is tracked and flagged active.
\<close>

definition targets_ok :: "(string, target_record) hashmap \<Rightarrow> bool" where
  "targets_ok g = (hm_ok g \<and> (\<forall>t r. hm_get g t = Some r \<longrightarrow> tr_target_id r = t \<and> tr_lifecycle r \<noteq> Destroyed))"

definition sessions_ok :: "(string, target_record) hashmap \<Rightarrow> (string, string) hashmap \<Rightarrow> bool" where
  "sessions_ok g m = (hm_ok m \<and> (\<forall>s t. hm_get m s = Some t \<longrightarrow> hm_get g t \<noteq> None))"

definition active_ok :: "(string, target_record) hashmap \<Rightarrow> string option \<Rightarrow> bool" where
  "active_ok g a = (\<forall>t. a = Some t \<longrightarrow> (\<exists>r. hm_get g t = Some r \<and> tr_active r))"

definition tm_inv :: "target_manager \<Rightarrow> bool" where
  "tm_inv tm = (targets_ok (tm_targets tm) \<and> sessions_ok (tm_targets tm) (tm_session_to_target tm)
                \<and> active_ok (tm_targets tm) (tm_active_target_id tm))"

lemma tm_inv_new: "tm_inv (target_manager_new rt)"
  by (simp add: tm_inv_def target_manager_new_def targets_ok_def sessions_ok_def active_ok_def)

lemma set_active_flag_get [simp]:
  "hm_get (set_active_flag b t g) u = (if u = t then map_option (\<lambda>r. r\<lparr>tr_active := b\<rparr>) (hm_get g u) else hm_get g u)"
  by (simp add: set_active_flag_def)

lemma hm_ok_set_active_flag [simp]: "hm_ok g \<Longrightarrow> hm_ok (set_active_flag b t g)"
  by (simp add: set_active_flag_def)

text \<open>Each conjunct under the map operations the handlers use.\<close>

lemma targets_ok_flag: "targets_ok g \<Longrightarrow> targets_ok (set_active_flag b t g)"
  by (auto simp: targets_ok_def)

lemma targets_ok_remove: "targets_ok g \<Longrightarrow> targets_ok (hm_remove t g)"
  by (simp add: targets_ok_def)

lemma targets_ok_modify:
  "targets_ok g \<Longrightarrow> (\<And>r. tr_target_id (f r) = tr_target_id r) \<Longrightarrow>
   (\<And>r. tr_lifecycle r \<noteq> Destroyed \<Longrightarrow> tr_lifecycle (f r) \<noteq> Destroyed) \<Longrightarrow> targets_ok (hm_modify t f g)"
  by (auto simp: targets_ok_def)

lemma targets_ok_entry:
  "targets_ok g \<Longrightarrow> (\<And>r. tr_target_id (f r) = tr_target_id r) \<Longrightarrow>
   (\<And>r. tr_lifecycle r \<noteq> Destroyed \<Longrightarrow> tr_lifecycle (f r) \<noteq> Destroyed) \<Longrightarrow>
   tr_target_id v = t \<Longrightarrow> tr_lifecycle v \<noteq> Destroyed \<Longrightarrow> targets_ok (hm_entry t f v g)"
  by (auto simp: targets_ok_def split: option.splits)

lemma sessions_ok_mono:
  "sessions_ok g m \<Longrightarrow> (\<And>t. hm_get g t \<noteq> None \<Longrightarrow> hm_get g' t \<noteq> None) \<Longrightarrow> sessions_ok g' m"
  by (auto simp: sessions_ok_def)

lemma sessions_ok_remove_session: "sessions_ok g m \<Longrightarrow> sessions_ok g (hm_remove s m)"
  by (simp add: sessions_ok_def)

lemma active_ok_flag: "hm_get g t \<noteq> None \<Longrightarrow> active_ok (set_active_flag True t g) (Some t)"
  by (auto simp: active_ok_def)

lemma active_ok_None [simp]: "active_ok g None"
  by (simp add: active_ok_def)

lemma active_ok_pres:
  "active_ok g a \<Longrightarrow> (\<And>t r. a = Some t \<Longrightarrow> hm_get g t = Some r \<Longrightarrow> tr_active r \<Longrightarrow>
     \<exists>r'. hm_get g' t = Some r' \<and> tr_active r') \<Longrightarrow> active_ok g' a"
  by (auto simp: active_ok_def)

lemmas tm_ok_intros = targets_ok_flag targets_ok_remove targets_ok_modify targets_ok_entry
  sessions_ok_remove_session active_ok_flag

lemma first_key_get: "iter_order ord \<Longrightarrow> hm_first_key ord g = Some k \<Longrightarrow> hm_get g k \<noteq> None"
  using hm_first_key_Some by fastforce

lemma promote_after_detach_get:
  assumes "iter_order ord" "promote_after_detach ord g = Some t"
  shows "hm_get g t \<noteq> None"
proof (cases "find (\<lambda>(_, r). tr_session_id r \<noteq> None) (ord g)")
  case None
  then show ?thesis using assms first_key_get by (simp add: promote_after_detach_def)
next
  case (Some p)
  have t: "t = fst p"
    using assms(2) unfolding promote_after_detach_def Some by (cases p) simp
  have "p \<in> set (ord g)"
    using Some by (metis (no_types, lifting) find_Some_iff nth_mem)
  then have "p \<in> set g" by (simp only: iter_order_set [OF assms(1)])
  then have "t \<in> fst ` set g" by (simp add: t)
  then show ?thesis by (simp add: hm_get_def map_of_eq_None_iff)
qed

section \<open>Preservation\<close>

lemma on_target_created_inv: "tm_inv tm \<Longrightarrow> tm_inv (on_target_created J now ev ds tm)"
  by (auto simp: on_target_created_def Let_def tm_inv_def intro!: tm_ok_intros
      elim!: sessions_ok_mono active_ok_pres)

lemma on_target_crashed_inv: "tm_inv tm \<Longrightarrow> tm_inv (on_target_crashed J now ev ds tm)"
  by (auto simp: on_target_crashed_def Let_def tm_inv_def intro!: tm_ok_intros
      elim!: sessions_ok_mono active_ok_pres)

lemma sessions_ok_insert:
  "sessions_ok g m \<Longrightarrow> hm_get g t \<noteq> None \<Longrightarrow> sessions_ok g (hm_insert s t m)"
  by (simp add: sessions_ok_def)

lemma on_attached_inv: "tm_inv tm \<Longrightarrow> tm_inv (on_attached J now ev ds tm)"
  by (auto simp: on_attached_def Let_def tm_inv_def intro!: tm_ok_intros sessions_ok_insert
      elim!: sessions_ok_mono active_ok_pres)

lemma tm_inv_modify:
  assumes "tm_inv tm" "\<And>r. tr_target_id (f r) = tr_target_id r" "\<And>r. tr_active (f r) = tr_active r"
    "\<And>r. tr_lifecycle r \<noteq> Destroyed \<Longrightarrow> tr_lifecycle (f r) \<noteq> Destroyed"
  shows "tm_inv (tm\<lparr>tm_targets := hm_modify tid f (tm_targets tm)\<rparr>)"
  using assms by (auto simp: tm_inv_def intro!: targets_ok_modify elim!: sessions_ok_mono active_ok_pres)

lemma tm_on_frame_navigated_inv: "tm_inv tm \<Longrightarrow> tm_inv (tm_on_frame_navigated J ev tm)"
  unfolding tm_on_frame_navigated_def Let_def
  by (auto intro!: tm_inv_modify split: option.split if_splits)

lemma sessions_ok_destroyed:
  "sessions_ok g m \<Longrightarrow> sessions_ok (hm_remove t g) (hm_retain (\<lambda>_ u. u \<noteq> t) m)"
  by (auto simp: sessions_ok_def hm_get_retain split: option.splits if_splits)

lemma on_target_destroyed_inv:
  assumes "iter_order ord" "tm_inv tm"
  shows "tm_inv (on_target_destroyed J ord ev tm)"
proof -
  define tid where "tid = unwrap_or [] (get_str J (ev_params ev) ''targetId'')"
  define m where "m = (case Option.bind (hm_get (tm_targets tm) tid) tr_session_id of
      None \<Rightarrow> tm_session_to_target tm | Some sid \<Rightarrow> hm_remove sid (tm_session_to_target tm))"
  define g where "g = hm_remove tid (tm_targets tm)"
  have "sessions_ok (tm_targets tm) m"
    using assms(2) by (auto simp: m_def tm_inv_def sessions_ok_remove_session split: option.splits)
  then have s: "sessions_ok g (hm_retain (\<lambda>_ u. u \<noteq> tid) m)"
    unfolding g_def by (rule sessions_ok_destroyed)
  have t: "targets_ok g" using assms(2) by (simp add: g_def tm_inv_def targets_ok_remove)
  have a: "active_ok g a" if "a = tm_active_target_id tm" "a \<noteq> Some tid" for a
    using assms(2) that by (auto simp: g_def tm_inv_def active_ok_def)
  show ?thesis
    using s t a first_key_get [OF assms(1), of g] assms(2)
    unfolding on_target_destroyed_def tid_def [symmetric] Let_def m_def [symmetric] g_def [symmetric]
    by (auto simp: tm_inv_def intro!: tm_ok_intros elim!: sessions_ok_mono split: option.splits)
qed

lemma on_detached_inv:
  assumes "iter_order ord" "tm_inv tm"
  shows "tm_inv (on_detached J ord ev tm)"
proof -
  define sid where "sid = unwrap_or [] (get_str J (ev_params ev) ''sessionId'')"
  define f :: "target_record \<Rightarrow> target_record" where "f = (\<lambda>r. if tr_session_id r = Some sid
      then r\<lparr>tr_session_id := None, tr_lifecycle := Detached, tr_active := False\<rparr> else r)"
  have t: "targets_ok (hm_modify tid f (tm_targets tm))" for tid
    using assms(2) by (auto simp: tm_inv_def f_def intro!: targets_ok_modify split: if_splits)
  have s: "sessions_ok (hm_modify tid f (tm_targets tm)) (hm_remove sid (tm_session_to_target tm))" for tid
    using assms(2) by (auto simp: tm_inv_def intro!: sessions_ok_remove_session elim!: sessions_ok_mono)
  have a: "active_ok (hm_modify tid f (tm_targets tm)) (tm_active_target_id tm)"
    if "tm_active_target_id tm \<noteq> Some tid" for tid
    using assms(2) that by (auto simp: tm_inv_def elim!: active_ok_pres)
  have p: "tm_inv (tm\<lparr>tm_targets := set_active_flag True u g, tm_session_to_target := m, tm_active_target_id := Some u\<rparr>)"
    if "targets_ok g" "sessions_ok g m" "promote_after_detach ord g = Some u" for g m u
    using that promote_after_detach_get [OF assms(1) that(3)]
    by (auto simp: tm_inv_def intro!: targets_ok_flag active_ok_flag elim!: sessions_ok_mono)
  have n: "tm_inv (tm\<lparr>tm_session_to_target := hm_remove sid (tm_session_to_target tm)\<rparr>)"
    using assms(2) by (simp add: tm_inv_def sessions_ok_remove_session)
  show ?thesis
    unfolding on_detached_def sid_def [symmetric] Let_def f_def [symmetric]
    using n t s a p [OF t s] assms(2) by (auto simp: tm_inv_def split: option.split)
qed

lemma tm_on_event_inv: "iter_order ord \<Longrightarrow> tm_inv tm \<Longrightarrow> tm_inv (tm_on_event J ord now ev ds tm)"
  by (simp add: tm_on_event_def Let_def on_target_created_inv on_target_destroyed_inv on_target_crashed_inv
      on_attached_inv on_detached_inv tm_on_frame_navigated_inv)

lemma switch_target_inv: "tm_inv tm \<Longrightarrow> tm_inv (snd (switch_target ds tid tm))"
  by (auto simp: switch_target_def Let_def tm_inv_def tm_get_target_def intro!: tm_ok_intros
      elim!: sessions_ok_mono split: option.splits)

lemma sync_target_info_ok:
  "targets_ok g \<Longrightarrow> targets_ok (sync_target_info J now ds info g)
     \<and> (\<forall>t r. hm_get g t = Some r \<longrightarrow> (\<exists>r'. hm_get (sync_target_info J now ds info g) t = Some r' \<and> tr_active r' = tr_active r))"
  by (auto simp: sync_target_info_def Let_def intro!: targets_ok_entry split: option.splits)

lemma sync_infos_ok:
  "targets_ok g \<Longrightarrow> targets_ok (foldl (\<lambda>g info. sync_target_info J now ds info g) g infos)
     \<and> (\<forall>t r. hm_get g t = Some r \<longrightarrow>
          (\<exists>r'. hm_get (foldl (\<lambda>g info. sync_target_info J now ds info g) g infos) t = Some r' \<and> tr_active r' = tr_active r))"
proof (induction infos arbitrary: g)
  case (Cons info infos)
  let ?g = "sync_target_info J now ds info g"
  have 1: "targets_ok ?g" "\<And>t r. hm_get g t = Some r \<Longrightarrow> \<exists>r'. hm_get ?g t = Some r' \<and> tr_active r' = tr_active r"
    using sync_target_info_ok [OF Cons.prems, of J now ds info] by blast+
  note 2 = Cons.IH [OF 1(1)]
  show ?case
  proof (intro conjI allI impI)
    show "targets_ok (foldl (\<lambda>g info. sync_target_info J now ds info g) g (info # infos))"
      using 2 by simp
    fix t r assume "hm_get g t = Some r"
    then obtain r1 where r1: "hm_get ?g t = Some r1" "tr_active r1 = tr_active r" using 1(2) by blast
    then show "\<exists>r'. hm_get (foldl (\<lambda>g info. sync_target_info J now ds info g) g (info # infos)) t = Some r'
        \<and> tr_active r' = tr_active r"
      using 2 [THEN conjunct2, rule_format, OF r1(1)] by (simp add: r1(2))
  qed
qed simp

lemma sync_from_target_infos_inv:
  assumes "iter_order ord" "tm_inv tm"
  shows "tm_inv (sync_from_target_infos J ord now ds infos tm)"
proof -
  define g where "g = foldl (\<lambda>g info. sync_target_info J now ds info g) (tm_targets tm) infos"
  have g: "targets_ok g" "\<And>t r. hm_get (tm_targets tm) t = Some r \<Longrightarrow> \<exists>r'. hm_get g t = Some r' \<and> tr_active r' = tr_active r"
    using sync_infos_ok [of "tm_targets tm" J now ds infos] assms(2) by (auto simp: g_def tm_inv_def)
  have s: "sessions_ok g (tm_session_to_target tm)"
    using assms(2) unfolding tm_inv_def by (blast intro: sessions_ok_mono dest: g(2))
  have a: "active_ok g (tm_active_target_id tm)"
  proof (rule active_ok_pres)
    show "active_ok (tm_targets tm) (tm_active_target_id tm)" using assms(2) by (simp add: tm_inv_def)
    fix t r assume "hm_get (tm_targets tm) t = Some r" "tr_active r"
    then show "\<exists>r'. hm_get g t = Some r' \<and> tr_active r'" using g(2) by blast
  qed
  show ?thesis
    using g(1) s a first_key_get [OF assms(1), of g] assms(2)
    unfolding sync_from_target_infos_def Let_def g_def [symmetric]
    by (auto simp: tm_inv_def intro!: tm_ok_intros elim: sessions_ok_mono split: option.splits)
qed

lemma tm_handle_reconnect_inv:
  assumes "iter_order ord" "tm_inv tm"
  shows "tm_inv (tm_handle_reconnect ord tg cg tm)"
proof -
  define g where "g = hm_map_values (\<lambda>r. if tr_lifecycle r = Destroyed then r
      else r\<lparr>tr_target_generation := tg, tr_connection_generation := cg, tr_session_id := None\<rparr>) (tm_targets tm)"
  have "targets_ok g" using assms(2) by (auto simp: g_def tm_inv_def targets_ok_def)
  then show ?thesis
    using first_key_get [OF assms(1), of g]
    unfolding tm_handle_reconnect_def Let_def g_def [symmetric]
    by (auto simp: tm_inv_def sessions_ok_def intro!: tm_ok_intros split: option.splits)
qed

section \<open>Reachable managers\<close>

inductive tm_step :: "'v json_ops \<Rightarrow> target_manager \<Rightarrow> target_manager \<Rightarrow> bool" for J where
  event: "iter_order ord \<Longrightarrow> tm_step J tm (tm_on_event J ord now ev ds tm)"
| switch: "tm_step J tm (snd (switch_target ds tid tm))"
| sync: "iter_order ord \<Longrightarrow> tm_step J tm (sync_from_target_infos J ord now ds infos tm)"
| reconnect: "iter_order ord \<Longrightarrow> tm_step J tm (tm_handle_reconnect ord tg cg tm)"
| runtime: "tm_step J tm (tm_set_runtime alive tm)"

inductive tm_reachable :: "'v json_ops \<Rightarrow> target_manager \<Rightarrow> bool" for J where
  new: "tm_reachable J (target_manager_new rt)"
| step: "tm_reachable J tm \<Longrightarrow> tm_step J tm tm' \<Longrightarrow> tm_reachable J tm'"

inductive_cases tm_stepE: "tm_step J tm tm'"

lemma tm_set_runtime_inv: "tm_inv tm \<Longrightarrow> tm_inv (tm_set_runtime alive tm)"
  by (simp add: tm_set_runtime_def tm_inv_def)

lemma tm_step_inv: "tm_step J tm tm' \<Longrightarrow> tm_inv tm \<Longrightarrow> tm_inv tm'"
  by (erule tm_stepE)
    (simp_all add: tm_on_event_inv switch_target_inv sync_from_target_infos_inv tm_handle_reconnect_inv
      tm_set_runtime_inv)

lemma tm_reachable_inv: "tm_reachable J tm \<Longrightarrow> tm_inv tm"
  by (induction rule: tm_reachable.induct) (auto intro: tm_inv_new tm_step_inv)

section \<open>The manager across a reconnect\<close>

lemma tm_reconnect_sessions [simp]: "tm_session_to_target (tm_handle_reconnect ord tg cg tm) = []"
  by (simp add: tm_handle_reconnect_def Let_def split: option.split)

lemma tm_reconnect_record:
  assumes "hm_get (tm_targets (tm_handle_reconnect ord tg cg tm)) t = Some r"
  obtains r0 where "hm_get (tm_targets tm) t = Some r0"
    "tr_lifecycle r = tr_lifecycle r0" "tr_target_id r = tr_target_id r0"
    "tr_lifecycle r0 \<noteq> Destroyed \<Longrightarrow> tr_target_generation r = tg \<and> tr_connection_generation r = cg \<and> tr_session_id r = None"
  using assms
  by (auto simp: tm_handle_reconnect_def Let_def split: option.splits if_splits)

lemma tm_reconnect_get_None [simp]:
  "hm_get (tm_targets (tm_handle_reconnect ord tg cg tm)) t = None \<longleftrightarrow> hm_get (tm_targets tm) t = None"
  by (auto simp: tm_handle_reconnect_def Let_def split: option.split)

lemma tm_reconnect_tracked:
  "hm_get (tm_targets (tm_handle_reconnect ord tg cg tm)) t = Some r \<Longrightarrow> \<exists>r0. hm_get (tm_targets tm) t = Some r0"
  using tm_reconnect_get_None by (metis not_Some_eq)

text \<open>In a reachable manager no record is Destroyed, so every record is renewed.\<close>

lemma tm_reconnect_renews:
  assumes "tm_inv tm" "hm_get (tm_targets (tm_handle_reconnect ord tg cg tm)) t = Some r"
  shows "tr_target_id r = t \<and> tr_target_generation r = tg \<and> tr_connection_generation r = cg \<and> tr_session_id r = None"
  using assms(2)
proof (rule tm_reconnect_record)
  fix r0
  assume r0: "hm_get (tm_targets tm) t = Some r0" "tr_target_id r = tr_target_id r0"
    "tr_lifecycle r0 \<noteq> Destroyed \<Longrightarrow> tr_target_generation r = tg \<and> tr_connection_generation r = cg \<and> tr_session_id r = None"
  then show ?thesis using assms(1) by (auto simp: tm_inv_def targets_ok_def)
qed

lemma tm_reconnect_values:
  assumes "tm_inv tm" "iter_order ord" "iter_order ord'"
    and "r \<in> set (hm_values ord' (tm_targets (tm_handle_reconnect ord tg cg tm)))"
  shows "tr_target_generation r = tg \<and> tr_connection_generation r = cg \<and> tr_session_id r = None"
proof -
  have "hm_ok (tm_targets (tm_handle_reconnect ord tg cg tm))"
    using tm_handle_reconnect_inv [OF assms(2,1)] by (simp add: tm_inv_def targets_ok_def)
  then obtain t where "hm_get (tm_targets (tm_handle_reconnect ord tg cg tm)) t = Some r"
    using hm_values_set [OF assms(3), THEN iffD1, OF _ assms(4)] by blast
  then show ?thesis using tm_reconnect_renews [OF assms(1)] by blast
qed

text \<open>The invariant, read off as facts about the queries.\<close>

lemma tm_invD:
  assumes "tm_inv tm"
  shows "tm_active_target_id tm = Some t \<Longrightarrow> \<exists>r. tm_active_target tm = Some r \<and> tr_target_id r = t \<and> tr_active r"
    and "hm_get (tm_session_to_target tm) s = Some t \<Longrightarrow> hm_get (tm_targets tm) t \<noteq> None"
    and "hm_get (tm_targets tm) t = Some r \<Longrightarrow> tr_target_id r = t \<and> tr_lifecycle r \<noteq> Destroyed"
proof -
  have i: "targets_ok (tm_targets tm)" "sessions_ok (tm_targets tm) (tm_session_to_target tm)"
    "active_ok (tm_targets tm) (tm_active_target_id tm)"
    using assms by (simp_all add: tm_inv_def)
  have t: "hm_get (tm_targets tm) t = Some r \<Longrightarrow> tr_target_id r = t \<and> tr_lifecycle r \<noteq> Destroyed" for t r
    using i(1) unfolding targets_ok_def by blast
  show "hm_get (tm_targets tm) t = Some r \<Longrightarrow> tr_target_id r = t \<and> tr_lifecycle r \<noteq> Destroyed" by (rule t)
  show "hm_get (tm_session_to_target tm) s = Some t \<Longrightarrow> hm_get (tm_targets tm) t \<noteq> None"
    using i(2) unfolding sessions_ok_def by blast
  assume a: "tm_active_target_id tm = Some t"
  then obtain r where r: "hm_get (tm_targets tm) t = Some r" "tr_active r"
    using i(3) unfolding active_ok_def by blast
  then show "\<exists>r. tm_active_target tm = Some r \<and> tr_target_id r = t \<and> tr_active r"
    using t [OF r(1)] by (simp add: tm_active_target_def a)
qed

section \<open>Properties\<close>

text \<open>
  C32: in every manager reachable by any sequence of events, switches, syncs and reconnects, with
  any hash iteration order, the active target is a tracked record flagged active, a session is
  mapped only to a tracked target, and every record is stored under its own id and is not
  Destroyed (a destroyed target leaves no record behind).
\<close>

theorem reachable_targets_consistent:
  assumes "tm_reachable J tm"
  shows "(\<forall>t. tm_active_target_id tm = Some t \<longrightarrow> (\<exists>r. tm_active_target tm = Some r \<and> tr_target_id r = t \<and> tr_active r))
    \<and> (\<forall>s t. hm_get (tm_session_to_target tm) s = Some t \<longrightarrow> tm_get_target tm t \<noteq> None)
    \<and> (\<forall>t r. tm_get_target tm t = Some r \<longrightarrow> tr_target_id r = t \<and> tr_lifecycle r \<noteq> Destroyed)"
  using tm_invD [OF tm_reachable_inv [OF assms]] unfolding tm_get_target_def by blast

theorem reachable_targets_consistent_witness:
  "let tm = tm_on_event std_json rev 0
        \<lparr>ev_method = ''Target.targetDestroyed'', ev_params = JObj [(''targetId'', JStr ''A'')],
         ev_session_id = None, ev_sequence = 2\<rparr> dom_state_new
        (sync_from_target_infos std_json rev 0 dom_state_new
          [JObj [(''targetId'', JStr ''A'')], JObj [(''targetId'', JStr ''B'')]] (target_manager_new None)) in
   tm_active_target_id tm = Some ''B'' \<and> (\<exists>r. tm_active_target tm = Some r \<and> tr_target_id r = ''B'' \<and> tr_active r)"
proof -
  let ?tm0 = "sync_from_target_infos std_json rev 0 dom_state_new
      [JObj [(''targetId'', JStr ''A'')], JObj [(''targetId'', JStr ''B'')]] (target_manager_new None)"
  let ?ev = "\<lparr>ev_method = ''Target.targetDestroyed'', ev_params = JObj [(''targetId'', JStr ''A'')],
         ev_session_id = None, ev_sequence = 2\<rparr>"
  have "tm_reachable std_json (tm_on_event std_json rev 0 ?ev dom_state_new ?tm0)"
    by (rule tm_reachable.step [OF tm_reachable.step [OF tm_reachable.new tm_step.sync] tm_step.event])
      (rule iter_order_rev)+
  note F = reachable_targets_consistent [OF this, THEN conjunct1, rule_format]
  have "tm_active_target_id (tm_on_event std_json rev 0 ?ev dom_state_new ?tm0) = Some ''B''"
    by code_simp
  with F [OF this] show ?thesis by (simp only: Let_def simp_thms)
qed

text \<open>
  A browser restart invalidates every old reference. When the counters are bumped by
  \<open>DomState::on_reconnected\<close> and handed to \<open>handle_reconnect\<close>, no record keeps an old generation
  (the mismatch count is 0), every \<open>TargetRef\<close> taken before is rejected and every one taken
  from a surviving record after is accepted, and no \<open>SessionRef\<close> at all is accepted.
\<close>

lemma reconnect_invalidates_references:
  assumes "tm_reachable J tm" "iter_order ord" "iter_order ord'"
  shows "let (gens, ds') = ds_on_reconnected ds;
             tm' = tm_handle_reconnect ord (fst gens) (snd gens) tm in
         count_generation_mismatches ord' (fst gens) tm' = 0
         \<and> (\<forall>r. tref_target_generation r = ds_target_generation ds \<longrightarrow> \<not> is_target_ref_valid ds' tm' r)
         \<and> (\<forall>t r. tm_get_target tm' t = Some r \<longrightarrow> is_target_ref_valid ds' tm' (target_record_ref r))
         \<and> (\<forall>r. \<not> is_session_ref_valid ds' tm' r)"
proof -
  note inv = tm_reachable_inv [OF assms(1)]
  have "filter (\<lambda>r. tr_lifecycle r \<noteq> Destroyed \<and> tr_target_generation r \<noteq> tg)
      (hm_values ord' (tm_targets (tm_handle_reconnect ord tg cg tm))) = []" for tg cg
    using tm_reconnect_values [OF inv assms(2,3)] by (simp add: filter_empty_conv)
  then have "count_generation_mismatches ord' tg (tm_handle_reconnect ord tg cg tm) = 0" for tg cg
    by (simp add: count_generation_mismatches_def)
  moreover have "tr_target_id r = t \<and> tr_target_generation r = tg"
    if "tm_get_target (tm_handle_reconnect ord tg cg tm) t = Some r" for t r tg cg
    using tm_reconnect_renews [OF inv] that unfolding tm_get_target_def by blast
  ultimately show ?thesis
    unfolding ds_on_reconnected_eq Let_def
    by (simp add: is_target_ref_valid_def is_session_ref_valid_def target_ref_is_valid_def
        target_record_ref_def hm_contains_def) (auto simp: tm_get_target_def dest: tm_reconnect_tracked)
qed

text \<open>
  C33: \<open>switch_target\<close> succeeds exactly on a tracked target that has neither crashed nor been
  destroyed and carries the current target generation. On success the returned record is the new
  active one and the previously active target is no longer flagged; on failure the manager is
  unchanged.
\<close>

theorem switch_target_contract:
  "case switch_target ds tid tm of
     (Inr r, tm') \<Rightarrow>
       (\<exists>r0. tm_get_target tm tid = Some r0 \<and> \<not> tr_crashed r0 \<and> tr_lifecycle r0 \<noteq> Destroyed
             \<and> tr_target_generation r0 = ds_target_generation ds \<and> r = r0\<lparr>tr_active := True\<rparr>)
       \<and> tm_active_target tm' = Some r
       \<and> (\<forall>old r. tm_active_target_id tm = Some old \<and> old \<noteq> tid \<and> tm_get_target tm' old = Some r \<longrightarrow> \<not> tr_active r)
   | (Inl e, tm') \<Rightarrow>
       tm' = tm \<and> (\<forall>r. tm_get_target tm tid = Some r \<longrightarrow>
         tr_crashed r \<or> tr_lifecycle r = Destroyed \<or> tr_target_generation r \<noteq> ds_target_generation ds)"
proof (cases "hm_get (tm_targets tm) tid")
  case (Some r0)
  then show ?thesis
    by (cases "tm_active_target_id tm")
      (auto simp: switch_target_def tm_get_target_def tm_active_target_def Let_def)
qed (simp add: switch_target_def tm_get_target_def)

theorem switch_target_contract_witness:
  "let r0 = \<lparr>tr_target_id = ''B'', tr_target_generation = 4, tr_session_id = None, tr_connection_generation = 0,
        tr_url = [], tr_title = [], tr_target_type = ''page'', tr_active = False, tr_lifecycle = Created,
        tr_created_at = 0, tr_crashed = False\<rparr>;
       tm = \<lparr>tm_targets = [(''A'', r0\<lparr>tr_target_id := ''A'', tr_active := True\<rparr>), (''B'', r0)],
             tm_session_to_target = [], tm_active_target_id = Some ''A'', tm_runtime = None\<rparr>;
       (res, tm') = switch_target (dom_state_new\<lparr>ds_target_generation := 4\<rparr>) ''B'' tm
   in res = Inr (r0\<lparr>tr_active := True\<rparr>) \<and> tm_active_target tm' = Some (r0\<lparr>tr_active := True\<rparr>)"
proof -
  define r0 where "r0 = \<lparr>tr_target_id = ''B'', tr_target_generation = 4, tr_session_id = None, tr_connection_generation = 0,
        tr_url = [], tr_title = [], tr_target_type = ''page'', tr_active = False, tr_lifecycle = Created,
        tr_created_at = 0, tr_crashed = False\<rparr>"
  define tm where "tm = \<lparr>tm_targets = [(''A'', r0\<lparr>tr_target_id := ''A'', tr_active := True\<rparr>), (''B'', r0)],
             tm_session_to_target = [], tm_active_target_id = Some ''A'', tm_runtime = None\<rparr>"
  define ds where "ds = dom_state_new\<lparr>ds_target_generation := 4\<rparr>"
  have g: "tm_get_target tm ''B'' = Some r0" by (simp add: tm_get_target_def tm_def hm_get_def)
  have r: "\<not> tr_crashed r0" "tr_lifecycle r0 \<noteq> Destroyed" "tr_target_generation r0 = ds_target_generation ds"
    by (simp_all add: r0_def ds_def)
  have "let (res, tm') = switch_target ds ''B'' tm in
      res = Inr (r0\<lparr>tr_active := True\<rparr>) \<and> tm_active_target tm' = Some (r0\<lparr>tr_active := True\<rparr>)"
    using switch_target_contract [where ds = ds and tid = "''B''" and tm = tm] g r by (auto split: prod.splits sum.splits)
  then show ?thesis unfolding Let_def r0_def [symmetric] tm_def [symmetric] ds_def [symmetric] .
qed

text \<open>
  After a reconnect no session of the old connection reaches the browser: whatever the CDP
  call would do, \<open>detach_target\<close> answers with the unknown-session error until a new attach event.
\<close>

lemma detach_after_reconnect:
  assumes "tm_reachable J tm" "iter_order ord" "iter_order ord'"
  shows "detach_target J call ord' ds (tm_handle_reconnect ord tg cg tm) sid
         = Inl (InvalidResponse (''unknown session '' @ sid))"
proof -
  have "find (\<lambda>r. tr_session_id r = Some sid) (hm_values ord' (tm_targets (tm_handle_reconnect ord tg cg tm))) = None"
    using tm_reconnect_values [OF tm_reachable_inv [OF assms(1)] assms(2,3)] by (fastforce simp: find_None_iff)
  then show ?thesis
    by (simp add: detach_target_def check_session_id_def Let_def)
qed

text \<open>
  A reconnect does not clear the flag of the target that was active before it. When the
  iteration order puts another target first, both records end up flagged active, although the
  manager has one active target.
\<close>

lemma reconnect_leaves_two_active:
  assumes "tm_reachable J tm" "tm_active_target_id tm = Some a"
    and "tm_active_target_id (tm_handle_reconnect ord tg cg tm) = Some b" "a \<noteq> b"
  shows "\<exists>ra. tm_get_target (tm_handle_reconnect ord tg cg tm) a = Some ra \<and> tr_active ra"
proof -
  obtain r where "hm_get (tm_targets tm) a = Some r" "tr_active r"
    using tm_invD(1) [OF tm_reachable_inv [OF assms(1)] assms(2)] by (auto simp: tm_active_target_def assms(2))
  then show ?thesis using assms(3,4)
    by (auto simp: tm_handle_reconnect_def tm_get_target_def Let_def split: option.splits if_splits)
qed

end
