(* ===== verification/Element_Index.thy ===== *)
theory Element_Index
  imports Frames Targets
begin

text \<open>
  \<open>src/browser_runtime/element_index.rs\<close>: element references, the index that stores them and the
  resolution ladder. The index reads the \<open>DomState\<close> and the \<open>FrameManager\<close>, which are arguments
  (\<open>ds\<close>, \<open>fm\<close>); \<open>ord\<close> is the iteration order of the element map. A result of \<^term>\<open>None\<close> where an
  option wraps a \<open>RuntimeResult\<close> is a panic. The \<open>f64\<close> coordinates of a bounding box are carried,
  never computed with, and are kept as their bit patterns.
\<close>

section \<open>Data\<close>

record bounding_box =
  bb_x :: u64
  bb_y :: u64
  bb_width :: u64
  bb_height :: u64

record element_ref =
  er_id :: string
  er_backend_node_id :: i64
  er_node_id :: i64
  er_target_id :: string
  er_target_generation :: u64
  er_frame_id :: string
  er_frame_tree_version :: u64
  er_role :: string
  er_name :: string
  er_tag_name :: string
  er_dom_id :: string
  er_classes :: "string list"
  er_selector :: string
  er_text_content :: string
  er_bounding_box :: "bounding_box option"
  er_visible :: bool
  er_enabled :: bool
  er_dom_version_created :: u64

record resolve_request =
  rq_ref_id :: "string option"
  rq_backend_node_id :: "i64 option"
  rq_selector :: "string option"
  rq_dom_id :: "string option"
  rq_name :: "string option"
  rq_role :: "string option"
  rq_accessible_name :: "string option"
  rq_text :: "string option"
  rq_tag_name :: "string option"
  rq_target_id :: "string option"
  rq_frame_id :: "string option"

definition resolve_request_default :: resolve_request where
  "resolve_request_default = \<lparr>rq_ref_id = None, rq_backend_node_id = None, rq_selector = None,
     rq_dom_id = None, rq_name = None, rq_role = None, rq_accessible_name = None, rq_text = None,
     rq_tag_name = None, rq_target_id = None, rq_frame_id = None\<rparr>"

record element_index =
  ei_elements :: "(string, element_ref) hashmap"
  ei_backend_map :: "(i64, string) hashmap"
  ei_selector_map :: "(string, string) hashmap"
  ei_next_id :: u64

type_synonym el_order = "(string \<times> element_ref) list \<Rightarrow> (string \<times> element_ref) list"

definition element_index_new :: element_index where
  "element_index_new = \<lparr>ei_elements = [], ei_backend_map = [], ei_selector_map = [], ei_next_id = 1\<rparr>"

section \<open>Staleness and interactability\<close>

definition is_stale_against :: "element_ref \<Rightarrow> dom_state \<Rightarrow> frame_manager \<Rightarrow> bool" where
  "is_stale_against r ds fm =
     (if er_dom_version_created r \<noteq> ds_dom_version ds then True
      else if is_stale_for_frame fm (er_frame_id r) (er_frame_tree_version r) then True
      else False)"

definition fm_is_element_stale :: "dom_state \<Rightarrow> frame_manager \<Rightarrow> element_ref \<Rightarrow> bool" where
  "fm_is_element_stale ds fm r =
     (if is_stale_for_frame fm (er_frame_id r) (er_frame_tree_version r) then True
      else er_dom_version_created r \<noteq> ds_dom_version ds)"

definition ei_is_stale :: "dom_state \<Rightarrow> frame_manager \<Rightarrow> element_ref \<Rightarrow> bool" where
  "ei_is_stale ds fm r =
     (if er_target_generation r \<noteq> ds_target_generation ds then True else is_stale_against r ds fm)"

definition verify_snapshot :: "dom_state \<Rightarrow> frame_manager \<Rightarrow> element_ref \<Rightarrow> unit runtime_result" where
  "verify_snapshot ds fm r =
     (if ei_is_stale ds fm r then
        Inl (StaleElementRef (''ElementRef '' @ er_id r @ '' stale: dom '' @ show_u64 (er_dom_version_created r)
              @ '' vs '' @ show_u64 (ds_dom_version ds) @ '', frame '' @ er_frame_id r @ '' vs ''
              @ show_u64 (er_frame_tree_version r) @ ''::'' @ show_u64 (fm_frame_version fm (er_frame_id r))))
      else if er_target_generation r \<noteq> ds_target_generation ds then
        Inl (StaleElementRef (''ElementRef '' @ er_id r @ '' stale target_generation ''
              @ show_u64 (er_target_generation r) @ '' vs '' @ show_u64 (ds_target_generation ds)))
      else Inr ())"

definition check_interactable :: "element_ref \<Rightarrow> unit runtime_result" where
  "check_interactable r =
     (if \<not> er_visible r then Inl (ElementNotInteractable (''element '' @ er_id r @ '' not visible''))
      else if \<not> er_enabled r then Inl (ElementNotInteractable (''element '' @ er_id r @ '' disabled''))
      else Inr ())"

section \<open>Selectors\<close>

definition css_special :: "char list" where
  "css_special = [CHR ''#'', CHR ''.'', CHR '':'', CHR ''['', CHR '']'', CHR 0x22, CHR 0x27, CHR 0x5C,
     CHR '' '', CHR ''>'', CHR ''+'', CHR ''~'', CHR '','']"

definition css_escape :: "string \<Rightarrow> string" where
  "css_escape s = concat (map (\<lambda>c. if c \<in> set css_special then [CHR 0x5C, c] else [c]) s)"

definition build_selector :: "string \<Rightarrow> string \<Rightarrow> string list \<Rightarrow> string" where
  "build_selector tag dom_id classes =
     (if dom_id \<noteq> [] then ''#'' @ css_escape dom_id
      else if classes = [] \<or> tag = [] then (if tag = [] then ''*'' else to_lowercase tag)
      else to_lowercase tag @ concat (map (\<lambda>c. ''.'' @ css_escape c) classes))"

definition validate_selector :: "string \<Rightarrow> unit runtime_result" where
  "validate_selector sel =
     (if str_contains sel '':contains'' then
        Inl (InvalidSelector (''selector contains :contains() '' @ em_dash @ '' invalid CSS, use text tier instead''))
      else Inr ())"

section \<open>Storage\<close>

text \<open>\<open>insert\<close> fills in what the caller left empty, then writes the three maps.\<close>

definition ei_pin :: "dom_state \<Rightarrow> frame_manager \<Rightarrow> element_ref \<Rightarrow> element_ref" where
  "ei_pin ds fm r =
     (let r = (if er_dom_version_created r = 0 then r\<lparr>er_dom_version_created := ds_dom_version ds\<rparr> else r);
          r = (if er_frame_tree_version r = 0 \<and> er_frame_id r \<noteq> [] then
                 let r = r\<lparr>er_frame_tree_version := fm_frame_version fm (er_frame_id r)\<rparr>
                 in if er_frame_tree_version r = 0
                    then r\<lparr>er_frame_tree_version := ds_frame_tree_version ds\<rparr> else r
               else r);
          r = (if er_target_generation r = 0 then r\<lparr>er_target_generation := ds_target_generation ds\<rparr> else r)
      in if er_selector r = []
         then r\<lparr>er_selector := build_selector (er_tag_name r) (er_dom_id r) (er_classes r)\<rparr> else r)"

definition ei_store :: "element_ref \<Rightarrow> element_index \<Rightarrow> element_index" where
  "ei_store r idx =
     (let idx = (if er_backend_node_id r \<noteq> 0
                 then idx\<lparr>ei_backend_map := hm_insert (er_backend_node_id r) (er_id r) (ei_backend_map idx)\<rparr> else idx);
          idx = (if er_selector r \<noteq> []
                 then idx\<lparr>ei_selector_map := hm_insert (er_selector r) (er_id r) (ei_selector_map idx)\<rparr> else idx)
      in idx\<lparr>ei_elements := hm_insert (er_id r) r (ei_elements idx)\<rparr>)"

definition ei_insert :: "dom_state \<Rightarrow> frame_manager \<Rightarrow> element_ref \<Rightarrow> element_index \<Rightarrow> string \<times> element_index" where
  "ei_insert ds fm r idx =
     (let (r, idx) = (if er_id r = []
                      then (r\<lparr>er_id := ''e_'' @ show_pad3 (ei_next_id idx)\<rparr>, idx\<lparr>ei_next_id := ei_next_id idx + 1\<rparr>)
                      else (r, idx));
          r = ei_pin ds fm r
      in (er_id r, ei_store r idx))"

definition ei_get :: "element_index \<Rightarrow> string \<Rightarrow> element_ref option" where
  "ei_get idx i = hm_get (ei_elements idx) i"

definition ei_get_by_backend :: "element_index \<Rightarrow> i64 \<Rightarrow> element_ref option" where
  "ei_get_by_backend idx backend = Option.bind (hm_get (ei_backend_map idx) backend) (ei_get idx)"

definition ei_len :: "element_index \<Rightarrow> nat" where
  "ei_len idx = length (ei_elements idx)"

definition ei_is_empty :: "element_index \<Rightarrow> bool" where
  "ei_is_empty idx = (ei_len idx = 0)"

definition ei_clear :: "element_index \<Rightarrow> element_index" where
  "ei_clear idx = idx\<lparr>ei_elements := [], ei_backend_map := [], ei_selector_map := []\<rparr>"

definition ei_invalidate_all :: "element_index \<Rightarrow> element_index" where
  "ei_invalidate_all idx = ei_clear idx"

definition ei_remove_by_id :: "string \<Rightarrow> element_index \<Rightarrow> element_ref option \<times> element_index" where
  "ei_remove_by_id i idx =
     (let removed = ei_get idx i;
          idx = idx\<lparr>ei_elements := hm_remove i (ei_elements idx)\<rparr>
      in case removed of
           None \<Rightarrow> (None, idx)
         | Some r \<Rightarrow>
             let idx = (if er_backend_node_id r \<noteq> 0
                        then idx\<lparr>ei_backend_map := hm_remove (er_backend_node_id r) (ei_backend_map idx)\<rparr> else idx);
                 idx = (if er_selector r \<noteq> [] \<and> hm_get (ei_selector_map idx) (er_selector r) = Some i
                        then idx\<lparr>ei_selector_map := hm_remove (er_selector r) (ei_selector_map idx)\<rparr> else idx)
             in (Some r, idx))"

definition ei_update_in_place :: "element_ref \<Rightarrow> element_index \<Rightarrow> element_index" where
  "ei_update_in_place r idx =
     (let i = er_id r;
          selector = er_selector r;
          idx = (case map_option er_selector (ei_get idx i) of
                   None \<Rightarrow> idx
                 | Some old_sel \<Rightarrow>
                     if old_sel \<noteq> selector then
                       let m = ei_selector_map idx;
                           m = (if hm_get m old_sel = Some i then hm_remove old_sel m else m);
                           m = (if selector \<noteq> [] then hm_insert selector i m else m)
                       in idx\<lparr>ei_selector_map := m\<rparr>
                     else idx);
          idx = (if er_backend_node_id r \<noteq> 0
                 then idx\<lparr>ei_backend_map := hm_insert (er_backend_node_id r) i (ei_backend_map idx)\<rparr> else idx)
      in idx\<lparr>ei_elements := hm_insert i r (ei_elements idx)\<rparr>)"

section \<open>Queries\<close>

definition ei_select :: "el_order \<Rightarrow> element_index \<Rightarrow> (element_ref \<Rightarrow> bool) \<Rightarrow> element_ref list" where
  "ei_select ord idx P = filter P (hm_values ord (ei_elements idx))"

definition find_by_dom_id :: "el_order \<Rightarrow> element_index \<Rightarrow> string \<Rightarrow> element_ref list" where
  "find_by_dom_id ord idx dom_id = ei_select ord idx (\<lambda>r. er_dom_id r = dom_id)"

definition find_by_name :: "el_order \<Rightarrow> element_index \<Rightarrow> string \<Rightarrow> element_ref list" where
  "find_by_name ord idx name = ei_select ord idx (\<lambda>r. er_name r = name \<or> er_text_content r = name)"

definition find_by_role :: "el_order \<Rightarrow> element_index \<Rightarrow> string \<Rightarrow> element_ref list" where
  "find_by_role ord idx role = ei_select ord idx (\<lambda>r. er_role r = role)"

definition find_by_role_name :: "el_order \<Rightarrow> element_index \<Rightarrow> string \<Rightarrow> string \<Rightarrow> element_ref list" where
  "find_by_role_name ord idx role name =
     ei_select ord idx (\<lambda>r. er_role r = role \<and> (er_name r = name \<or> er_text_content r = name))"

definition text_matches :: "string \<Rightarrow> element_ref \<Rightarrow> bool" where
  "text_matches text r =
     (let needle = to_lowercase text in
      str_contains (to_lowercase (er_text_content r)) needle \<or> str_contains (to_lowercase (er_name r)) needle)"

definition find_by_text :: "el_order \<Rightarrow> element_index \<Rightarrow> string \<Rightarrow> element_ref list" where
  "find_by_text ord idx text = ei_select ord idx (text_matches text)"

definition find_by_tag :: "el_order \<Rightarrow> element_index \<Rightarrow> string \<Rightarrow> element_ref list" where
  "find_by_tag ord idx tag = ei_select ord idx (\<lambda>r. eq_ignore_ascii_case (er_tag_name r) tag)"

definition find_by_selector :: "el_order \<Rightarrow> element_index \<Rightarrow> string \<Rightarrow> element_ref list" where
  "find_by_selector ord idx sel = ei_select ord idx (\<lambda>r. er_selector r = sel)"

definition ei_find_all :: "el_order \<Rightarrow> element_index \<Rightarrow> element_ref list" where
  "ei_find_all ord idx = hm_values ord (ei_elements idx)"

definition find_by_selector_or_id :: "el_order \<Rightarrow> element_index \<Rightarrow> string \<Rightarrow> element_ref list" where
  "find_by_selector_or_id ord idx raw =
     (let out = find_by_selector ord idx raw in
      if out \<noteq> [] then out
      else
        let trimmed = dropWhile (\<lambda>c. c = CHR ''#'') raw;
            out = (if trimmed \<noteq> raw then find_by_dom_id ord idx trimmed else out)
        in if out \<noteq> [] then out else find_by_dom_id ord idx raw)"

record dom_node_info =
  dn_backend_node_id :: i64
  dn_node_id :: i64
  dn_tag_name :: string
  dn_dom_id :: string
  dn_classes :: "string list"
  dn_selector :: string
  dn_text :: string
  dn_bounding_box :: "bounding_box option"
  dn_visible :: bool
  dn_enabled :: bool
  dn_attributes :: "(string, string) hashmap"

record ax_node_info =
  ax_role :: string
  ax_name :: "string option"
  ax_description :: "string option"
  ax_ignored :: bool

definition merge_dom_ax ::
  "dom_state \<Rightarrow> frame_manager \<Rightarrow> dom_node_info \<Rightarrow> ax_node_info option \<Rightarrow> string \<Rightarrow> string \<Rightarrow> element_ref" where
  "merge_dom_ax ds fm nd ax target_id frame_id =
     (let frame_tree_version =
            (if frame_id \<noteq> [] then
               let v = fm_frame_version fm frame_id in if v \<noteq> 0 then v else ds_frame_tree_version ds
             else ds_frame_tree_version ds)
      in \<lparr>er_id = [], er_backend_node_id = dn_backend_node_id nd, er_node_id = dn_node_id nd,
          er_target_id = target_id, er_target_generation = ds_target_generation ds,
          er_frame_id = frame_id, er_frame_tree_version = frame_tree_version,
          er_role = (case ax of None \<Rightarrow> [] | Some a \<Rightarrow> ax_role a),
          er_name = unwrap_or (dn_text nd) (Option.bind ax ax_name),
          er_tag_name = dn_tag_name nd, er_dom_id = dn_dom_id nd, er_classes = dn_classes nd,
          er_selector = dn_selector nd, er_text_content = dn_text nd,
          er_bounding_box = dn_bounding_box nd, er_visible = dn_visible nd, er_enabled = dn_enabled nd,
          er_dom_version_created = ds_dom_version ds\<rparr>)"

definition ei_trace_snapshot :: "'v json_ops \<Rightarrow> el_order \<Rightarrow> dom_state \<Rightarrow> element_index \<Rightarrow> 'v" where
  "ei_trace_snapshot J ord ds idx =
     (let elems = map (\<lambda>r. j_obj J
            [(''id'', j_str J (er_id r)), (''backend'', j_i64 J (er_backend_node_id r)),
             (''frame'', j_str J (er_frame_id r)), (''frame_version'', j_u64 J (er_frame_tree_version r)),
             (''role'', j_str J (er_role r)), (''name'', j_str J (er_name r)), (''tag'', j_str J (er_tag_name r)),
             (''dom_id'', j_str J (er_dom_id r)), (''selector'', j_str J (er_selector r)),
             (''visible'', j_bool J (er_visible r)), (''enabled'', j_bool J (er_enabled r)),
             (''dom_version_created'', j_u64 J (er_dom_version_created r))]) (ei_find_all ord idx)
      in j_obj J [(''element_count'', j_u64 J (of_nat (length elems))), (''elements'', j_arr J elems),
                  (''dom_version'', j_u64 J (ds_dom_version ds)),
                  (''frame_tree_version_global'', j_u64 J (ds_frame_tree_version ds))])"

end
