(* ===== verification/Resolve.thy ===== *)
theory Resolve
  imports Element_Index
begin

text \<open>
  The resolution ladder of \<open>src/browser_runtime/element_index.rs\<close>: the deterministic in-memory
  \<open>resolve\<close> and \<open>resolve_with_runtime\<close>, which asks the browser when the index has no answer. A tier
  is a function that returns \<^term>\<open>Some\<close> result when it returns from \<open>resolve\<close> and \<^term>\<open>None\<close> when
  it falls through to the next.
\<close>

section \<open>Logging helpers\<close>

text \<open>\<open>truncate\<close> slices at a byte count; the slice panics inside a multi-byte character.\<close>

definition truncate_str :: "string \<Rightarrow> nat \<Rightarrow> string option" where
  "truncate_str s n = (if length s \<le> n then Some s else map_option (\<lambda>p. p @ ellipsis) (slice_to s n))"

definition truncate_opt :: "string option \<Rightarrow> nat \<Rightarrow> string option option" where
  "truncate_opt s n = (case s of None \<Rightarrow> Some None | Some s \<Rightarrow> map_option Some (truncate_str s n))"

definition sanitize_request_for_log :: "'v json_ops \<Rightarrow> resolve_request \<Rightarrow> 'v option" where
  "sanitize_request_for_log J req =
     (case (truncate_opt (rq_selector req) 80, truncate_opt (rq_text req) 80) of
        (Some sel, Some txt) \<Rightarrow>
          Some (j_obj J [(''ref'', j_opt J (j_str J) (rq_ref_id req)),
                         (''backend'', j_opt J (j_i64 J) (rq_backend_node_id req)),
                         (''selector'', j_opt J (j_str J) sel),
                         (''dom_id'', j_opt J (j_str J) (rq_dom_id req)),
                         (''role'', j_opt J (j_str J) (rq_role req)),
                         (''name'', j_opt J (j_str J) (rq_name req)),
                         (''text'', j_opt J (j_str J) txt)])
      | _ \<Rightarrow> None)"

section \<open>The in-memory ladder\<close>

text \<open>\<open>self.verify_snapshot(&r)?; self.check_interactable(&r)?; return Ok(r)\<close>.\<close>

definition vet :: "dom_state \<Rightarrow> frame_manager \<Rightarrow> element_ref \<Rightarrow> element_ref runtime_result" where
  "vet ds fm r = try_then (verify_snapshot ds fm r) (\<lambda>_. try_then (check_interactable r) (\<lambda>_. Inr r))"

text \<open>\<open>match candidates.len() { 0 => {}, 1 => vet, _ => AmbiguousElement }\<close>.\<close>

definition vet_unique ::
  "dom_state \<Rightarrow> frame_manager \<Rightarrow> (nat \<Rightarrow> string) \<Rightarrow> element_ref list \<Rightarrow> element_ref runtime_result option" where
  "vet_unique ds fm detail candidates =
     (case candidates of
        [] \<Rightarrow> None
      | [r] \<Rightarrow> Some (vet ds fm r)
      | _ \<Rightarrow> Some (Inl (AmbiguousElement (map er_id candidates) (detail (length candidates)))))"

definition tier_ref_id ::
  "dom_state \<Rightarrow> frame_manager \<Rightarrow> element_index \<Rightarrow> resolve_request \<Rightarrow> element_ref runtime_result option" where
  "tier_ref_id ds fm idx req = map_option (vet ds fm) (Option.bind (rq_ref_id req) (ei_get idx))"

definition tier_backend ::
  "dom_state \<Rightarrow> frame_manager \<Rightarrow> element_index \<Rightarrow> resolve_request \<Rightarrow> element_ref runtime_result option" where
  "tier_backend ds fm idx req = map_option (vet ds fm) (Option.bind (rq_backend_node_id req) (ei_get_by_backend idx))"

definition tier_selector ::
  "dom_state \<Rightarrow> frame_manager \<Rightarrow> el_order \<Rightarrow> element_index \<Rightarrow> resolve_request \<Rightarrow> element_ref runtime_result option" where
  "tier_selector ds fm ord idx req =
     (case rq_selector req of
        None \<Rightarrow> None
      | Some sel \<Rightarrow>
          (case validate_selector sel of
             Inl e \<Rightarrow> Some (Inl e)
           | Inr _ \<Rightarrow>
               (case Option.bind (hm_get (ei_selector_map idx) sel) (ei_get idx) of
                  Some r \<Rightarrow> Some (vet ds fm r)
                | None \<Rightarrow>
                    vet_unique ds fm
                      (\<lambda>n. ''selector '' @ debug_str sel @ '' matches '' @ show_nat n @ '' elements'')
                      (find_by_selector ord idx sel))))"

definition tier_dom_id ::
  "dom_state \<Rightarrow> frame_manager \<Rightarrow> el_order \<Rightarrow> element_index \<Rightarrow> resolve_request \<Rightarrow> element_ref runtime_result option" where
  "tier_dom_id ds fm ord idx req =
     (case rq_dom_id req of
        None \<Rightarrow> None
      | Some d \<Rightarrow> vet_unique ds fm (\<lambda>_. ''dom_id '' @ debug_str d @ '' ambiguous'') (find_by_dom_id ord idx d))"

definition tier_name ::
  "dom_state \<Rightarrow> frame_manager \<Rightarrow> el_order \<Rightarrow> element_index \<Rightarrow> resolve_request \<Rightarrow> element_ref runtime_result option" where
  "tier_name ds fm ord idx req =
     (case rq_name req of
        None \<Rightarrow> None
      | Some n \<Rightarrow> vet_unique ds fm (\<lambda>_. ''name '' @ debug_str n @ '' ambiguous'') (find_by_name ord idx n))"

text \<open>A role alone only counts when it is unique; several matches fall through.\<close>

definition tier_role_name ::
  "dom_state \<Rightarrow> frame_manager \<Rightarrow> el_order \<Rightarrow> element_index \<Rightarrow> resolve_request \<Rightarrow> element_ref runtime_result option" where
  "tier_role_name ds fm ord idx req =
     (case (rq_role req, rq_accessible_name req) of
        (Some role, Some aname) \<Rightarrow>
          vet_unique ds fm
            (\<lambda>n. ''role '' @ debug_str role @ '' + name '' @ debug_str aname @ '' ambiguous ('' @ show_nat n @ '' candidates)'')
            (find_by_role_name ord idx role aname)
      | (Some role, None) \<Rightarrow>
          (case find_by_role ord idx role of [r] \<Rightarrow> Some (vet ds fm r) | _ \<Rightarrow> None)
      | (None, _) \<Rightarrow> None)"

definition tier_text ::
  "dom_state \<Rightarrow> frame_manager \<Rightarrow> el_order \<Rightarrow> element_index \<Rightarrow> resolve_request \<Rightarrow> element_ref runtime_result option" where
  "tier_text ds fm ord idx req =
     (case rq_text req of
        None \<Rightarrow> None
      | Some t \<Rightarrow> vet_unique ds fm (\<lambda>n. ''text '' @ debug_str t @ '' ambiguous ('' @ show_nat n @ '' candidates)'')
                    (find_by_text ord idx t))"

definition tier_fresh_ax ::
  "dom_state \<Rightarrow> frame_manager \<Rightarrow> el_order \<Rightarrow> element_index \<Rightarrow> resolve_request \<Rightarrow> element_ref runtime_result option" where
  "tier_fresh_ax ds fm ord idx req =
     (case rq_accessible_name req of
        None \<Rightarrow> None
      | Some a \<Rightarrow> vet_unique ds fm (\<lambda>_. ''fresh AX search for '' @ debug_str a @ '' ambiguous'') (find_by_name ord idx a))"

fun first_some :: "'a option list \<Rightarrow> 'a option" where
  "first_some [] = None"
| "first_some (x # xs) = or_else x (first_some xs)"

definition resolve ::
  "'v json_ops \<Rightarrow> dom_state \<Rightarrow> frame_manager \<Rightarrow> el_order \<Rightarrow> element_index \<Rightarrow> resolve_request
     \<Rightarrow> element_ref runtime_result option" where
  "resolve J ds fm ord idx req =
     (case first_some
             [tier_ref_id ds fm idx req, tier_backend ds fm idx req, tier_selector ds fm ord idx req,
              tier_dom_id ds fm ord idx req, tier_name ds fm ord idx req, tier_role_name ds fm ord idx req,
              tier_text ds fm ord idx req, tier_fresh_ax ds fm ord idx req] of
        Some res \<Rightarrow> Some res
      | None \<Rightarrow>
          map_option (\<lambda>v. Inl (ResolutionFailed
              (''no element matches request '' @ j_debug J v @ '' (tiers exhausted)'')))
            (sanitize_request_for_log J req))"

section \<open>CDP helpers\<close>

definition dom_query_selector ::
  "'v json_ops \<Rightarrow> 'v cdp_call \<Rightarrow> string option \<Rightarrow> i64 \<Rightarrow> string \<Rightarrow> 'v runtime_result" where
  "dom_query_selector J call sid root_id sel =
     try_then (validate_selector sel) (\<lambda>_.
       call sid ''DOM.querySelector'' (j_obj J [(''nodeId'', j_i64 J root_id), (''selector'', j_str J sel)]))"

definition dom_resolve_node ::
  "'v json_ops \<Rightarrow> 'v cdp_call \<Rightarrow> string option \<Rightarrow> i64 \<Rightarrow> i64 option \<Rightarrow> 'v runtime_result" where
  "dom_resolve_node J call sid backend ec =
     call sid ''DOM.resolveNode''
       (j_obj J ((''backendNodeId'', j_i64 J backend)
                 # (case ec of None \<Rightarrow> [] | Some c \<Rightarrow> [(''executionContextId'', j_i64 J c)])))"

definition runtime_call_function_on ::
  "'v json_ops \<Rightarrow> 'v cdp_call \<Rightarrow> string option \<Rightarrow> string \<Rightarrow> string \<Rightarrow> 'v list \<Rightarrow> 'v runtime_result" where
  "runtime_call_function_on J call sid object_id decl args =
     call sid ''Runtime.callFunctionOn''
       (j_obj J [(''objectId'', j_str J object_id), (''functionDeclaration'', j_str J decl),
                 (''arguments'', j_arr J args), (''returnByValue'', j_bool J True), (''awaitPromise'', j_bool J True)])"

definition dom_get_flattened_document ::
  "'v json_ops \<Rightarrow> 'v cdp_call \<Rightarrow> string option \<Rightarrow> bool \<Rightarrow> 'v runtime_result" where
  "dom_get_flattened_document J call sid pierce =
     call sid ''DOM.getFlattenedDocument'' (j_obj J [(''depth'', j_i64 J (- 1)), (''pierce'', j_bool J pierce)])"

definition dom_describe_node ::
  "'v json_ops \<Rightarrow> 'v cdp_call \<Rightarrow> string option \<Rightarrow> i64 \<Rightarrow> bool \<Rightarrow> 'v runtime_result" where
  "dom_describe_node J call sid backend pierce =
     call sid ''DOM.describeNode''
       (j_obj J [(''backendNodeId'', j_i64 J backend), (''depth'', j_i64 J 1), (''pierce'', j_bool J pierce)])"

section \<open>The ladder with a browser\<close>

text \<open>
  Events are dispatched while \<open>resolve_with_runtime\<close> waits for a CDP answer, so it sees the shared
  state at three times: \<open>w0\<close> when it is called, \<open>w1\<close> after \<open>Runtime.callFunctionOn\<close> and \<open>w2\<close> after
  \<open>DOM.describeNode\<close>. Each CDP method is called at most once, so \<open>call\<close> is any behaviour of the browser.
  Releasing the object handle (\<open>Runtime.releaseObject\<close>) ignores its answer and is left out.
\<close>

record world =
  w_ds :: dom_state
  w_fm :: frame_manager
  w_idx :: element_index

definition resolve_in :: "'v json_ops \<Rightarrow> el_order \<Rightarrow> world \<Rightarrow> resolve_request \<Rightarrow> element_ref runtime_result option" where
  "resolve_in J ord w req = resolve J (w_ds w) (w_fm w) ord (w_idx w) req"

definition read_back_tag :: string where
  "read_back_tag = ''function(){ return {tag: this.tagName, id: this.id, text: (this.textContent||''
     @ [CHR 0x22, CHR 0x22] @ '').slice(0,200)}; }''"

text \<open>\<open>Some result\<close> returns; \<open>None\<close> goes on to the selector tier.\<close>

definition rt_backend_tier ::
  "'v json_ops \<Rightarrow> 'v cdp_call \<Rightarrow> el_order \<Rightarrow> world \<Rightarrow> world \<Rightarrow> resolve_request \<Rightarrow> string option
     \<Rightarrow> element_ref runtime_result option" where
  "rt_backend_tier J call ord w0 w1 req sid =
     (case rq_backend_node_id req of
        None \<Rightarrow> None
      | Some backend \<Rightarrow>
          let frame_id = unwrap_or [] (or_else (rq_frame_id req) (rq_target_id req));
              ec = (if frame_id \<noteq> []
                    then Option.bind (fm_get_frame (w_fm w0) frame_id) fr_execution_context_id else None)
          in case dom_resolve_node J call sid backend ec of
               Inl e \<Rightarrow> Some (Inl e)
             | Inr resolved \<Rightarrow>
                 (case Option.bind (j_get J resolved ''object'') (\<lambda>v. get_str J v ''objectId'') of
                    None \<Rightarrow> None
                  | Some obj \<Rightarrow>
                      (case runtime_call_function_on J call sid obj read_back_tag [] of
                         Inl e \<Rightarrow> Some (Inl e)
                       | Inr info \<Rightarrow>
                           (case Option.bind (Option.bind (j_get J info ''result'') (\<lambda>r. j_get J r ''value''))
                                   (\<lambda>v. get_str J v ''tag'') of
                              None \<Rightarrow> None
                            | Some tag \<Rightarrow>
                                (case find_by_tag ord (w_idx w1) tag of [r] \<Rightarrow> Some (Inr r) | _ \<Rightarrow> None)))))"

definition rt_selector_tier ::
  "'v json_ops \<Rightarrow> 'v cdp_call \<Rightarrow> world \<Rightarrow> resolve_request \<Rightarrow> string option
     \<Rightarrow> element_ref runtime_result option" where
  "rt_selector_tier J call w2 req sid =
     (case rq_selector req of
        None \<Rightarrow> None
      | Some sel \<Rightarrow>
          (case dom_get_flattened_document J call sid True of
             Inl e \<Rightarrow> Some (Inl e)
           | Inr doc \<Rightarrow>
               (case Option.bind (Option.bind (get_array J doc ''nodes'')
                        (\<lambda>ns. case ns of [] \<Rightarrow> None | n # _ \<Rightarrow> Some n)) (\<lambda>n. get_i64 J n ''nodeId'') of
                  None \<Rightarrow> None
                | Some root_id \<Rightarrow>
                    (case dom_query_selector J call sid root_id sel of
                       Inl e \<Rightarrow> Some (Inl e)
                     | Inr q \<Rightarrow>
                         (case get_i64 J q ''nodeId'' of
                            None \<Rightarrow> None
                          | Some node_id \<Rightarrow>
                              if node_id \<noteq> 0 then
                                (case call sid ''DOM.describeNode''
                                        (j_obj J [(''nodeId'', j_i64 J node_id), (''pierce'', j_bool J True)]) of
                                   Inl e \<Rightarrow> Some (Inl e)
                                 | Inr desc \<Rightarrow>
                                     (case Option.bind (Option.bind (j_get J desc ''node'') (\<lambda>n. get_i64 J n ''backendNodeId''))
                                             (ei_get_by_backend (w_idx w2)) of
                                        None \<Rightarrow> None
                                      | Some r \<Rightarrow>
                                          Some (try_then (verify_snapshot (w_ds w2) (w_fm w2) r) (\<lambda>_. Inr r))))
                              else None)))))"

definition is_resolution_failed :: "runtime_error \<Rightarrow> bool" where
  "is_resolution_failed e = (case e of ResolutionFailed _ \<Rightarrow> True | _ \<Rightarrow> False)"

definition is_retried_error :: "runtime_error \<Rightarrow> bool" where
  "is_retried_error e = (case e of AmbiguousElement _ _ \<Rightarrow> True | StaleElementRef _ \<Rightarrow> True
     | ElementNotInteractable _ \<Rightarrow> True | _ \<Rightarrow> False)"

definition resolve_with_runtime ::
  "'v json_ops \<Rightarrow> 'v cdp_call \<Rightarrow> el_order \<Rightarrow> world \<Rightarrow> world \<Rightarrow> world \<Rightarrow> resolve_request \<Rightarrow> string option
     \<Rightarrow> element_ref runtime_result option" where
  "resolve_with_runtime J call ord w0 w1 w2 req sid =
     (case resolve_in J ord w0 req of
        None \<Rightarrow> None
      | Some (Inr r) \<Rightarrow> Some (Inr r)
      | Some (Inl e) \<Rightarrow>
          if is_retried_error e then resolve_in J ord w0 req
          else if \<not> is_resolution_failed e then Some (Inl e)
          else
            (case first_some [rt_backend_tier J call ord w0 w1 req sid, rt_selector_tier J call w2 req sid] of
               Some res \<Rightarrow> Some res
             | None \<Rightarrow>
                 map_option (\<lambda>v. Inl (ResolutionFailed (''resolve_with_runtime exhausted for '' @ j_debug J v)))
                   (sanitize_request_for_log J req)))"

end
