(* ===== verification/Index_Inv.thy ===== *)
theory Index_Inv
  imports Resolve
begin

text \<open>
  The element index: its invariant under insertion, update, removal and invalidation, what a
  look-up returns, and what a resolved reference satisfies.
\<close>

section \<open>The invariant\<close>

text \<open>
  An element is stored under its own id, and the two secondary maps only point to stored elements
  that carry the key they are looked up by.
\<close>

definition ei_inv :: "element_index \<Rightarrow> bool" where
  "ei_inv idx =
     (hm_ok (ei_elements idx) \<and> (\<forall>i r. ei_get idx i = Some r \<longrightarrow> er_id r = i)
      \<and> (\<forall>b i. hm_get (ei_backend_map idx) b = Some i \<longrightarrow> (\<exists>r. ei_get idx i = Some r \<and> er_backend_node_id r = b \<and> b \<noteq> 0))
      \<and> (\<forall>s i. hm_get (ei_selector_map idx) s = Some i \<longrightarrow> (\<exists>r. ei_get idx i = Some r \<and> er_selector r = s \<and> s \<noteq> [])))"

lemma ei_invI:
  assumes "hm_ok (ei_elements idx)" "\<And>i r. ei_get idx i = Some r \<Longrightarrow> er_id r = i"
    and "\<And>b i. hm_get (ei_backend_map idx) b = Some i \<Longrightarrow> \<exists>r. ei_get idx i = Some r \<and> er_backend_node_id r = b \<and> b \<noteq> 0"
    and "\<And>s i. hm_get (ei_selector_map idx) s = Some i \<Longrightarrow> \<exists>r. ei_get idx i = Some r \<and> er_selector r = s \<and> s \<noteq> []"
  shows "ei_inv idx"
  using assms unfolding ei_inv_def by blast

lemma ei_invD:
  assumes "ei_inv idx"
  shows ei_inv_ok: "hm_ok (ei_elements idx)"
    and ei_inv_id: "\<And>i r. ei_get idx i = Some r \<Longrightarrow> er_id r = i"
    and ei_inv_backend: "\<And>b i. hm_get (ei_backend_map idx) b = Some i \<Longrightarrow> \<exists>r. ei_get idx i = Some r \<and> er_backend_node_id r = b \<and> b \<noteq> 0"
    and ei_inv_selector: "\<And>s i. hm_get (ei_selector_map idx) s = Some i \<Longrightarrow> \<exists>r. ei_get idx i = Some r \<and> er_selector r = s \<and> s \<noteq> []"
  using assms unfolding ei_inv_def by blast+

text \<open>Every id is one the index generated, and the counter has passed it.\<close>

definition ids_below :: "element_index \<Rightarrow> bool" where
  "ids_below idx = (\<forall>i r. ei_get idx i = Some r \<longrightarrow> (\<exists>n. 1 \<le> n \<and> n < unat (ei_next_id idx) \<and> i = ''e_'' @ show_pad3 (of_nat n)))"

lemma ei_inv_new: "ei_inv element_index_new" "ids_below element_index_new"
  by (auto simp: element_index_new_def ids_below_def ei_get_def intro!: ei_invI)

section \<open>What the operations do to the maps\<close>

lemma ei_store_sel:
  "ei_elements (ei_store r idx) = hm_insert (er_id r) r (ei_elements idx)"
  "ei_next_id (ei_store r idx) = ei_next_id idx"
  "hm_get (ei_backend_map (ei_store r idx)) b
     = (if b = er_backend_node_id r \<and> b \<noteq> 0 then Some (er_id r) else hm_get (ei_backend_map idx) b)"
  "hm_get (ei_selector_map (ei_store r idx)) s
     = (if s = er_selector r \<and> s \<noteq> [] then Some (er_id r) else hm_get (ei_selector_map idx) s)"
  by (auto simp: ei_store_def Let_def)

lemma ei_get_store: "ei_get (ei_store r idx) i = (if i = er_id r then Some r else ei_get idx i)"
  by (simp add: ei_get_def ei_store_sel)

text \<open>Storing under an unused id keeps the invariant.\<close>

lemma ei_store_inv:
  assumes "ei_inv idx" "ei_get idx (er_id r) = None"
  shows "ei_inv (ei_store r idx)"
proof (rule ei_invI)
  show "hm_ok (ei_elements (ei_store r idx))" using ei_inv_ok [OF assms(1)] by (simp add: ei_store_sel)
  fix i r' assume "ei_get (ei_store r idx) i = Some r'"
  then show "er_id r' = i" using ei_inv_id [OF assms(1)] by (auto simp: ei_get_store split: if_splits)
next
  fix b i assume "hm_get (ei_backend_map (ei_store r idx)) b = Some i"
  then show "\<exists>r'. ei_get (ei_store r idx) i = Some r' \<and> er_backend_node_id r' = b \<and> b \<noteq> 0"
    using ei_inv_backend [OF assms(1), of b i] assms(2)
    by (auto simp: ei_get_store ei_store_sel split: if_splits)
next
  fix s i assume "hm_get (ei_selector_map (ei_store r idx)) s = Some i"
  then show "\<exists>r'. ei_get (ei_store r idx) i = Some r' \<and> er_selector r' = s \<and> s \<noteq> []"
    using ei_inv_selector [OF assms(1), of s i] assms(2)
    by (auto simp: ei_get_store ei_store_sel split: if_splits)
qed

lemma ei_pin_sel [simp]:
  "er_id (ei_pin ds fm r) = er_id r" "er_backend_node_id (ei_pin ds fm r) = er_backend_node_id r"
  "er_visible (ei_pin ds fm r) = er_visible r" "er_enabled (ei_pin ds fm r) = er_enabled r"
  "er_frame_id (ei_pin ds fm r) = er_frame_id r"
  by (simp_all add: ei_pin_def Let_def)

definition fresh_id :: "element_index \<Rightarrow> string" where
  "fresh_id idx = ''e_'' @ show_pad3 (ei_next_id idx)"

lemma ei_insert_fresh:
  "er_id r = [] \<Longrightarrow> ei_insert ds fm r idx =
     (fresh_id idx, ei_store (ei_pin ds fm (r\<lparr>er_id := fresh_id idx\<rparr>)) (idx\<lparr>ei_next_id := ei_next_id idx + 1\<rparr>))"
  by (simp add: ei_insert_def fresh_id_def Let_def)

lemma fresh_id_unused:
  assumes "ids_below idx"
  shows "ei_get idx (fresh_id idx) = None"
proof (rule ccontr)
  assume "ei_get idx (fresh_id idx) \<noteq> None"
  then obtain n where n: "n < unat (ei_next_id idx)" "fresh_id idx = ''e_'' @ show_pad3 (of_nat n)"
    using assms unfolding ids_below_def by blast
  then have "ei_next_id idx = of_nat n" by (simp add: fresh_id_def)
  moreover have "n < 2 ^ 64"
    using n(1) unsigned_less [of "ei_next_id idx", where ?'a = nat] by simp
  ultimately show False using n(1) by (simp add: unat_of_nat)
qed

lemma ei_get_next_id [simp]: "ei_get (idx\<lparr>ei_next_id := k\<rparr>) = ei_get idx"
  by (simp add: ei_get_def fun_eq_iff)

lemma ei_inv_next_id [simp]: "ei_inv (idx\<lparr>ei_next_id := k\<rparr>) = ei_inv idx"
  by (simp add: ei_inv_def)

lemma ei_insert_inv:
  assumes "ei_inv idx" "ids_below idx" "er_id r = []" "unat (ei_next_id idx) < 2 ^ 64 - 1" "1 \<le> unat (ei_next_id idx)"
  shows "ei_inv (snd (ei_insert ds fm r idx)) \<and> ids_below (snd (ei_insert ds fm r idx))
         \<and> unat (ei_next_id (snd (ei_insert ds fm r idx))) = Suc (unat (ei_next_id idx))"
proof (intro conjI)
  note new = fresh_id_unused [OF assms(2)]
  have k: "unat (ei_next_id idx + 1) = Suc (unat (ei_next_id idx))" using assms(4) by (rule unat_Suc_u64)
  show "ei_inv (snd (ei_insert ds fm r idx))"
    using assms(1,3) new by (simp add: ei_insert_fresh ei_store_inv)
  show "unat (ei_next_id (snd (ei_insert ds fm r idx))) = Suc (unat (ei_next_id idx))"
    using assms(3) k by (simp add: ei_insert_fresh ei_store_sel)
  show "ids_below (snd (ei_insert ds fm r idx))"
    unfolding ids_below_def
  proof (intro allI impI)
    fix i r' assume i: "ei_get (snd (ei_insert ds fm r idx)) i = Some r'"
    have n: "ei_next_id (snd (ei_insert ds fm r idx)) = ei_next_id idx + 1"
      using assms(3) by (simp add: ei_insert_fresh ei_store_sel)
    show "\<exists>n. 1 \<le> n \<and> n < unat (ei_next_id (snd (ei_insert ds fm r idx))) \<and> i = ''e_'' @ show_pad3 (of_nat n)"
    proof (cases "i = fresh_id idx")
      case True
      then show ?thesis using assms(5) by (intro exI [of _ "unat (ei_next_id idx)"]) (simp add: n k fresh_id_def)
    next
      case False
      then have "ei_get idx i = Some r'" using i assms(3) by (simp add: ei_insert_fresh ei_get_store)
      then obtain n where "1 \<le> n" "n < unat (ei_next_id idx)" "i = ''e_'' @ show_pad3 (of_nat n)"
        using assms(2) unfolding ids_below_def by blast
      then show ?thesis by (intro exI [of _ n]) (simp add: \<open>ei_next_id (snd _) = _\<close> k)
    qed
  qed
qed

lemma ei_clear_inv: "ei_inv (ei_clear idx)" "ids_below (ei_clear idx)" "ei_next_id (ei_clear idx) = ei_next_id idx"
  by (auto simp: ei_clear_def ids_below_def ei_get_def intro!: ei_invI)

lemma ei_remove_sel:
  "ei_get (snd (ei_remove_by_id i idx)) j = (if j = i then None else ei_get idx j)"
  "ei_next_id (snd (ei_remove_by_id i idx)) = ei_next_id idx"
  "hm_ok (ei_elements idx) \<Longrightarrow> hm_ok (ei_elements (snd (ei_remove_by_id i idx)))"
  by (simp_all add: ei_remove_by_id_def ei_get_def Let_def split: option.split)

lemma ei_remove_maps:
  assumes "ei_inv idx"
  shows "hm_get (ei_backend_map (snd (ei_remove_by_id i idx))) b = Some j \<Longrightarrow> j \<noteq> i \<and> hm_get (ei_backend_map idx) b = Some j"
    and "hm_get (ei_selector_map (snd (ei_remove_by_id i idx))) s = Some j \<Longrightarrow> j \<noteq> i \<and> hm_get (ei_selector_map idx) s = Some j"
  using ei_inv_backend [OF assms, of b j] ei_inv_selector [OF assms, of s j]
  by (auto simp: ei_remove_by_id_def Let_def split: option.splits if_splits)

lemma ei_remove_inv:
  assumes "ei_inv idx"
  shows "ei_inv (snd (ei_remove_by_id i idx))"
proof (rule ei_invI)
  show "hm_ok (ei_elements (snd (ei_remove_by_id i idx)))" using ei_inv_ok [OF assms] by (rule ei_remove_sel)
  fix j r assume "ei_get (snd (ei_remove_by_id i idx)) j = Some r"
  then show "er_id r = j" using ei_inv_id [OF assms] by (simp add: ei_remove_sel split: if_splits)
next
  fix b j assume "hm_get (ei_backend_map (snd (ei_remove_by_id i idx))) b = Some j"
  then show "\<exists>r. ei_get (snd (ei_remove_by_id i idx)) j = Some r \<and> er_backend_node_id r = b \<and> b \<noteq> 0"
    using ei_remove_maps(1) [OF assms] ei_inv_backend [OF assms] by (simp add: ei_remove_sel)
next
  fix s j assume "hm_get (ei_selector_map (snd (ei_remove_by_id i idx))) s = Some j"
  then show "\<exists>r. ei_get (snd (ei_remove_by_id i idx)) j = Some r \<and> er_selector r = s \<and> s \<noteq> []"
    using ei_remove_maps(2) [OF assms] ei_inv_selector [OF assms] by (simp add: ei_remove_sel)
qed

text \<open>An update in place of a stored element that keeps its backend node.\<close>

lemma ei_update_sel:
  "ei_get (ei_update_in_place r idx) j = (if j = er_id r then Some r else ei_get idx j)"
  "ei_next_id (ei_update_in_place r idx) = ei_next_id idx"
  "hm_ok (ei_elements idx) \<Longrightarrow> hm_ok (ei_elements (ei_update_in_place r idx))"
  "hm_get (ei_backend_map (ei_update_in_place r idx)) b
     = (if b = er_backend_node_id r \<and> b \<noteq> 0 then Some (er_id r) else hm_get (ei_backend_map idx) b)"
  by (auto simp: ei_update_in_place_def ei_get_def Let_def split: option.split)

lemma ei_update_selector_map:
  assumes "ei_inv idx" "ei_get idx (er_id r) = Some r0"
    and "hm_get (ei_selector_map (ei_update_in_place r idx)) s = Some j"
  shows "(j = er_id r \<and> s = er_selector r \<and> s \<noteq> []) \<or> (j \<noteq> er_id r \<and> hm_get (ei_selector_map idx) s = Some j)"
  using assms(2,3) ei_inv_selector [OF assms(1), of s j]
  by (auto simp: ei_update_in_place_def Let_def split: if_splits)

lemma ei_update_inv:
  assumes "ei_inv idx" "ei_get idx (er_id r) = Some r0" "er_backend_node_id r = er_backend_node_id r0"
  shows "ei_inv (ei_update_in_place r idx)"
proof (rule ei_invI)
  show "hm_ok (ei_elements (ei_update_in_place r idx))" using ei_inv_ok [OF assms(1)] by (rule ei_update_sel)
  fix j r' assume "ei_get (ei_update_in_place r idx) j = Some r'"
  then show "er_id r' = j" using ei_inv_id [OF assms(1)] by (auto simp: ei_update_sel split: if_splits)
next
  fix b j assume "hm_get (ei_backend_map (ei_update_in_place r idx)) b = Some j"
  then show "\<exists>r'. ei_get (ei_update_in_place r idx) j = Some r' \<and> er_backend_node_id r' = b \<and> b \<noteq> 0"
    using ei_inv_backend [OF assms(1), of b j] assms(2,3) by (auto simp: ei_update_sel split: if_splits)
next
  fix s j assume "hm_get (ei_selector_map (ei_update_in_place r idx)) s = Some j"
  from ei_update_selector_map [OF assms(1,2) this]
  show "\<exists>r'. ei_get (ei_update_in_place r idx) j = Some r' \<and> er_selector r' = s \<and> s \<noteq> []"
    using ei_inv_selector [OF assms(1), of s j] by (auto simp: ei_update_sel)
qed

lemma ids_below_mono:
  "ids_below idx \<Longrightarrow> ei_next_id idx' = ei_next_id idx \<Longrightarrow> (\<And>j. ei_get idx' j \<noteq> None \<Longrightarrow> ei_get idx j \<noteq> None) \<Longrightarrow> ids_below idx'"
  unfolding ids_below_def by (metis not_None_eq)

section \<open>Reachable indexes\<close>

text \<open>
  The index after \<open>n\<close> insertions of new elements, any number of removals, invalidations and updates
  of stored elements. The bound keeps the 64-bit id counter from wrapping.
\<close>

inductive ei_reachable :: "nat \<Rightarrow> element_index \<Rightarrow> bool" where
  new: "ei_reachable 0 element_index_new"
| insert: "ei_reachable n idx \<Longrightarrow> er_id r = [] \<Longrightarrow> n < 2 ^ 64 - 2 \<Longrightarrow> ei_reachable (Suc n) (snd (ei_insert ds fm r idx))"
| update: "ei_reachable n idx \<Longrightarrow> ei_get idx (er_id r) = Some r0 \<Longrightarrow> er_backend_node_id r = er_backend_node_id r0
     \<Longrightarrow> ei_reachable n (ei_update_in_place r idx)"
| remove: "ei_reachable n idx \<Longrightarrow> ei_reachable n (snd (ei_remove_by_id i idx))"
| clear: "ei_reachable n idx \<Longrightarrow> ei_reachable n (ei_invalidate_all idx)"

lemma ei_reachable_inv:
  "ei_reachable n idx \<Longrightarrow> ei_inv idx \<and> ids_below idx \<and> unat (ei_next_id idx) = Suc n"
proof (induction rule: ei_reachable.induct)
  case new
  then show ?case using ei_inv_new by (simp add: element_index_new_def)
next
  case (insert n idx r ds fm)
  then show ?case using ei_insert_inv [of idx r ds fm] by simp
next
  case (update n idx r r0)
  then have "ids_below (ei_update_in_place r idx)"
    by (auto intro: ids_below_mono simp: ei_update_sel split: if_splits)
  then show ?case using update by (simp add: ei_update_inv ei_update_sel)
next
  case (remove n idx i)
  then have "ids_below (snd (ei_remove_by_id i idx))"
    by (auto intro: ids_below_mono simp: ei_remove_sel split: if_splits)
  then show ?case using remove by (simp add: ei_remove_inv ei_remove_sel)
next
  case (clear n idx)
  then show ?case by (simp add: ei_invalidate_all_def ei_clear_inv)
qed

end
