(* ===== verification/Resolve_Props.thy ===== *)
theory Resolve_Props
  imports Index_Inv
begin

text \<open>
  What the element index and the resolution ladder guarantee: identity of look-ups and fresh ids,
  soundness of a resolved reference, independence of the hash order, the exact reach of the selector
  check, and the two paths on which a reference is not what the caller may expect.
\<close>

section \<open>Vetting\<close>

lemma verify_snapshot_Inr [simp]: "verify_snapshot ds fm r = Inr u \<longleftrightarrow> \<not> ei_is_stale ds fm r"
  by (auto simp: verify_snapshot_def ei_is_stale_def)

lemma check_interactable_Inr [simp]: "check_interactable r = Inr u \<longleftrightarrow> er_visible r \<and> er_enabled r"
  by (simp add: check_interactable_def)

definition usable :: "dom_state \<Rightarrow> frame_manager \<Rightarrow> element_ref \<Rightarrow> bool" where
  "usable ds fm r = (\<not> ei_is_stale ds fm r \<and> er_visible r \<and> er_enabled r)"

lemma vet_Inr: "vet ds fm r = Inr r' \<longleftrightarrow> r' = r \<and> usable ds fm r"
  by (auto simp: vet_def try_then_Inr usable_def)

lemma vet_unique_Inr: "vet_unique ds fm d cs = Some (Inr r) \<longleftrightarrow> cs = [r] \<and> usable ds fm r"
  by (auto simp: vet_unique_def vet_Inr split: list.splits)

lemma first_some_Some: "first_some xs = Some y \<Longrightarrow> Some y \<in> set xs"
proof (induction xs)
  case (Cons x xs)
  then show ?case by (cases x) auto
qed simp

section \<open>Candidates\<close>

lemma ei_select_mem:
  assumes "ei_inv idx" "iter_order ord"
  shows "r \<in> set (ei_select ord idx P) \<longleftrightarrow> ei_get idx (er_id r) = Some r \<and> P r"
  using ei_inv_id [OF assms(1)] hm_values_set [OF assms(2) ei_inv_ok [OF assms(1)], of r]
  by (auto simp: ei_select_def ei_get_def)

text \<open>A singleton answer names the one stored element that satisfies the predicate.\<close>

definition only_match :: "element_index \<Rightarrow> (element_ref \<Rightarrow> bool) \<Rightarrow> element_ref \<Rightarrow> bool" where
  "only_match idx P r = (P r \<and> (\<forall>i r'. ei_get idx i = Some r' \<and> P r' \<longrightarrow> r' = r))"

lemma ei_select_single:
  assumes "ei_inv idx" "iter_order ord" "ei_select ord idx P = [r]"
  shows "ei_get idx (er_id r) = Some r \<and> only_match idx P r"
proof -
  have m: "x \<in> set [r] \<longleftrightarrow> ei_get idx (er_id x) = Some x \<and> P x" for x
    using ei_select_mem [OF assms(1,2), of x P] by (simp only: assms(3))
  have "r' = r" if "ei_get idx i = Some r'" "P r'" for i r'
    using m [of r'] that ei_inv_id [OF assms(1) that(1)] by simp
  then show ?thesis using m [of r] by (auto simp: only_match_def)
qed

text \<open>The predicates a request may single an element out by.\<close>

definition request_predicates :: "resolve_request \<Rightarrow> (element_ref \<Rightarrow> bool) set" where
  "request_predicates req =
     {P. \<exists>s. rq_selector req = Some s \<and> P = (\<lambda>r. er_selector r = s)}
     \<union> {P. \<exists>d. rq_dom_id req = Some d \<and> P = (\<lambda>r. er_dom_id r = d)}
     \<union> {P. \<exists>n. (rq_name req = Some n \<or> rq_accessible_name req = Some n) \<and> P = (\<lambda>r. er_name r = n \<or> er_text_content r = n)}
     \<union> {P. \<exists>q n. rq_role req = Some q \<and> rq_accessible_name req = Some n
           \<and> P = (\<lambda>r. er_role r = q \<and> (er_name r = n \<or> er_text_content r = n))}
     \<union> {P. \<exists>q. rq_role req = Some q \<and> P = (\<lambda>r. er_role r = q)}
     \<union> {P. \<exists>t. rq_text req = Some t \<and> P = text_matches t}"

definition resolved_by :: "element_index \<Rightarrow> resolve_request \<Rightarrow> element_ref \<Rightarrow> bool" where
  "resolved_by idx req r =
     (rq_ref_id req = Some (er_id r) \<or> rq_backend_node_id req = Some (er_backend_node_id r)
      \<or> rq_selector req = Some (er_selector r) \<or> (\<exists>P \<in> request_predicates req. only_match idx P r))"

definition sound_result ::
  "dom_state \<Rightarrow> frame_manager \<Rightarrow> element_index \<Rightarrow> resolve_request \<Rightarrow> element_ref runtime_result option \<Rightarrow> bool" where
  "sound_result ds fm idx req res =
     (\<forall>r. res = Some (Inr r) \<longrightarrow> ei_get idx (er_id r) = Some r \<and> usable ds fm r \<and> resolved_by idx req r)"

lemma sound_None [simp]: "sound_result ds fm idx req None" "sound_result ds fm idx req (Some (Inl e))"
  by (simp_all add: sound_result_def)

lemma sound_vet_unique:
  assumes "ei_inv idx" "iter_order ord" "P \<in> request_predicates req"
  shows "sound_result ds fm idx req (vet_unique ds fm d (ei_select ord idx P))"
  using assms(3) ei_select_single [OF assms(1,2)] by (auto simp: sound_result_def vet_unique_Inr resolved_by_def)

lemma sound_vet_single:
  assumes "ei_inv idx" "iter_order ord" "P \<in> request_predicates req"
  shows "sound_result ds fm idx req (case ei_select ord idx P of [r] \<Rightarrow> Some (vet ds fm r) | _ \<Rightarrow> None)"
  using assms(3) ei_select_single [OF assms(1,2), of P]
  by (auto simp: sound_result_def vet_Inr resolved_by_def split: list.split)

lemma sound_tiers:
  assumes "ei_inv idx" "iter_order ord"
  shows "sound_result ds fm idx req (tier_ref_id ds fm idx req)"
    and "sound_result ds fm idx req (tier_backend ds fm idx req)"
    and "sound_result ds fm idx req (tier_selector ds fm ord idx req)"
    and "sound_result ds fm idx req (tier_dom_id ds fm ord idx req)"
    and "sound_result ds fm idx req (tier_name ds fm ord idx req)"
    and "sound_result ds fm idx req (tier_role_name ds fm ord idx req)"
    and "sound_result ds fm idx req (tier_text ds fm ord idx req)"
    and "sound_result ds fm idx req (tier_fresh_ax ds fm ord idx req)"
proof -
  note u = sound_vet_unique [OF assms]
  show "sound_result ds fm idx req (tier_ref_id ds fm idx req)"
    using ei_inv_id [OF assms(1)]
    by (auto simp: tier_ref_id_def sound_result_def vet_Inr resolved_by_def bind_eq_Some_conv)
  show "sound_result ds fm idx req (tier_backend ds fm idx req)"
    using ei_inv_id [OF assms(1)] ei_inv_backend [OF assms(1)]
    by (fastforce simp: tier_backend_def sound_result_def vet_Inr resolved_by_def ei_get_by_backend_def bind_eq_Some_conv)
  show "sound_result ds fm idx req (tier_dom_id ds fm ord idx req)"
    by (auto simp: tier_dom_id_def find_by_dom_id_def request_predicates_def intro!: u split: option.split)
  show "sound_result ds fm idx req (tier_name ds fm ord idx req)"
    by (auto simp: tier_name_def find_by_name_def request_predicates_def intro!: u split: option.split)
  show "sound_result ds fm idx req (tier_text ds fm ord idx req)"
    by (auto simp: tier_text_def find_by_text_def request_predicates_def intro!: u split: option.split)
  show "sound_result ds fm idx req (tier_fresh_ax ds fm ord idx req)"
    by (auto simp: tier_fresh_ax_def find_by_name_def request_predicates_def intro!: u split: option.split)
  show "sound_result ds fm idx req (tier_role_name ds fm ord idx req)"
    unfolding tier_role_name_def find_by_role_def find_by_role_name_def prod.case
    by (auto simp: request_predicates_def intro!: u sound_vet_single [OF assms] split: option.split)
  have "sound_result ds fm idx req (Some (vet ds fm r))"
    if "rq_selector req = Some sel" "hm_get (ei_selector_map idx) sel = Some i" "ei_get idx i = Some r" for sel i r
    using ei_inv_id [OF assms(1) that(3)] ei_inv_selector [OF assms(1) that(2)] that
    by (simp add: sound_result_def vet_Inr resolved_by_def)
  then show "sound_result ds fm idx req (tier_selector ds fm ord idx req)"
    unfolding tier_selector_def find_by_selector_def
    by (auto simp: request_predicates_def bind_eq_Some_conv intro!: u split: option.split sum.split)
qed

lemma sound_first_some:
  "(\<And>x. x \<in> set xs \<Longrightarrow> sound_result ds fm idx req x) \<Longrightarrow> sound_result ds fm idx req (first_some xs)"
  by (induction xs) (auto, metis or_else.elims)

lemma sound_resolve:
  assumes "ei_inv idx" "iter_order ord"
  shows "sound_result ds fm idx req (resolve J ds fm ord idx req)"
proof -
  let ?t = "first_some [tier_ref_id ds fm idx req, tier_backend ds fm idx req, tier_selector ds fm ord idx req,
              tier_dom_id ds fm ord idx req, tier_name ds fm ord idx req, tier_role_name ds fm ord idx req,
              tier_text ds fm ord idx req, tier_fresh_ax ds fm ord idx req]"
  have "sound_result ds fm idx req ?t"
    using sound_tiers [OF assms] by (intro sound_first_some) auto
  then show ?thesis
    unfolding resolve_def by (cases ?t) (auto simp: sound_result_def simp del: first_some.simps)
qed

section \<open>Independence of the iteration order\<close>

text \<open>Results that agree up to the order in which an ambiguity error lists its candidates.\<close>

definition ambiguity :: "'a runtime_result \<Rightarrow> (string list \<times> string) option" where
  "ambiguity res = (case res of Inl (AmbiguousElement cs d) \<Rightarrow> Some (cs, d) | _ \<Rightarrow> None)"

definition same_result :: "'a runtime_result \<Rightarrow> 'a runtime_result \<Rightarrow> bool" where
  "same_result a b =
     (a = b \<or> (\<exists>cs cs' d. ambiguity a = Some (cs, d) \<and> ambiguity b = Some (cs', d) \<and> mset cs = mset cs'))"

lemma same_result_refl [simp]: "same_result a a"
  by (simp add: same_result_def)

lemma same_result_ambiguous [simp]:
  "same_result (Inl (AmbiguousElement cs d)) (Inl (AmbiguousElement cs' d')) \<longleftrightarrow> mset cs = mset cs' \<and> d = d'"
  by (auto simp: same_result_def ambiguity_def)

lemma same_option_refl [simp]: "rel_option same_result x x"
  by (cases x) simp_all

lemma ei_select_mset: "iter_order ord \<Longrightarrow> mset (ei_select ord idx P) = mset (filter P (map snd (ei_elements idx)))"
  unfolding ei_select_def hm_values_def iter_order_def mset_filter mset_map by simp

lemma same_vet_unique:
  assumes "mset cs = mset cs'"
  shows "rel_option same_result (vet_unique ds fm d cs) (vet_unique ds fm d cs')"
proof -
  have l: "length cs = length cs'" using assms by (rule mset_eq_length)
  consider "cs = []" | r where "cs = [r]" | a b xs where "cs = a # b # xs"
    by (metis list.exhaust)
  then show ?thesis
  proof cases
    case 3
    then obtain a' b' xs' where cs': "cs' = a' # b' # xs'"
      using l by (metis length_0_conv length_Suc_conv list.exhaust list.size(3) nat.simps(3) length_Cons)
    have "mset (map er_id cs) = mset (map er_id cs')" using assms by (metis mset_map)
    then show ?thesis using l by (simp add: vet_unique_def 3 cs')
  qed (use assms in \<open>auto simp: vet_unique_def\<close>)
qed

lemma same_select:
  "iter_order ord \<Longrightarrow> iter_order ord' \<Longrightarrow>
   rel_option same_result (vet_unique ds fm d (ei_select ord idx P)) (vet_unique ds fm d (ei_select ord' idx P))"
  by (rule same_vet_unique) (simp add: ei_select_mset)

lemma same_select_single:
  assumes "iter_order ord" "iter_order ord'"
  shows "(case ei_select ord idx P of [r] \<Rightarrow> Some (vet ds fm r) | _ \<Rightarrow> None)
       = (case ei_select ord' idx P of [r] \<Rightarrow> Some (vet ds fm r) | _ \<Rightarrow> None)"
proof -
  have m: "mset (ei_select ord idx P) = mset (ei_select ord' idx P)" using assms by (simp add: ei_select_mset)
  then have l: "length (ei_select ord idx P) = length (ei_select ord' idx P)" by (rule mset_eq_length)
  show ?thesis
  proof (cases "length (ei_select ord idx P) = 1")
    case True
    then obtain r r' where "ei_select ord idx P = [r]" "ei_select ord' idx P = [r']"
      using l by (metis One_nat_def length_0_conv length_Suc_conv)
    then show ?thesis using m by simp
  next
    case False
    then show ?thesis using l by (auto split: list.split)
  qed
qed

lemma same_or_else:
  "rel_option R x x' \<Longrightarrow> rel_option R y y' \<Longrightarrow> rel_option R (or_else x y) (or_else x' y')"
  by (cases x; cases x') auto

lemma same_tiers:
  assumes "iter_order ord" "iter_order ord'"
  shows "rel_option same_result (tier_selector ds fm ord idx req) (tier_selector ds fm ord' idx req)"
    and "rel_option same_result (tier_dom_id ds fm ord idx req) (tier_dom_id ds fm ord' idx req)"
    and "rel_option same_result (tier_name ds fm ord idx req) (tier_name ds fm ord' idx req)"
    and "rel_option same_result (tier_role_name ds fm ord idx req) (tier_role_name ds fm ord' idx req)"
    and "rel_option same_result (tier_text ds fm ord idx req) (tier_text ds fm ord' idx req)"
    and "rel_option same_result (tier_fresh_ax ds fm ord idx req) (tier_fresh_ax ds fm ord' idx req)"
  using same_select [OF assms]
  by (simp_all add: tier_selector_def tier_dom_id_def tier_name_def tier_role_name_def tier_text_def
      tier_fresh_ax_def find_by_selector_def find_by_dom_id_def find_by_name_def find_by_role_def
      find_by_role_name_def find_by_text_def same_select_single [OF assms] split: option.split sum.split)

lemma same_resolve:
  assumes "iter_order ord" "iter_order ord'"
  shows "rel_option same_result (resolve J ds fm ord idx req) (resolve J ds fm ord' idx req)"
proof -
  have t: "rel_option same_result
      (first_some [tier_ref_id ds fm idx req, tier_backend ds fm idx req, tier_selector ds fm ord idx req,
         tier_dom_id ds fm ord idx req, tier_name ds fm ord idx req, tier_role_name ds fm ord idx req,
         tier_text ds fm ord idx req, tier_fresh_ax ds fm ord idx req])
      (first_some [tier_ref_id ds fm idx req, tier_backend ds fm idx req, tier_selector ds fm ord' idx req,
         tier_dom_id ds fm ord' idx req, tier_name ds fm ord' idx req, tier_role_name ds fm ord' idx req,
         tier_text ds fm ord' idx req, tier_fresh_ax ds fm ord' idx req])"
    unfolding first_some.simps by (intro same_or_else same_option_refl same_tiers [OF assms])
  show ?thesis
    unfolding resolve_def using t by (cases rule: option.rel_cases) (simp_all del: first_some.simps)
qed

section \<open>Escaping\<close>

text \<open>A word without special characters occurs at the start of an escaped string iff it does unescaped.\<close>

lemma css_escape_simps [simp]:
  "css_escape [] = []"
  "css_escape (c # cs) = (if c \<in> set css_special then [CHR 0x5C, c] else [c]) @ css_escape cs"
  by (simp_all add: css_escape_def)

lemma prefix_css_escape:
  "set p \<inter> set css_special = {} \<Longrightarrow> is_prefix_of p (css_escape s) = is_prefix_of p s"
proof (induction p s rule: is_prefix_of.induct)
  case (3 c cs d ds)
  have "CHR 0x5C \<in> set css_special" by (simp add: css_special_def)
  then show ?case using 3 by auto
qed simp_all

lemma contains_css_escape:
  assumes "set p \<inter> set css_special = {}"
  shows "str_contains (css_escape s) (CHR '':'' # p) = str_contains s (CHR '':'' # p)"
proof (induction s)
  case (Cons c cs)
  have "CHR '':'' \<in> set css_special" by (simp add: css_special_def)
  then show ?case using Cons prefix_css_escape [OF assms, of cs] by auto
qed simp

text \<open>A concrete element for the examples.\<close>

definition sample_ref :: "i64 \<Rightarrow> string \<Rightarrow> element_ref" where
  "sample_ref backend dom_id =
     \<lparr>er_id = [], er_backend_node_id = backend, er_node_id = 0, er_target_id = ''t1'', er_target_generation = 0,
      er_frame_id = ''main'', er_frame_tree_version = 0, er_role = ''button'', er_name = ''OK'',
      er_tag_name = ''BUTTON'', er_dom_id = dom_id, er_classes = [], er_selector = [], er_text_content = [],
      er_bounding_box = None, er_visible = True, er_enabled = True, er_dom_version_created = 0\<rparr>"

lemma sample_ref_sel [simp]:
  "er_id (sample_ref b d) = []" "er_backend_node_id (sample_ref b d) = b" "er_frame_id (sample_ref b d) = ''main''"
  "er_dom_version_created (sample_ref b d) = 0" "er_frame_tree_version (sample_ref b d) = 0"
  "er_target_generation (sample_ref b d) = 0"
  by (simp_all add: sample_ref_def)

definition sample_index :: element_index where
  "sample_index = snd (ei_insert dom_state_new frame_manager_new (sample_ref 7 ''ok'') element_index_new)"

lemma sample_index_reachable: "ei_reachable 1 sample_index"
  unfolding sample_index_def One_nat_def
  by (rule ei_reachable.insert [OF ei_reachable.new]) simp_all

section \<open>Properties\<close>

text \<open>
  C34: in every reachable index a look-up answers with the element that was asked for: by id with
  the element of that id, by backend node with a stored element of that node, and the selector map
  only leads to stored elements of that selector, whatever was updated or removed in between.
\<close>

theorem index_lookups_exact:
  assumes "ei_reachable n idx"
  shows "(\<forall>i r. ei_get idx i = Some r \<longrightarrow> er_id r = i)
    \<and> (\<forall>b r. ei_get_by_backend idx b = Some r \<longrightarrow> er_backend_node_id r = b \<and> ei_get idx (er_id r) = Some r)
    \<and> (\<forall>s i. hm_get (ei_selector_map idx) s = Some i \<longrightarrow> (\<exists>r. ei_get idx i = Some r \<and> er_selector r = s))"
proof -
  have i: "ei_inv idx" using ei_reachable_inv [OF assms] by simp
  show ?thesis
    using ei_inv_id [OF i] ei_inv_backend [OF i] ei_inv_selector [OF i]
    by (fastforce simp: ei_get_by_backend_def bind_eq_Some_conv)
qed

theorem index_lookups_exact_witness:
  "\<exists>r. ei_get_by_backend sample_index 7 = Some r \<and> er_backend_node_id r = 7 \<and> ei_get sample_index (er_id r) = Some r"
proof -
  have "ei_get_by_backend sample_index 7 \<noteq> None" by code_simp
  then show ?thesis using index_lookups_exact [OF sample_index_reachable] by blast
qed

text \<open>
  Inserting a new element (fewer than \<open>2^64 - 2\<close> insertions so far) allots an id that no stored
  element has, stores the element under it, and leaves every other element as it was.
\<close>

lemma insert_allots_fresh_id:
  assumes "ei_reachable n idx" "er_id r = []" "n < 2 ^ 64 - 2"
  shows "let (i, idx') = ei_insert ds fm r idx in
           ei_get idx i = None \<and> (\<exists>r'. ei_get idx' i = Some r' \<and> er_backend_node_id r' = er_backend_node_id r)
           \<and> (\<forall>j. j \<noteq> i \<longrightarrow> ei_get idx' j = ei_get idx j)"
proof -
  have "ids_below idx" using ei_reachable_inv [OF assms(1)] by simp
  then show ?thesis
    using fresh_id_unused [of idx] assms(2) by (simp add: ei_insert_fresh ei_get_store)
qed

text \<open>
  C6: whatever \<open>resolve\<close> returns is stored in the index, not stale in any of its three versions,
  visible and enabled, and it is what the request asked for: the element of the requested id,
  backend node or selector, or the only stored element that satisfies one of the request's criteria.
\<close>

theorem resolve_sound:
  assumes "ei_reachable n idx" "iter_order ord" "resolve J ds fm ord idx req = Some (Inr r)"
  shows "ei_get idx (er_id r) = Some r \<and> \<not> ei_is_stale ds fm r \<and> er_visible r \<and> er_enabled r \<and> resolved_by idx req r"
  using sound_resolve [of idx ord ds fm req J] assms ei_reachable_inv [OF assms(1)]
  by (simp add: sound_result_def usable_def)

theorem resolve_sound_witness:
  "\<exists>r. resolve std_json dom_state_new frame_manager_new rev sample_index
         (resolve_request_default\<lparr>rq_dom_id := Some ''ok''\<rparr>) = Some (Inr r)
       \<and> ei_get sample_index (er_id r) = Some r \<and> \<not> ei_is_stale dom_state_new frame_manager_new r"
proof -
  let ?r = "(sample_ref 7 ''ok'')\<lparr>er_id := ''e_001'', er_selector := ''#ok''\<rparr>"
  have "resolve std_json dom_state_new frame_manager_new rev sample_index
      (resolve_request_default\<lparr>rq_dom_id := Some ''ok''\<rparr>) = Some (Inr ?r)" by code_simp
  then show ?thesis using resolve_sound [OF sample_index_reachable iter_order_rev] by blast
qed

text \<open>
  \<open>resolve\<close> does not depend on the iteration order of the hash map: in two orders it panics in
  both or neither, returns the same element or the same error, and an ambiguity error lists the same
  candidates.
\<close>

lemma resolve_deterministic:
  assumes "iter_order ord" "iter_order ord'"
  shows "rel_option same_result (resolve J ds fm ord idx req) (resolve J ds fm ord' idx req)"
  by (rule same_resolve [OF assms])

text \<open>
  An element inserted with no versions of its own, in a named frame, is pinned to the current
  ones and is not stale, except in one case: its frame is not known to the frame manager (never seen,
  or forgotten by a reconnect) while the global frame version is not 0. Then the global version is
  stored, which never equals the frame's, and the reference is stale from the start.
\<close>

lemma insert_pins_current_versions:
  assumes "er_dom_version_created r = 0" "er_frame_tree_version r = 0" "er_target_generation r = 0"
    and "er_frame_id r \<noteq> []"
  shows "let (i, idx') = ei_insert ds fm r idx in
           \<exists>r'. ei_get idx' i = Some r'
             \<and> ei_is_stale ds fm r' = (fm_frame_version fm (er_frame_id r) = 0 \<and> ds_frame_tree_version ds \<noteq> 0)"
  using assms
  by (auto simp: ei_insert_def Let_def ei_get_store ei_pin_def ei_is_stale_def is_stale_against_def is_stale_for_frame_def)

text \<open>
  The selector check rejects exactly the selectors that contain \<open>:contains\<close>. A selector built from
  a DOM id passes it unless the id itself contains that text: escaping the colon does not hide it.
\<close>

lemma built_selector_valid:
  assumes "dom_id \<noteq> []"
  shows "is_ok (validate_selector (build_selector tag dom_id classes)) \<longleftrightarrow> \<not> str_contains dom_id '':contains''"
proof -
  have p: "set ''contains'' \<inter> set css_special = {}" by (simp add: css_special_def)
  show ?thesis using assms contains_css_escape [OF p, of dom_id]
    by (simp add: validate_selector_def build_selector_def)
qed

text \<open>
  The browser-backed \<open>resolve_with_runtime\<close> accepts an element on its tag alone. When the index
  cannot resolve the request and the browser resolves the requested backend node to an element
  whose tag occurs once in the index, that indexed element is returned, with no check of its
  backend node, its staleness or its interactability.
\<close>

lemma runtime_tier_accepts_by_tag:
  assumes "resolve_in J ord w0 req = Some (Inl (ResolutionFailed d))"
    and "rq_backend_node_id req = Some b" "rq_frame_id req = None" "rq_target_id req = None"
    and "dom_resolve_node J call sid b None = Inr resolved"
    and "Option.bind (j_get J resolved ''object'') (\<lambda>v. get_str J v ''objectId'') = Some obj"
    and "runtime_call_function_on J call sid obj read_back_tag [] = Inr info"
    and "Option.bind (Option.bind (j_get J info ''result'') (\<lambda>r. j_get J r ''value'')) (\<lambda>v. get_str J v ''tag'') = Some tag"
    and "find_by_tag ord (w_idx w1) tag = [r]"
  shows "resolve_with_runtime J call ord w0 w1 w2 req sid = Some (Inr r)"
  using assms
  by (simp add: resolve_with_runtime_def is_retried_error_def is_resolution_failed_def rt_backend_tier_def)

end
