(* ===== verification/Dom_Diff.thy ===== *)
theory Dom_Diff
  imports Index_Inv
begin

text \<open>
  \<open>src/browser_runtime/dom_diff.rs\<close>: the incremental update of the element index by DOM events. The
  engine's handlers change the index and the engine's counters; they read the \<open>DomState\<close> (\<open>ds\<close>),
  which the dispatcher has already advanced. \<open>ord\<close> is the iteration order of the element map,
  \<open>clk\<close> the clock: the elapsed microseconds and the wall time in milliseconds of the call.
\<close>

section \<open>Data\<close>

datatype diff_kind = Incremental | FullRebuild

fun diff_kind_as_str :: "diff_kind \<Rightarrow> string" where
  "diff_kind_as_str Incremental = ''Incremental''"
| "diff_kind_as_str FullRebuild = ''FullRebuild''"

record dom_diff =
  dd_kind :: string
  dd_kind_enum :: diff_kind
  dd_sequence :: u64
  dd_timestamp_ms :: u64
  dd_dom_version_before :: u64
  dd_dom_version_after :: u64
  dd_eiv_before :: u64
  dd_eiv_after :: u64
  dd_added :: "string list"
  dd_removed :: "string list"
  dd_changed :: "string list"
  dd_invalidated_refs :: "string list"
  dd_affected_parents :: "i64 list"
  dd_element_count_after :: nat
  dd_invalidate_reason :: "string option"

definition dom_diff_to_value :: "'v json_ops \<Rightarrow> dom_diff \<Rightarrow> 'v" where
  "dom_diff_to_value J d = j_obj J
     [(''kind'', j_str J (dd_kind d)), (''sequence'', j_u64 J (dd_sequence d)),
      (''dom_version_before'', j_u64 J (dd_dom_version_before d)),
      (''dom_version_after'', j_u64 J (dd_dom_version_after d)),
      (''element_index_version_before'', j_u64 J (dd_eiv_before d)),
      (''element_index_version_after'', j_u64 J (dd_eiv_after d)),
      (''added'', j_strs J (dd_added d)), (''removed'', j_strs J (dd_removed d)),
      (''changed'', j_strs J (dd_changed d)), (''invalidated_refs'', j_strs J (dd_invalidated_refs d)),
      (''affected_parents'', j_arr J (map (j_i64 J) (dd_affected_parents d))),
      (''element_count_after'', j_u64 J (of_nat (dd_element_count_after d))),
      (''invalidate_reason'', j_opt J (j_str J) (dd_invalidate_reason d))]"

record diff_engine =
  de_last_diff :: "dom_diff option"
  de_incremental_count :: u64
  de_rebuild_count :: u64
  de_total_incremental_us :: u64
  de_total_rebuild_us :: u64

definition diff_engine_new :: diff_engine where
  "diff_engine_new = \<lparr>de_last_diff = None, de_incremental_count = 0, de_rebuild_count = 0,
     de_total_incremental_us = 0, de_total_rebuild_us = 0\<rparr>"

record diff_metrics =
  dm_incremental_count :: u64
  dm_rebuild_count :: u64
  dm_total_incremental_us :: u64
  dm_total_rebuild_us :: u64
  dm_element_count :: nat
  dm_last_diff_kind :: "string option"

definition de_metrics :: "diff_engine \<Rightarrow> element_index \<Rightarrow> diff_metrics" where
  "de_metrics e idx = \<lparr>dm_incremental_count = de_incremental_count e, dm_rebuild_count = de_rebuild_count e,
     dm_total_incremental_us = de_total_incremental_us e, dm_total_rebuild_us = de_total_rebuild_us e,
     dm_element_count = ei_len idx, dm_last_diff_kind = map_option dd_kind (de_last_diff e)\<rparr>"

type_synonym dd_state = "diff_engine \<times> element_index"

record clock =
  clk_us :: u64
  clk_now_ms :: u64

section \<open>Parsing\<close>

record parsed_node =
  pn_node_id :: i64
  pn_backend_node_id :: i64
  pn_tag_name :: string
  pn_dom_id :: string
  pn_classes :: "string list"
  pn_text :: string

text \<open>The attribute array holds keys and values in turn; a later \<open>id\<close> or \<open>class\<close> overrides.\<close>

fun attr_pairs :: "'v json_ops \<Rightarrow> 'v list \<Rightarrow> string \<times> string list \<Rightarrow> string \<times> string list" where
  "attr_pairs J (kv # vv # rest) (dom_id, classes) =
     (let k = unwrap_or [] (j_as_str J kv); v = unwrap_or [] (j_as_str J vv) in
      attr_pairs J rest
        (if k = ''id'' then (v, classes)
         else if k = ''class'' then (dom_id, split_whitespace v)
         else (dom_id, classes)))"
| "attr_pairs J _ acc = acc"

definition extract_attrs :: "'v json_ops \<Rightarrow> 'v \<Rightarrow> string \<times> string list \<times> string" where
  "extract_attrs J node =
     (let (dom_id, classes) =
            (case get_array J node ''attributes'' of None \<Rightarrow> ([], []) | Some arr \<Rightarrow> attr_pairs J arr ([], []));
          text1 = unwrap_or [] (get_str J node ''nodeValue'');
          text2 = (if text1 = [] then unwrap_or text1 (get_str J node ''textContent'') else text1)
      in (dom_id, classes, text2))"

definition parse_dom_node :: "'v json_ops \<Rightarrow> 'v \<Rightarrow> parsed_node option" where
  "parse_dom_node J node =
     (let node_id = unwrap_or 0 (get_i64 J node ''nodeId'');
          backend = unwrap_or 0 (get_i64 J node ''backendNodeId'')
      in if backend = 0 \<and> node_id = 0 then None
         else
           let tag_lower = to_lowercase (unwrap_or [] (or_else (get_str J node ''localName'') (get_str J node ''nodeName'')));
               (dom_id, classes, txt) = extract_attrs J node
           in Some \<lparr>pn_node_id = node_id, pn_backend_node_id = backend,
                    pn_tag_name = (if tag_lower = [] then ''div'' else tag_lower),
                    pn_dom_id = dom_id, pn_classes = classes, pn_text = txt\<rparr>)"

definition build_selector_incremental :: "string \<Rightarrow> string \<Rightarrow> string list \<Rightarrow> string" where
  "build_selector_incremental tag dom_id classes =
     (if dom_id \<noteq> [] then ''#'' @ css_escape dom_id
      else if classes = [] \<or> tag = [] then (if tag = [] then ''*'' else to_lowercase tag)
      else to_lowercase tag @ concat (map (\<lambda>c. ''.'' @ css_escape c) classes))"

section \<open>Building diffs\<close>

definition incremental_diff ::
  "clock \<Rightarrow> u64 \<Rightarrow> u64 \<Rightarrow> u64 \<Rightarrow> u64 \<Rightarrow> u64 \<Rightarrow> string list \<Rightarrow> string list \<Rightarrow> string list \<Rightarrow> string list
     \<Rightarrow> i64 list \<Rightarrow> string option \<Rightarrow> element_index \<Rightarrow> dom_diff" where
  "incremental_diff clk seq dom_before dom_after eiv_before eiv_after added removed changed invalidated parents reason idx =
     \<lparr>dd_kind = diff_kind_as_str Incremental, dd_kind_enum = Incremental, dd_sequence = seq,
      dd_timestamp_ms = clk_now_ms clk, dd_dom_version_before = dom_before, dd_dom_version_after = dom_after,
      dd_eiv_before = eiv_before, dd_eiv_after = eiv_after, dd_added = added, dd_removed = removed,
      dd_changed = changed, dd_invalidated_refs = invalidated, dd_affected_parents = parents,
      dd_element_count_after = ei_len idx, dd_invalidate_reason = reason\<rparr>"

definition build_full_diff ::
  "clock \<Rightarrow> dom_state \<Rightarrow> u64 \<Rightarrow> u64 \<Rightarrow> u64 \<Rightarrow> string \<Rightarrow> string option \<Rightarrow> dd_state \<Rightarrow> dom_diff \<times> dd_state" where
  "build_full_diff clk ds seq dom_before eiv_before reason invalidate_reason st =
     (let (e, idx) = st;
          e = e\<lparr>de_rebuild_count := de_rebuild_count e + 1, de_total_rebuild_us := de_total_rebuild_us e + clk_us clk\<rparr>
      in (\<lparr>dd_kind = diff_kind_as_str FullRebuild, dd_kind_enum = FullRebuild, dd_sequence = seq,
           dd_timestamp_ms = clk_now_ms clk, dd_dom_version_before = dom_before,
           dd_dom_version_after = ds_dom_version ds, dd_eiv_before = eiv_before,
           dd_eiv_after = ds_element_index_version ds, dd_added = [], dd_removed = [], dd_changed = [],
           dd_invalidated_refs = [], dd_affected_parents = [], dd_element_count_after = ei_len idx,
           dd_invalidate_reason = Some (reason @ '': '' @ unwrap_or [] invalidate_reason)\<rparr>, (e, idx)))"

definition count_incremental :: "clock \<Rightarrow> diff_engine \<Rightarrow> diff_engine" where
  "count_incremental clk e = e\<lparr>de_incremental_count := de_incremental_count e + 1,
     de_total_incremental_us := de_total_incremental_us e + clk_us clk\<rparr>"

definition nonzero_id :: "i64 \<Rightarrow> i64 list" where
  "nonzero_id i = filter (\<lambda>x. x \<noteq> 0) [i]"

section \<open>Handlers\<close>

text \<open>The reference built for an inserted node: frame id empty, frame version the global one.\<close>

definition inserted_ref :: "dom_state \<Rightarrow> string option \<Rightarrow> parsed_node \<Rightarrow> element_ref" where
  "inserted_ref ds sid p =
     \<lparr>er_id = [], er_backend_node_id = pn_backend_node_id p, er_node_id = pn_node_id p,
      er_target_id = takeWhile (\<lambda>c. c \<noteq> CHR ''-'') (unwrap_or ''t1'' sid),
      er_target_generation = ds_target_generation ds, er_frame_id = [],
      er_frame_tree_version = ds_frame_tree_version ds, er_role = [], er_name = pn_text p,
      er_tag_name = pn_tag_name p, er_dom_id = pn_dom_id p, er_classes = pn_classes p,
      er_selector = build_selector_incremental (pn_tag_name p) (pn_dom_id p) (pn_classes p),
      er_text_content = pn_text p, er_bounding_box = None, er_visible = True, er_enabled = True,
      er_dom_version_created = ds_dom_version ds\<rparr>"

definition handle_insert ::
  "'v json_ops \<Rightarrow> clock \<Rightarrow> dom_state \<Rightarrow> frame_manager \<Rightarrow> 'v cdp_event \<Rightarrow> u64 \<Rightarrow> u64 \<Rightarrow> dd_state \<Rightarrow> dom_diff \<times> dd_state" where
  "handle_insert J clk ds fm ev dom_before eiv_before st =
     (let (e, idx) = st;
          seq = ev_sequence ev;
          eiv_after = ds_element_index_version ds;
          parent_id = unwrap_or 0 (get_i64 J (ev_params ev) ''parentNodeId'')
      in case j_get J (ev_params ev) ''node'' of
           None \<Rightarrow>
             (incremental_diff clk seq dom_before (ds_dom_version ds) eiv_before eiv_after [] [] [] []
                (nonzero_id parent_id)
                (Some (''childNodeInserted missing node payload '' @ em_dash @ '' invalidate rather than guess'')) idx, st)
         | Some node \<Rightarrow>
             (case parse_dom_node J node of
                None \<Rightarrow>
                  build_full_diff clk ds seq dom_before eiv_before ''childNodeInserted-unparseable''
                    (Some (''childNodeInserted node missing backendNodeId/nodeId '' @ em_dash @ '' full invalidation'')) st
              | Some parsed \<Rightarrow>
                  let has_deep_children = (case get_array J node ''children'' of None \<Rightarrow> False | Some a \<Rightarrow> a \<noteq> []);
                      new_ref = inserted_ref ds (ev_session_id ev) parsed;
                      (gone, idx) =
                        (case ei_get_by_backend idx (pn_backend_node_id parsed) of
                           None \<Rightarrow> ([], idx)
                         | Some old \<Rightarrow> ([er_id old], snd (ei_remove_by_id (er_id old) idx)));
                      (inserted_id, idx) = ei_insert ds fm new_ref idx;
                      reason = (if has_deep_children
                                then Some (''inserted subtree has children '' @ em_dash @ '' only root inserted incrementally; descendants require fresh traversal (invalidate-rather-than-guess)'')
                                else None)
                  in (incremental_diff clk seq dom_before (ds_dom_version ds) eiv_before eiv_after [inserted_id] gone []
                        gone (nonzero_id parent_id) reason idx,
                      (count_incremental clk e, idx))))"

definition ref_by_node_id :: "el_order \<Rightarrow> element_index \<Rightarrow> i64 \<Rightarrow> element_ref option" where
  "ref_by_node_id ord idx node_id = find (\<lambda>r. er_node_id r = node_id) (ei_find_all ord idx)"

definition handle_remove ::
  "'v json_ops \<Rightarrow> el_order \<Rightarrow> clock \<Rightarrow> dom_state \<Rightarrow> 'v cdp_event \<Rightarrow> u64 \<Rightarrow> u64 \<Rightarrow> dd_state \<Rightarrow> dom_diff \<times> dd_state" where
  "handle_remove J ord clk ds ev dom_before eiv_before st =
     (let (e, idx) = st;
          parent_id = unwrap_or 0 (get_i64 J (ev_params ev) ''parentNodeId'');
          node_id = unwrap_or 0 (get_i64 J (ev_params ev) ''nodeId'');
          backend_hint = get_i64 J (ev_params ev) ''backendNodeId'';
          found = or_else (if node_id \<noteq> 0 then ref_by_node_id ord idx node_id else None)
                          (Option.bind backend_hint (ei_get_by_backend idx));
          (removed, reason, idx) =
            (case found of
               Some r \<Rightarrow> ([er_id r], None, snd (ei_remove_by_id (er_id r) idx))
             | None \<Rightarrow>
                 ([], Some (''childNodeRemoved nodeId='' @ show_i64 node_id @ '' parentId='' @ show_i64 parent_id
                       @ '' not found in index '' @ em_dash @ '' no guess (likely text node or already invalidated)''), idx))
      in (incremental_diff clk (ev_sequence ev) dom_before (ds_dom_version ds) eiv_before (ds_element_index_version ds)
            [] removed [] removed (nonzero_id parent_id) reason idx,
          (count_incremental clk e, idx)))"

text \<open>What an attribute does to a reference; its version is then renewed.\<close>

definition apply_attribute :: "string \<Rightarrow> string \<Rightarrow> element_ref \<Rightarrow> element_ref" where
  "apply_attribute name val r =
     (if name = ''id'' then
        let r = r\<lparr>er_dom_id := val\<rparr>
        in r\<lparr>er_selector := build_selector_incremental (er_tag_name r) (er_dom_id r) (er_classes r)\<rparr>
      else if name = ''class'' then
        let r = r\<lparr>er_classes := split_whitespace val\<rparr>
        in r\<lparr>er_selector := build_selector_incremental (er_tag_name r) (er_dom_id r) (er_classes r)\<rparr>
      else if name = ''data-version'' \<or> name = ''data-state'' \<or> name = ''data-*'' then
        r\<lparr>er_text_content := name @ '':'' @ val\<rparr>
      else if name = ''disabled'' then r\<lparr>er_enabled := (val = [] \<or> val = ''false'')\<rparr>
      else if name = ''hidden'' \<or> name = ''aria-hidden'' then r\<lparr>er_visible := (val = [] \<or> val = ''false'')\<rparr>
      else r)"

definition handle_attribute_modified ::
  "'v json_ops \<Rightarrow> el_order \<Rightarrow> clock \<Rightarrow> dom_state \<Rightarrow> 'v cdp_event \<Rightarrow> u64 \<Rightarrow> u64 \<Rightarrow> dd_state \<Rightarrow> dom_diff \<times> dd_state" where
  "handle_attribute_modified J ord clk ds ev dom_before eiv_before st =
     (let (e, idx) = st;
          node_id = unwrap_or 0 (get_i64 J (ev_params ev) ''nodeId'');
          name = unwrap_or [] (get_str J (ev_params ev) ''name'');
          val = unwrap_or [] (get_str J (ev_params ev) ''value'');
          (changed, reason, idx) =
            (case map_option er_id (ref_by_node_id ord idx node_id) of
               Some i \<Rightarrow>
                 (case ei_get idx i of
                    Some r \<Rightarrow>
                      let r = (apply_attribute name val r)\<lparr>er_dom_version_created := ds_dom_version ds\<rparr>
                      in ([er_id r], None, ei_update_in_place r idx)
                  | None \<Rightarrow> ([], None, idx))
             | None \<Rightarrow>
                 ([], Some (''attributeModified nodeId='' @ show_i64 node_id @ '' name='' @ name
                       @ '' not found in index '' @ em_dash @ '' invalidate rather than guess (node not indexed or text node)''), idx))
      in (incremental_diff clk (ev_sequence ev) dom_before (ds_dom_version ds) eiv_before (ds_element_index_version ds)
            [] [] changed changed (nonzero_id node_id) reason idx,
          (count_incremental clk e, idx)))"

definition handle_full_rebuild ::
  "clock \<Rightarrow> dom_state \<Rightarrow> u64 \<Rightarrow> u64 \<Rightarrow> u64 \<Rightarrow> string \<Rightarrow> dd_state \<Rightarrow> dom_diff \<times> dd_state" where
  "handle_full_rebuild clk ds seq dom_before eiv_before reason st =
     (let (e, idx) = st; count_before = ei_len idx
      in build_full_diff clk ds seq dom_before eiv_before reason
           (Some (''full rebuild (documentUpdated/navigation/recovery) '' @ em_dash @ '' invalidated ''
                  @ show_nat count_before @ '' refs''))
           (e, ei_invalidate_all idx))"

section \<open>Entry points\<close>

definition dd_handle ::
  "'v json_ops \<Rightarrow> el_order \<Rightarrow> clock \<Rightarrow> dom_state \<Rightarrow> frame_manager \<Rightarrow> 'v cdp_event \<Rightarrow> u64 \<Rightarrow> u64 \<Rightarrow> dd_state
     \<Rightarrow> dom_diff option \<times> dd_state" where
  "dd_handle J ord clk ds fm ev dom_before eiv_before st =
     (let m = ev_method ev;
          some = (\<lambda>(d, (e, idx)). (Some d, (e\<lparr>de_last_diff := Some d\<rparr>, idx)))
      in if m = ''DOM.childNodeInserted'' then some (handle_insert J clk ds fm ev dom_before eiv_before st)
         else if m = ''DOM.childNodeRemoved'' then some (handle_remove J ord clk ds ev dom_before eiv_before st)
         else if m = ''DOM.attributeModified'' then some (handle_attribute_modified J ord clk ds ev dom_before eiv_before st)
         else if m = ''DOM.documentUpdated'' then
           some (handle_full_rebuild clk ds (ev_sequence ev) dom_before eiv_before ''DOM.documentUpdated'' st)
         else if m = ''Page.frameNavigated'' \<and> is_main_frame J (ev_params ev) then
           some (handle_full_rebuild clk ds (ev_sequence ev) dom_before eiv_before ''Page.frameNavigated(main)'' st)
         else (None, st))"

text \<open>The dispatcher passes the versions it read before the event.\<close>

definition dd_on_event_with_pre ::
  "'v json_ops \<Rightarrow> el_order \<Rightarrow> clock \<Rightarrow> dom_state \<Rightarrow> frame_manager \<Rightarrow> 'v cdp_event \<Rightarrow> u64 \<Rightarrow> u64 \<Rightarrow> dd_state
     \<Rightarrow> dom_diff option \<times> dd_state" where
  "dd_on_event_with_pre J ord clk ds fm ev dom_before eiv_before st = dd_handle J ord clk ds fm ev dom_before eiv_before st"

text \<open>\<open>on_event\<close> has no such versions and estimates them.\<close>

definition dd_on_event ::
  "'v json_ops \<Rightarrow> el_order \<Rightarrow> clock \<Rightarrow> dom_state \<Rightarrow> frame_manager \<Rightarrow> 'v cdp_event \<Rightarrow> dd_state
     \<Rightarrow> dom_diff option \<times> dd_state" where
  "dd_on_event J ord clk ds fm ev st =
     (let dom_after = ds_dom_version ds;
          eiv_after = ds_element_index_version ds;
          heuristic = (ev_method ev \<in> set [''DOM.childNodeInserted'', ''DOM.childNodeRemoved'',
                         ''DOM.attributeModified'', ''DOM.documentUpdated'', ''Page.frameNavigated'']);
          (dom_before, eiv_before) =
            (if heuristic \<and> dom_after > 0
             then (u64_saturating_sub dom_after 1,
                   u64_saturating_sub eiv_after (if ev_method ev = ''DOM.documentUpdated'' then 1 else 0))
             else (dom_after, eiv_after))
      in dd_handle J ord clk ds fm ev dom_before eiv_before st)"

definition dd_on_recovery_invalidation :: "clock \<Rightarrow> dom_state \<Rightarrow> dd_state \<Rightarrow> dom_diff \<times> dd_state" where
  "dd_on_recovery_invalidation clk ds st =
     (let (e, idx) = st;
          (d, (e, idx)) =
            build_full_diff clk ds 0 (u64_saturating_sub (ds_dom_version ds) 1)
              (u64_saturating_sub (ds_element_index_version ds) 1) ''recovery''
              (Some (''recovery invalidation '' @ em_dash @ '' dom/frame generations bumped; all refs invalid''))
              (e, ei_invalidate_all idx)
      in (d, (e\<lparr>de_last_diff := Some d\<rparr>, idx)))"

definition apply_batch_incremental ::
  "'v json_ops \<Rightarrow> el_order \<Rightarrow> clock \<Rightarrow> dom_state \<Rightarrow> frame_manager \<Rightarrow> 'v cdp_event list \<Rightarrow> dd_state
     \<Rightarrow> dom_diff list \<times> dd_state" where
  "apply_batch_incremental J ord clk ds fm evs st =
     foldl (\<lambda>(diffs, st) ev.
              case dd_on_event J ord clk ds fm ev st of
                (None, st) \<Rightarrow> (diffs, st)
              | (Some d, st) \<Rightarrow> (diffs @ [d], st)) ([], st) evs"

end
