(* ===== verification/Dispatch.thy ===== *)
theory Dispatch
  imports Dom_Diff Targets_Inv
begin

text \<open>
  \<open>src/browser_runtime/events.rs\<close>: the ordered dispatch of one CDP event to the four state owners, as
  the server wires them (\<open>EventDispatcher::new_with_diff\<close> with a target manager, a frame manager and a
  diff engine), and what the event makes the dispatcher ask of the browser.
\<close>

section \<open>The shared state\<close>

record runtime_state =
  rs_ds :: dom_state
  rs_tm :: target_manager
  rs_fm :: frame_manager
  rs_engine :: diff_engine
  rs_index :: element_index

definition runtime_state_new :: "bool option \<Rightarrow> runtime_state" where
  "runtime_state_new runtime = \<lparr>rs_ds = dom_state_new, rs_tm = target_manager_new runtime,
     rs_fm = frame_manager_new, rs_engine = diff_engine_new, rs_index = element_index_new\<rparr>"

text \<open>The iteration orders of the three hash containers, and the clock, during one event.\<close>

record chance =
  ch_parents :: "i64 list \<Rightarrow> i64 list"
  ch_targets :: target_order
  ch_elements :: el_order
  ch_now :: nat
  ch_clock :: clock

definition chance_ok :: "chance \<Rightarrow> bool" where
  "chance_ok c = (iter_order (ch_parents c) \<and> iter_order (ch_targets c) \<and> iter_order (ch_elements c))"

section \<open>Dispatch\<close>

definition dispatch_event ::
  "'v json_ops \<Rightarrow> chance \<Rightarrow> 'v cdp_event \<Rightarrow> runtime_state \<Rightarrow> runtime_state" where
  "dispatch_event J c ev st =
     (let dom_before = ds_dom_version (rs_ds st);
          eiv_before = ds_element_index_version (rs_ds st);
          ds = ds_on_event J (ch_parents c) ev (rs_ds st);
          tm = tm_on_event J (ch_targets c) (ch_now c) ev ds (rs_tm st);
          (fm, ds) = fm_on_event J ev (rs_fm st, ds);
          (_, (engine, index)) =
            dd_on_event_with_pre J (ch_elements c) (ch_clock c) ds fm ev dom_before eiv_before
              (rs_engine st, rs_index st)
      in \<lparr>rs_ds = ds, rs_tm = tm, rs_fm = fm, rs_engine = engine, rs_index = index\<rparr>)"

datatype browser_task = Enable_new_session string | Refetch_document string

definition dispatch_tasks :: "'v json_ops \<Rightarrow> 'v cdp_event \<Rightarrow> browser_task list" where
  "dispatch_tasks J ev =
     (if ev_method ev = ''Target.attachedToTarget''
      then (case get_str J (ev_params ev) ''sessionId'' of None \<Rightarrow> [] | Some sid \<Rightarrow> [Enable_new_session sid])
      else [])
     @ (if ev_method ev = ''DOM.documentUpdated''
        then (case ev_session_id ev of None \<Rightarrow> [] | Some sid \<Rightarrow> [Refetch_document sid])
        else [])"

text \<open>The calls of \<open>enable_new_session\<close>, in order; their failures are logged only.\<close>

definition enable_new_session :: "'v json_ops \<Rightarrow> string \<Rightarrow> (string option \<times> string \<times> 'v) list" where
  "enable_new_session J sid =
     map (\<lambda>m. (Some sid, m, j_obj J [])) [''Page.enable'', ''DOM.enable'', ''Runtime.enable'']
     @ [(Some sid, ''DOM.getDocument'', j_obj J [(''depth'', j_i64 J (- 1)), (''pierce'', j_bool J True)])]"

definition dispatch_run :: "'v json_ops \<Rightarrow> (chance \<times> 'v cdp_event) list \<Rightarrow> runtime_state \<Rightarrow> runtime_state" where
  "dispatch_run J evs st = foldl (\<lambda>st (c, ev). dispatch_event J c ev st) st evs"

section \<open>The index across an event\<close>

lemma ei_insert_empty_id:
  "er_id r = [] \<Longrightarrow> er_dom_version_created r = ds_dom_version ds \<Longrightarrow> er_frame_id r = [] \<Longrightarrow>
   er_target_generation r = ds_target_generation ds \<Longrightarrow> er_selector r \<noteq> [] \<Longrightarrow>
   ei_insert ds fm r idx =
     (fresh_id idx, ei_store (r\<lparr>er_id := fresh_id idx\<rparr>) (idx\<lparr>ei_next_id := ei_next_id idx + 1\<rparr>))"
  by (cases r) (auto simp: ei_insert_fresh ei_pin_def Let_def)

lemma build_selector_nonempty [simp]: "build_selector_incremental tag d cl \<noteq> []"
  by (simp add: build_selector_incremental_def to_lowercase_def)

lemma inserted_ref_sel [simp]:
  "er_id (inserted_ref ds sid p) = []" "er_frame_id (inserted_ref ds sid p) = []"
  "er_dom_version_created (inserted_ref ds sid p) = ds_dom_version ds"
  "er_frame_tree_version (inserted_ref ds sid p) = ds_frame_tree_version ds"
  "er_target_generation (inserted_ref ds sid p) = ds_target_generation ds"
  "er_backend_node_id (inserted_ref ds sid p) = pn_backend_node_id p"
  "er_selector (inserted_ref ds sid p) = build_selector_incremental (pn_tag_name p) (pn_dom_id p) (pn_classes p)"
  by (simp_all add: inserted_ref_def)

lemma insert_inserted_ref:
  "ei_insert ds fm (inserted_ref ds sid p) idx =
     (fresh_id idx, ei_store ((inserted_ref ds sid p)\<lparr>er_id := fresh_id idx\<rparr>) (idx\<lparr>ei_next_id := ei_next_id idx + 1\<rparr>))"
  by (rule ei_insert_empty_id) simp_all

lemma apply_attribute_sel [simp]:
  "er_id (apply_attribute n v r) = er_id r" "er_backend_node_id (apply_attribute n v r) = er_backend_node_id r"
  "er_frame_id (apply_attribute n v r) = er_frame_id r" "er_target_generation (apply_attribute n v r) = er_target_generation r"
  "er_frame_tree_version (apply_attribute n v r) = er_frame_tree_version r"
  by (simp_all add: apply_attribute_def Let_def)

lemma ref_by_node_id_Some:
  assumes "ei_inv idx" "iter_order ord" "ref_by_node_id ord idx n = Some r"
  shows "ei_get idx (er_id r) = Some r \<and> er_node_id r = n"
proof -
  have "r \<in> set (ei_find_all ord idx)" "er_node_id r = n"
    using assms(3) unfolding ref_by_node_id_def find_Some_iff by (auto simp: in_set_conv_nth)
  then obtain k where "hm_get (ei_elements idx) k = Some r"
    using hm_values_set [OF assms(2) ei_inv_ok [OF assms(1)]] unfolding ei_find_all_def by blast
  then show ?thesis using ei_inv_id [OF assms(1)] \<open>er_node_id r = n\<close> unfolding ei_get_def by blast
qed

text \<open>The four ways an event can change the index.\<close>

inductive index_change :: "dom_state \<Rightarrow> element_index \<Rightarrow> dom_diff option \<Rightarrow> element_index \<Rightarrow> bool" for ds idx where
  same: "(\<And>d. od = Some d \<Longrightarrow> dd_added d = [] \<and> dd_removed d = [] \<and> dd_changed d = []
           \<and> dd_element_count_after d = ei_len idx) \<Longrightarrow> index_change ds idx od idx"
| add: "dd_added d = [fresh_id idx] \<Longrightarrow> dd_removed d = gone \<Longrightarrow> dd_changed d = [] \<Longrightarrow>
     (gone = [] \<and> idx1 = idx \<or> (\<exists>old. gone = [er_id old] \<and> ei_get idx (er_id old) = Some old \<and> idx1 = snd (ei_remove_by_id (er_id old) idx))) \<Longrightarrow>
     r = (inserted_ref ds sid p)\<lparr>er_id := fresh_id idx\<rparr> \<Longrightarrow>
     idx' = ei_store r (idx1\<lparr>ei_next_id := ei_next_id idx1 + 1\<rparr>) \<Longrightarrow> dd_kind_enum d = Incremental \<Longrightarrow>
     dd_element_count_after d = ei_len idx' \<Longrightarrow> index_change ds idx (Some d) idx'"
| remove: "dd_added d = [] \<Longrightarrow> dd_removed d = [er_id r] \<Longrightarrow> dd_changed d = [] \<Longrightarrow> ei_get idx (er_id r) = Some r \<Longrightarrow>
     idx' = snd (ei_remove_by_id (er_id r) idx) \<Longrightarrow> dd_kind_enum d = Incremental \<Longrightarrow>
     dd_element_count_after d = ei_len idx' \<Longrightarrow> index_change ds idx (Some d) idx'"
| update: "dd_added d = [] \<Longrightarrow> dd_removed d = [] \<Longrightarrow> dd_changed d = [er_id r] \<Longrightarrow> ei_get idx (er_id r) = Some r \<Longrightarrow>
     r' = (apply_attribute n v r)\<lparr>er_dom_version_created := ds_dom_version ds\<rparr> \<Longrightarrow>
     idx' = ei_update_in_place r' idx \<Longrightarrow> dd_kind_enum d = Incremental \<Longrightarrow>
     dd_element_count_after d = ei_len idx' \<Longrightarrow> index_change ds idx (Some d) idx'"
| rebuild: "idx' = ei_invalidate_all idx \<Longrightarrow> dd_kind_enum d = FullRebuild \<Longrightarrow> dd_changed d = [] \<Longrightarrow>
     dd_element_count_after d = 0 \<Longrightarrow> index_change ds idx (Some d) idx'"

lemma index_change_None: "index_change ds idx None idx"
  by (rule index_change.same) simp

inductive_cases index_changeE: "index_change ds idx od idx'"

lemma incremental_diff_sel [simp]:
  "dd_added (incremental_diff clk q db da eb ea a rm ch ivd par why idx) = a"
  "dd_removed (incremental_diff clk q db da eb ea a rm ch ivd par why idx) = rm"
  "dd_changed (incremental_diff clk q db da eb ea a rm ch ivd par why idx) = ch"
  "dd_kind_enum (incremental_diff clk q db da eb ea a rm ch ivd par why idx) = Incremental"
  "dd_element_count_after (incremental_diff clk q db da eb ea a rm ch ivd par why idx) = ei_len idx"
  by (simp_all add: incremental_diff_def)

lemma full_diff_sel [simp]:
  "snd (snd (build_full_diff clk ds q db eb why why' st)) = snd st"
  "dd_added (fst (build_full_diff clk ds q db eb why why' st)) = []"
  "dd_removed (fst (build_full_diff clk ds q db eb why why' st)) = []"
  "dd_changed (fst (build_full_diff clk ds q db eb why why' st)) = []"
  "dd_kind_enum (fst (build_full_diff clk ds q db eb why why' st)) = FullRebuild"
  "dd_element_count_after (fst (build_full_diff clk ds q db eb why why' st)) = ei_len (snd st)"
  by (cases st; simp add: build_full_diff_def Let_def)+

lemma fresh_id_remove [simp]: "fresh_id (snd (ei_remove_by_id i idx)) = fresh_id idx"
  by (simp add: fresh_id_def ei_remove_sel)

lemma handle_insert_change:
  assumes "ei_inv idx"
  shows "case handle_insert J clk ds fm ev db eb (e, idx) of (d, (e', idx')) \<Rightarrow> index_change ds idx (Some d) idx'"
proof (cases "j_get J (ev_params ev) ''node''")
  case None
  then show ?thesis by (auto simp: handle_insert_def intro: index_change.same)
next
  case (Some node)
  show ?thesis
  proof (cases "parse_dom_node J node")
    case None
    have "snd (snd (handle_insert J clk ds fm ev db eb (e, idx))) = idx"
      "dd_added (fst (handle_insert J clk ds fm ev db eb (e, idx))) = []"
      "dd_removed (fst (handle_insert J clk ds fm ev db eb (e, idx))) = []"
      "dd_changed (fst (handle_insert J clk ds fm ev db eb (e, idx))) = []"
      "dd_element_count_after (fst (handle_insert J clk ds fm ev db eb (e, idx))) = ei_len idx"
      by (simp_all add: handle_insert_def Some None)
    then show ?thesis by (auto intro: index_change.same split: prod.split)
  next
    case (Some p)
    note node = \<open>j_get J (ev_params ev) ''node'' = Some node\<close>
    show ?thesis
    proof (cases "ei_get_by_backend idx (pn_backend_node_id p)")
      case None
      then show ?thesis
        by (auto simp: handle_insert_def node Some insert_inserted_ref Let_def
            intro!: index_change.add [where gone = "[]"])
    next
      case (Some old)
      then have "ei_get idx (er_id old) = Some old"
        using ei_inv_id [OF assms] by (auto simp: ei_get_by_backend_def bind_eq_Some_conv)
      then show ?thesis
        by (auto simp: handle_insert_def node \<open>parse_dom_node J node = Some p\<close> Some insert_inserted_ref Let_def
            intro!: index_change.add [where gone = "[er_id old]"])
    qed
  qed
qed

lemma handle_remove_change:
  assumes "ei_inv idx" "iter_order ord"
  shows "case handle_remove J ord clk ds ev db eb (e, idx) of (d, (e', idx')) \<Rightarrow> index_change ds idx (Some d) idx'"
proof -
  define found where "found = or_else
      (if unwrap_or 0 (get_i64 J (ev_params ev) ''nodeId'') \<noteq> 0
       then ref_by_node_id ord idx (unwrap_or 0 (get_i64 J (ev_params ev) ''nodeId'')) else None)
      (Option.bind (get_i64 J (ev_params ev) ''backendNodeId'') (ei_get_by_backend idx))"
  have f: "ei_get idx (er_id r) = Some r" if "found = Some r" for r
  proof -
    have "(\<exists>n. ref_by_node_id ord idx n = Some r) \<or> (\<exists>b. ei_get_by_backend idx b = Some r)"
      using that unfolding found_def by (auto simp: or_else_Some bind_eq_Some_conv split: if_splits)
    then show ?thesis
      using ref_by_node_id_Some [OF assms] ei_inv_id [OF assms(1)]
      by (auto simp: ei_get_by_backend_def bind_eq_Some_conv)
  qed
  show ?thesis
    unfolding handle_remove_def Let_def prod.case found_def [symmetric]
    by (cases found) (auto intro: index_change.same index_change.remove f)
qed

lemma handle_attribute_change:
  assumes "ei_inv idx" "iter_order ord"
  shows "case handle_attribute_modified J ord clk ds ev db eb (e, idx) of (d, (e', idx')) \<Rightarrow> index_change ds idx (Some d) idx'"
proof (cases "ref_by_node_id ord idx (unwrap_or 0 (get_i64 J (ev_params ev) ''nodeId''))")
  case None
  then show ?thesis by (auto simp: handle_attribute_modified_def Let_def intro: index_change.same)
next
  case (Some r)
  have "ei_get idx (er_id r) = Some r" using ref_by_node_id_Some [OF assms Some] by simp
  then show ?thesis
    by (auto simp: handle_attribute_modified_def Let_def Some intro!: index_change.update)
qed

lemma ei_len_clear [simp]: "ei_len (ei_invalidate_all idx) = 0"
  by (simp add: ei_len_def ei_invalidate_all_def ei_clear_def)

lemma handle_rebuild_change:
  "case handle_full_rebuild clk ds q db eb why (e, idx) of (d, (e', idx')) \<Rightarrow> index_change ds idx (Some d) idx'"
proof -
  have "snd (snd (handle_full_rebuild clk ds q db eb why (e, idx))) = ei_invalidate_all idx"
    "dd_kind_enum (fst (handle_full_rebuild clk ds q db eb why (e, idx))) = FullRebuild"
    "dd_changed (fst (handle_full_rebuild clk ds q db eb why (e, idx))) = []"
    "dd_element_count_after (fst (handle_full_rebuild clk ds q db eb why (e, idx))) = 0"
    by (simp_all add: handle_full_rebuild_def Let_def)
  then show ?thesis by (auto intro!: index_change.rebuild split: prod.split)
qed

lemma dd_handle_change:
  assumes "ei_inv idx" "iter_order ord"
  shows "case dd_handle J ord clk ds fm ev db eb (e, idx) of (od, (e', idx')) \<Rightarrow> index_change ds idx od idx'"
  using handle_insert_change [OF assms(1), where J = J and ev = ev and clk = clk and ds = ds and fm = fm and db = db and eb = eb and e = e]
    handle_remove_change [OF assms, where J = J and ev = ev and clk = clk and ds = ds and db = db and eb = eb and e = e]
    handle_attribute_change [OF assms, where J = J and ev = ev and clk = clk and ds = ds and db = db and eb = eb and e = e]
    handle_rebuild_change [where clk = clk and ds = ds and q = "ev_sequence ev" and db = db and eb = eb
      and why = "''DOM.documentUpdated''" and e = e and idx = idx]
    handle_rebuild_change [where clk = clk and ds = ds and q = "ev_sequence ev" and db = db and eb = eb
      and why = "''Page.frameNavigated(main)''" and e = e and idx = idx]
  by (auto simp: dd_handle_def Let_def index_change_None split: prod.splits)

end
