(* ===== verification/Dispatch_Props.thy ===== *)
theory Dispatch_Props
  imports Dispatch Resolve_Props
begin

text \<open>
  What the ordered dispatch and the incremental diffs guarantee for the element index and for the
  references handed out before an event.
\<close>

section \<open>Index changes\<close>

lemma index_change_reachable:
  assumes "index_change ds idx od idx'" "ei_reachable n idx" "n < 2 ^ 64 - 2"
  shows "\<exists>n' \<le> Suc n. ei_reachable n' idx'"
  using assms(1)
proof (cases rule: index_change.cases)
  case same
  then show ?thesis using assms(2) by (intro exI [of _ n]) simp
next
  case (add d gone idx1 r sid p)
  have "ei_reachable n idx1" "fresh_id idx1 = fresh_id idx"
    using add assms(2) by (auto intro: ei_reachable.remove)
  then have "ei_reachable (Suc n) (snd (ei_insert ds frame_manager_new (inserted_ref ds sid p) idx1))"
    using assms(3) by (intro ei_reachable.insert) simp_all
  then show ?thesis
    using add \<open>fresh_id idx1 = fresh_id idx\<close> by (intro exI [of _ "Suc n"]) (simp add: insert_inserted_ref)
next
  case (remove d r)
  then show ?thesis using assms(2) by (intro exI [of _ n]) (simp add: ei_reachable.remove)
next
  case (update d r r' nm v)
  have "ei_get idx (er_id r') = Some r" "er_backend_node_id r' = er_backend_node_id r"
    using update by simp_all
  then show ?thesis using assms(2) update by (intro exI [of _ n]) (simp add: ei_reachable.update)
next
  case rebuild
  then show ?thesis using assms(2) by (intro exI [of _ n]) (simp add: ei_reachable.clear)
qed

text \<open>An incremental diff lists exactly the ids it changed.\<close>

definition diff_exact :: "dom_diff \<Rightarrow> element_index \<Rightarrow> element_index \<Rightarrow> bool" where
  "diff_exact d idx idx' =
     ((\<forall>i. i \<notin> set (dd_added d @ dd_removed d @ dd_changed d) \<longrightarrow> ei_get idx' i = ei_get idx i)
      \<and> (\<forall>i \<in> set (dd_added d). ei_get idx i = None \<and> ei_get idx' i \<noteq> None)
      \<and> (\<forall>i \<in> set (dd_removed d). ei_get idx i \<noteq> None \<and> ei_get idx' i = None)
      \<and> (\<forall>i \<in> set (dd_changed d). ei_get idx i \<noteq> None \<and> ei_get idx' i \<noteq> None)
      \<and> dd_element_count_after d = ei_len idx')"

lemma index_change_exact:
  assumes "index_change ds idx (Some d) idx'" "ids_below idx" "dd_kind_enum d = Incremental"
  shows "diff_exact d idx idx'"
  using assms(1)
proof (cases rule: index_change.cases)
  case same
  then show ?thesis by (simp add: diff_exact_def)
next
  case (add gone idx1 r sid p)
  note new = fresh_id_unused [OF assms(2)]
  show ?thesis
    using add new by (auto simp: diff_exact_def ei_get_store ei_remove_sel)
next
  case (remove r)
  then show ?thesis by (auto simp: diff_exact_def ei_remove_sel)
next
  case (update r r' nm v)
  then show ?thesis by (auto simp: diff_exact_def ei_update_sel)
next
  case rebuild
  then show ?thesis using assms(3) by simp
qed

section \<open>The state across an event\<close>

definition dom_mutations :: "string list" where
  "dom_mutations = [''DOM.childNodeInserted'', ''DOM.childNodeRemoved'', ''DOM.attributeModified'']"

lemma dom_mutation_ds:
  "ev_method ev \<in> set dom_mutations \<Longrightarrow>
     ds_dom_version (ds_on_event J ord ev ds) = ds_dom_version ds + 1
     \<and> ds_target_generation (ds_on_event J ord ev ds) = ds_target_generation ds
     \<and> fm_on_event J ev (fm, ds') = (fm, ds')"
  by (auto simp: dom_mutations_def ds_on_event_def fm_on_event_def bump_dom_version_def Let_def)

lemma dd_handle_last:
  assumes "dd_handle J ord clk ds fm ev db eb st = (od, (e', idx'))"
  shows "od = Some d \<Longrightarrow> de_last_diff e' = Some d" "ev_method ev \<in> set dom_mutations \<Longrightarrow> od \<noteq> None"
  using assms by (auto simp: dd_handle_def dom_mutations_def Let_def split: prod.splits if_splits)

text \<open>The dispatch of a DOM mutation, as one step on the versions and the index.\<close>

lemma dispatch_mutation:
  assumes "ei_inv (rs_index st)" "chance_ok c" "ev_method ev \<in> set dom_mutations"
  obtains d where
    "ds_dom_version (rs_ds (dispatch_event J c ev st)) = ds_dom_version (rs_ds st) + 1"
    "ds_target_generation (rs_ds (dispatch_event J c ev st)) = ds_target_generation (rs_ds st)"
    "rs_fm (dispatch_event J c ev st) = rs_fm st"
    "de_last_diff (rs_engine (dispatch_event J c ev st)) = Some d"
    "index_change (rs_ds (dispatch_event J c ev st)) (rs_index st) (Some d) (rs_index (dispatch_event J c ev st))"
proof -
  let ?ds = "ds_on_event J (ch_parents c) ev (rs_ds st)"
  note ds = dom_mutation_ds [OF assms(3), of J "ch_parents c" "rs_ds st"]
  obtain od e' idx' where h: "dd_handle J (ch_elements c) (ch_clock c) ?ds (rs_fm st) ev (ds_dom_version (rs_ds st))
      (ds_element_index_version (rs_ds st)) (rs_engine st, rs_index st) = (od, (e', idx'))"
    by (metis prod.exhaust)
  have st': "dispatch_event J c ev st = \<lparr>rs_ds = ?ds, rs_tm = tm_on_event J (ch_targets c) (ch_now c) ev ?ds (rs_tm st),
      rs_fm = rs_fm st, rs_engine = e', rs_index = idx'\<rparr>"
    using ds h by (simp add: dispatch_event_def dd_on_event_with_pre_def Let_def)
  have "iter_order (ch_elements c)" using assms(2) by (simp add: chance_ok_def)
  from dd_handle_change [OF assms(1) this, where J = J and clk = "ch_clock c" and ds = ?ds and fm = "rs_fm st"
      and ev = ev and db = "ds_dom_version (rs_ds st)" and eb = "ds_element_index_version (rs_ds st)" and e = "rs_engine st"]
  have ch: "index_change ?ds (rs_index st) od idx'" by (simp add: h)
  obtain d where d: "od = Some d" using dd_handle_last(2) [OF h assms(3)] by auto
  show thesis
    by (rule that [of d]) (use ds ch d dd_handle_last(1) [OF h d] in \<open>simp_all add: st'\<close>)
qed

lemma stale_iff:
  "ei_is_stale ds fm r \<longleftrightarrow> er_target_generation r \<noteq> ds_target_generation ds \<or> er_dom_version_created r \<noteq> ds_dom_version ds
     \<or> is_stale_for_frame fm (er_frame_id r) (er_frame_tree_version r)"
  by (auto simp: ei_is_stale_def is_stale_against_def)

lemma live_after_change:
  assumes "index_change ds' idx (Some d) idx'" "ids_below idx" "ei_get idx i = Some r" "\<not> ei_is_stale ds fm r"
    and "ds_dom_version ds' = ds_dom_version ds + 1" "ds_target_generation ds' = ds_target_generation ds"
  shows "(\<exists>r'. ei_get idx' i = Some r' \<and> \<not> ei_is_stale ds' fm r') \<longleftrightarrow> i \<in> set (dd_changed d)"
proof -
  have st: "ei_is_stale ds' fm r" using assms(4,5) by (simp add: stale_iff)
  have i: "i \<noteq> fresh_id idx" using fresh_id_unused [OF assms(2)] assms(3) by auto
  show ?thesis
    using assms(1)
  proof (cases rule: index_change.cases)
    case same
    then show ?thesis using assms(3) st by simp
  next
    case (add gone idx1 r1 sid p)
    then show ?thesis using assms(3) st i by (auto simp: ei_get_store ei_remove_sel split: if_splits)
  next
    case (remove r1)
    then show ?thesis using assms(3) st by (auto simp: ei_remove_sel split: if_splits)
  next
    case (update r1 r' nm v)
    then show ?thesis using assms(3-6) st by (auto simp: ei_update_sel stale_iff)
  next
    case rebuild
    then show ?thesis by (simp add: ei_invalidate_all_def ei_clear_def ei_get_def)
  qed
qed

text \<open>A concrete state, clock and event for the examples.\<close>

definition sample_state :: runtime_state where
  "sample_state = (runtime_state_new None)\<lparr>rs_index := sample_index\<rparr>"

definition sample_chance :: chance where
  "sample_chance = \<lparr>ch_parents = rev, ch_targets = rev, ch_elements = rev, ch_now = 0,
     ch_clock = \<lparr>clk_us = 1, clk_now_ms = 5\<rparr>\<rparr>"

definition sample_event :: "string \<Rightarrow> json \<Rightarrow> json cdp_event" where
  "sample_event m p = \<lparr>ev_method = m, ev_params = p, ev_session_id = None, ev_sequence = 1\<rparr>"

lemma sample_sel [simp]:
  "rs_index sample_state = sample_index" "chance_ok sample_chance" "ev_method (sample_event m p) = m"
  "ev_params (sample_event m p) = p"
  by (simp_all add: sample_state_def sample_chance_def sample_event_def chance_ok_def iter_order_rev)

section \<open>Properties\<close>

text \<open>
  C31: incremental diffs are exact. After an insertion, removal or attribute event the dispatcher
  exposes a diff; when it is of the incremental kind, its added ids are new and now stored, its removed
  ids were stored and are gone, its changed ids are still stored, every other element is the same as
  before, and the element count it reports is the index's.
\<close>

theorem incremental_diff_exact:
  assumes "ei_reachable n (rs_index st)" "chance_ok c" "ev_method ev \<in> set dom_mutations"
  shows "let st' = dispatch_event J c ev st in
         \<exists>d. de_last_diff (rs_engine st') = Some d
           \<and> (dd_kind_enum d = Incremental \<longrightarrow> diff_exact d (rs_index st) (rs_index st'))"
proof -
  have i: "ei_inv (rs_index st)" "ids_below (rs_index st)" using ei_reachable_inv [OF assms(1)] by simp_all
  show ?thesis
    unfolding Let_def
    by (rule dispatch_mutation [OF i(1) assms(2,3), of J]) (blast intro: index_change_exact [OF _ i(2)])
qed

theorem incremental_diff_exact_witness:
  "let st' = dispatch_event std_json sample_chance
               (sample_event ''DOM.attributeModified'' (JObj [(''nodeId'', JNum 0), (''name'', JStr ''id''), (''value'', JStr ''x'')]))
               sample_state in
   \<exists>d. de_last_diff (rs_engine st') = Some d
     \<and> (dd_kind_enum d = Incremental \<longrightarrow> diff_exact d sample_index (rs_index st'))"
  using incremental_diff_exact [where J = std_json and c = sample_chance and st = sample_state and n = 1
      and ev = "sample_event ''DOM.attributeModified'' (JObj [(''nodeId'', JNum 0), (''name'', JStr ''id''), (''value'', JStr ''x'')])"]
    sample_index_reachable
  by (simp add: dom_mutations_def)

text \<open>
  A DOM mutation leaves only the touched element live. Of the references that were live before
  an insertion, removal or attribute event, exactly those the diff lists as changed are still stored
  and live after it: the global DOM version has moved on, and only a changed element is renewed.
\<close>

lemma mutation_leaves_only_changed_live:
  assumes "ei_reachable n (rs_index st)" "chance_ok c" "ev_method ev \<in> set dom_mutations"
    and "ei_get (rs_index st) i = Some r" "\<not> ei_is_stale (rs_ds st) (rs_fm st) r"
  shows "let st' = dispatch_event J c ev st in
           (\<exists>r'. ei_get (rs_index st') i = Some r' \<and> \<not> ei_is_stale (rs_ds st') (rs_fm st') r')
           = (\<exists>d. de_last_diff (rs_engine st') = Some d \<and> i \<in> set (dd_changed d))"
proof -
  have i: "ei_inv (rs_index st)" "ids_below (rs_index st)" using ei_reachable_inv [OF assms(1)] by simp_all
  obtain d where d:
    "ds_dom_version (rs_ds (dispatch_event J c ev st)) = ds_dom_version (rs_ds st) + 1"
    "ds_target_generation (rs_ds (dispatch_event J c ev st)) = ds_target_generation (rs_ds st)"
    "rs_fm (dispatch_event J c ev st) = rs_fm st"
    "de_last_diff (rs_engine (dispatch_event J c ev st)) = Some d"
    "index_change (rs_ds (dispatch_event J c ev st)) (rs_index st) (Some d) (rs_index (dispatch_event J c ev st))"
    by (rule dispatch_mutation [OF i(1) assms(2,3), of J])
  show ?thesis
    using live_after_change [OF d(5) i(2) assms(4,5) d(1,2)] by (simp add: Let_def d(3,4))
qed

text \<open>
  A document update or a main-frame navigation invalidates everything: the index is empty after
  it, and a reference that was live before, wherever the client kept it, is stale.
\<close>

lemma full_invalidation:
  assumes "ev_method ev = ''DOM.documentUpdated''
           \<or> ev_method ev = ''Page.frameNavigated'' \<and> is_main_frame J (ev_params ev)"
    and "\<not> ei_is_stale (rs_ds st) (rs_fm st) r"
  shows "let st' = dispatch_event J c ev st in
           ei_len (rs_index st') = 0 \<and> ei_is_stale (rs_ds st') (rs_fm st') r"
proof -
  have v: "ds_dom_version (ds_on_event J (ch_parents c) ev (rs_ds st)) = ds_dom_version (rs_ds st) + 1"
    using assms(1) by (auto simp: ds_on_event_def Let_def ds_bump_defs)
  have "ds_dom_version (rs_ds (dispatch_event J c ev st)) = ds_dom_version (rs_ds st) + 1"
    using v fm_on_event_versions(2) [of J ev "rs_fm st" "ds_on_event J (ch_parents c) ev (rs_ds st)"]
    by (auto simp add: dispatch_event_def Let_def split: prod.splits if_splits)
  then have "ei_is_stale (rs_ds (dispatch_event J c ev st)) (rs_fm (dispatch_event J c ev st)) r"
    using assms(2) by (simp add: stale_iff)
  moreover have "ei_len (rs_index (dispatch_event J c ev st)) = 0"
    using assms(1)
    by (auto simp: dispatch_event_def dd_on_event_with_pre_def dd_handle_def handle_full_rebuild_def
        build_full_diff_def Let_def split: prod.splits)
  ultimately show ?thesis by (simp add: Let_def)
qed

text \<open>
  An inserted node is given a reference with an empty frame id and the global frame version. No
  frame has the empty id, so the reference is stale from the start unless the global frame version
  is still 0: after the first frame event no incrementally inserted element can be resolved.
\<close>

lemma inserted_node_born_stale:
  assumes "j_get J (ev_params ev) ''node'' = Some node" "parse_dom_node J node = Some p"
    and "fm_frame_version fm [] = 0"
  shows "case handle_insert J clk ds fm ev db eb (e, idx) of (d, (e', idx')) \<Rightarrow>
           \<exists>i r. dd_added d = [i] \<and> ei_get idx' i = Some r \<and> er_backend_node_id r = pn_backend_node_id p
             \<and> ei_is_stale ds fm r = (ds_frame_tree_version ds \<noteq> 0)"
  using assms
  by (auto simp: handle_insert_def Let_def insert_inserted_ref ei_get_store stale_iff is_stale_for_frame_def
      split: option.split prod.split)

text \<open>
  An insertion whose node cannot be parsed is reported as a full rebuild and a full
  invalidation, but the index is left as it was.
\<close>

lemma unparseable_insert_keeps_index:
  assumes "j_get J (ev_params ev) ''node'' = Some node" "parse_dom_node J node = None"
  shows "case handle_insert J clk ds fm ev db eb (e, idx) of (d, (e', idx')) \<Rightarrow>
           dd_kind_enum d = FullRebuild \<and> idx' = idx \<and> de_rebuild_count e' = de_rebuild_count e + 1"
  using assms by (simp add: handle_insert_def build_full_diff_def Let_def)

text \<open>
  The boolean attribute \<open>disabled\<close> is written with an empty value when it is present (HTML). The
  handler takes the empty value for an absent attribute, so the event that disables an element marks
  its reference enabled.
\<close>

lemma disabled_attribute_marks_enabled:
  assumes "ei_inv idx" "iter_order ord" "ref_by_node_id ord idx nid = Some r"
    and "get_i64 J (ev_params ev) ''nodeId'' = Some nid" "get_str J (ev_params ev) ''name'' = Some ''disabled''"
    and "get_str J (ev_params ev) ''value'' = Some []"
  shows "case handle_attribute_modified J ord clk ds ev db eb (e, idx) of (d, (e', idx')) \<Rightarrow>
           dd_changed d = [er_id r] \<and> (\<exists>r'. ei_get idx' (er_id r) = Some r' \<and> er_enabled r')"
proof -
  have "ei_get idx (er_id r) = Some r" using ref_by_node_id_Some [OF assms(1-3)] by simp
  then show ?thesis
    using assms(3-) by (simp add: handle_attribute_modified_def Let_def ei_update_sel apply_attribute_def)
qed

end
