(* ===== verification/Crash.thy ===== *)
theory Crash
  imports Dispatch_Props Lifecycle
begin

text \<open>
  \<open>src/browser_runtime/crash_recovery.rs\<close> and the generation bumps of \<open>server.rs\<close>: what a lost CDP
  connection does to the shared state, when the browser is reconnected or restarted, and the state
  the daemon ends in. The outside world (liveness probes, the DevTools HTTP endpoint, the WebSocket
  handshake, CDP answers and process spawning) is the record \<open>outside\<close>; no events are dispatched in
  between, because the dead connection delivers none.
\<close>

section \<open>The server\<close>

record server =
  sv_state :: lifecycle_state
  sv_rt :: runtime_state

definition simulate_reconnect :: "target_order \<Rightarrow> clock \<Rightarrow> runtime_state \<Rightarrow> (u64 \<times> u64) \<times> runtime_state" where
  "simulate_reconnect ord clk st =
     (let ((new_tg, new_cg), ds) = ds_on_reconnected (rs_ds st);
          tm = tm_handle_reconnect ord new_tg new_cg (rs_tm st);
          fm = fm_handle_reconnect (ds_frame_tree_version ds) (rs_fm st);
          idx = ei_invalidate_all (rs_index st);
          (_, (e, idx)) = dd_on_recovery_invalidation clk ds (rs_engine st, idx)
      in ((new_tg, new_cg), \<lparr>rs_ds = ds, rs_tm = tm, rs_fm = fm, rs_engine = e, rs_index = idx\<rparr>))"

definition handle_crash_generation_bump ::
  "target_order \<Rightarrow> clock \<Rightarrow> runtime_state \<Rightarrow> (u64 \<times> u64 \<times> u64 \<times> u64) \<times> runtime_state" where
  "handle_crash_generation_bump ord clk st =
     (let ((new_tg, new_cg), ds) = ds_on_reconnected (rs_ds st);
          (new_ftv, ds) = bump_frame_tree_version ds;
          tm = tm_handle_reconnect ord new_tg new_cg (rs_tm st);
          fm = fm_handle_reconnect new_ftv (rs_fm st);
          idx = ei_invalidate_all (rs_index st);
          (_, (e, idx)) = dd_on_recovery_invalidation clk ds (rs_engine st, idx)
      in ((new_tg, new_cg, new_ftv, ds_dom_version ds),
          \<lparr>rs_ds = ds, rs_tm = tm, rs_fm = fm, rs_engine = e, rs_index = idx\<rparr>))"

section \<open>Policy and outcome\<close>

record crash_policy =
  cp_restart_on_crash :: bool
  cp_launched_by_hyprfast :: bool
  cp_cdp_host :: string
  cp_cdp_port :: u16
  cp_launch_params :: "string list option"
  cp_ws_url :: "string option"

definition default_off :: crash_policy where
  "default_off = \<lparr>cp_restart_on_crash = False, cp_launched_by_hyprfast = False, cp_cdp_host = ''127.0.0.1'',
     cp_cdp_port = 9222, cp_launch_params = None, cp_ws_url = None\<rparr>"

datatype crash_outcome =
    Outcome_Reconnected
  | Outcome_Restarted
  | Outcome_Disconnected string
  | Outcome_Failed string

record crash_result =
  cr_outcome :: crash_outcome
  cr_new_target_generation :: u64
  cr_new_connection_generation :: u64
  cr_new_frame_tree_version :: u64
  cr_new_dom_version :: u64
  cr_details :: string

section \<open>The outside world\<close>

text \<open>
  \<open>alive0\<close>: the probe after the crash; \<open>alive_re\<close>: the probe inside \<open>reconnect_browser\<close>;
  \<open>alive_after_spawn\<close>: whether the restarted browser is reachable within the deadline;
  \<open>spawn\<close>: the result of spawning a command (the text of the I/O error, or nothing); \<open>contended\<close>: the state lock cannot be read at once.
\<close>

record 'v outside =
  out_contended :: bool
  out_alive0 :: bool
  out_alive_re :: bool
  out_alive_after_spawn :: bool
  out_discover :: "string runtime_result"
  out_connect :: "string \<Rightarrow> unit runtime_result"
  out_spawn :: "string list \<Rightarrow> string + unit"
  out_get_targets :: "'v runtime_result"
  out_order :: target_order
  out_now :: nat
  out_clock :: clock

section \<open>Reconnecting\<close>

definition reconnect_ws_url :: "'v outside \<Rightarrow> crash_policy \<Rightarrow> string runtime_result" where
  "reconnect_ws_url w policy =
     (case cp_ws_url policy of
        Some u \<Rightarrow>
          (if out_alive_re w then (case out_discover w of Inr u2 \<Rightarrow> Inr u2 | Inl _ \<Rightarrow> Inr u) else Inr u)
      | None \<Rightarrow> out_discover w)"

text \<open>
  The new connection replaces the dead one in the target manager, then the targets the browser
  reports are synced. The attach and enable calls that follow ignore their answers.
\<close>

definition reconnect_browser ::
  "'v json_ops \<Rightarrow> 'v outside \<Rightarrow> crash_policy \<Rightarrow> runtime_state \<Rightarrow> unit runtime_result \<times> runtime_state" where
  "reconnect_browser J w policy st =
     (case reconnect_ws_url w policy of
        Inl e \<Rightarrow> (Inl e, st)
      | Inr ws_url \<Rightarrow>
          (case out_connect w ws_url of
             Inl e \<Rightarrow> (Inl e, st)
           | Inr _ \<Rightarrow>
               let tm = tm_set_runtime True (rs_tm st);
                   tm = (case out_get_targets w of
                           Inl _ \<Rightarrow> tm
                         | Inr v \<Rightarrow>
                             (case get_array J v ''targetInfos'' of
                                None \<Rightarrow> tm
                              | Some arr \<Rightarrow> sync_from_target_infos J (out_order w) (out_now w) (rs_ds st) arr tm))
               in (Inr (), st\<lparr>rs_tm := tm\<rparr>)))"

definition default_launch :: "crash_policy \<Rightarrow> string list" where
  "default_launch policy =
     (let port = show_nat (unat (cp_cdp_port policy)) in
      [''brave'', ''--headless=new'', ''--remote-debugging-port='' @ port,
       ''--user-data-dir=/tmp/hyprfast-runtime-test-'' @ port, ''--no-first-run'', ''about:blank''])"

definition restart_browser_and_reconnect ::
  "'v json_ops \<Rightarrow> 'v outside \<Rightarrow> crash_policy \<Rightarrow> runtime_state \<Rightarrow> unit runtime_result \<times> runtime_state" where
  "restart_browser_and_reconnect J w policy st =
     (let launch_cmd = (case cp_launch_params policy of Some c \<Rightarrow> c | None \<Rightarrow> default_launch policy) in
      if launch_cmd = [] then (Inl (ConnectionFailed ''no launch params for restart''), st)
      else
        (case out_spawn w launch_cmd of
           Inl e \<Rightarrow> (Inl (ConnectionFailed (''restart spawn failed: '' @ e)), st)
         | Inr _ \<Rightarrow>
             if \<not> out_alive_after_spawn w
             then (Inl (ConnectionFailed ''restarted browser not reachable after 15s''), st)
             else reconnect_browser J w policy st))"

section \<open>Handling the disconnect\<close>

definition enter_reconnecting :: "bool \<Rightarrow> lifecycle_state \<Rightarrow> lifecycle_state" where
  "enter_reconnecting contended s =
     (let name = (if contended then ''Unknown'' else lifecycle_name s) in
      if name = ''Connected'' \<or> name = ''Degraded'' then server_transition s Reconnecting
      else if name = ''Reconnecting'' then s
      else snd (lifecycle_transition_to s Reconnecting))"

text \<open>Steps 2 to 5: the generations are bumped, then the index, the frames and the targets renewed.\<close>

definition crash_bump ::
  "target_order \<Rightarrow> clock \<Rightarrow> runtime_state \<Rightarrow> (u64 \<times> u64 \<times> u64 \<times> u64) \<times> runtime_state" where
  "crash_bump ord clk st =
     (let ((new_tg, new_cg), ds) = ds_on_reconnected (rs_ds st);
          (new_ftv, ds) = bump_frame_tree_version ds;
          idx = ei_invalidate_all (rs_index st);
          (_, (e, idx)) = dd_on_recovery_invalidation clk ds (rs_engine st, idx);
          fm = fm_handle_reconnect new_ftv (rs_fm st);
          tm = tm_handle_reconnect ord new_tg new_cg (rs_tm st)
      in ((new_tg, new_cg, new_ftv, ds_dom_version ds),
          \<lparr>rs_ds = ds, rs_tm = tm, rs_fm = fm, rs_engine = e, rs_index = idx\<rparr>))"

definition handle_cdp_disconnect ::
  "'v json_ops \<Rightarrow> 'v outside \<Rightarrow> crash_policy \<Rightarrow> server \<Rightarrow> crash_result \<times> server" where
  "handle_cdp_disconnect J w policy sv =
     (let s = enter_reconnecting (out_contended w) (sv_state sv);
          ((tg, cg, ftv, dom_v), st) = crash_bump (out_order w) (out_clock w) (sv_rt sv);
          result = (\<lambda>oc details. \<lparr>cr_outcome = oc, cr_new_target_generation = tg, cr_new_connection_generation = cg,
                      cr_new_frame_tree_version = ftv, cr_new_dom_version = dom_v, cr_details = details\<rparr>)
      in if out_alive0 w then
           (case reconnect_browser J w policy st of
              (Inr _, st) \<Rightarrow>
                (result Outcome_Reconnected ''reconnected to still-alive browser'',
                 \<lparr>sv_state = server_transition s Connected, sv_rt = st\<rparr>)
            | (Inl e, st) \<Rightarrow>
                (result (Outcome_Failed (error_display e)) (''reconnect failed: '' @ error_display e),
                 \<lparr>sv_state = server_transition s Disconnected, sv_rt = st\<rparr>))
         else if \<not> cp_restart_on_crash policy then
           (result (Outcome_Disconnected ''restart_on_crash=false'')
              (''browser died, restart disabled '' @ right_arrow @ '' Disconnected''),
            \<lparr>sv_state = server_transition s Disconnected, sv_rt = st\<rparr>)
         else if \<not> cp_launched_by_hyprfast policy then
           (result (Outcome_Disconnected ''attached-only browser never restarted'')
              ''attached browser never restarted regardless of restart_on_crash'',
            \<lparr>sv_state = server_transition s Disconnected, sv_rt = st\<rparr>)
         else
           (case restart_browser_and_reconnect J w policy st of
              (Inr _, st) \<Rightarrow>
                (result Outcome_Restarted ''browser restarted and reconnected'',
                 \<lparr>sv_state = server_transition s Connected, sv_rt = st\<rparr>)
            | (Inl e, st) \<Rightarrow>
                (result (Outcome_Failed (''restart failed: '' @ error_display e)) (''restart failed: '' @ error_display e),
                 \<lparr>sv_state = server_transition s Disconnected, sv_rt = st\<rparr>)))"

section \<open>What survives\<close>

lemma crash_bump_sel:
  "rs_ds (snd (crash_bump ord clk st)) = (snd (ds_on_reconnected (rs_ds st)))\<lparr>ds_frame_tree_version := ds_frame_tree_version (rs_ds st) + 1\<rparr>"
  "rs_tm (snd (crash_bump ord clk st)) =
     tm_handle_reconnect ord (ds_target_generation (rs_ds st) + 1) (ds_runtime_generation (rs_ds st) + 1) (rs_tm st)"
  "ei_len (rs_index (snd (crash_bump ord clk st))) = 0"
  by (simp_all add: crash_bump_def ds_on_reconnected_eq bump_frame_tree_version_def dd_on_recovery_invalidation_def
      build_full_diff_def Let_def)

text \<open>Reconnecting only touches the target manager, and there neither sessions nor existing records' generations.\<close>

lemma reconnect_frame:
  "rs_ds (snd (reconnect_browser J w policy st)) = rs_ds st" "rs_index (snd (reconnect_browser J w policy st)) = rs_index st"
  "rs_fm (snd (reconnect_browser J w policy st)) = rs_fm st"
  by (simp_all add: reconnect_browser_def Let_def split: sum.split)

lemma sync_sessions [simp]: "tm_session_to_target (sync_from_target_infos J ord now ds infos tm) = tm_session_to_target tm"
  by (simp add: sync_from_target_infos_def Let_def split: option.split)

lemma reconnect_sessions:
  "tm_session_to_target (rs_tm (snd (reconnect_browser J w policy st))) = tm_session_to_target (rs_tm st)"
  by (simp add: reconnect_browser_def tm_set_runtime_def Let_def split: sum.split option.split)

lemma restart_frame:
  "rs_ds (snd (restart_browser_and_reconnect J w policy st)) = rs_ds st"
  "rs_index (snd (restart_browser_and_reconnect J w policy st)) = rs_index st"
  "tm_session_to_target (rs_tm (snd (restart_browser_and_reconnect J w policy st))) = tm_session_to_target (rs_tm st)"
  by (simp_all add: restart_browser_and_reconnect_def Let_def reconnect_frame reconnect_sessions split: sum.split)

text \<open>A record that is kept keeps its crash flag, lifecycle and generation through a sync.\<close>

definition same_standing :: "target_record \<Rightarrow> target_record \<Rightarrow> bool" where
  "same_standing r r' = (tr_crashed r' = tr_crashed r \<and> tr_lifecycle r' = tr_lifecycle r
     \<and> tr_target_generation r' = tr_target_generation r)"

lemma same_standing_trans: "same_standing a b \<Longrightarrow> same_standing b c \<Longrightarrow> same_standing a c"
  by (simp add: same_standing_def)

lemma sync_info_standing:
  "hm_get g t = Some r \<Longrightarrow> \<exists>r'. hm_get (sync_target_info J now ds info g) t = Some r' \<and> same_standing r r'"
  by (cases "get_str J info ''targetId''") (auto simp: sync_target_info_def same_standing_def Let_def)

lemma sync_infos_standing:
  "hm_get g t = Some r \<Longrightarrow>
   \<exists>r'. hm_get (foldl (\<lambda>g info. sync_target_info J now ds info g) g infos) t = Some r' \<and> same_standing r r'"
proof (induction infos arbitrary: g r)
  case (Cons info infos)
  obtain r1 where r1: "hm_get (sync_target_info J now ds info g) t = Some r1" "same_standing r r1"
    using sync_info_standing [OF Cons.prems, of J now ds info] by blast
  show ?case using Cons.IH [OF r1(1)] same_standing_trans [OF r1(2)] by auto
qed (simp add: same_standing_def)

lemma set_active_flag_standing:
  "hm_get g t = Some r \<Longrightarrow> \<exists>r'. hm_get (set_active_flag b u g) t = Some r' \<and> same_standing r r'"
  by (cases "t = u") (simp_all add: same_standing_def)

lemma sync_standing:
  assumes "hm_get (tm_targets tm) t = Some r"
  shows "\<exists>r'. hm_get (tm_targets (sync_from_target_infos J ord now ds infos tm)) t = Some r' \<and> same_standing r r'"
proof -
  let ?g = "foldl (\<lambda>g info. sync_target_info J now ds info g) (tm_targets tm) infos"
  obtain r1 where r1: "hm_get ?g t = Some r1" "same_standing r r1"
    using sync_infos_standing [OF assms] by blast
  have "\<exists>r'. hm_get (set_active_flag True u ?g) t = Some r' \<and> same_standing r r'" for u
    using set_active_flag_standing [OF r1(1)] same_standing_trans [OF r1(2)] by blast
  then show ?thesis
    using r1 unfolding sync_from_target_infos_def Let_def
    by (simp del: set_active_flag_get split: option.split)
qed

lemma reconnect_standing:
  "hm_get (tm_targets (rs_tm st)) t = Some r \<Longrightarrow>
   \<exists>r'. hm_get (tm_targets (rs_tm (snd (reconnect_browser J w policy st)))) t = Some r' \<and> same_standing r r'"
  using sync_standing [of "tm_set_runtime True (rs_tm st)" t r]
  by (auto simp: reconnect_browser_def tm_set_runtime_def same_standing_def Let_def split: sum.split option.split)

lemma restart_standing:
  "hm_get (tm_targets (rs_tm st)) t = Some r \<Longrightarrow>
   \<exists>r'. hm_get (tm_targets (rs_tm (snd (restart_browser_and_reconnect J w policy st)))) t = Some r' \<and> same_standing r r'"
  using reconnect_standing [of st t r J w policy]
  by (auto simp: restart_browser_and_reconnect_def same_standing_def Let_def split: sum.split)

lemma tm_reconnect_standing:
  assumes "tm_inv tm" "hm_get (tm_targets tm) t = Some r"
  shows "\<exists>r'. hm_get (tm_targets (tm_handle_reconnect ord tg cg tm)) t = Some r' \<and> tr_crashed r' = tr_crashed r
           \<and> tr_lifecycle r' = tr_lifecycle r \<and> tr_target_generation r' = tg"
  using tm_invD(3) [OF assms] assms(2) by (auto simp: tm_handle_reconnect_def Let_def split: option.split)

text \<open>The state after a disconnect is the bumped one, up to what reconnecting changes.\<close>

lemma disconnect_rt:
  "sv_rt (snd (handle_cdp_disconnect J w policy sv)) =
     (let st = snd (crash_bump (out_order w) (out_clock w) (sv_rt sv)) in
      if out_alive0 w then snd (reconnect_browser J w policy st)
      else if cp_restart_on_crash policy \<and> cp_launched_by_hyprfast policy
      then snd (restart_browser_and_reconnect J w policy st)
      else st)"
proof -
  obtain tg cg ftv dv st where b: "crash_bump (out_order w) (out_clock w) (sv_rt sv) = ((tg, cg, ftv, dv), st)"
    by (metis prod.exhaust)
  obtain r1 st1 where r1: "reconnect_browser J w policy st = (r1, st1)" by (cases "reconnect_browser J w policy st")
  obtain r2 st2 where r2: "restart_browser_and_reconnect J w policy st = (r2, st2)"
    by (cases "restart_browser_and_reconnect J w policy st")
  show ?thesis
    by (cases r1; cases r2) (simp_all add: handle_cdp_disconnect_def b r1 r2 Let_def)
qed

lemma disconnect_cases:
  obtains (plain) "sv_rt (snd (handle_cdp_disconnect J w policy sv)) = snd (crash_bump (out_order w) (out_clock w) (sv_rt sv))"
  | (reconnect) "sv_rt (snd (handle_cdp_disconnect J w policy sv))
        = snd (reconnect_browser J w policy (snd (crash_bump (out_order w) (out_clock w) (sv_rt sv))))"
  | (restart) "sv_rt (snd (handle_cdp_disconnect J w policy sv))
        = snd (restart_browser_and_reconnect J w policy (snd (crash_bump (out_order w) (out_clock w) (sv_rt sv))))"
  unfolding disconnect_rt Let_def by (metis (full_types))

lemma disconnect_sel:
  "rs_ds (sv_rt (snd (handle_cdp_disconnect J w policy sv))) = rs_ds (snd (crash_bump (out_order w) (out_clock w) (sv_rt sv)))"
  "rs_index (sv_rt (snd (handle_cdp_disconnect J w policy sv))) = rs_index (snd (crash_bump (out_order w) (out_clock w) (sv_rt sv)))"
  "tm_session_to_target (rs_tm (sv_rt (snd (handle_cdp_disconnect J w policy sv)))) = []"
  by (rule disconnect_cases [of J w policy sv]; simp add: reconnect_frame restart_frame reconnect_sessions crash_bump_sel)+

lemma disconnect_standing:
  assumes "tm_inv (rs_tm (sv_rt sv))" "hm_get (tm_targets (rs_tm (sv_rt sv))) t = Some r"
  shows "\<exists>r'. hm_get (tm_targets (rs_tm (sv_rt (snd (handle_cdp_disconnect J w policy sv))))) t = Some r'
           \<and> tr_crashed r' = tr_crashed r \<and> tr_lifecycle r' = tr_lifecycle r
           \<and> tr_target_generation r' = ds_target_generation (rs_ds (sv_rt sv)) + 1"
proof -
  let ?st = "snd (crash_bump (out_order w) (out_clock w) (sv_rt sv))"
  obtain r1 where r1: "hm_get (tm_targets (rs_tm ?st)) t = Some r1" "tr_crashed r1 = tr_crashed r"
    "tr_lifecycle r1 = tr_lifecycle r" "tr_target_generation r1 = ds_target_generation (rs_ds (sv_rt sv)) + 1"
    using tm_reconnect_standing [OF assms, of "out_order w" "ds_target_generation (rs_ds (sv_rt sv)) + 1"
        "ds_runtime_generation (rs_ds (sv_rt sv)) + 1"]
    by (auto simp: crash_bump_sel)
  show ?thesis
    by (rule disconnect_cases [of J w policy sv])
      (use r1 reconnect_standing [OF r1(1), of J w policy] restart_standing [OF r1(1), of J w policy] in
        \<open>auto simp: same_standing_def\<close>)
qed

section \<open>Properties\<close>

text \<open>
  The generation bump written out in \<open>handle_cdp_disconnect\<close> and the one of the server's
  \<open>handle_crash_generation_bump\<close> agree: they renew the managers in a different order and yield the
  same versions and the same state.
\<close>

lemma crash_bumps_agree: "crash_bump ord clk st = handle_crash_generation_bump ord clk st"
  by (simp add: crash_bump_def handle_crash_generation_bump_def ds_on_reconnected_eq Let_def split_def)

text \<open>
  A lost connection invalidates every reference, whatever the policy, the browser's answers and
  the outcome: the element index is empty, an element reference that was live is stale, a target
  reference of the old generation is rejected and no session reference is accepted.
\<close>

lemma crash_invalidates_references:
  "let st = sv_rt sv; st' = sv_rt (snd (handle_cdp_disconnect J w policy sv)) in
     ei_len (rs_index st') = 0
     \<and> (\<forall>r. \<not> ei_is_stale (rs_ds st) (rs_fm st) r \<longrightarrow> ei_is_stale (rs_ds st') (rs_fm st') r)
     \<and> (\<forall>r. tref_target_generation r = ds_target_generation (rs_ds st) \<longrightarrow> \<not> is_target_ref_valid (rs_ds st') (rs_tm st') r)
     \<and> (\<forall>r. \<not> is_session_ref_valid (rs_ds st') (rs_tm st') r)"
  by (simp add: Let_def disconnect_sel crash_bump_sel ds_on_reconnected_eq stale_iff is_target_ref_valid_def
      target_ref_is_valid_def is_session_ref_valid_def hm_contains_def)

text \<open>
  A browser is only ever restarted when \<open>restart_on_crash\<close> is set, hyprfast launched it and it
  is dead. In every other case what spawning a process would do has no influence on the result, and
  the outcome is not a restart.
\<close>

lemma restart_only_when_allowed:
  assumes "\<not> (cp_restart_on_crash policy \<and> cp_launched_by_hyprfast policy \<and> \<not> out_alive0 w)"
  shows "handle_cdp_disconnect J (w\<lparr>out_spawn := f\<rparr>) policy sv = handle_cdp_disconnect J w policy sv
         \<and> cr_outcome (fst (handle_cdp_disconnect J w policy sv)) \<noteq> Outcome_Restarted"
proof -
  have "reconnect_browser J (w\<lparr>out_spawn := f\<rparr>) policy st = reconnect_browser J w policy st" for st
    by (simp add: reconnect_browser_def reconnect_ws_url_def Let_def split: option.split sum.split)
  then show ?thesis
    using assms by (auto simp: handle_cdp_disconnect_def Let_def split: prod.splits sum.splits)
qed



text \<open>
  After a restart of the browser the targets of the dead browser are still tracked: the reconnect
  stamps every record with the new generation and the sync that follows only adds or updates. So
  whatever targets the new browser reports, a switch to any target that had not crashed succeeds.
\<close>

lemma dead_targets_survive_restart:
  assumes "tm_reachable J (rs_tm (sv_rt sv))" "tm_get_target (rs_tm (sv_rt sv)) t = Some r" "\<not> tr_crashed r"
  shows "let st' = sv_rt (snd (handle_cdp_disconnect J w policy sv)) in
           is_ok (fst (switch_target (rs_ds st') t (rs_tm st')))"
proof -
  let ?st = "sv_rt (snd (handle_cdp_disconnect J w policy sv))"
  have inv: "tm_inv (rs_tm (sv_rt sv))" using assms(1) by (rule tm_reachable_inv)
  have r: "hm_get (tm_targets (rs_tm (sv_rt sv))) t = Some r" using assms(2) by (simp add: tm_get_target_def)
  obtain r' where r': "hm_get (tm_targets (rs_tm ?st)) t = Some r'" "tr_crashed r' = tr_crashed r"
    "tr_lifecycle r' = tr_lifecycle r" "tr_target_generation r' = ds_target_generation (rs_ds (sv_rt sv)) + 1"
    using disconnect_standing [OF inv r, of J w policy] by blast
  have "ds_target_generation (rs_ds ?st) = ds_target_generation (rs_ds (sv_rt sv)) + 1"
    by (simp add: disconnect_sel crash_bump_sel ds_on_reconnected_eq)
  then show ?thesis
    using r' assms(3) tm_invD(3) [OF inv r]
    by (auto simp: Let_def switch_target_def tm_get_target_def split: option.split)
qed

end
