(* ===== verification/Recovery.thy ===== *)
theory Recovery
  imports Resolve_Props
begin

text \<open>
  \<open>src/browser_runtime/recovery.rs\<close>: the ladder that finds an element again after its reference went
  stale. Every tier is a function from the index, the stale reference and the request to a recorded
  attempt; \<^term>\<open>None\<close> is a panic (the message of a miss slices the searched text).
\<close>

section \<open>Tiers, attempts, outcome\<close>

datatype recovery_tier =
    ExistingRef
  | CachedBackendNode
  | CssSelector
  | DomIdName
  | AxRoleName
  | SemanticText
  | FreshDomAxSearch
  | FrameShadowTraversal
  | AmbiguityResolution
  | VisionFallback

fun tier_name_of :: "recovery_tier \<Rightarrow> string" where
  "tier_name_of ExistingRef = ''ExistingRef''"
| "tier_name_of CachedBackendNode = ''CachedBackendNode''"
| "tier_name_of CssSelector = ''CssSelector''"
| "tier_name_of DomIdName = ''DomIdName''"
| "tier_name_of AxRoleName = ''AxRoleName''"
| "tier_name_of SemanticText = ''SemanticText''"
| "tier_name_of FreshDomAxSearch = ''FreshDomAxSearch''"
| "tier_name_of FrameShadowTraversal = ''FrameShadowTraversal''"
| "tier_name_of AmbiguityResolution = ''AmbiguityResolution''"
| "tier_name_of VisionFallback = ''VisionFallback''"

fun tier_order :: "recovery_tier \<Rightarrow> nat" where
  "tier_order ExistingRef = 0"
| "tier_order CachedBackendNode = 1"
| "tier_order CssSelector = 2"
| "tier_order DomIdName = 3"
| "tier_order AxRoleName = 4"
| "tier_order SemanticText = 5"
| "tier_order FreshDomAxSearch = 6"
| "tier_order FrameShadowTraversal = 7"
| "tier_order AmbiguityResolution = 8"
| "tier_order VisionFallback = 9"

definition ladder :: "recovery_tier list" where
  "ladder = [ExistingRef, CachedBackendNode, CssSelector, DomIdName, AxRoleName, SemanticText,
             FreshDomAxSearch, FrameShadowTraversal, AmbiguityResolution, VisionFallback]"

datatype tier_status =
    Success
  | Miss
  | Ambiguous
  | SkippedMissingInput
  | SkippedNotApplicable
  | SkippedDueToEarlierSuccess
  | Error
  | VisionRequired
  | VisionSkipped

fun tier_status_label :: "tier_status \<Rightarrow> string" where
  "tier_status_label Success = ''Success''"
| "tier_status_label Miss = ''Miss''"
| "tier_status_label Ambiguous = ''Ambiguous''"
| "tier_status_label SkippedMissingInput = ''SkippedMissingInput''"
| "tier_status_label SkippedNotApplicable = ''SkippedNotApplicable''"
| "tier_status_label SkippedDueToEarlierSuccess = ''SkippedDueToEarlierSuccess''"
| "tier_status_label Error = ''Error''"
| "tier_status_label VisionRequired = ''VisionRequired''"
| "tier_status_label VisionSkipped = ''VisionSkipped''"

record tier_attempt =
  ta_tier :: recovery_tier
  ta_tier_name :: string
  ta_order :: nat
  ta_status :: tier_status
  ta_status_label :: string
  ta_detail :: string
  ta_candidates :: "string list"

definition attempt_new :: "recovery_tier \<Rightarrow> tier_status \<Rightarrow> string \<Rightarrow> string list \<Rightarrow> tier_attempt" where
  "attempt_new tier status detail candidates =
     \<lparr>ta_tier = tier, ta_tier_name = tier_name_of tier, ta_order = tier_order tier, ta_status = status,
      ta_status_label = tier_status_label status, ta_detail = detail, ta_candidates = candidates\<rparr>"

definition trace_to_value :: "'v json_ops \<Rightarrow> tier_attempt list \<Rightarrow> 'v" where
  "trace_to_value J attempts = j_obj J
     [(''attempts'', j_arr J (map (\<lambda>a. j_obj J
        [(''tier'', j_str J (ta_tier_name a)), (''order'', j_u64 J (of_nat (ta_order a))),
         (''status'', j_str J (ta_status_label a)), (''detail'', j_str J (ta_detail a)),
         (''candidates'', j_strs J (ta_candidates a))]) attempts)),
      (''ladder'', j_strs J (map tier_name_of ladder))]"

datatype recovery_outcome =
    Recovered element_ref
  | Ambiguous_outcome "string list" string
  | Resolution_failed string
  | Vision_required string

record recovery_result =
  rr_outcome :: recovery_outcome
  rr_trace :: "tier_attempt list"

definition is_recovered :: "recovery_result \<Rightarrow> bool" where
  "is_recovered res = (case rr_outcome res of Recovered _ \<Rightarrow> True | _ \<Rightarrow> False)"

definition recovery_result_to_value :: "'v json_ops \<Rightarrow> recovery_result \<Rightarrow> 'v" where
  "recovery_result_to_value J res = j_obj J
     [(''outcome'',
        case rr_outcome res of
          Recovered r \<Rightarrow> j_obj J [(''kind'', j_str J ''Recovered''), (''id'', j_str J (er_id r)),
                         (''backend'', j_i64 J (er_backend_node_id r)), (''selector'', j_str J (er_selector r))]
        | Ambiguous_outcome cs d \<Rightarrow> j_obj J [(''kind'', j_str J ''Ambiguous''), (''candidates'', j_strs J cs), (''detail'', j_str J d)]
        | Resolution_failed d \<Rightarrow> j_obj J [(''kind'', j_str J ''ResolutionFailed''), (''detail'', j_str J d)]
        | Vision_required d \<Rightarrow> j_obj J [(''kind'', j_str J ''VisionRequired''), (''detail'', j_str J d)]),
      (''trace'', trace_to_value J (rr_trace res))]"

record recovery_options =
  ro_allow_vision :: bool
  ro_is_visual_context :: bool
  ro_pierce_shadow :: bool

definition vision_only_if_applicable :: "recovery_options \<Rightarrow> bool \<Rightarrow> bool \<Rightarrow> recovery_options" where
  "vision_only_if_applicable opts allow visual = opts\<lparr>ro_allow_vision := allow, ro_is_visual_context := visual\<rparr>"

section \<open>Helpers\<close>

definition live_only :: "dom_state \<Rightarrow> frame_manager \<Rightarrow> element_ref list \<Rightarrow> element_ref list" where
  "live_only ds fm rs = filter (\<lambda>r. \<not> ei_is_stale ds fm r \<and> is_ok (check_interactable r)) rs"

definition recovered_tag :: string where
  "recovered_tag = ''__RECOVERED__:''"

text \<open>\<open>TierAttempt::new(tier, Success, "__RECOVERED__:id via ..", vec![id])\<close>.\<close>

definition success_attempt :: "recovery_tier \<Rightarrow> string \<Rightarrow> element_ref \<Rightarrow> tier_attempt" where
  "success_attempt tier via r = attempt_new tier Success (recovered_tag @ er_id r @ via) [er_id r]"

text \<open>\<open>match live.len() { 0 => miss, 1 => success, n => ambiguous }\<close>.\<close>

definition by_count ::
  "recovery_tier \<Rightarrow> tier_attempt \<Rightarrow> string \<Rightarrow> (nat \<Rightarrow> string) \<Rightarrow> element_ref list \<Rightarrow> tier_attempt" where
  "by_count tier miss via ambiguous live =
     (case live of
        [] \<Rightarrow> miss
      | [r] \<Rightarrow> success_attempt tier via r
      | _ \<Rightarrow> attempt_new tier Ambiguous (ambiguous (length live)) (map er_id live))"

text \<open>The same where a message may panic or a miss goes on to another search.\<close>

definition by_count_opt ::
  "recovery_tier \<Rightarrow> tier_attempt option \<Rightarrow> string \<Rightarrow> (nat \<Rightarrow> string option) \<Rightarrow> element_ref list \<Rightarrow> tier_attempt option" where
  "by_count_opt tier miss via ambiguous live =
     (case live of
        [] \<Rightarrow> miss
      | [r] \<Rightarrow> Some (success_attempt tier via r)
      | _ \<Rightarrow> map_option (\<lambda>d. attempt_new tier Ambiguous d (map er_id live)) (ambiguous (length live)))"

text \<open>\<open>format!("{:?}", truncate(text, n))\<close>.\<close>

definition debug_truncated :: "string \<Rightarrow> nat \<Rightarrow> string option" where
  "debug_truncated s n = map_option debug_str (truncate_str s n)"

section \<open>The tiers\<close>

definition tier_existing_ref ::
  "dom_state \<Rightarrow> frame_manager \<Rightarrow> element_index \<Rightarrow> element_ref option \<Rightarrow> resolve_request \<Rightarrow> tier_attempt" where
  "tier_existing_ref ds fm idx old req =
     (case or_else (rq_ref_id req) (map_option er_id old) of
        None \<Rightarrow> attempt_new ExistingRef SkippedMissingInput ''no ref_id available for ExistingRef tier'' []
      | Some ref_id \<Rightarrow>
          (case ei_get idx ref_id of
             None \<Rightarrow> attempt_new ExistingRef Miss
                      (''ref '' @ ref_id @ '' not found in index '' @ em_dash @ '' stale, mutated, or detached'') []
           | Some r \<Rightarrow>
               if ei_is_stale ds fm r then
                 attempt_new ExistingRef Miss
                   (''ref '' @ ref_id @ '' exists but is stale (dom '' @ show_u64 (er_dom_version_created r) @ '' vs ''
                    @ show_u64 (ds_dom_version ds) @ '', frame '' @ show_u64 (er_frame_tree_version r) @ '' vs ''
                    @ show_u64 (fm_frame_version fm (er_frame_id r)) @ '')'') []
               else
                 (case check_interactable r of
                    Inl e \<Rightarrow> attempt_new ExistingRef Miss (''ref '' @ ref_id @ '' not interactable: '' @ error_display e) []
                  | Inr _ \<Rightarrow> success_attempt ExistingRef [] r)))"

definition tier_cached_backend ::
  "dom_state \<Rightarrow> frame_manager \<Rightarrow> element_index \<Rightarrow> element_ref option \<Rightarrow> resolve_request \<Rightarrow> tier_attempt" where
  "tier_cached_backend ds fm idx old req =
     (case or_else (rq_backend_node_id req) (map_option er_backend_node_id old) of
        None \<Rightarrow> attempt_new CachedBackendNode SkippedMissingInput ''no backendNodeId available'' []
      | Some backend \<Rightarrow>
          if backend = 0 then
            attempt_new CachedBackendNode SkippedMissingInput (''backendNodeId is 0 '' @ em_dash @ '' invalid'') []
          else
            (case ei_get_by_backend idx backend of
               None \<Rightarrow> attempt_new CachedBackendNode Miss
                        (''backend '' @ show_i64 backend @ '' not in cache '' @ em_dash
                         @ '' node detached or replaced (new backendNodeId)'') []
             | Some r \<Rightarrow>
                 if ei_is_stale ds fm r then
                   attempt_new CachedBackendNode Miss
                     (''backend '' @ show_i64 backend @ '' cached entry stale (dom '' @ show_u64 (er_dom_version_created r)
                      @ '' vs '' @ show_u64 (ds_dom_version ds) @ '')'') []
                 else
                   (case check_interactable r of
                      Inl e \<Rightarrow> attempt_new CachedBackendNode Miss
                               (''backend '' @ show_i64 backend @ '' not interactable: '' @ error_display e) []
                    | Inr _ \<Rightarrow> success_attempt CachedBackendNode [] r)))"

definition tier_css_selector ::
  "dom_state \<Rightarrow> frame_manager \<Rightarrow> el_order \<Rightarrow> element_index \<Rightarrow> element_ref option \<Rightarrow> resolve_request \<Rightarrow> tier_attempt" where
  "tier_css_selector ds fm ord idx old req =
     (case or_else (rq_selector req) (map_option er_selector old) of
        None \<Rightarrow> attempt_new CssSelector SkippedMissingInput ''no selector available'' []
      | Some sel \<Rightarrow>
          if sel = [] \<or> sel = ''*'' then
            attempt_new CssSelector SkippedMissingInput
              (''selector '' @ debug_str sel @ '' too generic to be useful'') []
          else
            (case validate_selector sel of
               Inl e \<Rightarrow> attempt_new CssSelector Error (''invalid selector: '' @ error_display e) []
             | Inr _ \<Rightarrow>
                 by_count CssSelector
                   (attempt_new CssSelector Miss
                      (''selector '' @ debug_str sel @ '' matches 0 live elements (mutated or detached)'') [])
                   []
                   (\<lambda>n. ''selector '' @ debug_str sel @ '' ambiguous after recovery ('' @ show_nat n
                        @ '' candidates) '' @ em_dash @ '' never guess'')
                   (live_only ds fm (find_by_selector ord idx sel))))"

definition tier_dom_id_name ::
  "dom_state \<Rightarrow> frame_manager \<Rightarrow> el_order \<Rightarrow> element_index \<Rightarrow> element_ref option \<Rightarrow> resolve_request \<Rightarrow> tier_attempt" where
  "tier_dom_id_name ds fm ord idx old req =
     (let dom_id = unwrap_or [] (or_else (rq_dom_id req) (map_option er_dom_id old));
          name = unwrap_or [] (or_else (rq_name req) (map_option er_name old))
      in if dom_id = [] \<and> name = [] then
           attempt_new DomIdName SkippedMissingInput ''no dom_id or name available for DomIdName tier'' []
         else
           let by_name =
                 (if name \<noteq> [] then
                    by_count DomIdName
                      (attempt_new DomIdName Miss
                         (''dom_id '' @ debug_str dom_id @ '' miss, name '' @ debug_str name @ '' miss (0 candidates)'') [])
                      ('' via name '' @ debug_str name)
                      (\<lambda>n. ''name '' @ debug_str name @ '' ambiguous after recovery ('' @ show_nat n @ '' candidates)'')
                      (live_only ds fm (find_by_name ord idx name))
                  else
                    attempt_new DomIdName Miss
                      (''dom_id '' @ debug_str dom_id @ '' miss (0 live candidates), no name to try'') [])
           in if dom_id \<noteq> [] then
                by_count DomIdName by_name ('' via dom_id '' @ debug_str dom_id)
                  (\<lambda>n. ''dom_id '' @ debug_str dom_id @ '' ambiguous after recovery ('' @ show_nat n @ '' candidates)'')
                  (live_only ds fm (find_by_dom_id ord idx dom_id))
              else by_name)"

definition tier_ax_role_name ::
  "dom_state \<Rightarrow> frame_manager \<Rightarrow> el_order \<Rightarrow> element_index \<Rightarrow> element_ref option \<Rightarrow> resolve_request \<Rightarrow> tier_attempt" where
  "tier_ax_role_name ds fm ord idx old req =
     (let role = unwrap_or [] (or_else (rq_role req) (map_option er_role old));
          aname = unwrap_or [] (or_else (rq_accessible_name req) (map_option er_name old))
      in if role = [] \<and> aname = [] then
           attempt_new AxRoleName SkippedMissingInput ''no role or accessible name for AxRoleName tier'' []
         else if role \<noteq> [] \<and> aname \<noteq> [] then
           by_count AxRoleName
             (attempt_new AxRoleName Miss (''role '' @ debug_str role @ '' + name '' @ debug_str aname @ '' miss (0 live)'') [])
             '' via role+name''
             (\<lambda>n. ''role '' @ debug_str role @ '' + name '' @ debug_str aname @ '' ambiguous after recovery ('' @ show_nat n @ '' candidates)'')
             (live_only ds fm (find_by_role_name ord idx role aname))
         else if role \<noteq> [] then
           (case live_only ds fm (find_by_role ord idx role) of
              [] \<Rightarrow> attempt_new AxRoleName Miss (''role '' @ debug_str role @ '' miss (0 live)'') []
            | [r] \<Rightarrow> success_attempt AxRoleName '' via role'' r
            | live \<Rightarrow> attempt_new AxRoleName Miss
                (''role '' @ debug_str role @ '' ambiguous ('' @ show_nat (length live)
                 @ '' candidates) but role-alone not terminal '' @ em_dash @ '' ladder continues to SemanticText'') [])
         else
           by_count AxRoleName
             (attempt_new AxRoleName Miss (''accessible name '' @ debug_str aname @ '' miss'') [])
             '' via accessible name''
             (\<lambda>n. ''accessible name '' @ debug_str aname @ '' ambiguous ('' @ show_nat n @ '' candidates)'')
             (live_only ds fm (find_by_name ord idx aname)))"

definition tier_semantic_text ::
  "dom_state \<Rightarrow> frame_manager \<Rightarrow> el_order \<Rightarrow> element_index \<Rightarrow> element_ref option \<Rightarrow> resolve_request \<Rightarrow> tier_attempt option" where
  "tier_semantic_text ds fm ord idx old req =
     (let txt = unwrap_or [] (or_else (rq_text req) (map_option er_text_content old)) in
      if str_trim txt = [] then
        Some (attempt_new SemanticText SkippedMissingInput ''no text_content for SemanticText tier'' [])
      else
        by_count_opt SemanticText
          (map_option (\<lambda>t. attempt_new SemanticText Miss (''text '' @ t @ '' miss (0 live)'') []) (debug_truncated txt 80))
          '' via semantic text''
          (\<lambda>n. map_option (\<lambda>t. ''text '' @ t @ '' ambiguous after recovery ('' @ show_nat n @ '' candidates)'')
                 (debug_truncated txt 80))
          (live_only ds fm (find_by_text ord idx txt)))"

text \<open>The loosest search: an element matches when one of its six texts contains, or is contained in, a token.\<close>

definition fresh_tokens :: "element_ref option \<Rightarrow> resolve_request \<Rightarrow> string list" where
  "fresh_tokens old req =
     filter (\<lambda>s. str_trim s \<noteq> [])
       (List.map_filter (\<lambda>x. x)
          [rq_dom_id req, rq_name req, rq_accessible_name req, rq_text req, rq_role req, rq_tag_name req,
           map_option er_dom_id old, map_option er_name old, map_option er_text_content old])"

definition fresh_match :: "string list \<Rightarrow> element_ref \<Rightarrow> bool" where
  "fresh_match needles r =
     (let hay = map to_lowercase [er_dom_id r, er_name r, er_text_content r, er_tag_name r, er_role r, er_selector r]
      in \<exists>n \<in> set needles. \<exists>h \<in> set hay. str_contains h n \<or> str_contains n h)"

definition tier_fresh_search ::
  "dom_state \<Rightarrow> frame_manager \<Rightarrow> el_order \<Rightarrow> element_index \<Rightarrow> element_ref option \<Rightarrow> resolve_request \<Rightarrow> tier_attempt option" where
  "tier_fresh_search ds fm ord idx old req =
     (let combined = fresh_tokens old req in
      if combined = [] then
        Some (attempt_new FreshDomAxSearch SkippedMissingInput ''no identity fields for fresh DOM/AX search'' [])
      else
        by_count_opt FreshDomAxSearch
          (map_option (\<lambda>t. attempt_new FreshDomAxSearch Miss
               (''fresh DOM/AX search miss (0 live matches for '' @ t @ '')'') [])
             (debug_truncated (str_join ''|'' combined) 120))
          '' via fresh DOM/AX search''
          (\<lambda>n. Some (''fresh DOM/AX search ambiguous ('' @ show_nat n @ '' candidates) '' @ em_dash @ '' never guess''))
          (filter (fresh_match (map to_lowercase combined)) (live_only ds fm (ei_find_all ord idx))))"

definition shadow_selector :: "element_ref list \<Rightarrow> string \<Rightarrow> tier_attempt option" where
  "shadow_selector live sel =
     (if sel \<noteq> [] \<and> sel \<noteq> ''*'' \<and> is_ok (validate_selector sel) then
        by_count_opt FrameShadowTraversal None '' via frame/shadow selector pierce''
          (\<lambda>n. Some (''frame/shadow selector '' @ debug_str sel @ '' ambiguous ('' @ show_nat n @ '' candidates)''))
          (filter (\<lambda>r. er_selector r = sel) live)
      else None)"

definition shadow_dom_id :: "element_ref list \<Rightarrow> string \<Rightarrow> tier_attempt option" where
  "shadow_dom_id live dom_id =
     (if dom_id \<noteq> [] then
        by_count_opt FrameShadowTraversal None '' via frame/shadow dom_id''
          (\<lambda>n. Some (''frame/shadow dom_id '' @ debug_str dom_id @ '' ambiguous ('' @ show_nat n @ '' candidates)''))
          (filter (\<lambda>r. er_dom_id r = dom_id) live)
      else None)"

definition shadow_miss :: "recovery_options \<Rightarrow> tier_attempt" where
  "shadow_miss opts = attempt_new FrameShadowTraversal Miss
     (''frame/shadow traversal miss after ''
      @ (if ro_pierce_shadow opts then ''pierce=true'' else ''pierce=true (default)'') @ '' '' @ em_dash
      @ '' no live element matches selector/id/text cross-frame'') []"

definition shadow_text :: "recovery_options \<Rightarrow> element_ref list \<Rightarrow> string \<Rightarrow> tier_attempt option" where
  "shadow_text opts live txt =
     (if str_trim txt \<noteq> [] then
        by_count_opt FrameShadowTraversal (Some (shadow_miss opts)) '' via frame/shadow text''
          (\<lambda>n. map_option (\<lambda>t. ''frame/shadow text '' @ t @ '' ambiguous ('' @ show_nat n @ '' candidates)'')
                 (debug_truncated txt 60))
          (filter (text_matches txt) live)
      else Some (shadow_miss opts))"

definition tier_frame_shadow ::
  "dom_state \<Rightarrow> frame_manager \<Rightarrow> el_order \<Rightarrow> element_index \<Rightarrow> element_ref option \<Rightarrow> resolve_request \<Rightarrow> recovery_options
     \<Rightarrow> tier_attempt option" where
  "tier_frame_shadow ds fm ord idx old req opts =
     (let sel = unwrap_or [] (or_else (rq_selector req) (map_option er_selector old));
          dom_id = unwrap_or [] (or_else (rq_dom_id req) (map_option er_dom_id old));
          txt = unwrap_or [] (or_else (rq_text req) (map_option er_text_content old))
      in if sel = [] \<and> dom_id = [] \<and> str_trim txt = [] \<and> rq_role req = None then
           Some (attempt_new FrameShadowTraversal SkippedMissingInput ''no identity for frame/shadow traversal'' [])
         else
           let live = live_only ds fm (ei_find_all ord idx) in
           case or_else (shadow_selector live sel) (shadow_dom_id live dom_id) of
             Some a \<Rightarrow> Some a
           | None \<Rightarrow> shadow_text opts live txt)"

definition tier_vision :: "recovery_options \<Rightarrow> tier_attempt" where
  "tier_vision opts =
     (if \<not> ro_allow_vision opts then
        attempt_new VisionFallback VisionSkipped
          (''vision fallback skipped '' @ em_dash @ '' allow_vision=false (deterministic tiers exhausted; vision is last-resort only)'') []
      else if \<not> ro_is_visual_context opts then
        attempt_new VisionFallback VisionSkipped
          (''vision fallback skipped '' @ em_dash @ '' is_visual_context=false (canvas/WebGL/PDF/visual-only control not applicable; normal HTML never invokes vision)'') []
      else
        attempt_new VisionFallback VisionRequired
          (''vision fallback applicable '' @ em_dash @ '' deterministic DOM+AX+frame/shadow tiers exhausted, visual target requires screenshot/vision (canvas/WebGL/PDF)'') [])"

section \<open>Decoding an attempt\<close>

text \<open>A success carries its element id in the text of its detail; the placeholder holds only the id.\<close>

definition placeholder :: "string \<Rightarrow> element_ref" where
  "placeholder i =
     \<lparr>er_id = i, er_backend_node_id = 0, er_node_id = 0, er_target_id = [], er_target_generation = 0,
      er_frame_id = [], er_frame_tree_version = 0, er_role = [], er_name = [], er_tag_name = [], er_dom_id = [],
      er_classes = [], er_selector = [], er_text_content = [], er_bounding_box = None, er_visible = True,
      er_enabled = True, er_dom_version_created = 0\<rparr>"

definition attempt_success :: "tier_attempt \<Rightarrow> element_ref option" where
  "attempt_success a =
     (if ta_status a \<noteq> Success then None
      else case strip_prefix recovered_tag (ta_detail a) of
             None \<Rightarrow> None
           | Some rest \<Rightarrow> (case split_whitespace rest of [] \<Rightarrow> None | i # _ \<Rightarrow> Some (placeholder i)))"

definition attempt_ambiguous :: "tier_attempt \<Rightarrow> (string list \<times> string) option" where
  "attempt_ambiguous a = (if ta_status a \<noteq> Ambiguous then None else Some (ta_candidates a, ta_detail a))"

definition sanitize_req :: "'v json_ops \<Rightarrow> resolve_request \<Rightarrow> 'v option" where
  "sanitize_req J req =
     (case (truncate_opt (rq_selector req) 80, truncate_opt (rq_text req) 80) of
        (Some sel, Some txt) \<Rightarrow>
          Some (j_obj J [(''ref'', j_opt J (j_str J) (rq_ref_id req)),
                         (''backend'', j_opt J (j_i64 J) (rq_backend_node_id req)),
                         (''selector'', j_opt J (j_str J) sel),
                         (''dom_id'', j_opt J (j_str J) (rq_dom_id req)),
                         (''role'', j_opt J (j_str J) (rq_role req)),
                         (''name'', j_opt J (j_str J) (rq_name req)),
                         (''text'', j_opt J (j_str J) txt),
                         (''tag'', j_opt J (j_str J) (rq_tag_name req))])
      | _ \<Rightarrow> None)"

section \<open>The ladder\<close>

record ladder_state =
  ls_trace :: "tier_attempt list"
  ls_recovered :: "element_ref option"
  ls_ambiguous :: "(string list \<times> string) option"
  ls_last_miss :: string

definition ladder_start :: ladder_state where
  "ladder_start = \<lparr>ls_trace = [], ls_recovered = None, ls_ambiguous = None, ls_last_miss = []\<rparr>"

definition note_attempt :: "ladder_state \<Rightarrow> tier_attempt \<Rightarrow> ladder_state" where
  "note_attempt st a =
     (let st = (case attempt_success a of
                  Some r \<Rightarrow> st\<lparr>ls_recovered := Some r\<rparr>
                | None \<Rightarrow>
                    (case attempt_ambiguous a of
                       Some am \<Rightarrow> st\<lparr>ls_ambiguous := Some am\<rparr>
                     | None \<Rightarrow> st\<lparr>ls_last_miss := ta_detail a\<rparr>))
      in st\<lparr>ls_trace := ls_trace st @ [a]\<rparr>)"

definition search_tier ::
  "dom_state \<Rightarrow> frame_manager \<Rightarrow> el_order \<Rightarrow> element_index \<Rightarrow> element_ref option \<Rightarrow> resolve_request \<Rightarrow> recovery_options
     \<Rightarrow> string \<Rightarrow> recovery_tier \<Rightarrow> tier_attempt option" where
  "search_tier ds fm ord idx old req opts last_miss tier =
     (case tier of
        ExistingRef \<Rightarrow> Some (tier_existing_ref ds fm idx old req)
      | CachedBackendNode \<Rightarrow> Some (tier_cached_backend ds fm idx old req)
      | CssSelector \<Rightarrow> Some (tier_css_selector ds fm ord idx old req)
      | DomIdName \<Rightarrow> Some (tier_dom_id_name ds fm ord idx old req)
      | AxRoleName \<Rightarrow> Some (tier_ax_role_name ds fm ord idx old req)
      | SemanticText \<Rightarrow> tier_semantic_text ds fm ord idx old req
      | FreshDomAxSearch \<Rightarrow> tier_fresh_search ds fm ord idx old req
      | FrameShadowTraversal \<Rightarrow> tier_frame_shadow ds fm ord idx old req opts
      | AmbiguityResolution \<Rightarrow> Some (attempt_new AmbiguityResolution Miss
          (''explicit ResolutionFailed after ladder exhausted; last miss: '' @ last_miss) [])
      | VisionFallback \<Rightarrow> Some (tier_vision opts))"

text \<open>
  One iteration: once a tier has decided, the rest are recorded as skipped. The terminal tiers
  \<open>AmbiguityResolution\<close> and \<open>VisionFallback\<close> only push their attempt.
\<close>

definition ladder_step ::
  "dom_state \<Rightarrow> frame_manager \<Rightarrow> el_order \<Rightarrow> element_index \<Rightarrow> element_ref option \<Rightarrow> resolve_request \<Rightarrow> recovery_options
     \<Rightarrow> recovery_tier \<Rightarrow> ladder_state \<Rightarrow> ladder_state option" where
  "ladder_step ds fm ord idx old req opts tier st =
     (if ls_recovered st \<noteq> None \<or> ls_ambiguous st \<noteq> None then
        Some (st\<lparr>ls_trace := ls_trace st @ [attempt_new tier SkippedDueToEarlierSuccess
                (''skipped '' @ em_dash @ '' earlier tier already decided'') []]\<rparr>)
      else
        map_option
          (\<lambda>a. if tier = AmbiguityResolution \<or> tier = VisionFallback
               then st\<lparr>ls_trace := ls_trace st @ [a]\<rparr> else note_attempt st a)
          (search_tier ds fm ord idx old req opts (ls_last_miss st) tier))"

fun ladder_run ::
  "dom_state \<Rightarrow> frame_manager \<Rightarrow> el_order \<Rightarrow> element_index \<Rightarrow> element_ref option \<Rightarrow> resolve_request \<Rightarrow> recovery_options
     \<Rightarrow> recovery_tier list \<Rightarrow> ladder_state \<Rightarrow> ladder_state option" where
  "ladder_run ds fm ord idx old req opts [] st = Some st"
| "ladder_run ds fm ord idx old req opts (t # ts) st =
     (case ladder_step ds fm ord idx old req opts t st of
        None \<Rightarrow> None
      | Some st \<Rightarrow> ladder_run ds fm ord idx old req opts ts st)"

definition ladder_outcome ::
  "'v json_ops \<Rightarrow> element_index \<Rightarrow> resolve_request \<Rightarrow> ladder_state \<Rightarrow> recovery_outcome option" where
  "ladder_outcome J idx req st =
     (case ls_ambiguous st of
        Some (cands, detail) \<Rightarrow> Some (Ambiguous_outcome cands detail)
      | None \<Rightarrow>
          (case Option.bind (ls_recovered st) (\<lambda>ph. or_else (ei_get idx (er_id ph)) (Some ph)) of
             Some r \<Rightarrow> Some (Recovered r)
           | None \<Rightarrow>
               (case find (\<lambda>a. ta_tier a = VisionFallback \<and> ta_status a = VisionRequired) (ls_trace st) of
                  Some v \<Rightarrow> Some (Vision_required (ta_detail v))
                | None \<Rightarrow>
                    map_option (\<lambda>v. Resolution_failed
                        (''recovery ladder exhausted '' @ em_dash @ '' no element matches request '' @ j_debug J v
                         @ '' (last: '' @ ls_last_miss st @ '')''))
                      (sanitize_req J req))))"

definition recover ::
  "'v json_ops \<Rightarrow> dom_state \<Rightarrow> frame_manager \<Rightarrow> el_order \<Rightarrow> element_index \<Rightarrow> element_ref option \<Rightarrow> resolve_request
     \<Rightarrow> recovery_options \<Rightarrow> recovery_result option" where
  "recover J ds fm ord idx old req opts =
     (case ladder_run ds fm ord idx old req opts ladder ladder_start of
        None \<Rightarrow> None
      | Some st \<Rightarrow>
          map_option (\<lambda>oc. \<lparr>rr_outcome = oc, rr_trace = ls_trace st\<rparr>) (ladder_outcome J idx req st))"

text \<open>\<open>recover_with_runtime\<close> ignores the runtime and the session.\<close>

definition recover_with_runtime ::
  "'v json_ops \<Rightarrow> dom_state \<Rightarrow> frame_manager \<Rightarrow> el_order \<Rightarrow> element_index \<Rightarrow> element_ref option \<Rightarrow> resolve_request
     \<Rightarrow> string option \<Rightarrow> recovery_options \<Rightarrow> recovery_result option" where
  "recover_with_runtime J ds fm ord idx old req session_id opts = recover J ds fm ord idx old req opts"

definition resolve_placeholder_ref :: "element_index \<Rightarrow> string \<Rightarrow> element_ref option" where
  "resolve_placeholder_ref idx i = ei_get idx i"

fun materialize_recovered :: "element_index \<Rightarrow> tier_attempt list \<Rightarrow> element_ref option" where
  "materialize_recovered idx [] = None"
| "materialize_recovered idx (a # as) =
     (if ta_status a = Success then
        (case ta_candidates a of
           [] \<Rightarrow> materialize_recovered idx as
         | i # _ \<Rightarrow> (case ei_get idx i of Some r \<Rightarrow> Some r | None \<Rightarrow> materialize_recovered idx as))
      else materialize_recovered idx as)"

end
