(* ===== verification/Recovery_Props.thy ===== *)
theory Recovery_Props
  imports Recovery
begin

text \<open>
  What the recovery ladder guarantees: a complete trace, a live stored element or a real ambiguity as
  its result, vision only as the last resort; and the looseness of its fresh search.
\<close>

section \<open>Attempts\<close>

lemma attempt_new_sel [simp]:
  "ta_tier (attempt_new t s d c) = t" "ta_status (attempt_new t s d c) = s"
  "ta_detail (attempt_new t s d c) = d" "ta_candidates (attempt_new t s d c) = c"
  by (simp_all add: attempt_new_def)

lemma success_attempt_sel [simp]:
  "ta_tier (success_attempt t via r) = t" "ta_status (success_attempt t via r) = Success"
  "ta_detail (success_attempt t via r) = recovered_tag @ er_id r @ via" "ta_candidates (success_attempt t via r) = [er_id r]"
  by (simp_all add: success_attempt_def)

definition usable_in :: "dom_state \<Rightarrow> frame_manager \<Rightarrow> element_index \<Rightarrow> element_ref \<Rightarrow> bool" where
  "usable_in ds fm idx r = (ei_get idx (er_id r) = Some r \<and> usable ds fm r)"

text \<open>
  A sound attempt: a success names a usable stored element, first in its detail and followed by
  white space or nothing; an ambiguity lists at least two usable ones.
\<close>

definition sound_attempt :: "dom_state \<Rightarrow> frame_manager \<Rightarrow> element_index \<Rightarrow> tier_attempt \<Rightarrow> bool" where
  "sound_attempt ds fm idx a =
     ((ta_status a = Success \<longrightarrow> (\<exists>r via. ta_detail a = recovered_tag @ er_id r @ via \<and> usable_in ds fm idx r
          \<and> (via = [] \<or> is_ws (hd via))))
      \<and> (ta_status a = Ambiguous \<longrightarrow> 2 \<le> length (ta_candidates a)
          \<and> (\<forall>c \<in> set (ta_candidates a). \<exists>r. ei_get idx c = Some r \<and> usable ds fm r)))"

lemma sound_other [simp]:
  "s \<noteq> Success \<Longrightarrow> s \<noteq> Ambiguous \<Longrightarrow> sound_attempt ds fm idx (attempt_new t s d c)"
  by (simp add: sound_attempt_def)

lemma sound_success: "usable_in ds fm idx r \<Longrightarrow> via = [] \<or> is_ws (hd via) \<Longrightarrow> sound_attempt ds fm idx (success_attempt t via r)"
  by (auto simp: sound_attempt_def)

lemma sound_ambiguous:
  "\<forall>r \<in> set live. usable_in ds fm idx r \<Longrightarrow> 2 \<le> length live \<Longrightarrow> sound_attempt ds fm idx (attempt_new t Ambiguous d (map er_id live))"
  by (auto simp: sound_attempt_def usable_in_def)

lemma sound_by_count:
  assumes "\<forall>r \<in> set live. usable_in ds fm idx r" "sound_attempt ds fm idx miss" "via = [] \<or> is_ws (hd via)"
  shows "sound_attempt ds fm idx (by_count tier miss via amb live)"
proof -
  consider "live = []" | r where "live = [r]" | a b xs where "live = a # b # xs"
    by (metis list.exhaust)
  then show ?thesis
    by cases (use assms sound_ambiguous [OF assms(1)] in \<open>auto simp: by_count_def intro: sound_success\<close>)
qed

text \<open>An attempt belongs to its tier, and only an allowed vision tier asks for vision.\<close>

definition attempt_for :: "recovery_options \<Rightarrow> recovery_tier \<Rightarrow> tier_attempt \<Rightarrow> bool" where
  "attempt_for opts tier a =
     (ta_tier a = tier
      \<and> (ta_status a = VisionRequired \<longrightarrow> tier = VisionFallback \<and> ro_allow_vision opts \<and> ro_is_visual_context opts))"

lemma attempt_for_new [simp]: "s \<noteq> VisionRequired \<Longrightarrow> attempt_for opts t (attempt_new t s d c)"
  by (simp add: attempt_for_def)

lemma attempt_for_success [simp]: "attempt_for opts t (success_attempt t via r)"
  by (simp add: attempt_for_def)

lemma attempt_for_by_count [simp]: "attempt_for opts t miss \<Longrightarrow> attempt_for opts t (by_count t miss via amb live)"
  by (simp add: by_count_def split: list.split)

lemma is_ws_space [simp]: "is_ws CHR '' ''"
  by (simp add: is_ws_def)

section \<open>Live candidates\<close>

lemma live_only_usable:
  "r \<in> set (live_only ds fm rs) \<longleftrightarrow> r \<in> set rs \<and> usable ds fm r"
  by (auto simp: live_only_def usable_def is_ok_iff)

lemma live_select_usable:
  assumes "ei_inv idx" "iter_order ord"
  shows "\<forall>r \<in> set (live_only ds fm (ei_select ord idx P)). usable_in ds fm idx r"
  using ei_select_mem [OF assms] by (auto simp: live_only_usable usable_in_def)

lemma live_all_usable:
  assumes "ei_inv idx" "iter_order ord"
  shows "\<forall>r \<in> set (live_only ds fm (ei_find_all ord idx)). usable_in ds fm idx r"
  using live_select_usable [OF assms, of ds fm "\<lambda>_. True"] by (simp add: ei_select_def ei_find_all_def)

lemma filter_usable: "\<forall>r \<in> set live. usable_in ds fm idx r \<Longrightarrow> \<forall>r \<in> set (filter P live). usable_in ds fm idx r"
  by simp

lemma sound_by_count_opt:
  assumes "by_count_opt t miss via amb live = Some a" "\<forall>r \<in> set live. usable_in ds fm idx r"
    and "\<And>a. miss = Some a \<Longrightarrow> sound_attempt ds fm idx a" "via = [] \<or> is_ws (hd via)"
  shows "sound_attempt ds fm idx a"
proof -
  consider "live = []" | r where "live = [r]" | r1 r2 xs where "live = r1 # r2 # xs"
    by (metis list.exhaust)
  then show ?thesis
    by cases (use assms sound_ambiguous [OF assms(2)] in \<open>auto simp: by_count_opt_def intro: sound_success\<close>)
qed

lemma attempt_for_by_count_opt:
  "by_count_opt t miss via amb live = Some a \<Longrightarrow> (\<And>a. miss = Some a \<Longrightarrow> attempt_for opts t a) \<Longrightarrow> attempt_for opts t a"
  by (auto simp: by_count_opt_def split: list.splits)

lemma sound_plain_tiers:
  assumes "ei_inv idx" "iter_order ord"
  shows "sound_attempt ds fm idx (tier_existing_ref ds fm idx old req)"
    and "sound_attempt ds fm idx (tier_cached_backend ds fm idx old req)"
    and "sound_attempt ds fm idx (tier_css_selector ds fm ord idx old req)"
    and "sound_attempt ds fm idx (tier_dom_id_name ds fm ord idx old req)"
    and "sound_attempt ds fm idx (tier_ax_role_name ds fm ord idx old req)"
proof -
  note live = live_select_usable [OF assms]
  note id = ei_inv_id [OF assms(1)]
  have u: "usable_in ds fm idx r"
    if "ei_get idx i = Some r" "\<not> ei_is_stale ds fm r" "check_interactable r = Inr v" for i r v
    using that id [OF that(1)] by (auto simp: usable_in_def usable_def)
  show "sound_attempt ds fm idx (tier_existing_ref ds fm idx old req)"
    by (auto simp: tier_existing_ref_def intro!: sound_success u split: option.split sum.split)
  show "sound_attempt ds fm idx (tier_cached_backend ds fm idx old req)"
    by (auto simp: tier_cached_backend_def ei_get_by_backend_def bind_eq_Some_conv intro!: sound_success intro: u
        split: option.split sum.split)
  show "sound_attempt ds fm idx (tier_css_selector ds fm ord idx old req)"
    by (auto simp: tier_css_selector_def find_by_selector_def intro!: sound_by_count live [rule_format] split: option.split sum.split)
  show "sound_attempt ds fm idx (tier_dom_id_name ds fm ord idx old req)"
    by (auto simp: tier_dom_id_name_def find_by_dom_id_def find_by_name_def Let_def intro!: sound_by_count live [rule_format])
  have role: "sound_attempt ds fm idx (case live_only ds fm (find_by_role ord idx role) of [] \<Rightarrow> attempt_new t Miss d c
      | [r] \<Rightarrow> success_attempt t '' via role'' r | r1 # r2 # rs \<Rightarrow> attempt_new t Miss (f (r1 # r2 # rs)) c')" for role t d c f c'
    using live [of ds fm "\<lambda>r. er_role r = role"] by (auto simp: find_by_role_def intro!: sound_success split: list.split)
  show "sound_attempt ds fm idx (tier_ax_role_name ds fm ord idx old req)"
    by (auto simp: tier_ax_role_name_def find_by_role_name_def find_by_name_def Let_def intro!: sound_by_count role live [rule_format])
qed

lemma sound_text_tier:
  assumes "ei_inv idx" "iter_order ord" "tier_semantic_text ds fm ord idx old req = Some a"
  shows "sound_attempt ds fm idx a"
  using assms(3) live_select_usable [OF assms(1,2)]
  unfolding tier_semantic_text_def find_by_text_def Let_def
  by (auto split: if_splits elim!: sound_by_count_opt)

lemma sound_fresh_tier:
  assumes "ei_inv idx" "iter_order ord" "tier_fresh_search ds fm ord idx old req = Some a"
  shows "sound_attempt ds fm idx a"
  using assms(3) live_all_usable [OF assms(1,2)]
  unfolding tier_fresh_search_def Let_def
  by (auto split: if_splits elim!: sound_by_count_opt)

lemma sound_shadow:
  assumes "\<forall>r \<in> set live. usable_in ds fm idx r"
  shows "shadow_selector live sel = Some a \<Longrightarrow> sound_attempt ds fm idx a"
    and "shadow_dom_id live d = Some a \<Longrightarrow> sound_attempt ds fm idx a"
    and "shadow_text opts live txt = Some a \<Longrightarrow> sound_attempt ds fm idx a"
  using assms
  by (auto simp: shadow_selector_def shadow_dom_id_def shadow_text_def shadow_miss_def split: if_splits
      elim!: sound_by_count_opt)

lemma sound_shadow_tier:
  assumes "ei_inv idx" "iter_order ord" "tier_frame_shadow ds fm ord idx old req opts = Some a"
  shows "sound_attempt ds fm idx a"
  using assms(3) sound_shadow [OF live_all_usable [OF assms(1,2)]]
  unfolding tier_frame_shadow_def Let_def
  by (auto simp: or_else_Some split: if_splits option.splits)

lemma sound_search_tier:
  assumes "ei_inv idx" "iter_order ord" "search_tier ds fm ord idx old req opts miss tier = Some a"
  shows "sound_attempt ds fm idx a"
  using assms(3) sound_plain_tiers [OF assms(1,2)] sound_text_tier [OF assms(1,2)] sound_fresh_tier [OF assms(1,2)]
    sound_shadow_tier [OF assms(1,2)]
  by (cases tier) (auto simp: search_tier_def tier_vision_def)

lemma search_tier_for:
  assumes "search_tier ds fm ord idx old req opts miss tier = Some a"
  shows "attempt_for opts tier a"
proof (cases tier)
  case ExistingRef
  then show ?thesis using assms by (auto simp: search_tier_def tier_existing_ref_def split: option.splits sum.splits)
next
  case CachedBackendNode
  then show ?thesis using assms by (auto simp: search_tier_def tier_cached_backend_def split: option.splits sum.splits)
next
  case CssSelector
  then show ?thesis using assms by (auto simp: search_tier_def tier_css_selector_def split: option.splits sum.splits)
next
  case DomIdName
  then show ?thesis using assms by (auto simp: search_tier_def tier_dom_id_name_def Let_def)
next
  case AxRoleName
  then show ?thesis using assms by (auto simp: search_tier_def tier_ax_role_name_def Let_def split: list.splits)
next
  case SemanticText
  then show ?thesis using assms
    by (auto simp: search_tier_def tier_semantic_text_def Let_def split: if_splits elim!: attempt_for_by_count_opt)
next
  case FreshDomAxSearch
  then show ?thesis using assms
    by (auto simp: search_tier_def tier_fresh_search_def Let_def split: if_splits elim!: attempt_for_by_count_opt)
next
  case FrameShadowTraversal
  then show ?thesis using assms
    by (auto simp: search_tier_def tier_frame_shadow_def shadow_selector_def shadow_dom_id_def shadow_text_def shadow_miss_def
        or_else_Some Let_def split: if_splits option.splits elim!: attempt_for_by_count_opt)
qed (use assms in \<open>auto simp: search_tier_def tier_vision_def attempt_for_def split: if_splits\<close>)

section \<open>Decoding\<close>

text \<open>The ids of the index hold no white space, so the id read back from a detail is the one written.\<close>

lemma digit_not_ws: "d < 10 \<Longrightarrow> \<not> is_ws (digit_char d)"
proof -
  assume d: "d < 10"
  then have "(of_char (digit_char d) :: nat) = 48 + d" by (rule of_digit_char)
  then show ?thesis using d by (auto simp: is_ws_def)
qed

lemma show_pad3_not_ws: "c \<in> set (show_pad3 n) \<Longrightarrow> \<not> is_ws c"
proof -
  assume "c \<in> set (show_pad3 n)"
  moreover have "set (show_u64 n) \<subseteq> digit_char ` {0..<10}" by (simp add: show_u64_def set_show_nat)
  moreover have "\<not> is_ws CHR ''0''" by (simp add: is_ws_def)
  ultimately show ?thesis
    using digit_not_ws by (auto simp: show_pad3_def Let_def dest: subsetD split: if_splits)
qed

lemma id_token:
  assumes "ids_below idx" "ei_get idx i = Some r"
  shows "i \<noteq> []" "\<forall>c \<in> set i. \<not> is_ws c"
proof -
  obtain n where "i = ''e_'' @ show_pad3 n" using assms unfolding ids_below_def by blast
  moreover have "\<not> is_ws CHR ''e''" "\<not> is_ws CHR ''_''" by (simp_all add: is_ws_def)
  ultimately show "i \<noteq> []" "\<forall>c \<in> set i. \<not> is_ws c" using show_pad3_not_ws by auto
qed

lemma strip_recovered_tag: "strip_prefix recovered_tag (recovered_tag @ s) = Some s"
proof -
  have "is_prefix_of p (p @ t)" for p t :: string by (simp add: is_prefix_of_prefix)
  then show ?thesis by (simp add: strip_prefix_def)
qed

lemma attempt_success_decodes:
  assumes "ids_below idx" "sound_attempt ds fm idx a" "attempt_success a = Some ph"
  shows "\<exists>r. er_id ph = er_id r \<and> usable_in ds fm idx r"
proof -
  have "ta_status a = Success" using assms(3) by (auto simp: attempt_success_def split: if_splits)
  then obtain r via where r: "ta_detail a = recovered_tag @ er_id r @ via" "usable_in ds fm idx r" "via = [] \<or> is_ws (hd via)"
    using assms(2) by (auto simp: sound_attempt_def)
  have "ei_get idx (er_id r) = Some r" using r(2) by (simp add: usable_in_def)
  then have "split_whitespace (er_id r @ via) = er_id r # split_whitespace via"
    using id_token [OF assms(1)] r(3) by (intro split_whitespace_first) auto
  then have "er_id ph = er_id r"
    using assms(3) \<open>ta_status a = Success\<close>
    by (auto simp: attempt_success_def r(1) strip_recovered_tag placeholder_def)
  then show ?thesis using r(2) by blast
qed

section \<open>The ladder\<close>

definition decided_ok :: "dom_state \<Rightarrow> frame_manager \<Rightarrow> element_index \<Rightarrow> ladder_state \<Rightarrow> bool" where
  "decided_ok ds fm idx st =
     ((\<forall>ph. ls_recovered st = Some ph \<longrightarrow> (\<exists>r. er_id ph = er_id r \<and> usable_in ds fm idx r))
      \<and> (\<forall>cs d. ls_ambiguous st = Some (cs, d) \<longrightarrow> 2 \<le> length cs
            \<and> (\<forall>c \<in> set cs. \<exists>r. ei_get idx c = Some r \<and> usable ds fm r))
      \<and> (ls_recovered st = None \<and> ls_ambiguous st = None \<longrightarrow>
            (\<forall>a \<in> set (ls_trace st). ta_status a \<noteq> Success \<and> ta_status a \<noteq> Ambiguous)))"

text \<open>A sound success always decodes.\<close>

lemma attempt_success_total:
  assumes "ids_below idx" "sound_attempt ds fm idx a" "ta_status a = Success"
  shows "attempt_success a \<noteq> None"
proof -
  obtain r via where r: "ta_detail a = recovered_tag @ er_id r @ via" "usable_in ds fm idx r" "via = [] \<or> is_ws (hd via)"
    using assms(2,3) by (auto simp: sound_attempt_def)
  have "ei_get idx (er_id r) = Some r" using r(2) by (simp add: usable_in_def)
  then have "split_whitespace (er_id r @ via) = er_id r # split_whitespace via"
    using id_token [OF assms(1)] r(3) by (intro split_whitespace_first) auto
  then show ?thesis using assms(3) by (simp add: attempt_success_def r(1) strip_recovered_tag)
qed

lemma note_attempt_trace [simp]: "ls_trace (note_attempt st a) = ls_trace st @ [a]"
  by (simp add: note_attempt_def Let_def split: option.split)

lemma note_attempt_ok:
  assumes "ids_below idx" "sound_attempt ds fm idx a" "decided_ok ds fm idx st"
  shows "decided_ok ds fm idx (note_attempt st a)"
proof (cases "attempt_success a")
  case None
  have "ta_status a \<noteq> Success" using attempt_success_total [OF assms(1,2)] None by blast
  then show ?thesis using None assms(2,3)
    by (auto simp: note_attempt_def decided_ok_def attempt_ambiguous_def sound_attempt_def Let_def)
next
  case (Some ph)
  then show ?thesis using assms(3) attempt_success_decodes [OF assms(1,2) Some]
    by (auto simp: note_attempt_def decided_ok_def Let_def)
qed

text \<open>The attempts recorded so far belong to the tiers passed so far.\<close>

lemma ladder_step_ok:
  assumes "ei_inv idx" "ids_below idx" "iter_order ord"
    and "ladder_step ds fm ord idx old req opts tier st = Some st'" "decided_ok ds fm idx st"
  shows "decided_ok ds fm idx st' \<and> (\<exists>a. ls_trace st' = ls_trace st @ [a] \<and> attempt_for opts tier a)"
proof (cases "ls_recovered st \<noteq> None \<or> ls_ambiguous st \<noteq> None")
  case True
  then show ?thesis using assms(4,5) by (auto simp: ladder_step_def decided_ok_def)
next
  case False
  then obtain a where a: "search_tier ds fm ord idx old req opts (ls_last_miss st) tier = Some a"
    "st' = (if tier = AmbiguityResolution \<or> tier = VisionFallback then st\<lparr>ls_trace := ls_trace st @ [a]\<rparr> else note_attempt st a)"
    using assms(4) by (auto simp: ladder_step_def)
  have "ta_status a \<noteq> Success \<and> ta_status a \<noteq> Ambiguous" if "tier = AmbiguityResolution \<or> tier = VisionFallback"
    using a(1) that by (auto simp: search_tier_def tier_vision_def split: if_splits)
  then have "tier = AmbiguityResolution \<or> tier = VisionFallback \<longrightarrow> decided_ok ds fm idx (st\<lparr>ls_trace := ls_trace st @ [a]\<rparr>)"
    using assms(5) by (auto simp: decided_ok_def)
  then have "decided_ok ds fm idx st'"
    using note_attempt_ok [OF assms(2) sound_search_tier [OF assms(1,3) a(1)] assms(5)] by (simp add: a(2))
  then show ?thesis using search_tier_for [OF a(1)] by (simp add: a(2))
qed

lemma ladder_run_ok:
  assumes "ei_inv idx" "ids_below idx" "iter_order ord"
    and "ladder_run ds fm ord idx old req opts ts st = Some st'" "decided_ok ds fm idx st"
  shows "decided_ok ds fm idx st' \<and> (\<exists>as. ls_trace st' = ls_trace st @ as \<and> list_all2 (attempt_for opts) ts as)"
  using assms(4,5)
proof (induction ts arbitrary: st)
  case (Cons t ts)
  then obtain st1 where st1: "ladder_step ds fm ord idx old req opts t st = Some st1"
    "ladder_run ds fm ord idx old req opts ts st1 = Some st'"
    by (auto split: option.splits)
  obtain a where a: "decided_ok ds fm idx st1" "ls_trace st1 = ls_trace st @ [a]" "attempt_for opts t a"
    using ladder_step_ok [OF assms(1-3) st1(1) Cons.prems(2)] by blast
  then obtain as where "decided_ok ds fm idx st'" "ls_trace st' = ls_trace st1 @ as" "list_all2 (attempt_for opts) ts as"
    using Cons.IH [OF st1(2)] by blast
  then show ?case using a by auto
qed auto

lemma ladder_start_ok: "decided_ok ds fm idx ladder_start" "ls_trace ladder_start = []"
  by (simp_all add: ladder_start_def decided_ok_def)

lemma ladder_outcome_vision:
  assumes "ladder_outcome J idx req st = Some (Vision_required d)"
  shows "ls_recovered st = None" "ls_ambiguous st = None"
    "find (\<lambda>a. ta_tier a = VisionFallback \<and> ta_status a = VisionRequired) (ls_trace st) \<noteq> None"
proof -
  have chosen: "or_else x (Some ph) \<noteq> None" for x and ph :: element_ref
    by (cases x) simp_all
  have amb: "ls_ambiguous st = None"
    using assms by (auto simp: ladder_outcome_def split: option.splits prod.splits)
  moreover have "Option.bind (ls_recovered st) (\<lambda>ph. or_else (ei_get idx (er_id ph)) (Some ph)) = None"
    using assms amb by (auto simp: ladder_outcome_def split: option.splits)
  ultimately show "ls_recovered st = None" "ls_ambiguous st = None"
    "find (\<lambda>a. ta_tier a = VisionFallback \<and> ta_status a = VisionRequired) (ls_trace st) \<noteq> None"
    using assms chosen by (auto simp: ladder_outcome_def bind_eq_None_conv split: option.splits)
qed

lemma recover_cases:
  assumes "ei_inv idx" "ids_below idx" "iter_order ord" "recover J ds fm ord idx old req opts = Some res"
  obtains st where "decided_ok ds fm idx st" "ls_trace st = rr_trace res" "list_all2 (attempt_for opts) ladder (rr_trace res)"
    "ladder_outcome J idx req st = Some (rr_outcome res)"
proof -
  obtain st where st: "ladder_run ds fm ord idx old req opts ladder ladder_start = Some st"
    "ladder_outcome J idx req st = Some (rr_outcome res)" "ls_trace st = rr_trace res"
    using assms(4) by (auto simp: recover_def split: option.splits)
  show thesis
    using ladder_run_ok [OF assms(1-3) st(1) ladder_start_ok(1)] st
    by (intro that [of st]) (auto simp: ladder_start_ok(2))
qed

lemma recovered_ok:
  assumes "ei_inv idx" "ids_below idx" "iter_order ord" "recover J ds fm ord idx old req opts = Some res"
  shows "rr_outcome res = Recovered r \<Longrightarrow> usable_in ds fm idx r"
    and "rr_outcome res = Ambiguous_outcome cs d \<Longrightarrow>
           2 \<le> length cs \<and> (\<forall>c \<in> set cs. \<exists>r. ei_get idx c = Some r \<and> usable ds fm r)"
    and "rr_outcome res = Vision_required d \<Longrightarrow> ro_allow_vision opts \<and> ro_is_visual_context opts"
proof -
  obtain st where st: "decided_ok ds fm idx st" "ls_trace st = rr_trace res"
    "list_all2 (attempt_for opts) ladder (rr_trace res)" "ladder_outcome J idx req st = Some (rr_outcome res)"
    using recover_cases [OF assms] by metis
  show "rr_outcome res = Recovered r \<Longrightarrow> usable_in ds fm idx r"
    using st(1,4) by (fastforce simp: ladder_outcome_def decided_ok_def usable_in_def bind_eq_Some_conv
        split: option.splits prod.splits)
  show "rr_outcome res = Ambiguous_outcome cs d \<Longrightarrow>
           2 \<le> length cs \<and> (\<forall>c \<in> set cs. \<exists>r. ei_get idx c = Some r \<and> usable ds fm r)"
    using st(1,4) by (auto simp: ladder_outcome_def decided_ok_def split: option.splits prod.splits)
  assume "rr_outcome res = Vision_required d"
  then obtain v where "v \<in> set (rr_trace res)" "ta_status v = VisionRequired"
    using st(2,4) ladder_outcome_vision(3) [of J idx req st d] by (auto simp: find_None_iff)
  then show "ro_allow_vision opts \<and> ro_is_visual_context opts"
    using st(3) by (auto simp: list_all2_conv_all_nth in_set_conv_nth attempt_for_def)
qed

text \<open>Concrete options for the examples: vision allowed on a visual page.\<close>

definition sample_options :: recovery_options where
  "sample_options = \<lparr>ro_allow_vision = True, ro_is_visual_context = True, ro_pierce_shadow = True\<rparr>"

section \<open>Properties\<close>

text \<open>
  C7: whatever the ladder recovers is real and usable: it is the stored element of its id, not stale,
  visible and enabled. When it reports an ambiguity there are at least two candidates and every one
  is the id of a usable stored element.
\<close>

theorem recovery_sound:
  assumes "ei_reachable n idx" "iter_order ord" "recover J ds fm ord idx old req opts = Some res"
  shows "case rr_outcome res of
           Recovered r \<Rightarrow> ei_get idx (er_id r) = Some r \<and> \<not> ei_is_stale ds fm r \<and> er_visible r \<and> er_enabled r
         | Ambiguous_outcome cs d \<Rightarrow> 2 \<le> length cs
             \<and> (\<forall>c \<in> set cs. \<exists>r. ei_get idx c = Some r \<and> \<not> ei_is_stale ds fm r \<and> er_visible r \<and> er_enabled r)
         | _ \<Rightarrow> True"
proof -
  have i: "ei_inv idx" "ids_below idx" using ei_reachable_inv [OF assms(1)] by simp_all
  show ?thesis
    using recovered_ok [OF i assms(2,3)] by (auto simp: usable_in_def usable_def split: recovery_outcome.split)
qed

theorem recovery_sound_witness:
  "\<exists>res r. recover std_json dom_state_new frame_manager_new rev sample_index None
         (resolve_request_default\<lparr>rq_dom_id := Some ''ok''\<rparr>) sample_options = Some res
       \<and> rr_outcome res = Recovered r \<and> ei_get sample_index (er_id r) = Some r \<and> er_enabled r"
proof -
  let ?res = "recover std_json dom_state_new frame_manager_new rev sample_index None
      (resolve_request_default\<lparr>rq_dom_id := Some ''ok''\<rparr>) sample_options"
  have "map_option rr_outcome ?res
      = Some (Recovered ((sample_ref 7 ''ok'')\<lparr>er_id := ''e_001'', er_selector := ''#ok''\<rparr>))" by code_simp
  then obtain res where "?res = Some res"
    "rr_outcome res = Recovered ((sample_ref 7 ''ok'')\<lparr>er_id := ''e_001'', er_selector := ''#ok''\<rparr>)" by auto
  then show ?thesis
    using recovery_sound [OF sample_index_reachable iter_order_rev] by force
qed

text \<open>
  The trace of a recovery is the whole ladder: ten attempts, one for each tier, in the fixed
  order, whatever tier decided.
\<close>

lemma recovery_trace_complete:
  assumes "ei_reachable n idx" "iter_order ord" "recover J ds fm ord idx old req opts = Some res"
  shows "map ta_tier (rr_trace res) = ladder"
proof -
  have i: "ei_inv idx" "ids_below idx" using ei_reachable_inv [OF assms(1)] by simp_all
  have "list_all2 (attempt_for opts) ladder (rr_trace res)"
    using recover_cases [OF i assms(2,3)] by metis
  then show ?thesis by (auto simp: list_all2_conv_all_nth attempt_for_def intro!: nth_equalityI)
qed

text \<open>
  Vision is the last resort: the ladder asks for it only when the options allow it and name a
  visual context, and only when no tier recorded a success or an ambiguity.
\<close>

lemma vision_is_last_resort:
  assumes "ei_reachable n idx" "iter_order ord" "recover J ds fm ord idx old req opts = Some res"
    and "rr_outcome res = Vision_required d"
  shows "ro_allow_vision opts \<and> ro_is_visual_context opts
         \<and> (\<forall>a \<in> set (rr_trace res). ta_status a \<noteq> Success \<and> ta_status a \<noteq> Ambiguous)"
proof -
  have i: "ei_inv idx" "ids_below idx" using ei_reachable_inv [OF assms(1)] by simp_all
  obtain st where st: "decided_ok ds fm idx st" "ls_trace st = rr_trace res"
    "list_all2 (attempt_for opts) ladder (rr_trace res)" "ladder_outcome J idx req st = Some (Vision_required d)"
    using recover_cases [OF i assms(2,3)] assms(4) by metis
  have none: "ls_recovered st = None \<and> ls_ambiguous st = None"
    using ladder_outcome_vision [OF st(4)] by simp
  then have "\<forall>a \<in> set (rr_trace res). ta_status a \<noteq> Success \<and> ta_status a \<noteq> Ambiguous"
    using st(1,2) by (simp add: decided_ok_def)
  then show ?thesis using recovered_ok(3) [OF i assms(2-4)] by simp
qed

text \<open>
  The fresh search compares by containment in both directions, and an empty text is contained in
  every token. So an element that has, say, no role matches every search: when it is the only live
  element, the tier reports it as recovered whatever the request was about.
\<close>

lemma fresh_search_matches_anything:
  assumes "live_only ds fm (ei_find_all ord idx) = [r]" "er_role r = []" "fresh_tokens old req \<noteq> []"
  shows "tier_fresh_search ds fm ord idx old req = Some (success_attempt FreshDomAxSearch '' via fresh DOM/AX search'' r)"
proof -
  obtain n where n: "n \<in> set (map to_lowercase (fresh_tokens old req))"
    using assms(3) by (metis last_in_set length_greater_0_conv length_map)
  have "to_lowercase (er_role r) = []" by (simp add: assms(2) to_lowercase_def)
  then have "fresh_match (map to_lowercase (fresh_tokens old req)) r"
    unfolding fresh_match_def Let_def by (intro bexI [OF _ n] bexI [of _ "[]"]) auto
  then show ?thesis using assms by (simp add: tier_fresh_search_def by_count_opt_def Let_def)
qed

end
