(* ===== verification/Daemon.thy ===== *)
theory Daemon
  imports Crash Recovery_Props
begin

text \<open>
  The daemon as a whole (\<open>src/browser_runtime/server.rs\<close>): its start-up, and one step relation over
  everything that changes the shared state (dispatched events, registered elements, target switches,
  lifecycle transitions, lost connections, simulated reconnects), in any order. On it rest the
  invariants that hold across all components and the permanence of staleness.
\<close>

section \<open>Start-up\<close>

definition server_new :: server where
  "server_new = \<lparr>sv_state = Starting, sv_rt = runtime_state_new None\<rparr>"

text \<open>
  \<open>serve\<close> up to the wait for the stop request, when no signal arrived before. On
  failure the daemon has shut down when it returns: \<open>initiate_shutdown\<close>, then \<open>teardown\<close>. Binding the
  socket, spawning the accept loop and the dispatcher, and \<open>enable_domains\<close>, whose failure is only
  logged, leave the modelled state as it is.
\<close>

definition server_shut_down :: "lifecycle_state \<Rightarrow> lifecycle_state" where
  "server_shut_down s = server_transition (server_transition s Stopping) Stopped"

definition startup_sync :: "'v json_ops \<Rightarrow> 'v outside \<Rightarrow> runtime_state \<Rightarrow> runtime_state" where
  "startup_sync J w st =
     (let ds = ds_on_connected (rs_ds st);
          tm = tm_set_runtime True (rs_tm st);
          tm = (case out_get_targets w of
                  Inl _ \<Rightarrow> tm
                | Inr v \<Rightarrow> (case get_array J v ''targetInfos'' of
                             None \<Rightarrow> tm
                           | Some arr \<Rightarrow> sync_from_target_infos J (out_order w) (out_now w) ds arr tm))
      in st\<lparr>rs_ds := ds, rs_tm := tm\<rparr>)"

definition daemon_startup :: "'v json_ops \<Rightarrow> 'v outside \<Rightarrow> server \<Rightarrow> unit runtime_result \<times> server" where
  "daemon_startup J w sv =
     (let s = server_transition (sv_state sv) Connecting;
          fail = (\<lambda>e. (Inl e, sv\<lparr>sv_state := server_shut_down (server_transition s (Failed (error_display e)))\<rparr>))
      in case out_discover w of
           Inl e \<Rightarrow> fail e
         | Inr ws_url \<Rightarrow>
             (case out_connect w ws_url of
                Inl e \<Rightarrow> fail e
              | Inr _ \<Rightarrow> (Inr (), \<lparr>sv_state = server_transition s Connected, sv_rt = startup_sync J w (sv_rt sv)\<rparr>)))"

section \<open>One step of the daemon\<close>

inductive daemon_step :: "'v json_ops \<Rightarrow> server \<Rightarrow> server \<Rightarrow> bool" for J where
  startup: "iter_order (out_order w) \<Longrightarrow> daemon_step J sv (snd (daemon_startup J w sv))"
| event: "chance_ok c \<Longrightarrow> daemon_step J sv (sv\<lparr>sv_rt := dispatch_event J c ev (sv_rt sv)\<rparr>)"
| register: "er_id r = [] \<Longrightarrow>
    daemon_step J sv (sv\<lparr>sv_rt := (sv_rt sv)\<lparr>rs_index :=
      snd (ei_insert (rs_ds (sv_rt sv)) (rs_fm (sv_rt sv)) r (rs_index (sv_rt sv)))\<rparr>\<rparr>)"
| switch: "daemon_step J sv (sv\<lparr>sv_rt := (sv_rt sv)\<lparr>rs_tm := snd (switch_target (rs_ds (sv_rt sv)) tid (rs_tm (sv_rt sv)))\<rparr>\<rparr>)"
| transition: "daemon_step J sv (sv\<lparr>sv_state := server_transition (sv_state sv) s\<rparr>)"
| disconnect: "iter_order (out_order w) \<Longrightarrow> daemon_step J sv (snd (handle_cdp_disconnect J w policy sv))"
| simulate: "iter_order ord \<Longrightarrow> daemon_step J sv (sv\<lparr>sv_rt := snd (simulate_reconnect ord clk (sv_rt sv))\<rparr>)"

inductive_cases daemon_stepE: "daemon_step J sv sv'"

section \<open>What one step does to the versions\<close>

text \<open>The versions of a state: target generation, DOM version, global frame version, version of each frame.\<close>

definition tg_of :: "server \<Rightarrow> u64" where "tg_of sv = ds_target_generation (rs_ds (sv_rt sv))"
definition dom_of :: "server \<Rightarrow> u64" where "dom_of sv = ds_dom_version (rs_ds (sv_rt sv))"
definition ftv_of :: "server \<Rightarrow> u64" where "ftv_of sv = ds_frame_tree_version (rs_ds (sv_rt sv))"
definition fver_of :: "server \<Rightarrow> string \<Rightarrow> u64" where "fver_of sv = fm_frame_version (rs_fm (sv_rt sv))"

lemmas version_defs = tg_of_def dom_of_def ftv_of_def fver_of_def

text \<open>
  Three kinds of steps: one that moves no version of a reference, an event that may move the DOM
  version and one frame, and a reconnect that renews everything.
\<close>

definition quiet_step :: "server \<Rightarrow> server \<Rightarrow> bool" where
  "quiet_step sv sv' = (tg_of sv' = tg_of sv \<and> dom_of sv' = dom_of sv \<and> ftv_of sv' = ftv_of sv \<and> fver_of sv' = fver_of sv)"

definition event_step :: "server \<Rightarrow> server \<Rightarrow> bool" where
  "event_step sv sv' =
     (tg_of sv' = tg_of sv \<and> (dom_of sv' = dom_of sv \<or> dom_of sv' = dom_of sv + 1)
      \<and> (ftv_of sv' = ftv_of sv \<and> fver_of sv' = fver_of sv
         \<or> ftv_of sv' = ftv_of sv + 1 \<and> (\<exists>f. fver_of sv' = (fver_of sv)(f := ftv_of sv + 1))))"

definition renew_step :: "server \<Rightarrow> server \<Rightarrow> bool" where
  "renew_step sv sv' =
     (tg_of sv' = tg_of sv + 1 \<and> dom_of sv' = dom_of sv + 1 \<and> (ftv_of sv' = ftv_of sv \<or> ftv_of sv' = ftv_of sv + 1)
      \<and> fver_of sv' = (\<lambda>_. 0))"

lemma startup_versions: "quiet_step sv (snd (daemon_startup J w sv))"
  by (auto simp: quiet_step_def daemon_startup_def startup_sync_def version_defs ds_on_connected_def
      bump_connection_generation_def Let_def split: sum.split)

lemma dispatch_event_sel:
  "rs_ds (dispatch_event J c ev st) = snd (fm_on_event J ev (rs_fm st, ds_on_event J (ch_parents c) ev (rs_ds st)))"
  "rs_fm (dispatch_event J c ev st) = fst (fm_on_event J ev (rs_fm st, ds_on_event J (ch_parents c) ev (rs_ds st)))"
  "rs_tm (dispatch_event J c ev st) =
     tm_on_event J (ch_targets c) (ch_now c) ev (ds_on_event J (ch_parents c) ev (rs_ds st)) (rs_tm st)"
  by (simp_all add: dispatch_event_def Let_def split: prod.split)

lemma event_versions: "event_step sv (sv\<lparr>sv_rt := dispatch_event J c ev (sv_rt sv)\<rparr>)"
  by (cases "frame_of_event J ev")
    (auto simp: event_step_def version_defs dispatch_event_sel fm_on_event_versions ds_on_event_counters fun_eq_iff)

lemma reconnected_frame_version [simp]: "fm_frame_version (fm_handle_reconnect g fm) f = 0"
  by (simp add: fm_frame_version_def fm_handle_reconnect_def)

lemma restart_frames: "rs_fm (snd (restart_browser_and_reconnect J w policy st)) = rs_fm st"
  by (simp add: restart_browser_and_reconnect_def reconnect_frame Let_def split: sum.split)

lemma invalidate_twice [simp]: "ei_invalidate_all (ei_invalidate_all idx) = ei_invalidate_all idx"
  by (simp add: ei_invalidate_all_def ei_clear_def)

lemma crash_bump_frames:
  "rs_fm (snd (crash_bump ord clk st)) = fm_handle_reconnect (ds_frame_tree_version (rs_ds st) + 1) (rs_fm st)"
  "rs_index (snd (crash_bump ord clk st)) = ei_invalidate_all (rs_index st)"
  by (simp_all add: crash_bump_def ds_on_reconnected_eq bump_frame_tree_version_def dd_on_recovery_invalidation_def
      build_full_diff_def Let_def)

lemma disconnect_frames:
  "rs_fm (sv_rt (snd (handle_cdp_disconnect J w policy sv)))
   = fm_handle_reconnect (ds_frame_tree_version (rs_ds (sv_rt sv)) + 1) (rs_fm (sv_rt sv))"
  by (rule disconnect_cases [of J w policy sv]) (simp_all add: reconnect_frame restart_frames crash_bump_frames)

lemma disconnect_versions: "renew_step sv (snd (handle_cdp_disconnect J w policy sv))"
  by (auto simp: renew_step_def version_defs disconnect_sel disconnect_frames crash_bump_sel ds_on_reconnected_eq)

lemma simulate_sel:
  "rs_ds (snd (simulate_reconnect ord clk st)) = snd (ds_on_reconnected (rs_ds st))"
  "rs_fm (snd (simulate_reconnect ord clk st)) = fm_handle_reconnect (ds_frame_tree_version (rs_ds st)) (rs_fm st)"
  "rs_index (snd (simulate_reconnect ord clk st)) = ei_invalidate_all (rs_index st)"
  "rs_tm (snd (simulate_reconnect ord clk st)) =
     tm_handle_reconnect ord (ds_target_generation (rs_ds st) + 1) (ds_runtime_generation (rs_ds st) + 1) (rs_tm st)"
  by (simp_all add: simulate_reconnect_def ds_on_reconnected_eq dd_on_recovery_invalidation_def build_full_diff_def Let_def)

lemma simulate_versions: "renew_step sv (sv\<lparr>sv_rt := snd (simulate_reconnect ord clk (sv_rt sv))\<rparr>)"
  by (auto simp: renew_step_def version_defs simulate_sel ds_on_reconnected_eq)

lemma quiet_update [simp]:
  "quiet_step sv (sv\<lparr>sv_rt := (sv_rt sv)\<lparr>rs_index := i\<rparr>\<rparr>)" "quiet_step sv (sv\<lparr>sv_rt := (sv_rt sv)\<lparr>rs_tm := t\<rparr>\<rparr>)"
  "quiet_step sv (sv\<lparr>sv_state := s\<rparr>)"
  by (simp_all add: quiet_step_def version_defs)

lemma daemon_step_versions:
  "daemon_step J sv sv' \<Longrightarrow> quiet_step sv sv' \<or> event_step sv sv' \<or> renew_step sv sv'"
  by (erule daemon_stepE)
    (simp_all add: startup_versions event_versions disconnect_versions simulate_versions)

section \<open>Invariants of reachable daemons\<close>

text \<open>
  After at most \<open>k\<close> steps: the index is reachable with at most \<open>k\<close> registrations, the targets are
  reachable, the frame versions lie below the global counter, and no counter has passed \<open>k\<close>.
\<close>

definition daemon_ok :: "'v json_ops \<Rightarrow> nat \<Rightarrow> server \<Rightarrow> bool" where
  "daemon_ok J k sv =
     ((\<exists>n \<le> k. ei_reachable n (rs_index (sv_rt sv)))
      \<and> tm_reachable J (rs_tm (sv_rt sv))
      \<and> affected_ok (rs_ds (sv_rt sv))
      \<and> (\<forall>f. fver_of sv f \<le> ftv_of sv)
      \<and> unat (tg_of sv) \<le> k \<and> unat (dom_of sv) \<le> k \<and> unat (ftv_of sv) \<le> k)"

lemma unat_bump: "unat (w :: u64) \<le> k \<Longrightarrow> k < 2 ^ 64 - 2 \<Longrightarrow> unat (w + 1) = Suc (unat w)"
  by (rule unat_Suc_u64) simp

lemma versions_step:
  assumes "quiet_step sv sv' \<or> event_step sv sv' \<or> renew_step sv sv'" "k < 2 ^ 64 - 2"
    and "\<forall>f. fver_of sv f \<le> ftv_of sv" "unat (tg_of sv) \<le> k" "unat (dom_of sv) \<le> k" "unat (ftv_of sv) \<le> k"
  shows "(\<forall>f. fver_of sv' f \<le> ftv_of sv') \<and> unat (tg_of sv') \<le> Suc k \<and> unat (dom_of sv') \<le> Suc k \<and> unat (ftv_of sv') \<le> Suc k"
proof -
  note b = unat_bump [OF assms(4,2)] unat_bump [OF assms(5,2)] unat_bump [OF assms(6,2)]
  have "fver_of sv f \<le> ftv_of sv + 1" for f
    using assms(3) [rule_format, of f] b(3) by (simp add: word_le_nat_alt)
  then show ?thesis
    using assms b by (auto simp: quiet_step_def event_step_def renew_step_def)
qed

lemma reconnect_tm_reachable:
  "tm_reachable J (rs_tm st) \<Longrightarrow> iter_order (out_order w) \<Longrightarrow> tm_reachable J (rs_tm (snd (reconnect_browser J w policy st)))"
  by (auto simp: reconnect_browser_def Let_def split: sum.split option.split
      intro!: tm_reachable.step [OF _ tm_step.sync] tm_reachable.step [OF _ tm_step.runtime])

lemma restart_tm_reachable:
  "tm_reachable J (rs_tm st) \<Longrightarrow> iter_order (out_order w) \<Longrightarrow>
   tm_reachable J (rs_tm (snd (restart_browser_and_reconnect J w policy st)))"
  by (auto simp: restart_browser_and_reconnect_def Let_def reconnect_tm_reachable split: sum.split)

lemma disconnect_tm_reachable:
  assumes "tm_reachable J (rs_tm (sv_rt sv))" "iter_order (out_order w)"
  shows "tm_reachable J (rs_tm (sv_rt (snd (handle_cdp_disconnect J w policy sv))))"
proof -
  have "tm_reachable J (rs_tm (snd (crash_bump (out_order w) (out_clock w) (sv_rt sv))))"
    using assms by (simp add: crash_bump_sel tm_reachable.step [OF _ tm_step.reconnect])
  then show ?thesis
    using assms(2) reconnect_tm_reachable restart_tm_reachable
    by (rule_tac disconnect_cases [of J w policy sv]) simp_all
qed

lemma startup_tm_reachable:
  "tm_reachable J (rs_tm (sv_rt sv)) \<Longrightarrow> iter_order (out_order w) \<Longrightarrow> tm_reachable J (rs_tm (sv_rt (snd (daemon_startup J w sv))))"
  by (auto simp: daemon_startup_def startup_sync_def Let_def split: sum.split option.split
      intro!: tm_reachable.step [OF _ tm_step.sync] tm_reachable.step [OF _ tm_step.runtime])

lemma daemon_step_targets:
  assumes "daemon_step J sv sv'" "tm_reachable J (rs_tm (sv_rt sv))"
  shows "tm_reachable J (rs_tm (sv_rt sv'))"
  using assms(1)
  by (cases rule: daemon_step.cases)
    (use assms(2) in \<open>auto simp: startup_tm_reachable disconnect_tm_reachable dispatch_event_sel simulate_sel chance_ok_def
      intro: tm_reachable.step [OF _ tm_step.event] tm_reachable.step [OF _ tm_step.switch]
        tm_reachable.step [OF _ tm_step.reconnect]\<close>)

lemma dispatch_index_change:
  assumes "ei_inv (rs_index st)" "chance_ok c"
  shows "\<exists>ds od. index_change ds (rs_index st) od (rs_index (dispatch_event J c ev st))"
proof -
  have o: "iter_order (ch_elements c)" using assms(2) by (simp add: chance_ok_def)
  obtain fm ds where f: "fm_on_event J ev (rs_fm st, ds_on_event J (ch_parents c) ev (rs_ds st)) = (fm, ds)"
    by (metis prod.exhaust)
  have "rs_index (dispatch_event J c ev st) = snd (snd (dd_handle J (ch_elements c) (ch_clock c) ds fm ev
      (ds_dom_version (rs_ds st)) (ds_element_index_version (rs_ds st)) (rs_engine st, rs_index st)))"
    by (simp add: dispatch_event_def f dd_on_event_with_pre_def Let_def split: prod.split)
  then show ?thesis
    using dd_handle_change [OF assms(1) o, where J = J and clk = "ch_clock c" and ds = ds and fm = fm and ev = ev
        and db = "ds_dom_version (rs_ds st)" and eb = "ds_element_index_version (rs_ds st)" and e = "rs_engine st"]
    by (auto split: prod.splits)
qed

lemma startup_index [simp]: "rs_index (sv_rt (snd (daemon_startup J w sv))) = rs_index (sv_rt sv)"
  by (simp add: daemon_startup_def startup_sync_def Let_def split: sum.split)

lemma daemon_step_index:
  assumes "daemon_step J sv sv'" "ei_reachable n (rs_index (sv_rt sv))" "n < 2 ^ 64 - 2"
  shows "\<exists>n' \<le> Suc n. ei_reachable n' (rs_index (sv_rt sv'))"
  using assms(1)
proof (cases rule: daemon_step.cases)
  case (event c ev)
  then show ?thesis
    using dispatch_index_change [of "sv_rt sv" c J ev] index_change_reachable [OF _ assms(2,3)]
      ei_reachable_inv [OF assms(2)] by auto
next
  case (register r)
  then show ?thesis
    using ei_reachable.insert [OF assms(2) _ assms(3), of r "rs_ds (sv_rt sv)" "rs_fm (sv_rt sv)"]
    by (intro exI [of _ "Suc n"]) simp
qed (use assms(2) in \<open>auto simp: disconnect_sel simulate_sel crash_bump_frames
      intro!: exI [of _ n] intro: ei_reachable.clear\<close>)

lemma daemon_step_affected:
  assumes "daemon_step J sv sv'" "affected_ok (rs_ds (sv_rt sv))"
  shows "affected_ok (rs_ds (sv_rt sv'))"
  using assms(1)
proof (cases rule: daemon_step.cases)
  case (event c ev)
  have "affected_ok (ds_on_event J (ch_parents c) ev (rs_ds (sv_rt sv)))"
    using event assms(2) by (simp add: chance_ok_def ds_on_event_affected_ok)
  then show ?thesis
    using event by (simp add: dispatch_event_sel fm_on_event_versions affected_ok_def)
qed (use assms(2) in \<open>auto simp: disconnect_sel simulate_sel crash_bump_sel ds_on_reconnected_eq affected_ok_def
      daemon_startup_def startup_sync_def ds_on_connected_def bump_connection_generation_def Let_def split: sum.split\<close>)

lemma daemon_step_ok:
  assumes "daemon_step J sv sv'" "daemon_ok J k sv" "k < 2 ^ 64 - 2"
  shows "daemon_ok J (Suc k) sv'"
proof -
  obtain n where n: "n \<le> k" "ei_reachable n (rs_index (sv_rt sv))" using assms(2) unfolding daemon_ok_def by blast
  then obtain n' where "n' \<le> Suc n" "ei_reachable n' (rs_index (sv_rt sv'))"
    using daemon_step_index [OF assms(1) n(2)] assms(3) by auto
  then have "\<exists>n' \<le> Suc k. ei_reachable n' (rs_index (sv_rt sv'))" using n(1) by (intro exI [of _ n']) simp
  then show ?thesis
    using assms(2) daemon_step_targets [OF assms(1)] daemon_step_affected [OF assms(1)]
      versions_step [OF daemon_step_versions [OF assms(1)] assms(3)]
    by (simp add: daemon_ok_def)
qed

lemma daemon_ok_new: "daemon_ok J 0 server_new"
  by (auto simp: daemon_ok_def server_new_def runtime_state_new_def version_defs dom_state_new_def affected_ok_def
      fm_frame_version_def frame_manager_new_def intro: ei_reachable.new tm_reachable.new)

lemma daemon_ok_steps:
  "(daemon_step J ^^ m) sv sv' \<Longrightarrow> daemon_ok J k sv \<Longrightarrow> k + m < 2 ^ 64 - 1 \<Longrightarrow> daemon_ok J (k + m) sv'"
proof (induction m arbitrary: sv')
  case (Suc m)
  then obtain sv1 where "(daemon_step J ^^ m) sv sv1" "daemon_step J sv1 sv'" by auto
  then show ?case using Suc daemon_step_ok [of J sv1 sv' "k + m"] by simp
qed simp

section \<open>Staleness over time\<close>

text \<open>
  A reference from the past stores no version above the current ones; it has aged when one of them
  has moved on since. An aged reference is stale, and ageing is never undone.
\<close>

definition past_ref :: "server \<Rightarrow> element_ref \<Rightarrow> bool" where
  "past_ref sv r = (er_target_generation r \<le> tg_of sv \<and> er_dom_version_created r \<le> dom_of sv
     \<and> er_frame_tree_version r \<le> ftv_of sv)"

definition aged :: "server \<Rightarrow> element_ref \<Rightarrow> bool" where
  "aged sv r = (er_target_generation r < tg_of sv \<or> er_dom_version_created r < dom_of sv
     \<or> er_frame_tree_version r < fver_of sv (er_frame_id r))"

definition live_ref :: "server \<Rightarrow> element_ref \<Rightarrow> bool" where
  "live_ref sv r = (\<not> ei_is_stale (rs_ds (sv_rt sv)) (rs_fm (sv_rt sv)) r)"

lemma live_ref_iff:
  "live_ref sv r \<longleftrightarrow> er_target_generation r = tg_of sv \<and> er_dom_version_created r = dom_of sv
     \<and> er_frame_tree_version r = fver_of sv (er_frame_id r)"
  by (auto simp: live_ref_def stale_iff version_defs is_stale_for_frame_def Let_def)

lemma aged_not_live: "aged sv r \<Longrightarrow> \<not> live_ref sv r"
  by (auto simp: aged_def live_ref_iff)

lemma live_past: "live_ref sv r \<Longrightarrow> daemon_ok J k sv \<Longrightarrow> past_ref sv r"
  by (auto simp: live_ref_iff past_ref_def daemon_ok_def)

lemma ref_step:
  assumes "daemon_step J sv sv'" "daemon_ok J k sv" "k < 2 ^ 64 - 2" "past_ref sv r"
  shows "past_ref sv' r" "aged sv r \<Longrightarrow> aged sv' r" "live_ref sv r \<Longrightarrow> live_ref sv' r \<or> aged sv' r"
proof -
  have le: "unat (tg_of sv) \<le> k" "unat (dom_of sv) \<le> k" "unat (ftv_of sv) \<le> k"
    using assms(2) by (simp_all add: daemon_ok_def)
  have lt: "w < c + 1" if "w \<le> c" "unat c \<le> k" for w c :: u64
    using unat_bump [OF that(2) assms(3)] that(1) by (simp add: word_less_nat_alt word_le_nat_alt)
  have "past_ref sv' r \<and> (aged sv r \<longrightarrow> aged sv' r) \<and> (live_ref sv r \<longrightarrow> live_ref sv' r \<or> aged sv' r)"
    using daemon_step_versions [OF assms(1)]
  proof (elim disjE)
    assume "quiet_step sv sv'"
    then show ?thesis using assms(4) by (simp add: quiet_step_def past_ref_def aged_def live_ref_iff)
  next
    assume q: "event_step sv sv'"
    have d: "er_dom_version_created r < dom_of sv + 1" and f: "er_frame_tree_version r < ftv_of sv + 1"
      using assms(4) le lt by (auto simp: past_ref_def)
    show ?thesis
      using q assms(4) d f order_less_imp_le [OF d] order_less_imp_le [OF f]
      by (auto simp: event_step_def past_ref_def aged_def live_ref_iff split: if_splits)
  next
    assume q: "renew_step sv sv'"
    have t: "er_target_generation r < tg_of sv + 1" and d: "er_dom_version_created r < dom_of sv + 1"
      and f: "er_frame_tree_version r < ftv_of sv + 1"
      using assms(4) le lt by (auto simp: past_ref_def)
    show ?thesis
      using q assms(4) t d f order_less_imp_le [OF t] order_less_imp_le [OF d] order_less_imp_le [OF f]
      by (auto simp: renew_step_def past_ref_def aged_def)
  qed
  then show "past_ref sv' r" "aged sv r \<Longrightarrow> aged sv' r" "live_ref sv r \<Longrightarrow> live_ref sv' r \<or> aged sv' r" by auto
qed

lemma ref_steps:
  "(daemon_step J ^^ m) sv sv' \<Longrightarrow> daemon_ok J k sv \<Longrightarrow> k + m < 2 ^ 64 - 1 \<Longrightarrow> past_ref sv r \<Longrightarrow>
   past_ref sv' r \<and> (aged sv r \<longrightarrow> aged sv' r) \<and> (live_ref sv r \<longrightarrow> live_ref sv' r \<or> aged sv' r)"
proof (induction m arbitrary: sv')
  case (Suc m)
  then obtain sv1 where sv1: "(daemon_step J ^^ m) sv sv1" "daemon_step J sv1 sv'" by auto
  have ok: "daemon_ok J (k + m) sv1" "k + m < 2 ^ 64 - 2"
    using daemon_ok_steps [OF sv1(1) Suc.prems(2)] Suc.prems(3) by simp_all
  then show ?case
    using Suc.IH [OF sv1(1) Suc.prems(2)] Suc.prems(3,4) ref_step [OF sv1(2) ok] by auto
qed simp

text \<open>A daemon with one registered element, its states after a DOM mutation and after a reconnect.\<close>

definition sample_server :: server where
  "sample_server = server_new\<lparr>sv_rt := (sv_rt server_new)\<lparr>rs_index := sample_index\<rparr>\<rparr>"

definition sample_mutated :: server where
  "sample_mutated = sample_server\<lparr>sv_rt := dispatch_event std_json sample_chance
     (sample_event ''DOM.attributeModified'' (JObj [])) (sv_rt sample_server)\<rparr>"

definition sample_reconnected :: server where
  "sample_reconnected = sample_mutated\<lparr>sv_rt := snd (simulate_reconnect rev \<lparr>clk_us = 1, clk_now_ms = 5\<rparr> (sv_rt sample_mutated))\<rparr>"

lemma sample_server_steps:
  "daemon_step std_json server_new sample_server" "daemon_step std_json sample_server sample_mutated"
  "daemon_step std_json sample_mutated sample_reconnected"
proof -
  have "sample_server = server_new\<lparr>sv_rt := (sv_rt server_new)\<lparr>rs_index := snd (ei_insert (rs_ds (sv_rt server_new))
      (rs_fm (sv_rt server_new)) (sample_ref 7 ''ok'') (rs_index (sv_rt server_new)))\<rparr>\<rparr>"
    by (simp add: sample_server_def server_new_def runtime_state_new_def sample_index_def)
  then show "daemon_step std_json server_new sample_server"
    using daemon_step.register [of "sample_ref 7 ''ok''" std_json server_new] by simp
  have "chance_ok sample_chance" by simp
  then show "daemon_step std_json sample_server sample_mutated"
    unfolding sample_mutated_def by (rule daemon_step.event)
  show "daemon_step std_json sample_mutated sample_reconnected"
    unfolding sample_reconnected_def by (rule daemon_step.simulate [OF iter_order_rev])
qed

lemma sample_server_reached: "(daemon_step std_json ^^ 1) server_new sample_server"
  using sample_server_steps(1) by auto

section \<open>Properties\<close>

text \<open>
  C1: the invariants of all components hold in every state the daemon can reach in fewer than
  \<open>2^64 - 1\<close> steps, in whatever order it starts up, dispatches events, registers elements, switches
  targets, changes its lifecycle state, loses connections and reconnects: stored elements are found
  under their ids, the active target and every session lead to a tracked target, at most 512 touched
  parents are kept, and no frame version is above the global counter.
\<close>

theorem daemon_invariants:
  assumes "(daemon_step J ^^ n) server_new sv" "n < 2 ^ 64 - 1"
  shows "(\<forall>i r. ei_get (rs_index (sv_rt sv)) i = Some r \<longrightarrow> er_id r = i)
    \<and> (\<forall>t. tm_active_target_id (rs_tm (sv_rt sv)) = Some t \<longrightarrow>
          (\<exists>r. tm_get_target (rs_tm (sv_rt sv)) t = Some r \<and> tr_active r))
    \<and> (\<forall>s t. hm_get (tm_session_to_target (rs_tm (sv_rt sv))) s = Some t \<longrightarrow> tm_get_target (rs_tm (sv_rt sv)) t \<noteq> None)
    \<and> length (ds_affected_parents (rs_ds (sv_rt sv))) \<le> 512
    \<and> (\<forall>f. fm_frame_version (rs_fm (sv_rt sv)) f \<le> ds_frame_tree_version (rs_ds (sv_rt sv)))"
proof -
  have ok: "daemon_ok J n sv" using daemon_ok_steps [OF assms(1) daemon_ok_new] assms(2) by simp
  then obtain m where m: "ei_reachable m (rs_index (sv_rt sv))" unfolding daemon_ok_def by blast
  have i: "ei_inv (rs_index (sv_rt sv))" using ei_reachable_inv [OF m] by simp
  have t: "tm_inv (rs_tm (sv_rt sv))" using ok unfolding daemon_ok_def by (blast intro: tm_reachable_inv)
  show ?thesis
    using ei_inv_id [OF i] tm_invD(1,2) [OF t] ok
    by (auto simp: daemon_ok_def affected_ok_def affected_cap_def version_defs tm_get_target_def tm_active_target_def)
qed

theorem daemon_invariants_witness:
  "let st = sv_rt sample_server in ei_get (rs_index st) ''e_001'' \<noteq> None
     \<and> (\<forall>r. ei_get (rs_index st) ''e_001'' = Some r \<longrightarrow> er_id r = ''e_001'')
     \<and> length (ds_affected_parents (rs_ds st)) \<le> 512"
proof -
  have "ei_get (rs_index (sv_rt sample_server)) ''e_001'' \<noteq> None" by code_simp
  then show ?thesis using daemon_invariants [OF sample_server_reached] unfolding Let_def by simp
qed

text \<open>
  C8: staleness is permanent. Take any reachable state and a reference that is live in it. Once the
  daemon has reached a state in which the reference is stale, no further steps make it live again
  (fewer than \<open>2^64 - 1\<close> steps in all): not even a reconnect, which forgets the frame versions, since it
  renews the target generation.
\<close>

theorem staleness_is_permanent:
  assumes "(daemon_step J ^^ n) server_new sv" "(daemon_step J ^^ m) sv sv1" "(daemon_step J ^^ k) sv1 sv2"
    and "n + m + k < 2 ^ 64 - 1"
    and "\<not> ei_is_stale (rs_ds (sv_rt sv)) (rs_fm (sv_rt sv)) r" "ei_is_stale (rs_ds (sv_rt sv1)) (rs_fm (sv_rt sv1)) r"
  shows "ei_is_stale (rs_ds (sv_rt sv2)) (rs_fm (sv_rt sv2)) r"
proof -
  have ok: "daemon_ok J n sv" using daemon_ok_steps [OF assms(1) daemon_ok_new] assms(4) by simp
  have ok1: "daemon_ok J (n + m) sv1" using daemon_ok_steps [OF assms(2) ok] assms(4) by simp
  have l: "live_ref sv r" "\<not> live_ref sv1 r" using assms(5,6) by (simp_all add: live_ref_def)
  have "past_ref sv1 r" "aged sv1 r"
    using ref_steps [OF assms(2) ok _ live_past [OF l(1) ok]] l assms(4) by auto
  then have "aged sv2 r" using ref_steps [OF assms(3) ok1] assms(4) by simp
  then show ?thesis using aged_not_live by (auto simp: live_ref_def)
qed

theorem staleness_is_permanent_witness:
  "let st = sv_rt sample_reconnected in
     ei_is_stale (rs_ds st) (rs_fm st) ((sample_ref 7 ''ok'')\<lparr>er_id := ''e_001'', er_selector := ''#ok''\<rparr>)"
proof -
  let ?r = "(sample_ref 7 ''ok'')\<lparr>er_id := ''e_001'', er_selector := ''#ok''\<rparr>"
  have l: "\<not> ei_is_stale (rs_ds (sv_rt sample_server)) (rs_fm (sv_rt sample_server)) ?r"
    and s: "ei_is_stale (rs_ds (sv_rt sample_mutated)) (rs_fm (sv_rt sample_mutated)) ?r" by code_simp+
  have m: "(daemon_step std_json ^^ 1) sample_server sample_mutated" "(daemon_step std_json ^^ 1) sample_mutated sample_reconnected"
    using sample_server_steps(2,3) by auto
  show ?thesis
    using staleness_is_permanent [OF sample_server_reached m _ l s] unfolding Let_def by simp
qed



end
