(* ===== verification/Transport.thy ===== *)
theory Transport
  imports Errors
begin

text \<open>
  \<open>src/browser_runtime/connection.rs\<close>: the CDP transport. A reader task numbers the frames of the
  WebSocket, a dispatcher decodes them (large ones on a worker that may finish late), a reorder
  buffer restores the wire order, and each frame answers a pending call or is broadcast as an event.
  The WebSocket, the JSON parser (\<open>parse\<close>) and the JSON printer (\<open>txt\<close>) are arguments. A channel is
  the list of what was sent and not yet received; the broadcast and the answers to callers are the
  lists of all that was ever sent.
\<close>

section \<open>UTF-8\<close>

text \<open>The ranges of the continuation bytes after a first byte; \<^term>\<open>None\<close> for a byte that starts nothing.\<close>

definition utf8_tail :: "nat \<Rightarrow> (nat \<times> nat) list option" where
  "utf8_tail b =
     (let c = (128, 191) in
      if b < 128 then Some []
      else if 194 \<le> b \<and> b \<le> 223 then Some [c]
      else if b = 224 then Some [(160, 191), c]
      else if b = 237 then Some [(128, 159), c]
      else if 225 \<le> b \<and> b \<le> 239 then Some [c, c]
      else if b = 240 then Some [(144, 191), c, c]
      else if 241 \<le> b \<and> b \<le> 243 then Some [c, c, c]
      else if b = 244 then Some [(128, 143), c, c]
      else None)"

fun utf8_matched :: "(nat \<times> nat) list \<Rightarrow> string \<Rightarrow> nat" where
  "utf8_matched ((lo, hi) # rs) (c # cs) =
     (if lo \<le> of_char c \<and> of_char c \<le> hi then Suc (utf8_matched rs cs) else 0)"
| "utf8_matched _ _ = 0"

text \<open>How many bytes the first character, or the first invalid sequence, takes.\<close>

definition utf8_first :: "char \<Rightarrow> string \<Rightarrow> bool \<times> nat" where
  "utf8_first c cs =
     (case utf8_tail (of_char c) of
        None \<Rightarrow> (False, 0)
      | Some rs \<Rightarrow> (utf8_matched rs cs = length rs, utf8_matched rs cs))"

text \<open>\<open>String::from_utf8(..).is_ok()\<close> and \<open>String::from_utf8_lossy\<close>.\<close>

function utf8_valid :: "string \<Rightarrow> bool" where
  "utf8_valid [] = True"
| "utf8_valid (c # cs) = (fst (utf8_first c cs) \<and> utf8_valid (drop (snd (utf8_first c cs)) cs))"
  by pat_completeness auto
termination by (relation "measure length") auto

function utf8_lossy :: "string \<Rightarrow> string" where
  "utf8_lossy [] = []"
| "utf8_lossy (c # cs) =
     (let (ok, n) = utf8_first c cs in
      (if ok then c # take n cs else [CHR 0xEF, CHR 0xBF, CHR 0xBD]) @ utf8_lossy (drop n cs))"
  by pat_completeness auto
termination by (relation "measure length") auto

section \<open>Wire types\<close>

record 'v cdp_request =
  rq_wire_id :: i64
  rq_wire_method :: string
  rq_wire_params :: "'v"
  rq_wire_session :: "string option"

definition to_wire_value :: "'v json_ops \<Rightarrow> 'v cdp_request \<Rightarrow> 'v" where
  "to_wire_value J r = j_obj J
     ([(''id'', j_i64 J (rq_wire_id r)), (''method'', j_str J (rq_wire_method r)), (''params'', rq_wire_params r)]
      @ (case rq_wire_session r of None \<Rightarrow> [] | Some s \<Rightarrow> [(''sessionId'', j_str J s)]))"

record 'v cdp_error_body =
  ceb_code :: i64
  ceb_message :: string
  ceb_data :: "'v option"

record 'v cdp_response =
  rsp_id :: i64
  rsp_result :: "'v option"
  rsp_error :: "'v cdp_error_body option"
  rsp_session_id :: "string option"

definition runtime_dead_code :: i64 where "runtime_dead_code = - 32001"
definition runtime_dead_prefix :: string where "runtime_dead_prefix = ''HYPRFAST_RUNTIME_DEAD:''"
definition invalid_response_code :: i64 where "invalid_response_code = - 32002"
definition invalid_response_prefix :: string where "invalid_response_prefix = ''HYPRFAST_INVALID_RESPONSE:''"

record runtime_config =
  rc_decode_offload_threshold :: nat
  rc_max_message_size :: nat
  rc_default_call_timeout_ms :: u64

definition runtime_config_default :: runtime_config where
  "runtime_config_default = \<lparr>rc_decode_offload_threshold = 2 * 1024 * 1024,
     rc_max_message_size = 64 * 1024 * 1024, rc_default_call_timeout_ms = 30000\<rparr>"

section \<open>Shared state\<close>

record 'v shared =
  sh_pending :: "(i64, unit) hashmap"
  sh_alive :: bool
  sh_next_id :: i64
  sh_next_sequence :: u64
  sh_events :: "'v cdp_event list"
  sh_answers :: "'v cdp_response list"
  sh_event_count :: u64
  sh_depth_current :: nat
  sh_depth_max :: nat
  sh_offloaded_count :: u64
  sh_oversize_dropped :: u64
  sh_attached_sessions :: "string list"
  sh_writer_open :: bool
  sh_queued :: "string list"

definition shared_new :: "'v shared" where
  "shared_new = \<lparr>sh_pending = [], sh_alive = True, sh_next_id = 1, sh_next_sequence = 0, sh_events = [],
     sh_answers = [], sh_event_count = 0, sh_depth_current = 0, sh_depth_max = 0, sh_offloaded_count = 0,
     sh_oversize_dropped = 0, sh_attached_sessions = [], sh_writer_open = True, sh_queued = []\<rparr>"

text \<open>\<open>mark_dead\<close> in its three steps (the swap, the writer, the pending calls), and as a whole.\<close>

definition dead_response :: "string \<Rightarrow> i64 \<Rightarrow> 'v cdp_response" where
  "dead_response reason i = \<lparr>rsp_id = i, rsp_result = None,
     rsp_error = Some \<lparr>ceb_code = runtime_dead_code, ceb_message = runtime_dead_prefix @ '' '' @ reason, ceb_data = None\<rparr>,
     rsp_session_id = None\<rparr>"

definition dead_swap :: "'v shared \<Rightarrow> 'v shared" where
  "dead_swap s = s\<lparr>sh_alive := False\<rparr>"

definition dead_drop_writer :: "'v shared \<Rightarrow> 'v shared" where
  "dead_drop_writer s = s\<lparr>sh_writer_open := False\<rparr>"

definition dead_fail_pending ::
  "((i64 \<times> unit) list \<Rightarrow> (i64 \<times> unit) list) \<Rightarrow> string \<Rightarrow> 'v shared \<Rightarrow> 'v shared" where
  "dead_fail_pending ord reason s =
     s\<lparr>sh_pending := [], sh_answers := sh_answers s @ map (\<lambda>(i, _). dead_response reason i) (ord (sh_pending s))\<rparr>"

definition mark_dead ::
  "((i64 \<times> unit) list \<Rightarrow> (i64 \<times> unit) list) \<Rightarrow> string \<Rightarrow> 'v shared \<Rightarrow> 'v shared" where
  "mark_dead ord reason s =
     (if \<not> sh_alive s then s else dead_fail_pending ord reason (dead_drop_writer (dead_swap s)))"

definition note_reorder_depth :: "nat \<Rightarrow> 'v shared \<Rightarrow> 'v shared" where
  "note_reorder_depth current s =
     s\<lparr>sh_depth_current := current, sh_depth_max := (if sh_depth_max s < current then current else sh_depth_max s)\<rparr>"

definition track_attached :: "string \<Rightarrow> 'v shared \<Rightarrow> 'v shared" where
  "track_attached sid s =
     (if sid \<in> set (sh_attached_sessions s) then s
      else s\<lparr>sh_attached_sessions := sh_attached_sessions s @ [sid]\<rparr>)"

definition track_detached :: "string \<Rightarrow> 'v shared \<Rightarrow> 'v shared" where
  "track_detached sid s = s\<lparr>sh_attached_sessions := filter (\<lambda>x. x \<noteq> sid) (sh_attached_sessions s)\<rparr>"

section \<open>Reading frames\<close>

datatype inbound_frame = Raw u64 string | Oversize u64 "i64 option"

datatype 'v ordered_item = Message 'v | Undecodable "i64 option"

text \<open>\<open>s.find(n)\<close> and \<open>s.parse::<i64>()\<close> (on a string of digits and minus signs).\<close>

fun str_find :: "string \<Rightarrow> string \<Rightarrow> nat option" where
  "str_find n [] = (if n = [] then Some 0 else None)"
| "str_find n (c # cs) = (if is_prefix_of n (c # cs) then Some 0 else map_option Suc (str_find n cs))"

definition is_digit :: "char \<Rightarrow> bool" where
  "is_digit c = (48 \<le> (of_char c :: nat) \<and> (of_char c :: nat) \<le> 57)"

definition parse_i64 :: "string \<Rightarrow> i64 option" where
  "parse_i64 s =
     (let (neg, ds) = (case s of [] \<Rightarrow> (False, []) | c # cs \<Rightarrow> if c = CHR ''-'' then (True, cs) else (False, s));
          n = int (read_nat ds);
          v = (if neg then - n else n)
      in if ds = [] \<or> \<not> list_all is_digit ds then None
         else if - (2 ^ 63) \<le> v \<and> v < 2 ^ 63 then Some (word_of_int v) else None)"

text \<open>
  \<open>extract_id_prefix\<close>; the outer \<^term>\<open>None\<close> is the panic of the slice at byte 1024.
\<close>

definition id_in_head :: "string \<Rightarrow> i64 option" where
  "id_in_head head =
     (case str_find [CHR 0x22, CHR ''i'', CHR ''d'', CHR 0x22] head of
        None \<Rightarrow> None
      | Some key \<Rightarrow>
          let after = drop (key + 4) head in
          (case str_find '':'' after of
             None \<Rightarrow> None
           | Some colon \<Rightarrow>
               let num = takeWhile (\<lambda>c. is_digit c \<or> c = CHR ''-'') (dropWhile is_ws (drop (colon + 1) after))
               in if num = [] \<or> num = ''-'' then None else parse_i64 num))"

definition extract_id_prefix :: "string \<Rightarrow> i64 option option" where
  "extract_id_prefix text = map_option id_in_head (slice_to text (min (length text) 1024))"

definition parse_cdp_error :: "'v json_ops \<Rightarrow> ('v \<Rightarrow> bool) \<Rightarrow> 'v \<Rightarrow> 'v cdp_error_body option" where
  "parse_cdp_error J is_null v =
     (case j_get J v ''error'' of
        None \<Rightarrow> None
      | Some err \<Rightarrow>
          if is_null err then None
          else Some \<lparr>ceb_code = unwrap_or 0 (get_i64 J err ''code''),
                     ceb_message = unwrap_or ''unknown CDP error'' (get_str J err ''message''),
                     ceb_data = j_get J err ''data''\<rparr>)"

definition session_of :: "'v json_ops \<Rightarrow> 'v \<Rightarrow> string option" where
  "session_of J v = get_str J v ''sessionId''"

section \<open>Dispatching one item\<close>

text \<open>\<open>pending.remove(&id)\<close>, and \<open>tx.send\<close> to whoever waits.\<close>

definition answer_pending :: "i64 \<Rightarrow> 'v cdp_response \<Rightarrow> 'v shared \<Rightarrow> 'v shared" where
  "answer_pending i r s =
     (if hm_contains (sh_pending s) i
      then s\<lparr>sh_pending := hm_remove i (sh_pending s), sh_answers := sh_answers s @ [r]\<rparr> else s)"

definition invalid_frame_response :: "u64 \<Rightarrow> i64 \<Rightarrow> 'v cdp_response" where
  "invalid_frame_response q i = \<lparr>rsp_id = i, rsp_result = None,
     rsp_error = Some \<lparr>ceb_code = invalid_response_code,
       ceb_message = invalid_response_prefix @ '' frame #'' @ show_u64 q @ '' could not be decoded'', ceb_data = None\<rparr>,
     rsp_session_id = None\<rparr>"

definition broadcast_event :: "'v json_ops \<Rightarrow> 'v cdp_event \<Rightarrow> 'v shared \<Rightarrow> 'v shared" where
  "broadcast_event J ev s =
     (let s = s\<lparr>sh_event_count := sh_event_count s + 1\<rparr>;
          s = (if ev_method ev = ''Target.attachedToTarget'' then
                 (case get_str J (ev_params ev) ''sessionId'' of None \<Rightarrow> s | Some sid \<Rightarrow> track_attached sid s)
               else if ev_method ev = ''Target.detachedFromTarget'' then
                 (case get_str J (ev_params ev) ''sessionId'' of None \<Rightarrow> s | Some sid \<Rightarrow> track_detached sid s)
               else s)
      in s\<lparr>sh_events := sh_events s @ [ev]\<rparr>)"

definition dispatch_item ::
  "'v json_ops \<Rightarrow> ('v \<Rightarrow> bool) \<Rightarrow> u64 \<Rightarrow> 'v ordered_item \<Rightarrow> 'v shared \<Rightarrow> 'v shared" where
  "dispatch_item J is_null q item s =
     (case item of
        Undecodable hint \<Rightarrow>
          (case hint of None \<Rightarrow> s | Some i \<Rightarrow> answer_pending i (invalid_frame_response q i) s)
      | Message v \<Rightarrow>
          (case get_i64 J v ''id'' of
             Some i \<Rightarrow>
               answer_pending i \<lparr>rsp_id = i, rsp_result = j_get J v ''result'',
                  rsp_error = parse_cdp_error J is_null v, rsp_session_id = session_of J v\<rparr> s
           | None \<Rightarrow>
               (case get_str J v ''method'' of
                  None \<Rightarrow> s
                | Some m \<Rightarrow>
                    broadcast_event J \<lparr>ev_method = m, ev_params = unwrap_or (j_null J) (j_get J v ''params''),
                       ev_session_id = session_of J v, ev_sequence = q\<rparr> s)))"

lemma hm_remove_length: "hm_get m k = Some v \<Longrightarrow> length (hm_remove k m) < length m"
proof -
  assume "hm_get m k = Some v"
  then have "(k, v) \<in> set m" by (rule hm_get_in_set)
  then have "length (filter (\<lambda>p. k \<noteq> fst p) m) < length m"
    by (intro length_filter_less [of "(k, v)"]) auto
  then show ?thesis by (simp add: hm_remove_def AList.delete_eq split_def)
qed

type_synonym 'v reorder_buffer = "(u64, 'v ordered_item) hashmap"

function drain_ready ::
  "'v json_ops \<Rightarrow> ('v \<Rightarrow> bool) \<Rightarrow> 'v reorder_buffer \<Rightarrow> u64 \<Rightarrow> 'v shared \<Rightarrow> 'v reorder_buffer \<times> u64 \<times> 'v shared" where
  "drain_ready J is_null buffer expected s =
     (case hm_get buffer expected of
        None \<Rightarrow> (buffer, expected, note_reorder_depth (length buffer) s)
      | Some item \<Rightarrow>
          let buffer' = hm_remove expected buffer in
          drain_ready J is_null buffer' (expected + 1)
            (note_reorder_depth (length buffer') (dispatch_item J is_null expected item s)))"
  by pat_completeness auto
termination
  by (relation "measure (\<lambda>(_, _, buffer, _, _). length buffer)") (simp_all add: hm_remove_length)

declare drain_ready.simps [simp del]

section \<open>Calls\<close>

definition interpret_response :: "'v json_ops \<Rightarrow> string \<Rightarrow> 'v cdp_response \<Rightarrow> 'v runtime_result" where
  "interpret_response J method resp =
     (case rsp_error resp of
        Some err \<Rightarrow>
          if ceb_code err = runtime_dead_code \<and> is_prefix_of runtime_dead_prefix (ceb_message err)
          then Inl (RuntimeDead (ceb_message err))
          else if ceb_code err = invalid_response_code \<and> is_prefix_of invalid_response_prefix (ceb_message err)
          then Inl (InvalidResponse (ceb_message err))
          else Inl (CdpError method (ceb_code err) (ceb_message err))
      | None \<Rightarrow> Inr (unwrap_or (j_null J) (rsp_result resp)))"

section \<open>The tasks\<close>

text \<open>
  What the WebSocket stream yields; \<open>WEnd\<close> is its end. A task that panics (the slice in
  \<open>extract_id_prefix\<close>) is gone without running its epilogue.
\<close>

datatype ws_message = WText string | WBinary string | WClose | WControl | WErr string | WEnd

datatype task = Running | Exited | Panicked

record 'v pipe =
  pp_shared :: "'v shared"
  pp_reader :: task
  pp_inbound :: "inbound_frame list"
  pp_dispatcher :: task
  pp_inbound_open :: bool
  pp_expected :: u64
  pp_buffer :: "'v reorder_buffer"
  pp_pending_offloads :: nat
  pp_workers :: "(u64 \<times> string) list"
  pp_completions :: "(u64 \<times> 'v option) list"

definition pipe_new :: "'v pipe" where
  "pipe_new = \<lparr>pp_shared = shared_new, pp_reader = Running, pp_inbound = [], pp_dispatcher = Running,
     pp_inbound_open = True, pp_expected = 0, pp_buffer = [], pp_pending_offloads = 0, pp_workers = [],
     pp_completions = []\<rparr>"

type_synonym pending_order = "(i64 \<times> unit) list \<Rightarrow> (i64 \<times> unit) list"

text \<open>The epilogue of \<open>reader_loop\<close>, and a send to the dispatcher, which fails when it is gone.\<close>

definition reader_exit :: "pending_order \<Rightarrow> 'v pipe \<Rightarrow> 'v pipe" where
  "reader_exit ord p = p\<lparr>pp_reader := Exited,
     pp_shared := mark_dead ord ''reader: connection closed by peer'' (pp_shared p)\<rparr>"

definition send_inbound :: "pending_order \<Rightarrow> inbound_frame \<Rightarrow> 'v pipe \<Rightarrow> 'v pipe" where
  "send_inbound ord fr p =
     (if pp_dispatcher p = Running then p\<lparr>pp_inbound := pp_inbound p @ [fr]\<rparr> else reader_exit ord p)"

definition next_sequence :: "'v pipe \<Rightarrow> u64 \<times> 'v pipe" where
  "next_sequence p =
     (sh_next_sequence (pp_shared p),
      p\<lparr>pp_shared := (pp_shared p)\<lparr>sh_next_sequence := sh_next_sequence (pp_shared p) + 1\<rparr>\<rparr>)"

definition note_oversize :: "'v pipe \<Rightarrow> 'v pipe" where
  "note_oversize p = p\<lparr>pp_shared := (pp_shared p)\<lparr>sh_oversize_dropped := sh_oversize_dropped (pp_shared p) + 1\<rparr>\<rparr>"

text \<open>One iteration of \<open>reader_loop\<close>.\<close>

definition reader_step :: "runtime_config \<Rightarrow> pending_order \<Rightarrow> ws_message \<Rightarrow> 'v pipe \<Rightarrow> 'v pipe" where
  "reader_step cfg ord msg p =
     (case msg of
        WText text \<Rightarrow>
          let (q, p) = next_sequence p in
          if rc_max_message_size cfg < length text then
            (case extract_id_prefix text of
               None \<Rightarrow> (note_oversize p)\<lparr>pp_reader := Panicked\<rparr>
             | Some hint \<Rightarrow> send_inbound ord (Oversize q hint) (note_oversize p))
          else send_inbound ord (Raw q text) p
      | WBinary bytes \<Rightarrow>
          let (q, p) = next_sequence p in
          if rc_max_message_size cfg < length bytes then
            (case extract_id_prefix (utf8_lossy bytes) of
               None \<Rightarrow> (note_oversize p)\<lparr>pp_reader := Panicked\<rparr>
             | Some hint \<Rightarrow> send_inbound ord (Oversize q hint) (note_oversize p))
          else if utf8_valid bytes then send_inbound ord (Raw q bytes) p
          else send_inbound ord (Oversize q None) p
      | WClose \<Rightarrow> reader_exit ord p
      | WControl \<Rightarrow> p
      | WErr e \<Rightarrow> reader_exit ord (p\<lparr>pp_shared := mark_dead ord (''reader error: '' @ e) (pp_shared p)\<rparr>)
      | WEnd \<Rightarrow> reader_exit ord p)"

definition insert_and_drain ::
  "'v json_ops \<Rightarrow> ('v \<Rightarrow> bool) \<Rightarrow> u64 \<Rightarrow> 'v ordered_item \<Rightarrow> 'v pipe \<Rightarrow> 'v pipe" where
  "insert_and_drain J is_null q item p =
     (let (b, e, s) = drain_ready J is_null (hm_insert q item (pp_buffer p)) (pp_expected p) (pp_shared p)
      in p\<lparr>pp_buffer := b, pp_expected := e, pp_shared := s\<rparr>)"

definition drain_and_exit :: "'v json_ops \<Rightarrow> ('v \<Rightarrow> bool) \<Rightarrow> 'v pipe \<Rightarrow> 'v pipe" where
  "drain_and_exit J is_null p =
     (let (b, e, s) = drain_ready J is_null (pp_buffer p) (pp_expected p) (pp_shared p)
      in p\<lparr>pp_buffer := b, pp_expected := e, pp_shared := s, pp_dispatcher := Exited\<rparr>)"

definition handle_inbound ::
  "'v json_ops \<Rightarrow> ('v \<Rightarrow> bool) \<Rightarrow> (string \<Rightarrow> 'v option) \<Rightarrow> runtime_config \<Rightarrow> inbound_frame \<Rightarrow> 'v pipe \<Rightarrow> 'v pipe" where
  "handle_inbound J is_null parse cfg fr p =
     (case fr of
        Oversize q hint \<Rightarrow> insert_and_drain J is_null q (Undecodable hint) p
      | Raw q text \<Rightarrow>
          if rc_decode_offload_threshold cfg \<le> length text then
            p\<lparr>pp_pending_offloads := pp_pending_offloads p + 1,
              pp_shared := (pp_shared p)\<lparr>sh_offloaded_count := sh_offloaded_count (pp_shared p) + 1\<rparr>,
              pp_workers := pp_workers p @ [(q, text)]\<rparr>
          else
            (case parse text of
               Some v \<Rightarrow> insert_and_drain J is_null q (Message v) p
             | None \<Rightarrow>
                 (case extract_id_prefix text of
                    None \<Rightarrow> p\<lparr>pp_dispatcher := Panicked\<rparr>
                  | Some hint \<Rightarrow> insert_and_drain J is_null q (Undecodable hint) p)))"

text \<open>
  One iteration of \<open>dispatcher_loop\<close> while it runs; \<^term>\<open>None\<close> while it waits. The receiver yields
  \<^term>\<open>None\<close> when the reader is gone and the channel empty. The dispatcher holds a sender of the
  completion channel itself, so that one never closes.
\<close>

definition dispatcher_step ::
  "'v json_ops \<Rightarrow> ('v \<Rightarrow> bool) \<Rightarrow> (string \<Rightarrow> 'v option) \<Rightarrow> runtime_config \<Rightarrow> 'v pipe \<Rightarrow> 'v pipe option" where
  "dispatcher_step J is_null parse cfg p =
     (if \<not> pp_inbound_open p \<and> pp_pending_offloads p = 0 then Some (drain_and_exit J is_null p)
      else if pp_inbound_open p \<and> pp_inbound p \<noteq> [] then
        Some (handle_inbound J is_null parse cfg (hd (pp_inbound p)) (p\<lparr>pp_inbound := tl (pp_inbound p)\<rparr>))
      else if pp_inbound_open p \<and> pp_reader p \<noteq> Running then Some (p\<lparr>pp_inbound_open := False\<rparr>)
      else
        (case pp_completions p of
           [] \<Rightarrow> None
         | (q, parsed) # rest \<Rightarrow>
             Some (insert_and_drain J is_null q
               (case parsed of Some v \<Rightarrow> Message v | None \<Rightarrow> Undecodable None)
               (p\<lparr>pp_completions := rest, pp_pending_offloads := pp_pending_offloads p - 1\<rparr>))))"

text \<open>A worker finishes, in any order: it parses its text and sends the result.\<close>

definition worker_done :: "(string \<Rightarrow> 'v option) \<Rightarrow> nat \<Rightarrow> 'v pipe \<Rightarrow> 'v pipe" where
  "worker_done parse k p =
     (let (q, text) = pp_workers p ! k in
      p\<lparr>pp_workers := take k (pp_workers p) @ drop (Suc k) (pp_workers p),
        pp_completions := pp_completions p @ [(q, parse text)]\<rparr>)"

end
