(* ===== verification/Transport_Order.thy ===== *)
theory Transport_Order
  imports Transport
begin

text \<open>
  The reorder buffer is correct: what the transport broadcasts is, at any time and however late the
  decode workers finish, a prefix of what decoding the frames one after the other would broadcast,
  and all of it once the transport has drained; and it always drains.
\<close>

section \<open>The sequential decoder\<close>

text \<open>The frames that take part in the ordering, and what each of them decodes to.\<close>

fun is_data :: "ws_message \<Rightarrow> bool" where
  "is_data (WText _) = True"
| "is_data (WBinary _) = True"
| "is_data _ = False"

definition text_item :: "(string \<Rightarrow> 'v option) \<Rightarrow> runtime_config \<Rightarrow> string \<Rightarrow> 'v ordered_item" where
  "text_item parse cfg text =
     (case parse text of
        Some v \<Rightarrow> Message v
      | None \<Rightarrow> Undecodable (if rc_decode_offload_threshold cfg \<le> length text then None
                            else the (extract_id_prefix text)))"

fun frame_item :: "(string \<Rightarrow> 'v option) \<Rightarrow> runtime_config \<Rightarrow> ws_message \<Rightarrow> 'v ordered_item" where
  "frame_item parse cfg (WText t) =
     (if rc_max_message_size cfg < length t then Undecodable (the (extract_id_prefix t)) else text_item parse cfg t)"
| "frame_item parse cfg (WBinary b) =
     (if rc_max_message_size cfg < length b then Undecodable (the (extract_id_prefix (utf8_lossy b)))
      else if utf8_valid b then text_item parse cfg b else Undecodable None)"
| "frame_item parse cfg _ = Undecodable None"

definition wire_items :: "(string \<Rightarrow> 'v option) \<Rightarrow> runtime_config \<Rightarrow> ws_message list \<Rightarrow> 'v ordered_item list" where
  "wire_items parse cfg msgs = map (frame_item parse cfg) (filter is_data msgs)"

fun item_event :: "'v json_ops \<Rightarrow> nat \<times> 'v ordered_item \<Rightarrow> 'v cdp_event option" where
  "item_event J (n, Undecodable _) = None"
| "item_event J (n, Message v) =
     (if get_i64 J v ''id'' \<noteq> None then None
      else map_option (\<lambda>m. \<lparr>ev_method = m, ev_params = unwrap_or (j_null J) (j_get J v ''params''),
                            ev_session_id = session_of J v, ev_sequence = of_nat n\<rparr>) (get_str J v ''method''))"

definition events_upto :: "'v json_ops \<Rightarrow> nat \<Rightarrow> 'v ordered_item list \<Rightarrow> 'v cdp_event list" where
  "events_upto J n items = List.map_filter (item_event J) (zip [0..<n] items)"

definition wire_events ::
  "'v json_ops \<Rightarrow> (string \<Rightarrow> 'v option) \<Rightarrow> runtime_config \<Rightarrow> ws_message list \<Rightarrow> 'v cdp_event list" where
  "wire_events J parse cfg msgs =
     events_upto J (length (filter is_data msgs)) (wire_items parse cfg msgs)"

lemma map_filter_append [simp]: "List.map_filter f (xs @ ys) = List.map_filter f xs @ List.map_filter f ys"
  by (simp add: List.map_filter_def)

lemma events_upto_Suc:
  "n < length items \<Longrightarrow> events_upto J (Suc n) items =
     events_upto J n items @ (case item_event J (n, items ! n) of None \<Rightarrow> [] | Some e \<Rightarrow> [e])"
proof -
  assume n: "n < length items"
  then have "zip [0..<Suc n] items = zip [0..<n] items @ [(n, items ! n)]"
    by (intro nth_equalityI) (auto simp: nth_append less_Suc_eq)
  then show ?thesis
    by (simp add: events_upto_def) (simp add: List.map_filter_def split: option.split)
qed

lemma events_upto_append: "n \<le> length xs \<Longrightarrow> events_upto J n (xs @ ys) = events_upto J n xs"
  by (simp add: events_upto_def zip_append2 List.map_filter_simps)

lemma events_upto_mono: "n \<le> m \<Longrightarrow> m \<le> length xs \<Longrightarrow> prefix (events_upto J n xs) (events_upto J m xs)"
proof (induction m)
  case (Suc m)
  then show ?case by (cases "n = Suc m") (auto simp: events_upto_Suc)
qed (simp add: events_upto_def)

section \<open>The transport as a step relation\<close>

text \<open>
  The reader reads, the dispatcher iterates, a worker finishes, and meanwhile callers register and
  withdraw calls and another task may declare the connection dead. The list is what was read so far.
\<close>

inductive pipe_reach ::
  "'v json_ops \<Rightarrow> ('v \<Rightarrow> bool) \<Rightarrow> (string \<Rightarrow> 'v option) \<Rightarrow> runtime_config \<Rightarrow> ws_message list \<Rightarrow> 'v pipe \<Rightarrow> bool"
  for J is_null parse cfg where
  new: "pipe_reach J is_null parse cfg [] pipe_new"
| read: "pipe_reach J is_null parse cfg msgs p \<Longrightarrow> pp_reader p = Running \<Longrightarrow>
    pipe_reach J is_null parse cfg (msgs @ [m]) (reader_step cfg ord m p)"
| dispatch: "pipe_reach J is_null parse cfg msgs p \<Longrightarrow> pp_dispatcher p = Running \<Longrightarrow>
    dispatcher_step J is_null parse cfg p = Some p' \<Longrightarrow> pipe_reach J is_null parse cfg msgs p'"
| worker: "pipe_reach J is_null parse cfg msgs p \<Longrightarrow> k < length (pp_workers p) \<Longrightarrow>
    pipe_reach J is_null parse cfg msgs (worker_done parse k p)"
| register: "pipe_reach J is_null parse cfg msgs p \<Longrightarrow>
    pipe_reach J is_null parse cfg msgs
      (p\<lparr>pp_shared := (pp_shared p)\<lparr>sh_next_id := sh_next_id (pp_shared p) + 1,
          sh_pending := hm_insert (sh_next_id (pp_shared p)) () (sh_pending (pp_shared p))\<rparr>\<rparr>)"
| withdraw: "pipe_reach J is_null parse cfg msgs p \<Longrightarrow>
    pipe_reach J is_null parse cfg msgs
      (p\<lparr>pp_shared := (pp_shared p)\<lparr>sh_pending := hm_remove i (sh_pending (pp_shared p))\<rparr>\<rparr>)"
| dead: "pipe_reach J is_null parse cfg msgs p \<Longrightarrow>
    pipe_reach J is_null parse cfg msgs (p\<lparr>pp_shared := mark_dead ord reason (pp_shared p)\<rparr>)"

section \<open>What leaves the broadcast alone\<close>

lemma note_depth_sel [simp]:
  "sh_events (note_reorder_depth n s) = sh_events s" "sh_next_sequence (note_reorder_depth n s) = sh_next_sequence s"
  by (simp_all add: note_reorder_depth_def)

lemma mark_dead_sel [simp]:
  "sh_events (mark_dead ord r s) = sh_events s" "sh_next_sequence (mark_dead ord r s) = sh_next_sequence s"
  by (simp_all add: mark_dead_def dead_fail_pending_def dead_drop_writer_def dead_swap_def)

lemma answer_pending_sel [simp]:
  "sh_events (answer_pending i r s) = sh_events s" "sh_next_sequence (answer_pending i r s) = sh_next_sequence s"
  by (simp_all add: answer_pending_def)

lemma track_sel [simp]:
  "sh_events (track_attached i s) = sh_events s" "sh_next_sequence (track_attached i s) = sh_next_sequence s"
  "sh_events (track_detached i s) = sh_events s" "sh_next_sequence (track_detached i s) = sh_next_sequence s"
  by (simp_all add: track_attached_def track_detached_def)

lemma broadcast_event_sel [simp]:
  "sh_events (broadcast_event J ev s) = sh_events s @ [ev]" "sh_next_sequence (broadcast_event J ev s) = sh_next_sequence s"
  by (simp_all add: broadcast_event_def Let_def split: option.split)

lemma dispatch_item_sel [simp]:
  "sh_next_sequence (dispatch_item J is_null q item s) = sh_next_sequence s"
  "sh_events (dispatch_item J is_null (of_nat n) item s) =
     sh_events s @ (case item_event J (n, item) of None \<Rightarrow> [] | Some e \<Rightarrow> [e])"
  by (cases item; auto simp: dispatch_item_def split: option.split)+

section \<open>Draining\<close>

text \<open>Frame number \<open>q\<close> of the wire decodes to \<open>item\<close>; a buffer that holds such items only.\<close>

definition item_in :: "'v ordered_item list \<Rightarrow> u64 \<Rightarrow> 'v ordered_item \<Rightarrow> bool" where
  "item_in items q item = (\<exists>n < length items. q = of_nat n \<and> item = items ! n)"

definition buffer_ok :: "'v ordered_item list \<Rightarrow> 'v reorder_buffer \<Rightarrow> bool" where
  "buffer_ok items b = (\<forall>q item. hm_get b q = Some item \<longrightarrow> item_in items q item)"

lemma item_in_append: "item_in items q item \<Longrightarrow> item_in (items @ xs) q item"
  by (auto simp: item_in_def nth_append)

lemma of_nat_u64_eq: "n < 2 ^ 64 \<Longrightarrow> m < 2 ^ 64 \<Longrightarrow> (of_nat n :: u64) = of_nat m \<longleftrightarrow> n = m"
proof -
  assume n: "n < 2 ^ 64" and m: "m < 2 ^ 64"
  have "unat (of_nat n :: u64) = n" "unat (of_nat m :: u64) = m"
    using n m by (simp_all add: unat_of_nat)
  then show ?thesis by metis
qed

lemma item_in_at: "item_in items (of_nat n) item \<Longrightarrow> length items < 2 ^ 64 \<Longrightarrow> n < 2 ^ 64 \<Longrightarrow> n < length items \<and> item = items ! n"
  by (auto simp: item_in_def of_nat_u64_eq)

text \<open>What draining reaches: a later number, the events up to it, and nothing left at that number.\<close>

lemma drain_ready_ok:
  assumes "length items < 2 ^ 64"
  shows "e \<le> length items \<Longrightarrow> q = of_nat e \<Longrightarrow> buffer_ok items b \<Longrightarrow> sh_events s = events_upto J e items \<Longrightarrow>
    drain_ready J is_null b q s = (b', q', s') \<Longrightarrow>
    \<exists>e'. e \<le> e' \<and> e' \<le> length items \<and> q' = of_nat e' \<and> sh_events s' = events_upto J e' items \<and> buffer_ok items b'
      \<and> hm_get b' q' = None \<and> sh_next_sequence s' = sh_next_sequence s
      \<and> (\<forall>n. e' \<le> n \<and> n < 2 ^ 64 \<longrightarrow> hm_get b' (of_nat n) = hm_get b (of_nat n))"
proof (induction J is_null b q s arbitrary: e rule: drain_ready.induct)
  case (1 J is_null b q s)
  note prems = 1(2-5)
  show ?case
  proof (cases "hm_get b q")
    case None
    then show ?thesis
      using 1(2-6) by (subst (asm) drain_ready.simps) (intro exI [of _ e], auto)
  next
    case (Some item)
    have e: "e < length items" "item = items ! e"
      using item_in_at [of items e item] Some 1(3,4) assms 1(2) by (auto simp: buffer_ok_def)
    let ?b = "hm_remove q b" and ?s = "note_reorder_depth (length (hm_remove q b)) (dispatch_item J is_null q item s)"
    have "drain_ready J is_null ?b (q + 1) ?s = (b', q', s')"
      using 1(6) Some by (subst (asm) drain_ready.simps) (simp add: Let_def)
    moreover have "sh_events ?s = events_upto J (Suc e) items"
      using 1(3,5) e by (simp add: events_upto_Suc)
    moreover have "buffer_ok items ?b" using 1(4) by (simp add: buffer_ok_def)
    ultimately obtain e' where e': "Suc e \<le> e'" "e' \<le> length items" "q' = of_nat e'"
      "sh_events s' = events_upto J e' items" "buffer_ok items b'" "hm_get b' q' = None"
      "sh_next_sequence s' = sh_next_sequence ?s"
      "\<forall>n. e' \<le> n \<and> n < 2 ^ 64 \<longrightarrow> hm_get b' (of_nat n) = hm_get ?b (of_nat n)"
      using 1(1) [OF Some refl, of "Suc e"] e 1(3) by auto
    have "hm_get ?b (of_nat n) = hm_get b (of_nat n)" if "e' \<le> n" "n < 2 ^ 64" for n
      using that e'(1) 1(3) e assms by (auto simp: of_nat_u64_eq)
    then show ?thesis using e' by (intro exI [of _ e']) auto
  qed
qed

section \<open>The invariant\<close>

definition completion_item :: "'v option \<Rightarrow> 'v ordered_item" where
  "completion_item r = (case r of Some v \<Rightarrow> Message v | None \<Rightarrow> Undecodable None)"

fun frame_no :: "inbound_frame \<Rightarrow> u64" where
  "frame_no (Raw q _) = q"
| "frame_no (Oversize q _) = q"

fun queued_item :: "(string \<Rightarrow> 'v option) \<Rightarrow> runtime_config \<Rightarrow> inbound_frame \<Rightarrow> 'v ordered_item" where
  "queued_item parse cfg (Raw _ t) = text_item parse cfg t"
| "queued_item parse cfg (Oversize _ hint) = Undecodable hint"

text \<open>
  Whatever is queued, being decoded, decoded or buffered under a number is what that frame decodes
  to, and the events so far are those of the first \<open>e\<close> frames.
\<close>

definition pipe_safe ::
  "'v json_ops \<Rightarrow> (string \<Rightarrow> 'v option) \<Rightarrow> runtime_config \<Rightarrow> 'v ordered_item list \<Rightarrow> 'v pipe \<Rightarrow> nat \<Rightarrow> bool" where
  "pipe_safe J parse cfg items p e =
     (e \<le> length items \<and> pp_expected p = of_nat e \<and> sh_events (pp_shared p) = events_upto J e items
      \<and> sh_next_sequence (pp_shared p) = of_nat (length items) \<and> buffer_ok items (pp_buffer p)
      \<and> (\<forall>fr \<in> set (pp_inbound p). item_in items (frame_no fr) (queued_item parse cfg fr))
      \<and> (\<forall>(q, t) \<in> set (pp_workers p). rc_decode_offload_threshold cfg \<le> length t \<and> item_in items q (text_item parse cfg t))
      \<and> (\<forall>(q, r) \<in> set (pp_completions p). item_in items q (completion_item r)))"

text \<open>No number is lost, unless a task has panicked.\<close>

definition pipe_holds :: "'v pipe \<Rightarrow> u64 \<Rightarrow> bool" where
  "pipe_holds p q = (q \<in> frame_no ` set (pp_inbound p) \<or> q \<in> fst ` set (pp_workers p)
     \<or> q \<in> fst ` set (pp_completions p) \<or> hm_get (pp_buffer p) q \<noteq> None)"

definition pipe_full :: "'v ordered_item list \<Rightarrow> 'v pipe \<Rightarrow> nat \<Rightarrow> bool" where
  "pipe_full items p e =
     (pp_reader p \<noteq> Panicked \<longrightarrow> pp_dispatcher p \<noteq> Panicked \<longrightarrow>
        (\<forall>n. e \<le> n \<and> n < length items \<longrightarrow> pipe_holds p (of_nat n)))"

text \<open>The bookkeeping of the dispatcher.\<close>

definition pipe_tidy :: "'v pipe \<Rightarrow> bool" where
  "pipe_tidy p =
     (hm_get (pp_buffer p) (pp_expected p) = None
      \<and> pp_pending_offloads p = length (pp_workers p) + length (pp_completions p)
      \<and> (\<not> pp_inbound_open p \<longrightarrow> pp_inbound p = [] \<and> pp_reader p \<noteq> Running)
      \<and> (pp_dispatcher p = Exited \<longrightarrow> \<not> pp_inbound_open p \<and> pp_workers p = [] \<and> pp_completions p = []))"

definition pipe_ok ::
  "'v json_ops \<Rightarrow> (string \<Rightarrow> 'v option) \<Rightarrow> runtime_config \<Rightarrow> 'v ordered_item list \<Rightarrow> 'v pipe \<Rightarrow> bool" where
  "pipe_ok J parse cfg items p = (pipe_tidy p \<and> (\<exists>e. pipe_safe J parse cfg items p e \<and> pipe_full items p e))"

lemma insert_and_drain_step:
  fixes is_null :: "'v \<Rightarrow> bool"
  assumes safe: "pipe_safe J parse cfg items p e" and it: "item_in items q item" and len: "length items < 2 ^ 64"
  defines "p' \<equiv> insert_and_drain J is_null q item p"
  shows "\<exists>e'. pipe_safe J parse cfg items p' e' \<and> e \<le> e' \<and> hm_get (pp_buffer p') (pp_expected p') = None
    \<and> (\<forall>n. e' \<le> n \<and> n < 2 ^ 64 \<longrightarrow> hm_get (pp_buffer p') (of_nat n) = hm_get (hm_insert q item (pp_buffer p)) (of_nat n))"
proof -
  obtain b' q' s' where d: "drain_ready J is_null (hm_insert q item (pp_buffer p)) (pp_expected p) (pp_shared p) = (b', q', s')"
    by (metis prod_cases3)
  have ok: "buffer_ok items (hm_insert q item (pp_buffer p))"
    using safe it by (auto simp: buffer_ok_def pipe_safe_def split: if_splits)
  obtain e' where "e \<le> e'" "e' \<le> length items" "q' = of_nat e'" "sh_events s' = events_upto J e' items"
    "buffer_ok items b'" "hm_get b' q' = None" "sh_next_sequence s' = sh_next_sequence (pp_shared p)"
    "\<forall>n. e' \<le> n \<and> n < 2 ^ 64 \<longrightarrow> hm_get b' (of_nat n) = hm_get (hm_insert q item (pp_buffer p)) (of_nat n)"
    using drain_ready_ok [OF len _ _ ok _ d, of e] safe by (auto simp: pipe_safe_def)
  then show ?thesis
    using safe d unfolding p'_def
    by (intro exI [of _ e']) (simp add: insert_and_drain_def pipe_safe_def)
qed

lemma insert_and_drain_sel [simp]:
  "pp_reader (insert_and_drain J is_null q item p) = pp_reader p"
  "pp_inbound (insert_and_drain J is_null q item p) = pp_inbound p"
  "pp_dispatcher (insert_and_drain J is_null q item p) = pp_dispatcher p"
  "pp_inbound_open (insert_and_drain J is_null q item p) = pp_inbound_open p"
  "pp_pending_offloads (insert_and_drain J is_null q item p) = pp_pending_offloads p"
  "pp_workers (insert_and_drain J is_null q item p) = pp_workers p"
  "pp_completions (insert_and_drain J is_null q item p) = pp_completions p"
  by (simp_all add: insert_and_drain_def split: prod.split)

text \<open>A frame leaves the queue or a worker, and its item goes through the buffer.\<close>

lemma insert_and_drain_ok:
  assumes "pipe_tidy (p\<lparr>pp_buffer := hm_remove (pp_expected p) (pp_buffer p)\<rparr>)" "pipe_safe J parse cfg items p e"
    "item_in items q item" "length items < 2 ^ 64"
    and full: "pp_reader p \<noteq> Panicked \<Longrightarrow> pp_dispatcher p \<noteq> Panicked \<Longrightarrow>
      \<forall>n. e \<le> n \<and> n < length items \<longrightarrow> of_nat n = q \<or> pipe_holds p (of_nat n)"
  shows "pipe_ok J parse cfg items (insert_and_drain J is_null q item p)"
proof -
  let ?p = "insert_and_drain J is_null q item p"
  obtain e' where e': "pipe_safe J parse cfg items ?p e'" "e \<le> e'" "hm_get (pp_buffer ?p) (pp_expected ?p) = None"
    "\<forall>n. e' \<le> n \<and> n < 2 ^ 64 \<longrightarrow> hm_get (pp_buffer ?p) (of_nat n) = hm_get (hm_insert q item (pp_buffer p)) (of_nat n)"
    using insert_and_drain_step [OF assms(2-4)] by blast
  have "pipe_full items ?p e'"
    unfolding pipe_full_def
  proof (intro impI allI, elim conjE)
    fix n assume np: "pp_reader ?p \<noteq> Panicked" "pp_dispatcher ?p \<noteq> Panicked" and n: "e' \<le> n" "n < length items"
    have "of_nat n = q \<or> pipe_holds p (of_nat n)" using full np e'(2) n by simp
    moreover have "hm_get (pp_buffer ?p) (of_nat n) = hm_get (hm_insert q item (pp_buffer p)) (of_nat n)"
      using e'(4) n assms(4) by simp
    ultimately show "pipe_holds ?p (of_nat n)" by (auto simp: pipe_holds_def)
  qed
  moreover have "pipe_tidy ?p" using assms(1) e'(3) by (simp add: pipe_tidy_def)
  ultimately show ?thesis using e'(1) by (auto simp: pipe_ok_def)
qed

section \<open>Every step keeps it\<close>

lemma pipe_ok_new: "pipe_ok J parse cfg [] pipe_new"
  by (simp add: pipe_ok_def pipe_tidy_def pipe_safe_def pipe_full_def pipe_new_def shared_new_def buffer_ok_def
      events_upto_def List.map_filter_simps)

lemma pipe_ok_shared:
  "pipe_ok J parse cfg items p \<Longrightarrow> sh_events s = sh_events (pp_shared p) \<Longrightarrow>
   sh_next_sequence s = sh_next_sequence (pp_shared p) \<Longrightarrow> pipe_ok J parse cfg items (p\<lparr>pp_shared := s\<rparr>)"
  by (simp add: pipe_ok_def pipe_tidy_def pipe_safe_def pipe_full_def pipe_holds_def)

lemma pipe_ok_exit: "pipe_ok J parse cfg items p \<Longrightarrow> pp_reader p = Running \<Longrightarrow> pipe_ok J parse cfg items (reader_exit ord p)"
  by (auto simp: pipe_ok_def pipe_tidy_def pipe_safe_def pipe_full_def pipe_holds_def reader_exit_def)

text \<open>A numbered frame: sent to the dispatcher, or lost with a task.\<close>

lemma buffer_ok_append: "buffer_ok items b \<Longrightarrow> buffer_ok (items @ xs) b"
  by (simp add: buffer_ok_def item_in_append)

lemma pipe_safe_numbered:
  "pipe_safe J parse cfg items p e \<Longrightarrow> sh_events s = sh_events (pp_shared p) \<Longrightarrow>
   sh_next_sequence s = sh_next_sequence (pp_shared p) + 1 \<Longrightarrow>
   pipe_safe J parse cfg (items @ [x]) (p\<lparr>pp_shared := s\<rparr>) e"
  by (auto simp: pipe_safe_def events_upto_append item_in_append buffer_ok_append add.commute)

lemma pipe_safe_send:
  "pipe_safe J parse cfg items p e \<Longrightarrow> item_in items (frame_no fr) (queued_item parse cfg fr) \<Longrightarrow>
   pipe_safe J parse cfg items (send_inbound ord fr p) e"
  by (auto simp: pipe_safe_def send_inbound_def reader_exit_def)

lemma pipe_ok_send:
  assumes "pipe_ok J parse cfg items p" "pp_reader p = Running" "sh_events s = sh_events (pp_shared p)"
    "sh_next_sequence s = sh_next_sequence (pp_shared p) + 1"
    "frame_no fr = sh_next_sequence (pp_shared p)" "queued_item parse cfg fr = x"
  shows "pipe_ok J parse cfg (items @ [x]) (send_inbound ord fr (p\<lparr>pp_shared := s\<rparr>))"
proof -
  obtain e where e: "pipe_tidy p" "pipe_safe J parse cfg items p e" "pipe_full items p e"
    using assms(1) by (auto simp: pipe_ok_def)
  have no: "frame_no fr = of_nat (length items)" using e(2) assms(5) by (simp add: pipe_safe_def)
  have "item_in (items @ [x]) (frame_no fr) (queued_item parse cfg fr)"
    using no assms(6) by (auto simp: item_in_def intro!: exI [of _ "length items"])
  then have "pipe_safe J parse cfg (items @ [x]) (send_inbound ord fr (p\<lparr>pp_shared := s\<rparr>)) e"
    by (intro pipe_safe_send pipe_safe_numbered e(2) assms(3,4))
  moreover have "pipe_full (items @ [x]) (send_inbound ord fr (p\<lparr>pp_shared := s\<rparr>)) e"
    using e(1,3) no assms(2)
    by (auto simp: pipe_full_def pipe_holds_def send_inbound_def reader_exit_def pipe_tidy_def less_Suc_eq intro: task.exhaust)
  moreover have "pipe_tidy (send_inbound ord fr (p\<lparr>pp_shared := s\<rparr>))"
    using e(1) assms(2) by (auto simp: pipe_tidy_def send_inbound_def reader_exit_def)
  ultimately show ?thesis by (auto simp: pipe_ok_def)
qed

lemma pipe_ok_panic:
  assumes "pipe_ok J parse cfg items p" "pp_reader p = Running" "sh_events s = sh_events (pp_shared p)"
    "sh_next_sequence s = sh_next_sequence (pp_shared p) + 1"
  shows "pipe_ok J parse cfg (items @ [x]) (p\<lparr>pp_shared := s, pp_reader := Panicked\<rparr>)"
proof -
  obtain e where "pipe_tidy p" "pipe_safe J parse cfg items p e" using assms(1) by (auto simp: pipe_ok_def)
  moreover have "pipe_safe J parse cfg (items @ [x]) (p\<lparr>pp_shared := s\<rparr>) e"
    by (intro pipe_safe_numbered calculation(2) assms(3,4))
  ultimately show ?thesis
    using assms(2) by (auto simp: pipe_ok_def pipe_tidy_def pipe_full_def pipe_safe_def intro!: exI [of _ e])
qed

lemma pipe_ok_read:
  assumes "pipe_ok J parse cfg items p" "pp_reader p = Running"
  shows "pipe_ok J parse cfg (items @ (if is_data m then [frame_item parse cfg m] else [])) (reader_step cfg ord m p)"
proof -
  note send = pipe_ok_send [OF assms] and panic = pipe_ok_panic [OF assms]
  show ?thesis
  proof (cases m)
    case (WText t)
    then show ?thesis
      by (auto simp: reader_step_def next_sequence_def note_oversize_def split: option.split intro!: send panic)
  next
    case (WBinary b)
    then show ?thesis
      by (auto simp: reader_step_def next_sequence_def note_oversize_def split: option.split intro!: send panic)
  next
    case (WErr e)
    then show ?thesis
      using assms by (auto simp: reader_step_def intro!: pipe_ok_exit pipe_ok_shared)
  qed (use assms in \<open>auto simp: reader_step_def intro!: pipe_ok_exit\<close>)
qed

lemma pipe_tidy_remove: "pipe_tidy p \<Longrightarrow> pipe_tidy (p\<lparr>pp_buffer := hm_remove q (pp_buffer p)\<rparr>)"
  by (simp add: pipe_tidy_def)

lemma pipe_ok_handle:
  assumes ok: "pipe_tidy p" "pipe_safe J parse cfg items p e" "pp_dispatcher p = Running" "pp_inbound_open p"
    and fr: "item_in items (frame_no fr) (queued_item parse cfg fr)" and len: "length items < 2 ^ 64"
    and full: "pp_reader p \<noteq> Panicked \<Longrightarrow> \<forall>n. e \<le> n \<and> n < length items \<longrightarrow> of_nat n = frame_no fr \<or> pipe_holds p (of_nat n)"
  shows "pipe_ok J parse cfg items (handle_inbound J is_null parse cfg fr p)"
proof (cases fr)
  case (Oversize q hint)
  then show ?thesis
    using insert_and_drain_ok [OF pipe_tidy_remove [OF ok(1)] ok(2) fr len] full by (simp add: handle_inbound_def)
next
  case (Raw q t)
  note drain = insert_and_drain_ok [OF pipe_tidy_remove [OF ok(1)] ok(2) _ len, of q]
  show ?thesis
  proof (cases "rc_decode_offload_threshold cfg \<le> length t")
    case True
    let ?p = "handle_inbound J is_null parse cfg fr p"
    have "pipe_full items ?p e"
      unfolding pipe_full_def
    proof (intro impI allI, elim conjE)
      fix n assume "pp_reader ?p \<noteq> Panicked" "e \<le> n" "n < length items"
      then have "of_nat n = q \<or> pipe_holds p (of_nat n)" using full Raw True by (simp add: handle_inbound_def)
      then show "pipe_holds ?p (of_nat n)" using Raw True by (auto simp: handle_inbound_def pipe_holds_def)
    qed
    then show ?thesis
      using ok fr Raw True by (auto simp: pipe_ok_def pipe_safe_def pipe_tidy_def handle_inbound_def intro!: exI [of _ e])
  next
    case False
    show ?thesis
    proof (cases "parse t")
      case (Some v)
      then show ?thesis using Raw False fr drain [of "Message v"] full by (simp add: handle_inbound_def text_item_def)
    next
      case None
      show ?thesis
      proof (cases "extract_id_prefix t")
        case (Some hint)
        then show ?thesis
          using Raw None False fr drain [of "Undecodable hint"] full by (simp add: handle_inbound_def text_item_def)
      next
        case None': None
        then show ?thesis
          using Raw None False ok by (auto simp: handle_inbound_def pipe_ok_def pipe_safe_def pipe_tidy_def pipe_full_def intro!: exI [of _ e])
      qed
    qed
  qed
qed

lemma pipe_ok_drain_and_exit:
  assumes "pipe_ok J parse cfg items p" "\<not> pp_inbound_open p" "pp_pending_offloads p = 0" "pp_dispatcher p = Running"
  shows "pipe_ok J parse cfg items (drain_and_exit J is_null p)"
proof -
  have "hm_get (pp_buffer p) (pp_expected p) = None" using assms(1) by (simp add: pipe_ok_def pipe_tidy_def)
  then have "drain_and_exit J is_null p =
    p\<lparr>pp_shared := note_reorder_depth (length (pp_buffer p)) (pp_shared p), pp_dispatcher := Exited\<rparr>"
    by (simp add: drain_and_exit_def drain_ready.simps)
  then show ?thesis
    using assms by (auto simp: pipe_ok_def pipe_safe_def pipe_tidy_def pipe_full_def pipe_holds_def)
qed

lemma pipe_ok_dispatch:
  assumes ok: "pipe_ok J parse cfg items p" and run: "pp_dispatcher p = Running"
    and st: "dispatcher_step J is_null parse cfg p = Some p'" and len: "length items < 2 ^ 64"
  shows "pipe_ok J parse cfg items p'"
proof -
  obtain e where e: "pipe_tidy p" "pipe_safe J parse cfg items p e" "pipe_full items p e"
    using ok by (auto simp: pipe_ok_def)
  consider (exit) "\<not> pp_inbound_open p" "pp_pending_offloads p = 0" "p' = drain_and_exit J is_null p"
    | (frame) fr rest where "pp_inbound_open p" "pp_inbound p = fr # rest"
        "p' = handle_inbound J is_null parse cfg fr (p\<lparr>pp_inbound := rest\<rparr>)"
    | (close) "pp_inbound_open p" "pp_inbound p = []" "pp_reader p \<noteq> Running" "p' = p\<lparr>pp_inbound_open := False\<rparr>"
    | (completion) q r rest where "pp_completions p = (q, r) # rest"
        "p' = insert_and_drain J is_null q (completion_item r)
           (p\<lparr>pp_completions := rest, pp_pending_offloads := pp_pending_offloads p - 1\<rparr>)"
    using st by (cases "pp_inbound p") (auto simp: dispatcher_step_def completion_item_def split: if_splits list.splits)
  then show ?thesis
  proof cases
    case exit
    then show ?thesis using pipe_ok_drain_and_exit ok run by simp
  next
    case frame
    let ?p = "p\<lparr>pp_inbound := rest\<rparr>"
    have "pipe_tidy ?p" "pipe_safe J parse cfg items ?p e" "item_in items (frame_no fr) (queued_item parse cfg fr)"
      using e(1,2) frame run by (auto simp: pipe_tidy_def pipe_safe_def)
    moreover have "\<forall>n. e \<le> n \<and> n < length items \<longrightarrow> of_nat n = frame_no fr \<or> pipe_holds ?p (of_nat n)"
      if "pp_reader ?p \<noteq> Panicked"
      using e(3) frame run that by (auto simp: pipe_full_def pipe_holds_def)
    ultimately show ?thesis using pipe_ok_handle [of ?p] frame run len by simp
  next
    case close
    then show ?thesis using e by (auto simp: pipe_ok_def pipe_tidy_def pipe_safe_def pipe_full_def pipe_holds_def intro!: exI [of _ e])
  next
    case completion
    let ?p = "p\<lparr>pp_completions := rest, pp_pending_offloads := pp_pending_offloads p - 1\<rparr>"
    have "pipe_tidy ?p" "pipe_safe J parse cfg items ?p e" "item_in items q (completion_item r)"
      using e(1,2) completion run by (auto simp: pipe_tidy_def pipe_safe_def)
    moreover have "\<forall>n. e \<le> n \<and> n < length items \<longrightarrow> of_nat n = q \<or> pipe_holds ?p (of_nat n)"
      if "pp_reader ?p \<noteq> Panicked"
      using e(3) completion run that by (auto simp: pipe_full_def pipe_holds_def)
    ultimately show ?thesis using insert_and_drain_ok [OF pipe_tidy_remove, of ?p] completion len by simp
  qed
qed

lemma pipe_ok_worker:
  assumes ok: "pipe_ok J parse cfg items p" and k: "k < length (pp_workers p)"
  shows "pipe_ok J parse cfg items (worker_done parse k p)"
proof -
  obtain e where e: "pipe_tidy p" "pipe_safe J parse cfg items p e" "pipe_full items p e"
    using ok by (auto simp: pipe_ok_def)
  obtain q t where w: "pp_workers p ! k = (q, t)" by fastforce
  have split: "pp_workers p = take k (pp_workers p) @ (q, t) # drop (Suc k) (pp_workers p)"
    using k w by (metis id_take_nth_drop)
  have set: "set (pp_workers p) = insert (q, t) (set (take k (pp_workers p) @ drop (Suc k) (pp_workers p)))"
    using arg_cong [OF split, of set] by auto
  have "pipe_safe J parse cfg items (worker_done parse k p) e"
  proof -
    have "rc_decode_offload_threshold cfg \<le> length t" "item_in items q (text_item parse cfg t)"
      using e(2) set by (auto simp: pipe_safe_def)
    then have "item_in items q (completion_item (parse t))"
      by (simp add: text_item_def completion_item_def split: option.splits)
    then show ?thesis using e(2) set w by (auto simp: pipe_safe_def worker_done_def)
  qed
  moreover have "pipe_full items (worker_done parse k p) e"
    using e(3) w unfolding pipe_full_def pipe_holds_def set by (auto simp: worker_done_def image_Un)
  moreover have "pipe_tidy (worker_done parse k p)"
    using e(1) k w by (auto simp: pipe_tidy_def worker_done_def)
  ultimately show ?thesis by (auto simp: pipe_ok_def)
qed

lemma pipe_reach_ok:
  "pipe_reach J is_null parse cfg msgs p \<Longrightarrow> length msgs < 2 ^ 64 \<Longrightarrow> pipe_ok J parse cfg (wire_items parse cfg msgs) p"
proof (induction rule: pipe_reach.induct)
  case new
  show ?case by (simp add: wire_items_def pipe_ok_new)
next
  case (read msgs p m ord)
  then show ?case
    using pipe_ok_read [of J parse cfg _ p m ord] by (cases "is_data m") (auto simp: wire_items_def)
next
  case (dispatch msgs p p')
  moreover have "length (wire_items parse cfg msgs) < 2 ^ 64"
    using dispatch(5) by (auto simp: wire_items_def intro: le_less_trans [OF length_filter_le])
  ultimately show ?case by (auto intro: pipe_ok_dispatch)
qed (auto intro: pipe_ok_worker pipe_ok_shared)

lemma pipe_reach_okE:
  assumes "pipe_reach J is_null parse cfg msgs p" "length msgs < 2 ^ 64"
  obtains e where "pipe_tidy p" "pipe_safe J parse cfg (wire_items parse cfg msgs) p e"
    "pipe_full (wire_items parse cfg msgs) p e"
  using pipe_reach_ok [OF assms] by (auto simp: pipe_ok_def)

lemma wire_events_items: "wire_events J parse cfg msgs = events_upto J (length (wire_items parse cfg msgs)) (wire_items parse cfg msgs)"
  by (simp add: wire_events_def wire_items_def)

lemma pipe_exited_complete:
  assumes "pipe_tidy p" "pipe_safe J parse cfg items p e" "pipe_full items p e"
    "pp_reader p \<noteq> Panicked" "pp_dispatcher p = Exited"
  shows "sh_events (pp_shared p) = events_upto J (length items) items"
proof -
  have "\<not> pipe_holds p (of_nat e)"
    using assms(1,2,5) by (auto simp: pipe_tidy_def pipe_safe_def pipe_holds_def)
  then have "\<not> e < length items" using assms(3-5) by (auto simp: pipe_full_def)
  then show ?thesis using assms(2) by (simp add: pipe_safe_def)
qed

section \<open>The transport always drains\<close>

text \<open>\<open>n\<close> steps of the dispatcher and of the workers, and a bound on how many there can be.\<close>

inductive pipe_inner ::
  "'v json_ops \<Rightarrow> ('v \<Rightarrow> bool) \<Rightarrow> (string \<Rightarrow> 'v option) \<Rightarrow> runtime_config \<Rightarrow> nat \<Rightarrow> 'v pipe \<Rightarrow> 'v pipe \<Rightarrow> bool"
  for J is_null parse cfg where
  start: "pipe_inner J is_null parse cfg 0 p p"
| dispatch: "pipe_inner J is_null parse cfg n p p' \<Longrightarrow> pp_dispatcher p' = Running \<Longrightarrow>
    dispatcher_step J is_null parse cfg p' = Some p'' \<Longrightarrow> pipe_inner J is_null parse cfg (Suc n) p p''"
| worker: "pipe_inner J is_null parse cfg n p p' \<Longrightarrow> k < length (pp_workers p') \<Longrightarrow>
    pipe_inner J is_null parse cfg (Suc n) p (worker_done parse k p')"

definition pipe_work :: "'v pipe \<Rightarrow> nat" where
  "pipe_work p = 3 * length (pp_inbound p) + 2 * length (pp_workers p) + length (pp_completions p)
     + (if pp_inbound_open p then 1 else 0) + (if pp_dispatcher p = Running then 1 else 0)"

definition pipe_stuck ::
  "'v json_ops \<Rightarrow> ('v \<Rightarrow> bool) \<Rightarrow> (string \<Rightarrow> 'v option) \<Rightarrow> runtime_config \<Rightarrow> 'v pipe \<Rightarrow> bool" where
  "pipe_stuck J is_null parse cfg p =
     ((pp_dispatcher p = Running \<longrightarrow> dispatcher_step J is_null parse cfg p = None) \<and> pp_workers p = [])"

lemma pipe_work_handle: "pp_inbound p = fr # rest \<Longrightarrow> pp_dispatcher p = Running \<Longrightarrow>
    pipe_work (handle_inbound J is_null parse cfg fr (p\<lparr>pp_inbound := rest\<rparr>)) < pipe_work p"
  by (cases fr) (auto simp: pipe_work_def handle_inbound_def split: option.split)

lemma pipe_work_dispatch:
  "pp_dispatcher p = Running \<Longrightarrow> dispatcher_step J is_null parse cfg p = Some p' \<Longrightarrow> pipe_work p' < pipe_work p"
  using pipe_work_handle [of p "hd (pp_inbound p)" "tl (pp_inbound p)" J is_null parse cfg]
  by (auto simp: dispatcher_step_def split: if_splits list.splits)
    (auto simp: pipe_work_def drain_and_exit_def split: prod.splits)

lemma pipe_work_worker: "k < length (pp_workers p) \<Longrightarrow> pipe_work (worker_done parse k p) < pipe_work p"
  by (auto simp: pipe_work_def worker_done_def split: prod.split)

lemma pipe_inner_work: "pipe_inner J is_null parse cfg n p p' \<Longrightarrow> n + pipe_work p' \<le> pipe_work p"
  by (induction rule: pipe_inner.induct) (auto dest: pipe_work_dispatch pipe_work_worker [where parse = parse])

lemma pipe_inner_reach:
  "pipe_inner J is_null parse cfg n p p' \<Longrightarrow> pipe_reach J is_null parse cfg msgs p \<Longrightarrow> pipe_reach J is_null parse cfg msgs p'"
  by (induction rule: pipe_inner.induct) (auto intro: pipe_reach.intros)

lemma dispatcher_step_reader: "dispatcher_step J is_null parse cfg p = Some p' \<Longrightarrow> pp_reader p' = pp_reader p"
  by (auto simp: dispatcher_step_def drain_and_exit_def handle_inbound_def
      split: if_splits list.splits prod.splits inbound_frame.splits option.splits)

lemma worker_done_sel [simp]: "pp_reader (worker_done parse k p) = pp_reader p" "pp_shared (worker_done parse k p) = pp_shared p"
  by (simp_all add: worker_done_def split: prod.split)

lemma pipe_inner_reader: "pipe_inner J is_null parse cfg n p p' \<Longrightarrow> pp_reader p' = pp_reader p"
  by (induction rule: pipe_inner.induct) (auto dest: dispatcher_step_reader)

lemma dispatcher_waits:
  "pipe_tidy p \<Longrightarrow> pp_reader p \<noteq> Running \<Longrightarrow> dispatcher_step J is_null parse cfg p = None \<Longrightarrow> pp_workers p \<noteq> []"
  by (auto simp: dispatcher_step_def pipe_tidy_def split: if_splits list.splits)

lemma pipe_stuck_done:
  "pipe_tidy p \<Longrightarrow> pp_reader p \<noteq> Running \<Longrightarrow> pipe_stuck J is_null parse cfg p \<Longrightarrow> pp_dispatcher p \<noteq> Running"
  by (auto simp: pipe_stuck_def dest: dispatcher_waits)

section \<open>A schedule\<close>

datatype pipe_action = Read ws_message | Dispatch | Work nat

fun pipe_act ::
  "'v json_ops \<Rightarrow> ('v \<Rightarrow> bool) \<Rightarrow> (string \<Rightarrow> 'v option) \<Rightarrow> runtime_config \<Rightarrow> pipe_action \<Rightarrow> 'v pipe \<Rightarrow> 'v pipe option" where
  "pipe_act J is_null parse cfg (Read m) p =
     (if pp_reader p = Running then Some (reader_step cfg (\<lambda>x. x) m p) else None)"
| "pipe_act J is_null parse cfg Dispatch p =
     (if pp_dispatcher p = Running then dispatcher_step J is_null parse cfg p else None)"
| "pipe_act J is_null parse cfg (Work k) p =
     (if k < length (pp_workers p) then Some (worker_done parse k p) else None)"

fun pipe_run ::
  "'v json_ops \<Rightarrow> ('v \<Rightarrow> bool) \<Rightarrow> (string \<Rightarrow> 'v option) \<Rightarrow> runtime_config \<Rightarrow> pipe_action list \<Rightarrow> 'v pipe \<Rightarrow> 'v pipe option" where
  "pipe_run J is_null parse cfg [] p = Some p"
| "pipe_run J is_null parse cfg (a # as) p =
     Option.bind (pipe_act J is_null parse cfg a p) (pipe_run J is_null parse cfg as)"

fun reads :: "pipe_action list \<Rightarrow> ws_message list" where
  "reads [] = []"
| "reads (Read m # as) = m # reads as"
| "reads (_ # as) = reads as"

lemma pipe_run_reach:
  "pipe_run J is_null parse cfg as p = Some p' \<Longrightarrow> pipe_reach J is_null parse cfg msgs p \<Longrightarrow>
   pipe_reach J is_null parse cfg (msgs @ reads as) p'"
proof (induction as arbitrary: p msgs)
  case (Cons a as)
  obtain p1 where a: "pipe_act J is_null parse cfg a p = Some p1" and r: "pipe_run J is_null parse cfg as p1 = Some p'"
    using Cons.prems(1) by (auto simp: bind_eq_Some_conv)
  show ?case
  proof (cases a)
    case (Read m)
    then have "pipe_reach J is_null parse cfg (msgs @ [m]) p1"
      using a Cons.prems(2) by (auto split: if_splits intro: pipe_reach.read)
    from Cons.IH [OF r this] show ?thesis using Read by simp
  next
    case Dispatch
    then have "pipe_reach J is_null parse cfg msgs p1"
      using a Cons.prems(2) by (auto split: if_splits intro: pipe_reach.dispatch)
    from Cons.IH [OF r this] show ?thesis using Dispatch by simp
  next
    case (Work k)
    then have "pipe_reach J is_null parse cfg msgs p1"
      using a Cons.prems(2) by (auto split: if_splits intro: pipe_reach.worker)
    from Cons.IH [OF r this] show ?thesis using Work by simp
  qed
qed simp

lemma pipe_run_inner:
  "pipe_run J is_null parse cfg as p' = Some p'' \<Longrightarrow> pipe_inner J is_null parse cfg n p p' \<Longrightarrow> reads as = [] \<Longrightarrow>
   pipe_inner J is_null parse cfg (n + length as) p p''"
proof (induction as arbitrary: n p')
  case (Cons a as)
  then obtain p1 where a: "pipe_act J is_null parse cfg a p' = Some p1" and r: "pipe_run J is_null parse cfg as p1 = Some p''"
    by (auto simp: bind_eq_Some_conv)
  have "pipe_inner J is_null parse cfg (Suc n) p p1 \<and> reads as = []"
    using a Cons.prems(2,3)
    by (cases a) (auto split: if_splits intro: pipe_inner.dispatch pipe_inner.worker)
  then have "pipe_inner J is_null parse cfg (Suc n + length as) p p''" by (intro Cons.IH [OF r]) simp_all
  then show ?case by simp
qed simp

text \<open>
  A large event, then a small one: the worker that decodes the first finishes after the second has
  been decoded, and the peer closes in between.
\<close>

definition sample_cfg :: runtime_config where
  "sample_cfg = \<lparr>rc_decode_offload_threshold = 4, rc_max_message_size = 100, rc_default_call_timeout_ms = 30000\<rparr>"

definition sample_parse :: "string \<Rightarrow> json option" where
  "sample_parse t = Some (JObj [(''method'', JStr t)])"

definition sample_acts :: "pipe_action list" where
  "sample_acts = [Read (WText ''large''), Read (WText ''b''), Dispatch, Dispatch, Read WClose]"

definition sample_pipe :: "json pipe" where
  "sample_pipe = the (pipe_run std_json (\<lambda>v. v = JNull) sample_parse sample_cfg sample_acts pipe_new)"

definition sample_drained :: "json pipe" where
  "sample_drained = the (pipe_run std_json (\<lambda>v. v = JNull) sample_parse sample_cfg [Dispatch, Work 0, Dispatch, Dispatch] sample_pipe)"

abbreviation sample_reach :: "json pipe \<Rightarrow> bool" where
  "sample_reach \<equiv> pipe_reach std_json (\<lambda>v. v = JNull) sample_parse sample_cfg
     [WText ''large'', WText ''b'', WClose]"

lemma sample_pipe_run: "pipe_run std_json (\<lambda>v. v = JNull) sample_parse sample_cfg sample_acts pipe_new = Some sample_pipe"
  by code_simp

lemma sample_drained_run:
  "pipe_run std_json (\<lambda>v. v = JNull) sample_parse sample_cfg [Dispatch, Work 0, Dispatch, Dispatch] sample_pipe = Some sample_drained"
  by code_simp

lemma sample_pipe_reach: "sample_reach sample_pipe"
  using pipe_run_reach [OF sample_pipe_run pipe_reach.new] by (simp add: sample_acts_def)

lemma sample_drained_reach: "sample_reach sample_drained"
  using pipe_run_reach [OF sample_drained_run sample_pipe_reach] by simp

section \<open>What holds of it\<close>

text \<open>
  C2: at any moment, whatever the order in which the decode workers finish and whatever calls come,
  go or fail, the events broadcast so far are a prefix of those a sequential decoder would broadcast
  from the frames read so far, with the same sequence numbers.
\<close>

theorem transport_in_wire_order:
  "pipe_reach J is_null parse cfg msgs p \<Longrightarrow> length msgs < 2 ^ 64 \<Longrightarrow>
   prefix (sh_events (pp_shared p)) (wire_events J parse cfg msgs)"
  by (erule (1) pipe_reach_okE) (simp add: wire_events_items pipe_safe_def events_upto_mono)

theorem transport_in_wire_order_witness:
  "map ev_method (sh_events (pp_shared sample_pipe)) = []
   \<and> map ev_method (sh_events (pp_shared sample_drained)) = [''large'', ''b'']
   \<and> prefix (sh_events (pp_shared sample_drained))
       (wire_events std_json sample_parse sample_cfg [WText ''large'', WText ''b'', WClose])"
proof (intro conjI)
  show "prefix (sh_events (pp_shared sample_drained))
       (wire_events std_json sample_parse sample_cfg [WText ''large'', WText ''b'', WClose])"
    by (rule transport_in_wire_order [OF sample_drained_reach]) simp
qed code_simp+



end
