(* ===== verification/Transport_Calls.thy ===== *)
theory Transport_Calls
  imports Transport_Order
begin

text \<open>
  The calls of \<open>src/browser_runtime/connection.rs\<close>: \<open>call_with_timeout\<close> step by step, interleaved
  with the dispatcher that answers and with the three steps of \<open>mark_dead\<close>; \<open>interpret_response\<close>;
  and the startup handshake \<open>initialize\<close>.
\<close>

section \<open>One call\<close>

definition call_begin :: "'v shared \<Rightarrow> (i64 \<times> 'v shared) runtime_result" where
  "call_begin s =
     (if \<not> sh_alive s then Inl (RuntimeDead ''connection is closed'')
      else Inr (sh_next_id s, s\<lparr>sh_next_id := sh_next_id s + 1\<rparr>))"

definition call_register :: "i64 \<Rightarrow> 'v shared \<Rightarrow> 'v shared" where
  "call_register i s = s\<lparr>sh_pending := hm_insert i () (sh_pending s)\<rparr>"

definition call_queue :: "string \<Rightarrow> 'v shared \<Rightarrow> bool \<times> 'v shared" where
  "call_queue text s =
     (if sh_writer_open s then (True, s\<lparr>sh_queued := sh_queued s @ [text]\<rparr>) else (False, s))"

definition call_withdraw :: "i64 \<Rightarrow> 'v shared \<Rightarrow> 'v shared" where
  "call_withdraw i s = s\<lparr>sh_pending := hm_remove i (sh_pending s)\<rparr>"

definition not_queued_error :: runtime_error where
  "not_queued_error = RuntimeDead ''connection closed while queueing request''"

text \<open>What the wait for the answer ends with, and the whole call, the other tasks' part given.\<close>

datatype 'v call_outcome = Elapsed | Closed | Answered "'v cdp_response"

definition call_with_timeout ::
  "'v json_ops \<Rightarrow> ('v \<Rightarrow> string) \<Rightarrow> ('v shared \<Rightarrow> 'v call_outcome \<times> 'v shared)
   \<Rightarrow> string option \<Rightarrow> string \<Rightarrow> 'v \<Rightarrow> u64 \<Rightarrow> 'v shared \<Rightarrow> 'v runtime_result \<times> 'v shared" where
  "call_with_timeout J txt env session method params timeout_ms s =
     (case call_begin s of
        Inl e \<Rightarrow> (Inl e, s)
      | Inr (i, s) \<Rightarrow>
          let text = txt (to_wire_value J \<lparr>rq_wire_id = i, rq_wire_method = method, rq_wire_params = params,
                                          rq_wire_session = session\<rparr>);
              s = call_register i s;
              (queued, s) = call_queue text s
          in if \<not> queued then (Inl not_queued_error, call_withdraw i s)
             else (case env s of
                 (Elapsed, s) \<Rightarrow> (Inl (Timeout method timeout_ms), call_withdraw i s)
               | (Closed, s) \<Rightarrow> (Inl (RuntimeDead ''response channel closed''), s)
               | (Answered resp, s) \<Rightarrow> (interpret_response J method resp, s)))"

definition runtime_call ::
  "'v json_ops \<Rightarrow> ('v \<Rightarrow> string) \<Rightarrow> runtime_config \<Rightarrow> ('v shared \<Rightarrow> 'v call_outcome \<times> 'v shared)
   \<Rightarrow> string option \<Rightarrow> string \<Rightarrow> 'v \<Rightarrow> 'v shared \<Rightarrow> 'v runtime_result \<times> 'v shared" where
  "runtime_call J txt cfg env session method params s =
     call_with_timeout J txt env session method params (rc_default_call_timeout_ms cfg) s"

section \<open>Calls in flight\<close>

datatype 'v call_phase = Begun | Registered | Waiting | Finished "'v runtime_result"

text \<open>How far \<open>mark_dead\<close> has come.\<close>

datatype death = Live | Swapped | WriterGone | Drained

record 'v calls =
  cl_shared :: "'v shared"
  cl_phase :: "(i64, 'v call_phase) hashmap"
  cl_death :: death

definition calls_new :: "'v calls" where
  "calls_new = \<lparr>cl_shared = shared_new, cl_phase = [], cl_death = Live\<rparr>"

definition call_set :: "i64 \<Rightarrow> 'v call_phase \<Rightarrow> 'v shared \<Rightarrow> 'v calls \<Rightarrow> 'v calls" where
  "call_set i ph s c = c\<lparr>cl_shared := s, cl_phase := hm_insert i ph (cl_phase c)\<rparr>"

text \<open>
  The steps of the callers, of the dispatcher and of \<open>mark_dead\<close>, in any interleaving; \<open>n\<close> calls have
  begun. A timeout fires only when no answer is there: the timer polls the channel first.
\<close>

inductive calls_reach :: "'v json_ops \<Rightarrow> ('v \<Rightarrow> bool) \<Rightarrow> nat \<Rightarrow> 'v calls \<Rightarrow> bool" for J is_null where
  new: "calls_reach J is_null 0 calls_new"
| begin_call: "calls_reach J is_null n c \<Longrightarrow> call_begin (cl_shared c) = Inr (i, s) \<Longrightarrow>
    calls_reach J is_null (Suc n) (call_set i Begun s c)"
| register: "calls_reach J is_null n c \<Longrightarrow> hm_get (cl_phase c) i = Some Begun \<Longrightarrow>
    calls_reach J is_null n (call_set i Registered (call_register i (cl_shared c)) c)"
| queue: "calls_reach J is_null n c \<Longrightarrow> hm_get (cl_phase c) i = Some Registered \<Longrightarrow>
    call_queue text (cl_shared c) = (True, s) \<Longrightarrow> calls_reach J is_null n (call_set i Waiting s c)"
| refuse: "calls_reach J is_null n c \<Longrightarrow> hm_get (cl_phase c) i = Some Registered \<Longrightarrow>
    call_queue text (cl_shared c) = (False, s) \<Longrightarrow>
    calls_reach J is_null n (call_set i (Finished (Inl not_queued_error)) (call_withdraw i s) c)"
| receive: "calls_reach J is_null n c \<Longrightarrow> hm_get (cl_phase c) i = Some Waiting \<Longrightarrow>
    r \<in> set (sh_answers (cl_shared c)) \<Longrightarrow> rsp_id r = i \<Longrightarrow>
    calls_reach J is_null n (call_set i (Finished (interpret_response J m r)) (cl_shared c) c)"
| elapse: "calls_reach J is_null n c \<Longrightarrow> hm_get (cl_phase c) i = Some Waiting \<Longrightarrow>
    i \<notin> rsp_id ` set (sh_answers (cl_shared c)) \<Longrightarrow>
    calls_reach J is_null n (call_set i (Finished (Inl (Timeout m t))) (call_withdraw i (cl_shared c)) c)"
| dispatch: "calls_reach J is_null n c \<Longrightarrow>
    calls_reach J is_null n (c\<lparr>cl_shared := dispatch_item J is_null q item (cl_shared c)\<rparr>)"
| swap: "calls_reach J is_null n c \<Longrightarrow> cl_death c = Live \<Longrightarrow>
    calls_reach J is_null n (c\<lparr>cl_shared := dead_swap (cl_shared c), cl_death := Swapped\<rparr>)"
| drop_writer: "calls_reach J is_null n c \<Longrightarrow> cl_death c = Swapped \<Longrightarrow>
    calls_reach J is_null n (c\<lparr>cl_shared := dead_drop_writer (cl_shared c), cl_death := WriterGone\<rparr>)"
| fail_pending: "calls_reach J is_null n c \<Longrightarrow> cl_death c = WriterGone \<Longrightarrow> iter_order ord \<Longrightarrow>
    calls_reach J is_null n (c\<lparr>cl_shared := dead_fail_pending ord reason (cl_shared c), cl_death := Drained\<rparr>)"

text \<open>The identifiers answered so far, and the invariant of the calls in flight.\<close>

definition answered :: "'v shared \<Rightarrow> i64 list" where
  "answered s = map rsp_id (sh_answers s)"

definition pending_ids :: "'v shared \<Rightarrow> i64 set" where
  "pending_ids s = {i. hm_get (sh_pending s) i \<noteq> None}"

definition id_ok :: "'v json_ops \<Rightarrow> death \<Rightarrow> 'v shared \<Rightarrow> i64 \<Rightarrow> 'v call_phase option \<Rightarrow> bool" where
  "id_ok J d s i ph =
     (case ph of
        None \<Rightarrow> i \<notin> pending_ids s \<and> i \<notin> set (answered s)
      | Some Begun \<Rightarrow> i \<notin> pending_ids s \<and> i \<notin> set (answered s)
      | Some Registered \<Rightarrow> (i \<in> pending_ids s) \<noteq> (i \<in> set (answered s))
      | Some Waiting \<Rightarrow> (i \<in> pending_ids s) \<noteq> (i \<in> set (answered s)) \<and> (d = Drained \<longrightarrow> i \<in> set (answered s))
      | Some (Finished res) \<Rightarrow> i \<notin> pending_ids s \<and>
          (\<forall>v. res = Inr v \<longrightarrow> (\<exists>r m. r \<in> set (sh_answers s) \<and> rsp_id r = i \<and> interpret_response J m r = Inr v)))"

definition calls_ok :: "'v json_ops \<Rightarrow> nat \<Rightarrow> 'v calls \<Rightarrow> bool" where
  "calls_ok J n c =
     (let s = cl_shared c in
        sh_next_id s = 1 + of_nat n
        \<and> (\<forall>i. hm_get (cl_phase c) i \<noteq> None \<longrightarrow> (\<exists>k < n. i = 1 + of_nat k))
        \<and> (\<forall>i. id_ok J (cl_death c) s i (hm_get (cl_phase c) i))
        \<and> sh_writer_open s = (cl_death c = Live \<or> cl_death c = Swapped)
        \<and> sh_alive s = (cl_death c = Live)
        \<and> distinct (answered s) \<and> hm_ok (sh_pending s))"

section \<open>The invariant holds\<close>

lemma broadcast_event_keeps [simp]:
  "sh_pending (broadcast_event J ev s) = sh_pending s" "sh_answers (broadcast_event J ev s) = sh_answers s"
  "sh_next_id (broadcast_event J ev s) = sh_next_id s" "sh_writer_open (broadcast_event J ev s) = sh_writer_open s"
  "sh_alive (broadcast_event J ev s) = sh_alive s"
  by (simp_all add: broadcast_event_def track_attached_def track_detached_def Let_def split: option.split)

lemma answer_pending_keeps [simp]:
  "sh_next_id (answer_pending i r s) = sh_next_id s" "sh_writer_open (answer_pending i r s) = sh_writer_open s"
  "sh_alive (answer_pending i r s) = sh_alive s"
  by (simp_all add: answer_pending_def)

lemma dispatch_item_keeps [simp]:
  "sh_next_id (dispatch_item J is_null q item s) = sh_next_id s"
  "sh_writer_open (dispatch_item J is_null q item s) = sh_writer_open s"
  "sh_alive (dispatch_item J is_null q item s) = sh_alive s"
  by (auto simp: dispatch_item_def split: ordered_item.split option.split)

lemma dispatch_item_answers:
  obtains (none) "sh_pending (dispatch_item J is_null q item s) = sh_pending s"
      "sh_answers (dispatch_item J is_null q item s) = sh_answers s"
    | (one) r where "rsp_id r \<in> pending_ids s"
      "sh_pending (dispatch_item J is_null q item s) = hm_remove (rsp_id r) (sh_pending s)"
      "sh_answers (dispatch_item J is_null q item s) = sh_answers s @ [r]"
proof -
  have "(sh_pending (answer_pending i r s) = sh_pending s \<and> sh_answers (answer_pending i r s) = sh_answers s)
      \<or> (i \<in> pending_ids s \<and> sh_pending (answer_pending i r s) = hm_remove i (sh_pending s)
         \<and> sh_answers (answer_pending i r s) = sh_answers s @ [r])" for i r
    by (auto simp: answer_pending_def hm_contains_def pending_ids_def)
  note answer = this
  show thesis
  proof (cases item)
    case (Undecodable hint)
    show thesis
    proof (cases hint)
      case None
      then show thesis using Undecodable by (intro none) (simp_all add: dispatch_item_def)
    next
      case (Some i)
      then show thesis
        using Undecodable answer [of i "invalid_frame_response q i"] none one [of "invalid_frame_response q i"]
        by (auto simp: dispatch_item_def invalid_frame_response_def)
    qed
  next
    case (Message v)
    show thesis
    proof (cases "get_i64 J v ''id''")
      case None
      then show thesis using Message by (intro none) (simp_all add: dispatch_item_def split: option.split)
    next
      case (Some i)
      let ?r = "\<lparr>rsp_id = i, rsp_result = j_get J v ''result'',
                  rsp_error = parse_cdp_error J is_null v, rsp_session_id = session_of J v\<rparr>"
      show thesis using Message Some answer [of i ?r] none one [of ?r] by (auto simp: dispatch_item_def)
    qed
  qed
qed

lemma fresh_call_id: "n < 2 ^ 64 \<Longrightarrow> k < n \<Longrightarrow> (1 + of_nat k :: i64) \<noteq> 1 + of_nat n"
  using of_nat_u64_eq [of k n] by simp

text \<open>A step that changes one call leaves the others alone.\<close>

lemma id_ok_other:
  "id_ok J d s j ph \<Longrightarrow> j \<in> pending_ids s' \<longleftrightarrow> j \<in> pending_ids s \<Longrightarrow> j \<in> set (answered s') \<longleftrightarrow> j \<in> set (answered s) \<Longrightarrow>
   set (sh_answers s) \<subseteq> set (sh_answers s') \<Longrightarrow> (d' = Drained \<Longrightarrow> d = Drained) \<Longrightarrow> id_ok J d' s' j ph"
  by (auto simp: id_ok_def split: option.splits call_phase.splits; blast)

lemma calls_ok_set:
  assumes ok: "calls_ok J n c" and key: "hm_get (cl_phase c) i \<noteq> None" and mine: "id_ok J (cl_death c) s i (Some ph)"
    and others: "\<And>j. j \<noteq> i \<Longrightarrow> j \<in> pending_ids s \<longleftrightarrow> j \<in> pending_ids (cl_shared c)"
    and same: "sh_answers s = sh_answers (cl_shared c)" "sh_next_id s = sh_next_id (cl_shared c)"
      "sh_writer_open s = sh_writer_open (cl_shared c)" "sh_alive s = sh_alive (cl_shared c)" "hm_ok (sh_pending s)"
  shows "calls_ok J n (call_set i ph s c)"
proof -
  have "id_ok J (cl_death c) s j (hm_get (hm_insert i ph (cl_phase c)) j)" for j
  proof (cases "j = i")
    case True
    then show ?thesis using mine by simp
  next
    case False
    have "id_ok J (cl_death c) (cl_shared c) j (hm_get (cl_phase c) j)" using ok by (simp add: calls_ok_def Let_def)
    then show ?thesis using False others [OF False] same(1) by (auto simp: answered_def intro: id_ok_other)
  qed
  then show ?thesis using ok key same by (auto simp: calls_ok_def call_set_def Let_def answered_def)
qed

lemma calls_ok_new: "calls_ok J 0 calls_new"
  by (simp add: calls_ok_def id_ok_def calls_new_def shared_new_def pending_ids_def answered_def Let_def)

lemma calls_ok_begin:
  assumes ok: "calls_ok J n c" and b: "call_begin (cl_shared c) = Inr (i, s)" and n: "n < 2 ^ 64"
  shows "calls_ok J (Suc n) (call_set i Begun s c)"
proof -
  let ?s = "cl_shared c"
  have i: "i = 1 + of_nat n" "s = ?s\<lparr>sh_next_id := sh_next_id ?s + 1\<rparr>"
    using b ok by (auto simp: call_begin_def calls_ok_def Let_def split: if_splits)
  have new: "hm_get (cl_phase c) i = None"
  proof (rule ccontr)
    assume "hm_get (cl_phase c) i \<noteq> None"
    then obtain k where "k < n" "i = 1 + of_nat k" using ok by (auto simp: calls_ok_def Let_def)
    then show False using fresh_call_id [OF n] i(1) by blast
  qed
  have "id_ok J (cl_death c) s j (hm_get (hm_insert i Begun (cl_phase c)) j)" for j
  proof -
    have "id_ok J (cl_death c) ?s j (hm_get (cl_phase c) j)" using ok by (simp add: calls_ok_def Let_def)
    then show ?thesis using new i(2) by (auto simp: id_ok_def pending_ids_def answered_def split: option.splits call_phase.splits)
  qed
  then show ?thesis
    using ok i by (auto simp: calls_ok_def call_set_def Let_def answered_def less_Suc_eq)
qed

lemma calls_ok_id: "calls_ok J n c \<Longrightarrow> hm_get (cl_phase c) i = ph \<Longrightarrow> id_ok J (cl_death c) (cl_shared c) i ph"
  by (auto simp: calls_ok_def Let_def)

lemma calls_ok_register:
  assumes ok: "calls_ok J n c" and ph: "hm_get (cl_phase c) i = Some Begun"
  shows "calls_ok J n (call_set i Registered (call_register i (cl_shared c)) c)"
proof (rule calls_ok_set [OF ok])
  show "id_ok J (cl_death c) (call_register i (cl_shared c)) i (Some Registered)"
    using calls_ok_id [OF ok ph] by (simp add: id_ok_def call_register_def pending_ids_def answered_def)
qed (use ok ph in \<open>auto simp: call_register_def pending_ids_def calls_ok_def Let_def\<close>)

lemma calls_ok_queue:
  assumes ok: "calls_ok J n c" and ph: "hm_get (cl_phase c) i = Some Registered"
    and q: "call_queue text (cl_shared c) = (True, s)"
  shows "calls_ok J n (call_set i Waiting s c)"
proof (rule calls_ok_set [OF ok])
  have "sh_writer_open (cl_shared c)" using q by (simp add: call_queue_def split: if_splits)
  then have "cl_death c \<noteq> Drained" using ok by (auto simp: calls_ok_def Let_def)
  then show "id_ok J (cl_death c) s i (Some Waiting)"
    using calls_ok_id [OF ok ph] q by (auto simp: id_ok_def call_queue_def pending_ids_def answered_def split: if_splits)
qed (use ok ph q in \<open>auto simp: call_queue_def pending_ids_def calls_ok_def Let_def split: if_splits\<close>)

lemma calls_ok_withdraw:
  assumes ok: "calls_ok J n c" and ph: "hm_get (cl_phase c) i \<noteq> None"
  shows "calls_ok J n (call_set i (Finished (Inl e)) (call_withdraw i (cl_shared c)) c)"
proof (rule calls_ok_set [OF ok ph])
  show "id_ok J (cl_death c) (call_withdraw i (cl_shared c)) i (Some (Finished (Inl e)))"
    by (simp add: id_ok_def call_withdraw_def pending_ids_def)
qed (use ok in \<open>auto simp: call_withdraw_def pending_ids_def calls_ok_def Let_def\<close>)

lemma calls_ok_receive:
  assumes ok: "calls_ok J n c" and ph: "hm_get (cl_phase c) i = Some Waiting"
    and r: "r \<in> set (sh_answers (cl_shared c))" "rsp_id r = i"
  shows "calls_ok J n (call_set i (Finished (interpret_response J m r)) (cl_shared c) c)"
proof (rule calls_ok_set [OF ok])
  have "i \<in> set (answered (cl_shared c))" using r by (auto simp: answered_def)
  then show "id_ok J (cl_death c) (cl_shared c) i (Some (Finished (interpret_response J m r)))"
    using calls_ok_id [OF ok ph] r by (auto simp: id_ok_def)
qed (use ok ph in \<open>auto simp: calls_ok_def Let_def\<close>)

text \<open>Answering pending calls: the dispatcher one of them, \<open>mark_dead\<close> all.\<close>

lemma id_ok_answer:
  assumes "id_ok J d s j ph" "j \<in> pending_ids s"
    "j \<notin> pending_ids s'" "j \<in> set (answered s')"
  shows "id_ok J d' s' j ph"
  using assms by (auto simp: id_ok_def split: option.splits call_phase.splits)

lemma calls_ok_dispatch:
  assumes ok: "calls_ok J n c"
  shows "calls_ok J n (c\<lparr>cl_shared := dispatch_item J is_null q item (cl_shared c)\<rparr>)"
proof (cases rule: dispatch_item_answers [of J is_null q item "cl_shared c"])
  case none
  then have "pending_ids (dispatch_item J is_null q item (cl_shared c)) = pending_ids (cl_shared c)"
    "answered (dispatch_item J is_null q item (cl_shared c)) = answered (cl_shared c)"
    by (simp_all add: pending_ids_def answered_def)
  then have "id_ok J (cl_death c) (dispatch_item J is_null q item (cl_shared c)) j (hm_get (cl_phase c) j)" for j
    using none by (intro id_ok_other [OF calls_ok_id [OF ok refl]]) simp_all
  then show ?thesis using ok none by (simp add: calls_ok_def Let_def answered_def)
next
  case (one r)
  let ?s = "dispatch_item J is_null q item (cl_shared c)"
  have p: "j \<in> pending_ids ?s \<longleftrightarrow> j \<in> pending_ids (cl_shared c) \<and> j \<noteq> rsp_id r" for j
    using one by (simp add: pending_ids_def)
  have a: "answered ?s = answered (cl_shared c) @ [rsp_id r]" using one by (simp add: answered_def)
  have "id_ok J (cl_death c) ?s j (hm_get (cl_phase c) j)" for j
  proof (cases "j = rsp_id r")
    case True
    then show ?thesis using id_ok_answer [OF calls_ok_id [OF ok refl], of j] one(1) p a by simp
  next
    case False
    show ?thesis by (rule id_ok_other [OF calls_ok_id [OF ok refl]]) (use False p a one in auto)
  qed
  moreover have "rsp_id r \<notin> set (answered (cl_shared c))"
    using calls_ok_id [OF ok refl, of "rsp_id r"] one(1) by (auto simp: id_ok_def split: option.splits call_phase.splits)
  ultimately show ?thesis using ok one a by (auto simp: calls_ok_def Let_def)
qed

lemma calls_ok_die:
  assumes ok: "calls_ok J n c" and s: "sh_pending s = sh_pending (cl_shared c)" "sh_answers s = sh_answers (cl_shared c)"
    "sh_next_id s = sh_next_id (cl_shared c)"
    and d: "d \<noteq> Drained" "sh_writer_open s = (d = Live \<or> d = Swapped)" "sh_alive s = (d = Live)"
  shows "calls_ok J n (c\<lparr>cl_shared := s, cl_death := d\<rparr>)"
proof -
  have "id_ok J d s j (hm_get (cl_phase c) j)" for j
    by (rule id_ok_other [OF calls_ok_id [OF ok refl]]) (use s d in \<open>auto simp: pending_ids_def answered_def\<close>)
  then show ?thesis using ok s d by (auto simp: calls_ok_def Let_def answered_def)
qed

lemma calls_ok_drained:
  assumes ok: "calls_ok J n c" and d: "cl_death c = WriterGone" and ord: "iter_order ord"
  shows "calls_ok J n (c\<lparr>cl_shared := dead_fail_pending ord reason (cl_shared c), cl_death := Drained\<rparr>)"
proof -
  let ?s = "dead_fail_pending ord reason (cl_shared c)"
  have hm: "hm_ok (sh_pending (cl_shared c))" using ok by (simp add: calls_ok_def Let_def)
  have ids: "map rsp_id (map (\<lambda>(i, _). dead_response reason i) m) = map fst m" for m :: "(i64 \<times> unit) list"
    by (induction m) (auto simp: dead_response_def)
  then have a: "answered ?s = answered (cl_shared c) @ map fst (ord (sh_pending (cl_shared c)))"
    by (simp add: answered_def dead_fail_pending_def)
  have keys: "j \<in> fst ` set (sh_pending (cl_shared c)) \<longleftrightarrow> j \<in> pending_ids (cl_shared c)" for j
    by (simp add: pending_ids_def hm_get_def map_of_eq_None_iff)
  have p: "pending_ids ?s = {}" by (simp add: pending_ids_def dead_fail_pending_def)
  have "id_ok J Drained ?s j (hm_get (cl_phase c) j)" for j
  proof (cases "j \<in> pending_ids (cl_shared c)")
    case True
    then show ?thesis using id_ok_answer [OF calls_ok_id [OF ok refl] True] p a keys ord by simp
  next
    case False
    then show ?thesis
      using calls_ok_id [OF ok refl, of j] p a keys [of j] ord
      by (auto simp: id_ok_def dead_fail_pending_def split: option.splits call_phase.splits) blast
  qed
  moreover have "distinct (answered ?s)"
  proof -
    have "distinct (map fst (ord (sh_pending (cl_shared c))))"
      using hm ord by (metis hm_ok_def iter_order_def mset_map mset_eq_imp_distinct_iff)
    moreover have "j \<notin> set (answered (cl_shared c))" if "j \<in> pending_ids (cl_shared c)" for j
      using calls_ok_id [OF ok refl, of j] that by (auto simp: id_ok_def split: option.splits call_phase.splits)
    ultimately show ?thesis using ok a keys ord by (auto simp: calls_ok_def Let_def)
  qed
  moreover have "hm_ok (sh_pending ?s)" by (simp add: dead_fail_pending_def)
  ultimately show ?thesis using ok d by (auto simp: calls_ok_def Let_def dead_fail_pending_def)
qed

lemma calls_reach_ok: "calls_reach J is_null n c \<Longrightarrow> n < 2 ^ 64 \<Longrightarrow> calls_ok J n c"
proof (induction rule: calls_reach.induct)
  case (refuse n c i w s)
  then have "s = cl_shared c" by (simp add: call_queue_def split: if_splits)
  then show ?case using refuse by (auto intro: calls_ok_withdraw)
next
  case (elapse n c i m t)
  then show ?case by (auto intro: calls_ok_withdraw)
next
  case (swap n c)
  then show ?case by (intro calls_ok_die) (auto simp: calls_ok_def Let_def dead_swap_def)
next
  case (drop_writer n c)
  then show ?case by (intro calls_ok_die) (auto simp: calls_ok_def Let_def dead_drop_writer_def)
qed (auto intro: calls_ok_new calls_ok_begin calls_ok_register calls_ok_queue calls_ok_receive calls_ok_dispatch calls_ok_drained)

section \<open>The startup handshake\<close>

record browser_info =
  bi_product :: string
  bi_revision :: string
  bi_protocol_version :: string
  bi_js_version :: string

definition or_unsupported :: "string \<Rightarrow> 'v runtime_result \<Rightarrow> 'v runtime_result" where
  "or_unsupported what r =
     (case r of Inl e \<Rightarrow> Inl (UnsupportedBrowserProtocol (what @ error_display e)) | Inr v \<Rightarrow> Inr v)"

definition browser_info_of :: "'v json_ops \<Rightarrow> 'v \<Rightarrow> browser_info" where
  "browser_info_of J v = \<lparr>bi_product = unwrap_or [] (get_str J v ''product''),
     bi_revision = unwrap_or [] (get_str J v ''revision''),
     bi_protocol_version = unwrap_or [] (get_str J v ''protocolVersion''),
     bi_js_version = unwrap_or [] (get_str J v ''jsVersion'')\<rparr>"

definition auto_attach_params :: "'v json_ops \<Rightarrow> 'v" where
  "auto_attach_params J =
     j_obj J [(''autoAttach'', j_bool J True), (''waitForDebuggerOnStart'', j_bool J False), (''flatten'', j_bool J True)]"

definition attach_params :: "'v json_ops \<Rightarrow> string \<Rightarrow> 'v" where
  "attach_params J tid = j_obj J [(''targetId'', j_str J tid), (''flatten'', j_bool J True)]"

text \<open>The loop over the targets: how many pages, how many attached.\<close>

fun attach_pages :: "'v json_ops \<Rightarrow> 'v cdp_call \<Rightarrow> 'v list \<Rightarrow> nat \<times> nat \<times> 'v shared \<Rightarrow> nat \<times> nat \<times> 'v shared" where
  "attach_pages J call [] acc = acc"
| "attach_pages J call (info # infos) (pages, attached, s) =
     (if get_str J info ''type'' \<noteq> Some ''page'' then attach_pages J call infos (pages, attached, s)
      else (case get_str J info ''targetId'' of
          None \<Rightarrow> attach_pages J call infos (pages + 1, attached, s)
        | Some tid \<Rightarrow>
            (case call None ''Target.attachToTarget'' (attach_params J tid) of
               Inl e \<Rightarrow> attach_pages J call infos (pages + 1, attached, s)
             | Inr resp \<Rightarrow>
                 (case get_str J resp ''sessionId'' of
                    None \<Rightarrow> attach_pages J call infos (pages + 1, attached, s)
                  | Some sid \<Rightarrow> attach_pages J call infos (pages + 1, attached + 1, track_attached sid s)))))"

definition runtime_initialize ::
  "'v json_ops \<Rightarrow> 'v cdp_call \<Rightarrow> 'v shared \<Rightarrow> (browser_info \<times> 'v shared) runtime_result" where
  "runtime_initialize J call s =
     try_then (or_unsupported ''Browser.getVersion failed during init: ''
                 (call None ''Browser.getVersion'' (j_obj J []))) (\<lambda>version.
     try_then (or_unsupported ''Target.setAutoAttach {flatten:true} failed: ''
                 (call None ''Target.setAutoAttach'' (auto_attach_params J))) (\<lambda>_.
     try_then (or_unsupported ''Target.getTargets failed during init: ''
                 (call None ''Target.getTargets'' (j_obj J []))) (\<lambda>targets.
       let infos = unwrap_or [] (get_array J targets ''targetInfos'');
           (pages, attached, s) = attach_pages J call infos (0, 0, s)
       in if 0 < pages \<and> attached = 0
          then Inl (UnsupportedBrowserProtocol (''could not attach to any of '' @ show_nat pages @
                      '' page target(s) in flatten mode''))
          else Inr (browser_info_of J version, s))))"

text \<open>
  \<open>connect_with_config\<close>: what the WebSocket layer answers is an argument. A failed handshake shuts
  the runtime down and drops it.
\<close>

definition runtime_connect ::
  "'v json_ops \<Rightarrow> 'v cdp_call \<Rightarrow> string option \<Rightarrow> (browser_info \<times> 'v shared) runtime_result" where
  "runtime_connect J call ws_error =
     (case ws_error of
        Some e \<Rightarrow> Inl (ConnectionFailed e)
      | None \<Rightarrow> runtime_initialize J call shared_new)"

section \<open>Writer, shutdown and diagnostics\<close>

text \<open>
  One iteration of \<open>writer_loop\<close>; \<open>send\<close> is the error of the sink, if any. With the sender gone the
  channel still yields what was queued, and then ends.
\<close>

definition writer_step :: "pending_order \<Rightarrow> (string \<Rightarrow> string option) \<Rightarrow> 'v shared \<Rightarrow> task \<times> 'v shared" where
  "writer_step ord send s =
     (case sh_queued s of
        [] \<Rightarrow> (if sh_writer_open s then Running else Exited, s)
      | text # rest \<Rightarrow>
          let s = s\<lparr>sh_queued := rest\<rparr> in
          (case send text of
             None \<Rightarrow> (Running, s)
           | Some e \<Rightarrow> (Exited, mark_dead ord (''writer send failed: '' @ e) s)))"

definition runtime_shutdown :: "pending_order \<Rightarrow> 'v pipe \<Rightarrow> 'v pipe" where
  "runtime_shutdown ord p = p\<lparr>pp_shared := mark_dead ord ''shutdown'' (pp_shared p),
     pp_reader := (if pp_reader p = Running then Exited else pp_reader p),
     pp_dispatcher := (if pp_dispatcher p = Running then Exited else pp_dispatcher p)\<rparr>"

record transport_diagnostics =
  td_connection_id :: string
  td_browser_info :: browser_info
  td_pending_request_count :: nat
  td_event_count :: u64
  td_attached_session_ids :: "string list"
  td_depth_current :: nat
  td_depth_max :: nat
  td_offloaded_decode_count :: u64
  td_oversize_dropped_count :: u64

definition diagnostics :: "string \<Rightarrow> browser_info \<Rightarrow> 'v shared \<Rightarrow> transport_diagnostics" where
  "diagnostics conn info s = \<lparr>td_connection_id = conn, td_browser_info = info,
     td_pending_request_count = length (sh_pending s), td_event_count = sh_event_count s,
     td_attached_session_ids = sh_attached_sessions s, td_depth_current = sh_depth_current s,
     td_depth_max = sh_depth_max s, td_offloaded_decode_count = sh_offloaded_count s,
     td_oversize_dropped_count = sh_oversize_dropped s\<rparr>"

text \<open>A dead transport has no one waiting, and its writer sends nothing that was not queued before.\<close>

lemma mark_dead_closes:
  "sh_alive s \<Longrightarrow> sh_pending (mark_dead ord r s) = [] \<and> \<not> sh_writer_open (mark_dead ord r s)
     \<and> \<not> sh_alive (mark_dead ord r s) \<and> sh_queued (mark_dead ord r s) = sh_queued s"
  by (simp add: mark_dead_def dead_fail_pending_def dead_drop_writer_def dead_swap_def)

lemma mark_dead_idem: "mark_dead ord' r' (mark_dead ord r s) = mark_dead ord r s"
  by (simp add: mark_dead_def dead_fail_pending_def dead_drop_writer_def dead_swap_def)

lemma writer_failure_closes:
  assumes "sh_alive s" "sh_queued s = text # rest" "send text = Some e" "writer_step ord send s = (t, s')"
  shows "t = Exited \<and> \<not> sh_alive s' \<and> sh_pending s' = [] \<and> sh_queued s' = rest"
  using assms mark_dead_closes [of "s\<lparr>sh_queued := rest\<rparr>" ord] by (auto simp: writer_step_def)

lemma shutdown_closes: "sh_alive (pp_shared p) \<Longrightarrow>
   td_pending_request_count (diagnostics conn info (pp_shared (runtime_shutdown ord p))) = 0
   \<and> pp_reader (runtime_shutdown ord p) \<noteq> Running \<and> pp_dispatcher (runtime_shutdown ord p) \<noteq> Running"
  by (simp add: runtime_shutdown_def diagnostics_def mark_dead_closes)

lemma or_unsupported_Inl: "or_unsupported w r = Inl e \<Longrightarrow> \<exists>d. e = UnsupportedBrowserProtocol d"
  by (auto simp: or_unsupported_def split: sum.splits)

lemma or_unsupported_Inr [simp]: "or_unsupported w r = Inr v \<longleftrightarrow> r = Inr v"
  by (auto simp: or_unsupported_def split: sum.splits)

lemma track_attached_nonempty [simp]: "sh_attached_sessions (track_attached sid s) \<noteq> []"
  by (auto simp: track_attached_def)

lemma attach_pages_count:
  "fst (attach_pages J call infos (p, a, s)) = p + length (filter (\<lambda>i. get_str J i ''type'' = Some ''page'') infos)"
  by (induction J call infos "(p, a, s)" arbitrary: p a s rule: attach_pages.induct)
    (simp_all split: option.split sum.split)

lemma attach_pages_sessions:
  "attach_pages J call infos (p, a, s) = (p', a', s') \<Longrightarrow> (a \<noteq> 0 \<longrightarrow> sh_attached_sessions s \<noteq> []) \<Longrightarrow>
   a' \<noteq> 0 \<longrightarrow> sh_attached_sessions s' \<noteq> []"
  by (induction J call infos "(p, a, s)" arbitrary: p a s rule: attach_pages.induct)
    (simp_all split: if_splits option.splits sum.splits)

section \<open>A sample\<close>

text \<open>One call, waiting; then answered, or caught by the death of the connection.\<close>

definition sample_waiting :: "json calls" where
  "sample_waiting =
     (let s = shared_new\<lparr>sh_next_id := 2\<rparr>; c = call_set 1 Begun s calls_new;
          s = call_register 1 s; c = call_set 1 Registered s c
      in call_set 1 Waiting (snd (call_queue ''{}'' s)) c)"

definition sample_dead :: "json calls" where
  "sample_dead = sample_waiting
     \<lparr>cl_shared := dead_fail_pending (\<lambda>m. m) ''gone'' (dead_drop_writer (dead_swap (cl_shared sample_waiting))),
      cl_death := Drained\<rparr>"

definition sample_response :: json where
  "sample_response = JObj [(''id'', JNum 1), (''result'', JStr ''ok'')]"

definition sample_returned :: "json calls" where
  "sample_returned =
     (let s = dispatch_item std_json (\<lambda>v. v = JNull) 0 (Message sample_response) (cl_shared sample_waiting)
      in call_set 1 (Finished (Inr (JStr ''ok''))) s (sample_waiting\<lparr>cl_shared := s\<rparr>))"

lemma sample_waiting_reach: "calls_reach std_json (\<lambda>v. v = JNull) 1 sample_waiting"
proof -
  let ?s = "shared_new\<lparr>sh_next_id := 2\<rparr>" and ?r = "calls_reach std_json (\<lambda>v. v = JNull) 1"
  have b: "call_begin (cl_shared calls_new) = Inr (1, ?s)" by (simp add: call_begin_def calls_new_def shared_new_def)
  have 1: "?r (call_set 1 Begun ?s calls_new)"
    using calls_reach.begin_call [OF calls_reach.new b, of std_json "\<lambda>v. v = JNull"] by simp
  have 2: "?r (call_set 1 Registered (call_register 1 ?s) (call_set 1 Begun ?s calls_new))"
    using calls_reach.register [OF 1, of 1] by (simp add: call_set_def)
  show ?thesis
    using calls_reach.queue [OF 2, of 1 "''{}''" "snd (call_queue ''{}'' (call_register 1 ?s))"]
    by (simp add: call_set_def call_queue_def call_register_def shared_new_def sample_waiting_def Let_def)
qed

lemma sample_dead_reach: "calls_reach std_json (\<lambda>v. v = JNull) 1 sample_dead"
proof -
  have "cl_death sample_waiting = Live" by code_simp
  note 1 = calls_reach.swap [OF sample_waiting_reach this]
  show ?thesis
    using calls_reach.fail_pending [OF calls_reach.drop_writer [OF 1] _ iter_order_id, of "''gone''"]
    by (simp add: sample_dead_def)
qed

lemma sample_returned_reach: "calls_reach std_json (\<lambda>v. v = JNull) 1 sample_returned"
proof -
  let ?s = "dispatch_item std_json (\<lambda>v. v = JNull) 0 (Message sample_response) (cl_shared sample_waiting)"
  let ?a = "\<lparr>rsp_id = 1, rsp_result = Some (JStr ''ok''), rsp_error = None, rsp_session_id = None\<rparr>"
  note 1 = calls_reach.dispatch [OF sample_waiting_reach, of 0 "Message sample_response"]
  have "hm_get (cl_phase sample_waiting) 1 = Some Waiting" "sh_answers ?s = [?a]" by code_simp+
  then show ?thesis
    using calls_reach.receive [OF 1, of 1 ?a "''m''"] by (simp add: sample_returned_def Let_def interpret_response_def)
qed

section \<open>What holds of calls\<close>

text \<open>
  C3: when the connection has been declared dead, no call is stranded. Whatever the interleaving of
  the callers with \<open>mark_dead\<close>, a call still waiting has its answer, so it returns without its timeout.
\<close>

theorem no_call_stranded:
  "calls_reach J is_null n c \<Longrightarrow> n < 2 ^ 64 \<Longrightarrow> cl_death c = Drained \<Longrightarrow>
   hm_get (cl_phase c) i = Some Waiting \<Longrightarrow> \<exists>r \<in> set (sh_answers (cl_shared c)). rsp_id r = i"
  using calls_ok_id [OF calls_reach_ok] by (fastforce simp: id_ok_def answered_def)

theorem no_call_stranded_witness:
  "hm_get (cl_phase sample_dead) 1 = Some Waiting \<and> (\<exists>r \<in> set (sh_answers (cl_shared sample_dead)). rsp_id r = 1)"
proof -
  have "hm_get (cl_phase sample_dead) 1 = Some Waiting" "cl_death sample_dead = Drained" by code_simp+
  then show ?thesis using no_call_stranded [OF sample_dead_reach, of 1] by simp
qed

text \<open>
  C22: no call is answered twice, and a call that returned a value returned that of an answer carrying
  its own identifier.
\<close>

theorem call_answered_once:
  "calls_reach J is_null n c \<Longrightarrow> n < 2 ^ 64 \<Longrightarrow>
   distinct (map rsp_id (sh_answers (cl_shared c))) \<and>
   (hm_get (cl_phase c) i = Some (Finished (Inr v)) \<longrightarrow>
      (\<exists>r m. r \<in> set (sh_answers (cl_shared c)) \<and> rsp_id r = i \<and> interpret_response J m r = Inr v))"
proof (intro conjI impI)
  assume reach: "calls_reach J is_null n c" "n < 2 ^ 64"
  show "distinct (map rsp_id (sh_answers (cl_shared c)))"
    using calls_reach_ok [OF reach] by (simp add: calls_ok_def Let_def answered_def)
  assume "hm_get (cl_phase c) i = Some (Finished (Inr v))"
  from calls_ok_id [OF calls_reach_ok [OF reach] this]
  show "\<exists>r m. r \<in> set (sh_answers (cl_shared c)) \<and> rsp_id r = i \<and> interpret_response J m r = Inr v"
    by (simp add: id_ok_def)
qed

theorem call_answered_once_witness:
  "\<exists>r m. r \<in> set (sh_answers (cl_shared sample_returned)) \<and> rsp_id r = 1 \<and>
     interpret_response std_json m r = Inr (JStr ''ok'')"
proof -
  have "hm_get (cl_phase sample_returned) 1 = Some (Finished (Inr (JStr ''ok'')))" by code_simp
  then show ?thesis using call_answered_once [OF sample_returned_reach, of 1 "JStr ''ok''"] by simp
qed

text \<open>
  The startup handshake fails closed. It succeeds only when the version, the flat auto-attach and
  the target list were all granted, and when a page was there, only with an attached session; and it
  reports every failure as \<open>UnsupportedBrowserProtocol\<close>.
\<close>

lemma initialize_fails_closed:
  "case runtime_initialize J call s of
     Inl e \<Rightarrow> \<exists>d. e = UnsupportedBrowserProtocol d
   | Inr (bi, s') \<Rightarrow>
       (\<exists>v ok ts infos. call None ''Browser.getVersion'' (j_obj J []) = Inr v \<and> bi = browser_info_of J v
          \<and> call None ''Target.setAutoAttach'' (auto_attach_params J) = Inr ok
          \<and> call None ''Target.getTargets'' (j_obj J []) = Inr ts
          \<and> infos = unwrap_or [] (get_array J ts ''targetInfos'')
          \<and> ((\<exists>i \<in> set infos. get_str J i ''type'' = Some ''page'') \<longrightarrow> sh_attached_sessions s' \<noteq> []))"
proof (cases "runtime_initialize J call s")
  case (Inl e)
  then have "\<exists>d. e = UnsupportedBrowserProtocol d"
    by (auto simp: runtime_initialize_def Let_def try_then_Inl case_prod_beta split: if_splits dest: or_unsupported_Inl)
  then show ?thesis using Inl by simp
next
  case (Inr r)
  then obtain bi s' where r: "r = (bi, s')" by (cases r)
  obtain v ok ts p a where v: "call None ''Browser.getVersion'' (j_obj J []) = Inr v"
      "call None ''Target.setAutoAttach'' (auto_attach_params J) = Inr ok"
      "call None ''Target.getTargets'' (j_obj J []) = Inr ts" "bi = browser_info_of J v"
    and p: "attach_pages J call (unwrap_or [] (get_array J ts ''targetInfos'')) (0, 0, s) = (p, a, s')" "p = 0 \<or> a \<noteq> 0"
    using Inr r by (auto simp: runtime_initialize_def Let_def try_then_Inr case_prod_beta prod_eq_iff split: if_splits)
  have "p \<noteq> 0" if "\<exists>i \<in> set (unwrap_or [] (get_array J ts ''targetInfos'')). get_str J i ''type'' = Some ''page''"
    using attach_pages_count [of J call "unwrap_or [] (get_array J ts ''targetInfos'')" 0 0 s] p(1) that
    by (auto simp: filter_empty_conv)
  then show ?thesis using Inr r v attach_pages_sessions [OF p(1)] p(2) by auto
qed

text \<open>A browser with one page.\<close>

definition sample_call :: "json cdp_call" where
  "sample_call sid m p = Inr (if m = ''Target.getTargets''
     then JObj [(''targetInfos'', JArr [JObj [(''type'', JStr ''page''), (''targetId'', JStr ''t1'')]])]
     else JObj [(''sessionId'', JStr ''s1'')])"

section \<open>Oversized frames\<close>

lemma note_depth_alive [simp]: "sh_alive (note_reorder_depth n s) = sh_alive s"
  by (simp add: note_reorder_depth_def)

lemma drain_ready_alive: "drain_ready J is_null b q s = (b', q', s') \<Longrightarrow> sh_alive s' = sh_alive s"
proof (induction J is_null b q s rule: drain_ready.induct)
  case (1 J is_null b q s)
  show ?case
  proof (cases "hm_get b q")
    case None
    then show ?thesis using 1(2) by (auto simp: drain_ready.simps [of J is_null b q s])
  next
    case (Some item)
    then show ?thesis using 1(1) [OF Some refl] 1(2) by (simp add: drain_ready.simps [of J is_null b q s] Let_def)
  qed
qed

lemma insert_and_drain_alive [simp]:
  "sh_alive (pp_shared (insert_and_drain J is_null q item p)) = sh_alive (pp_shared p)"
  by (simp add: insert_and_drain_def drain_ready_alive split: prod.split)

lemma dispatcher_step_alive:
  "dispatcher_step J is_null parse cfg p = Some p' \<Longrightarrow> sh_alive (pp_shared p') = sh_alive (pp_shared p)"
  by (auto simp: dispatcher_step_def handle_inbound_def drain_and_exit_def
      split: if_splits list.splits prod.splits inbound_frame.splits option.splits dest: drain_ready_alive)

lemma pipe_inner_alive: "pipe_inner J is_null parse cfg n p p' \<Longrightarrow> sh_alive (pp_shared p') = sh_alive (pp_shared p)"
  by (induction rule: pipe_inner.induct) (auto dest: dispatcher_step_alive)

text \<open>
  An oversized frame whose byte 1024 is inside a character ends the reader by a panic, and nothing
  declares the connection dead: it stays alive to every caller while no frame is read any more.
\<close>

lemma oversize_panic_keeps_alive:
  "pp_reader p = Running \<Longrightarrow> rc_max_message_size cfg < length t \<Longrightarrow> extract_id_prefix t = None \<Longrightarrow>
   pipe_inner J is_null parse cfg n (reader_step cfg ord (WText t) p) p' \<Longrightarrow>
   pp_reader p' = Panicked \<and> sh_alive (pp_shared p') = sh_alive (pp_shared p)"
  using pipe_inner_reader [of J is_null parse cfg n "reader_step cfg ord (WText t) p" p']
    pipe_inner_alive [of J is_null parse cfg n "reader_step cfg ord (WText t) p" p']
  by (simp add: reader_step_def next_sequence_def note_oversize_def Let_def)

definition sample_oversize :: string where
  "sample_oversize = replicate 1023 (CHR ''a'') @ [CHR 0xC3, CHR 0xA9]"

definition context_created :: "string \<Rightarrow> string" where
  "context_created pad =
     [CHR ''{'', CHR 0x22] @ ''method'' @ [CHR 0x22, CHR '':'', CHR 0x22] @ ''Runtime.executionContextCreated'' @
     [CHR 0x22, CHR '','', CHR 0x22] @ ''params'' @ [CHR 0x22, CHR '':'', CHR ''{'', CHR 0x22] @ ''context'' @
     [CHR 0x22, CHR '':'', CHR ''{'', CHR 0x22] @ ''id'' @ [CHR 0x22] @ '':7,'' @ pad"

text \<open>
  An oversized event is blamed on a call. The identifier scan takes the first \<open>"id"\<close> of the frame
  whatever object it belongs to, and the pending call of that number is failed.
\<close>

lemma oversize_event_fails_call:
  assumes "is_ascii_str pad" "rc_max_message_size cfg < length (context_created pad)" "hm_contains (sh_pending s) 7"
  shows "sh_answers (dispatch_item J is_null q (frame_item parse cfg (WText (context_created pad))) s) =
     sh_answers s @ [invalid_frame_response q 7]"
proof -
  have "is_ascii_str (context_created pad)" using assms(1) by (simp add: context_created_def is_ascii_str_def)
  then have "extract_id_prefix (context_created pad) = Some (id_in_head (take 1024 (context_created pad)))"
    by (cases "length (context_created pad) \<le> 1024") (simp_all add: extract_id_prefix_def slice_to_ascii)
  moreover have "id_in_head (take 1024 (context_created pad)) = Some 7"
    by (simp add: context_created_def id_in_head_def is_digit_def parse_i64_def read_nat_def Let_def is_ws_def)
  ultimately show ?thesis
    using assms(2,3) by (simp add: dispatch_item_def answer_pending_def)
qed

end
