(* ===== verification/Await.thy ===== *)
theory Await
  imports Complex_Main Resolve
begin

text \<open>
  How asynchronous code is modelled. A computation runs in a world that other tasks change while it
  awaits; it may be dropped at an await point when a \<open>tokio::time::timeout\<close> around it elapses. The
  browser, the clock, the timers and the event channel are the record \<open>env\<close> of functions; their
  behaviour is arbitrary.
\<close>

section \<open>The environment\<close>

text \<open>What a waiter on the broadcast channel wakes up for; the tick is the end of its sleep.\<close>

datatype 'v wake = Woken "'v cdp_event" | Lagged | ChannelClosed | Tick

text \<open>
  The functions on the world \<open>'w\<close> take the deadline of the innermost timeout around the await, and
  return \<^term>\<open>None\<close> when that deadline passes first. \<open>en_session\<close> is the first attached session,
  \<open>en_cancelled\<close> the cancel token, \<open>en_shared\<close> the state of the runtime modules. The other fields
  are functions of \<open>serde_json\<close> and \<open>url\<close> the sources call: \<open>Display\<close> of a value, \<open>to_string\<close> of a
  string and of a list, \<open>as_bool\<close>, \<open>is_null\<close>, a JSON number and back, the size of an object,
  \<open>Display\<close> of an \<open>f64\<close> (a rational here) and the error of \<open>Url::parse\<close>.
\<close>

record ('w, 'v) env =
  en_json :: "'v json_ops"
  en_display :: "'v \<Rightarrow> string"
  en_quote :: "string \<Rightarrow> string"
  en_quotes :: "string list \<Rightarrow> string"
  en_as_bool :: "'v \<Rightarrow> bool option"
  en_is_null :: "'v \<Rightarrow> bool"
  en_number :: "rat \<Rightarrow> 'v"
  en_as_number :: "'v \<Rightarrow> rat option"
  en_object_len :: "'v \<Rightarrow> nat option"
  en_f64_text :: "rat \<Rightarrow> string"
  en_url_error :: "string \<Rightarrow> string option"
  en_call :: "nat option \<Rightarrow> string option \<Rightarrow> string \<Rightarrow> 'v \<Rightarrow> 'w \<Rightarrow> 'v runtime_result option \<times> 'w"
  en_sleep :: "nat option \<Rightarrow> nat \<Rightarrow> 'w \<Rightarrow> unit option \<times> 'w"
  en_wake :: "nat option \<Rightarrow> nat \<Rightarrow> 'w \<Rightarrow> 'v wake option \<times> 'w"
  en_now :: "'w \<Rightarrow> nat"
  en_session :: "'w \<Rightarrow> string option"
  en_cancelled :: "'w \<Rightarrow> bool"
  en_shared :: "'w \<Rightarrow> world"
  en_targets :: "'w \<Rightarrow> target_manager"
  en_order :: el_order
  en_target_order :: target_order

section \<open>Computations\<close>

text \<open>
  A computation gets the deadline in force and the world. The outer \<^term>\<open>None\<close> is a computation that
  never returns or panics; \<open>Cut\<close> one that was dropped at the deadline.
\<close>

datatype 'a run = Done 'a | Cut

type_synonym ('w, 'a) io = "nat option \<Rightarrow> 'w \<Rightarrow> ('a run \<times> 'w) option"

definition io_return :: "'a \<Rightarrow> ('w, 'a) io" where
  "io_return a dl w = Some (Done a, w)"

definition io_bind :: "('w, 'a) io \<Rightarrow> ('a \<Rightarrow> ('w, 'b) io) \<Rightarrow> ('w, 'b) io" where
  "io_bind m f dl w =
     (case m dl w of
        None \<Rightarrow> None
      | Some (Cut, w') \<Rightarrow> Some (Cut, w')
      | Some (Done a, w') \<Rightarrow> f a dl w')"

definition io_get :: "('w \<Rightarrow> 'a) \<Rightarrow> ('w, 'a) io" where
  "io_get f dl w = Some (Done (f w), w)"

definition io_update :: "('w \<Rightarrow> 'w) \<Rightarrow> ('w, unit) io" where
  "io_update f dl w = Some (Done (), f w)"

text \<open>A pure part that may panic; the operator \<open>?\<close>; \<open>let _ = ..\<close>.\<close>

definition io_pure :: "'a option \<Rightarrow> ('w, 'a) io" where
  "io_pure x dl w = map_option (\<lambda>a. (Done a, w)) x"

definition io_try :: "('w, 'e + 'a) io \<Rightarrow> ('a \<Rightarrow> ('w, 'e + 'b) io) \<Rightarrow> ('w, 'e + 'b) io" where
  "io_try m f = io_bind m (\<lambda>r. case r of Inl e \<Rightarrow> io_return (Inl e) | Inr a \<Rightarrow> f a)"

definition io_then :: "('w, 'a) io \<Rightarrow> ('w, 'b) io \<Rightarrow> ('w, 'b) io" where
  "io_then m k = io_bind m (\<lambda>_. k)"

definition io_map_err :: "('e \<Rightarrow> 'f) \<Rightarrow> ('w, 'e + 'a) io \<Rightarrow> ('w, 'f + 'a) io" where
  "io_map_err f m = io_bind m (\<lambda>r. io_return (map_sum f id r))"

section \<open>Awaiting\<close>

definition await :: "('w \<Rightarrow> 'a option \<times> 'w) \<Rightarrow> 'w \<Rightarrow> ('a run \<times> 'w) option" where
  "await f w = (case f w of (None, w') \<Rightarrow> Some (Cut, w') | (Some a, w') \<Rightarrow> Some (Done a, w'))"

definition io_call :: "('w, 'v) env \<Rightarrow> string option \<Rightarrow> string \<Rightarrow> 'v \<Rightarrow> ('w, 'v runtime_result) io" where
  "io_call E sid m p dl w = await (en_call E dl sid m p) w"

definition io_sleep :: "('w, 'v) env \<Rightarrow> nat \<Rightarrow> ('w, unit) io" where
  "io_sleep E ms dl w = await (en_sleep E dl ms) w"

definition io_wake :: "('w, 'v) env \<Rightarrow> nat \<Rightarrow> ('w, 'v wake) io" where
  "io_wake E ms dl w = await (en_wake E dl ms) w"

text \<open>
  \<open>timeout(ms, m)\<close> under the clock \<open>now\<close>. The own deadline elapses (\<^term>\<open>None\<close>) unless an outer one is earlier, which then
  drops this computation too.
\<close>

definition io_timeout :: "('w \<Rightarrow> nat) \<Rightarrow> nat \<Rightarrow> ('w, 'a) io \<Rightarrow> ('w, 'a option) io" where
  "io_timeout now ms m dl w =
     (let own = now w + ms;
          outer = (case dl of None \<Rightarrow> False | Some d \<Rightarrow> d < own)
      in case m (if outer then dl else Some own) w of
           None \<Rightarrow> None
         | Some (Done a, w') \<Rightarrow> Some (Done (Some a), w')
         | Some (Cut, w') \<Rightarrow> if outer then Some (Cut, w') else Some (Done None, w'))"

section \<open>What a computation that returned did\<close>

lemma io_bind_Done [simp]:
  "io_bind m f dl w = Some (Done b, w') \<longleftrightarrow>
     (\<exists>a w1. m dl w = Some (Done a, w1) \<and> f a dl w1 = Some (Done b, w'))"
  by (auto simp: io_bind_def split: option.splits prod.splits run.splits)

lemma io_return_Some [simp]: "io_return a dl w = Some (r, w') \<longleftrightarrow> r = Done a \<and> w' = w"
  by (auto simp: io_return_def)

lemma io_get_Some [simp]: "io_get f dl w = Some (r, w') \<longleftrightarrow> r = Done (f w) \<and> w' = w"
  by (auto simp: io_get_def)

section \<open>Weakest preconditions\<close>

text \<open>
  However \<open>m\<close> goes: if it returns, \<open>Q\<close> holds of the result and the world then; if it is dropped,
  \<open>R\<close> holds of the world then.
\<close>

definition io_wp :: "('w, 'a) io \<Rightarrow> nat option \<Rightarrow> 'w \<Rightarrow> ('a \<Rightarrow> 'w \<Rightarrow> bool) \<Rightarrow> ('w \<Rightarrow> bool) \<Rightarrow> bool" where
  "io_wp m dl w Q R = (\<forall>r w'. m dl w = Some (r, w') \<longrightarrow> (case r of Done a \<Rightarrow> Q a w' | Cut \<Rightarrow> R w'))"

lemma io_wpI:
  "(\<And>a w'. m dl w = Some (Done a, w') \<Longrightarrow> Q a w') \<Longrightarrow> (\<And>w'. m dl w = Some (Cut, w') \<Longrightarrow> R w') \<Longrightarrow> io_wp m dl w Q R"
  by (auto simp: io_wp_def split: run.split)

lemma io_wpD: "io_wp m dl w Q R \<Longrightarrow> m dl w = Some (Done a, w') \<Longrightarrow> Q a w'"
  by (auto simp: io_wp_def)

lemma wp_return [simp]: "io_wp (io_return a) dl w Q R = Q a w"
  by (simp add: io_wp_def io_return_def)

lemma wp_get [simp]: "io_wp (io_get f) dl w Q R = Q (f w) w"
  by (simp add: io_wp_def io_get_def)

lemma wp_update [simp]: "io_wp (io_update f) dl w Q R = Q () (f w)"
  by (simp add: io_wp_def io_update_def)

lemma wp_bind [simp]: "io_wp (io_bind m f) dl w Q R = io_wp m dl w (\<lambda>a w'. io_wp (f a) dl w' Q R) R"
  by (auto simp: io_wp_def io_bind_def split: option.splits prod.splits run.splits)

lemma wp_then [simp]: "io_wp (io_then m k) dl w Q R = io_wp m dl w (\<lambda>_ w'. io_wp k dl w' Q R) R"
  by (simp add: io_then_def)

lemma wp_mono: "io_wp m dl w Q R \<Longrightarrow> (\<And>a w'. Q a w' \<Longrightarrow> Q' a w') \<Longrightarrow> (\<And>w'. R w' \<Longrightarrow> R' w') \<Longrightarrow> io_wp m dl w Q' R'"
  by (auto simp: io_wp_def split: run.splits)

lemma wp_timeout:
  "(\<And>dl'. io_wp m dl' w (\<lambda>a. Q (Some a)) (\<lambda>w'. Q None w' \<and> R w')) \<Longrightarrow> io_wp (io_timeout now ms m) dl w Q R"
  by (fastforce simp: io_wp_def io_timeout_def Let_def split: option.splits prod.splits run.splits if_splits)

end
