(* ===== verification/Wait.thy ===== *)
theory Wait
  imports Await
begin

text \<open>
  \<open>src/browser_runtime/wait.rs\<close>: the one waiting primitive \<open>wait_for\<close>, the wait conditions and the
  engine that checks them against the cached state and the page; and \<open>DomState::wait_for_lifecycle\<close>.
  Times are milliseconds.
\<close>

section \<open>The primitive\<close>

definition wait_timeout :: "nat \<Rightarrow> runtime_error" where
  "wait_timeout ms = Timeout ''wait_for'' (of_nat ms)"

definition wait_closed :: runtime_error where
  "wait_closed = RuntimeDead ''event channel closed while waiting''"

text \<open>
  The loop: wait for an event or the poll tick, whichever is first, within the deadline. It need not
  end by itself: events may come without the clock advancing.
\<close>

partial_function (option) wait_loop ::
  "('w, 'v) env \<Rightarrow> ('w, bool) io \<Rightarrow> ('v cdp_event \<Rightarrow> bool) \<Rightarrow> nat \<Rightarrow> nat
   \<Rightarrow> nat option \<Rightarrow> 'w \<Rightarrow> ('v cdp_event option runtime_result run \<times> 'w) option" where
  "wait_loop E check matches ms deadline dl w =
     (if deadline \<le> en_now E w then Some (Done (Inl (wait_timeout ms)), w)
      else Option.bind (io_wake E (min 100 (deadline - en_now E w)) dl w) (\<lambda>(r, w).
        case r of
          Cut \<Rightarrow> Some (Cut, w)
        | Done wk \<Rightarrow>
            (case wk of
               ChannelClosed \<Rightarrow> Some (Done (Inl wait_closed), w)
             | Woken ev \<Rightarrow>
                 if matches ev then Some (Done (Inr (Some ev)), w)
                 else Option.bind (check dl w) (\<lambda>(r, w).
                   case r of
                     Cut \<Rightarrow> Some (Cut, w)
                   | Done ok \<Rightarrow> if ok then Some (Done (Inr (Some ev)), w)
                                else wait_loop E check matches ms deadline dl w)
             | _ \<Rightarrow>
                 Option.bind (check dl w) (\<lambda>(r, w).
                   case r of
                     Cut \<Rightarrow> Some (Cut, w)
                   | Done ok \<Rightarrow> if ok then Some (Done (Inr None), w)
                                else wait_loop E check matches ms deadline dl w))))"

definition wait_for ::
  "('w, 'v) env \<Rightarrow> ('w, bool) io \<Rightarrow> ('v cdp_event \<Rightarrow> bool) \<Rightarrow> nat \<Rightarrow> ('w, 'v cdp_event option runtime_result) io" where
  "wait_for E check matches ms =
     io_bind check (\<lambda>ok.
       if ok then io_return (Inr None)
       else io_bind check (\<lambda>ok.
         if ok then io_return (Inr None)
         else (\<lambda>dl w. wait_loop E check matches ms (en_now E w + ms) dl w)))"

section \<open>Conditions\<close>

datatype wait_condition =
    UrlContains string
  | UrlEquals string
  | TitleContains string
  | ElementExists string
  | ElementVisible string
  | ElementEnabled string
  | ElementText string string
  | AttributeEquals string string string
  | DomVersionAtLeast u64
  | FrameTreeVersionAtLeast u64
  | FrameTreeVersionAtLeastForFrame string u64
  | NavigationComplete
  | LifecycleIs string
  | TargetExists string
  | TargetDestroyed string
  | DialogAppeared
  | ExpressionTrue string

fun condition_kind :: "wait_condition \<Rightarrow> string" where
  "condition_kind (UrlContains _) = ''UrlContains''"
| "condition_kind (UrlEquals _) = ''UrlEquals''"
| "condition_kind (TitleContains _) = ''TitleContains''"
| "condition_kind (ElementExists _) = ''ElementExists''"
| "condition_kind (ElementVisible _) = ''ElementVisible''"
| "condition_kind (ElementEnabled _) = ''ElementEnabled''"
| "condition_kind (ElementText _ _) = ''ElementText''"
| "condition_kind (AttributeEquals _ _ _) = ''AttributeEquals''"
| "condition_kind (DomVersionAtLeast _) = ''DomVersionAtLeast''"
| "condition_kind (FrameTreeVersionAtLeast _) = ''FrameTreeVersionAtLeast''"
| "condition_kind (FrameTreeVersionAtLeastForFrame _ _) = ''FrameTreeVersionAtLeastForFrame''"
| "condition_kind NavigationComplete = ''NavigationComplete''"
| "condition_kind (LifecycleIs _) = ''Lifecycle''"
| "condition_kind (TargetExists _) = ''TargetExists''"
| "condition_kind (TargetDestroyed _) = ''TargetDestroyed''"
| "condition_kind DialogAppeared = ''DialogAppeared''"
| "condition_kind (ExpressionTrue _) = ''ExpressionTrue''"

section \<open>The cached state\<close>

definition trim_hashes :: "string \<Rightarrow> string" where
  "trim_hashes s = dropWhile (\<lambda>c. c = CHR ''#'') s"

text \<open>
  \<open>element_index_contains\<close> and \<open>element_index_find\<close> read the elements through the JSON of
  \<open>trace_snapshot\<close>; the rows of that JSON are the elements of the index.
\<close>

definition row_contains :: "string \<Rightarrow> element_ref \<Rightarrow> bool" where
  "row_contains sel r = (er_selector r = sel \<or> er_dom_id r = trim_hashes sel)"

definition row_found :: "string \<Rightarrow> element_ref \<Rightarrow> bool" where
  "row_found sel r = (er_selector r = sel \<or> CHR ''#'' # er_dom_id r = sel \<or> er_dom_id r = trim_hashes sel)"

definition element_index_contains :: "el_order \<Rightarrow> element_index \<Rightarrow> string \<Rightarrow> bool" where
  "element_index_contains ord idx sel = list_ex (row_contains sel) (ei_find_all ord idx)"

definition element_index_find :: "el_order \<Rightarrow> element_index \<Rightarrow> string \<Rightarrow> element_ref option" where
  "element_index_find ord idx sel = Option.bind (find (row_found sel) (ei_find_all ord idx)) (\<lambda>r. ei_get idx (er_id r))"

definition is_satisfied_cached :: "('w, 'v) env \<Rightarrow> 'w \<Rightarrow> wait_condition \<Rightarrow> bool option" where
  "is_satisfied_cached E w cond =
     (let s = en_shared E w; tm = en_targets E w; ls = ds_lifecycle_state (w_ds s); rs = ds_ready_state (w_ds s);
          found = element_index_find (en_order E) (w_idx s)
      in case cond of
        DomVersionAtLeast v \<Rightarrow> Some (v \<le> ds_dom_version (w_ds s))
      | FrameTreeVersionAtLeast v \<Rightarrow> Some (v \<le> ds_frame_tree_version (w_ds s))
      | FrameTreeVersionAtLeastForFrame f v \<Rightarrow> Some (v \<le> fm_frame_version (w_fm s) f)
      | NavigationComplete \<Rightarrow>
          Some (ls = ''load'' \<or> rs = ''complete'' \<or> ls = ''networkIdle'' \<or> ls = ''networkAlmostIdle'')
      | LifecycleIs name \<Rightarrow>
          if ls = name then Some True
          else if name = ''complete'' \<and> (ls = ''load'' \<or> rs = ''complete'') then Some True
          else if name = ''load'' \<and> ls = ''load'' then Some True
          else Some False
      | TargetExists tid \<Rightarrow> Some (tm_get_target tm tid \<noteq> None)
      | TargetDestroyed tid \<Rightarrow> Some (tm_get_target tm tid = None)
      | DialogAppeared \<Rightarrow> None
      | UrlContains needle \<Rightarrow>
          if list_ex (\<lambda>t. str_contains (tr_url t) needle) (tm_list_targets (en_target_order E) tm) then Some True
          else (case tm_active_target tm of
                  Some t \<Rightarrow> if str_contains (tr_url t) needle then Some True else None
                | None \<Rightarrow> None)
      | UrlEquals expected \<Rightarrow>
          if list_ex (\<lambda>t. tr_url t = expected) (tm_list_targets (en_target_order E) tm) then Some True
          else (case tm_active_target tm of
                  Some t \<Rightarrow> if tr_url t = expected then Some True else None
                | None \<Rightarrow> None)
      | TitleContains needle \<Rightarrow>
          if list_ex (\<lambda>t. str_contains (tr_title t) needle) (tm_list_targets (en_target_order E) tm) then Some True else None
      | ElementExists sel \<Rightarrow> if element_index_contains (en_order E) (w_idx s) sel then Some True else None
      | ElementVisible sel \<Rightarrow> map_option er_visible (found sel)
      | ElementEnabled sel \<Rightarrow> map_option (\<lambda>r. er_visible r \<and> er_enabled r) (found sel)
      | ElementText sel t \<Rightarrow>
          map_option (\<lambda>r. str_contains (er_text_content r) t \<or> str_contains (er_name r) t) (found sel)
      | AttributeEquals sel a v \<Rightarrow> if a = ''id'' then map_option (\<lambda>r. er_dom_id r = v) (found sel) else None
      | ExpressionTrue _ \<Rightarrow> None)"

definition active_session :: "('w, 'v) env \<Rightarrow> 'w \<Rightarrow> string option" where
  "active_session E w = or_else (Option.bind (tm_active_target (en_targets E w)) tr_session_id) (en_session E w)"

section \<open>The probes\<close>

text \<open>The scripts \<open>is_satisfied\<close> evaluates in the page; selectors and texts are JSON-quoted.\<close>

definition exists_js :: "('w, 'v) env \<Rightarrow> string \<Rightarrow> string" where
  "exists_js E sel = ''!!document.querySelector('' @ en_quote E sel @ '')''"

definition visible_js :: "('w, 'v) env \<Rightarrow> string \<Rightarrow> string" where
  \<open>visible_js E sel =
     ''(() => { const el=document.querySelector('' @ en_quote E sel @
     ''); if(!el) return false; const r=el.getBoundingClientRect(); const s=getComputedStyle(el);'' @
     '' return r.width>0 && r.height>0 && s.visibility!=='hidden' && s.display!=='none' '' @
     ''&& s.opacity!=='0'; })()''\<close>

definition enabled_js :: "('w, 'v) env \<Rightarrow> string \<Rightarrow> string" where
  \<open>enabled_js E sel =
     ''(() => { const el=document.querySelector('' @ en_quote E sel @
     ''); if(!el) return false; return !el.disabled && el.getAttribute('aria-disabled')!=='true';'' @ '' })()''\<close>

definition text_js :: "('w, 'v) env \<Rightarrow> string \<Rightarrow> string \<Rightarrow> string" where
  \<open>text_js E sel t =
     ''(() => { const el=document.querySelector('' @ en_quote E sel @
     ''); if(!el) return false; const t=(el.textContent||el.innerText||'' @ [CHR 0x27, CHR 0x27] @
     ''); return t.includes('' @ en_quote E t @ ''); })()''\<close>

definition attribute_js :: "('w, 'v) env \<Rightarrow> string \<Rightarrow> string \<Rightarrow> string \<Rightarrow> string" where
  \<open>attribute_js E sel a v =
     ''(() => { const el=document.querySelector('' @ en_quote E sel @
     ''); if(!el) return false; return el.getAttribute('' @ en_quote E a @ '')=== '' @ en_quote E v @ ''; })()''\<close>

text \<open>\<open>Runtime.evaluate\<close> of a script, by value; and what its answer holds.\<close>

definition evaluate ::
  "('w, 'v) env \<Rightarrow> string option \<Rightarrow> string \<Rightarrow> ('w, 'v runtime_result) io" where
  "evaluate E sid js = io_call E sid ''Runtime.evaluate''
     (j_obj (en_json E) [(''expression'', j_str (en_json E) js), (''returnByValue'', j_bool (en_json E) True)])"

definition evaluate_await ::
  "('w, 'v) env \<Rightarrow> string option \<Rightarrow> string \<Rightarrow> ('w, 'v runtime_result) io" where
  "evaluate_await E sid js = io_call E sid ''Runtime.evaluate''
     (j_obj (en_json E) [(''expression'', j_str (en_json E) js), (''returnByValue'', j_bool (en_json E) True),
                         (''awaitPromise'', j_bool (en_json E) True)])"

definition result_value :: "'v json_ops \<Rightarrow> 'v \<Rightarrow> 'v option" where
  "result_value J v = Option.bind (j_get J v ''result'') (\<lambda>r. j_get J r ''value'')"

definition value_str :: "'v json_ops \<Rightarrow> 'v \<Rightarrow> string option" where
  "value_str J v = or_else (Option.bind (result_value J v) (j_as_str J)) (get_str J v ''value'')"

definition is_truthy :: "('w, 'v) env \<Rightarrow> 'v \<Rightarrow> bool" where
  "is_truthy E v =
     (case en_as_bool E v of
        Some b \<Rightarrow> b
      | None \<Rightarrow>
          (case en_as_number E v of
             Some n \<Rightarrow> n \<noteq> 0
           | None \<Rightarrow>
               (case j_as_str (en_json E) v of
                  Some s \<Rightarrow> s \<noteq> [] \<and> s \<noteq> ''false'' \<and> s \<noteq> ''0''
                | None \<Rightarrow>
                    if en_is_null E v then False
                    else (case j_as_array (en_json E) v of
                            Some a \<Rightarrow> a \<noteq> []
                          | None \<Rightarrow> unwrap_or 0 (en_object_len E v) \<noteq> 0))))"

section \<open>Checking\<close>

definition probe :: "(('w, 'v runtime_result) io) \<Rightarrow> ('v \<Rightarrow> 'w \<Rightarrow> bool) \<Rightarrow> ('w \<Rightarrow> bool) \<Rightarrow> ('w, bool) io" where
  "probe m f g = io_bind m (\<lambda>r. io_get (\<lambda>w. case r of Inl _ \<Rightarrow> g w | Inr v \<Rightarrow> f v w))"

definition probe_bool :: "('w, 'v) env \<Rightarrow> string option \<Rightarrow> string \<Rightarrow> ('w, bool) io" where
  "probe_bool E sid js = probe (evaluate E sid js)
     (\<lambda>v _. unwrap_or False (Option.bind (result_value (en_json E) v) (en_as_bool E))) (\<lambda>_. False)"

definition probe_text :: "('w, 'v) env \<Rightarrow> string option \<Rightarrow> string \<Rightarrow> (string \<Rightarrow> bool) \<Rightarrow> ('w \<Rightarrow> bool) \<Rightarrow> ('w, bool) io" where
  "probe_text E sid js f g = probe (evaluate E sid js) (\<lambda>v _. f (unwrap_or [] (value_str (en_json E) v))) g"

definition is_cached_only :: "wait_condition \<Rightarrow> bool" where
  "is_cached_only cond =
     (case cond of
        DomVersionAtLeast _ \<Rightarrow> True | FrameTreeVersionAtLeast _ \<Rightarrow> True
      | FrameTreeVersionAtLeastForFrame _ _ \<Rightarrow> True | NavigationComplete \<Rightarrow> True | LifecycleIs _ \<Rightarrow> True
      | TargetExists _ \<Rightarrow> True | TargetDestroyed _ \<Rightarrow> True | _ \<Rightarrow> False)"

definition live_probe :: "('w, 'v) env \<Rightarrow> string option \<Rightarrow> wait_condition \<Rightarrow> ('w, bool) io" where
  "live_probe E sid cond =
     (case cond of
        UrlContains needle \<Rightarrow> probe_text E sid ''location.href'' (\<lambda>s. str_contains s needle) (\<lambda>_. False)
      | UrlEquals expected \<Rightarrow> probe_text E sid ''location.href'' (\<lambda>s. s = expected) (\<lambda>_. False)
      | TitleContains needle \<Rightarrow>
          probe_text E sid ''document.title'' (\<lambda>s. str_contains s needle)
            (\<lambda>w. case tm_active_target (en_targets E w) of None \<Rightarrow> False | Some t \<Rightarrow> str_contains (tr_title t) needle)
      | ElementExists sel \<Rightarrow> probe_bool E sid (exists_js E sel)
      | ElementVisible sel \<Rightarrow> probe_bool E sid (visible_js E sel)
      | ElementEnabled sel \<Rightarrow> probe_bool E sid (enabled_js E sel)
      | ElementText sel t \<Rightarrow> probe_bool E sid (text_js E sel t)
      | AttributeEquals sel a v \<Rightarrow> probe_bool E sid (attribute_js E sel a v)
      | ExpressionTrue js \<Rightarrow>
          probe (evaluate_await E sid js)
            (\<lambda>v _. is_truthy E (unwrap_or (unwrap_or (j_null (en_json E)) (j_get (en_json E) v ''value''))
                                          (result_value (en_json E) v)))
            (\<lambda>_. False)
      | _ \<Rightarrow> io_return False)"

definition is_satisfied :: "('w, 'v) env \<Rightarrow> wait_condition \<Rightarrow> ('w, bool) io" where
  "is_satisfied E cond =
     io_bind (io_get (\<lambda>w. (is_satisfied_cached E w cond, active_session E w))) (\<lambda>(cached, sid).
       if cached = Some True then io_return True
       else if cached = Some False \<and> is_cached_only cond then io_return False
       else live_probe E sid cond)"

definition event_name :: "('w, 'v) env \<Rightarrow> 'v cdp_event \<Rightarrow> string" where
  "event_name E ev = unwrap_or [] (get_str (en_json E) (ev_params ev) ''name'')"

definition event_target :: "('w, 'v) env \<Rightarrow> 'v cdp_event \<Rightarrow> string" where
  "event_target E ev = unwrap_or [] (Option.bind (j_get (en_json E) (ev_params ev) ''targetInfo'')
     (\<lambda>i. get_str (en_json E) i ''targetId''))"

definition lifecycle_matches :: "('w, 'v) env \<Rightarrow> string \<Rightarrow> 'v cdp_event \<Rightarrow> bool" where
  "lifecycle_matches E name ev =
     (if ev_method ev \<noteq> ''Page.lifecycleEvent'' then False
      else if event_name E ev = name then True
      else name = ''complete'' \<and> event_name E ev = ''load'')"

definition event_matches :: "('w, 'v) env \<Rightarrow> wait_condition \<Rightarrow> 'v cdp_event \<Rightarrow> bool" where
  "event_matches E cond ev =
     (case cond of
        DialogAppeared \<Rightarrow> ev_method ev = ''Page.javascriptDialogOpening''
      | LifecycleIs name \<Rightarrow> lifecycle_matches E name ev
      | NavigationComplete \<Rightarrow>
          ev_method ev = ''Page.lifecycleEvent''
          \<and> event_name E ev \<in> set [''load'', ''networkIdle'', ''networkAlmostIdle'']
      | TargetExists tid \<Rightarrow>
          (ev_method ev = ''Target.targetCreated'' \<or> ev_method ev = ''Target.attachedToTarget'') \<and> event_target E ev = tid
      | TargetDestroyed tid \<Rightarrow>
          ev_method ev = ''Target.targetDestroyed''
          \<and> unwrap_or [] (get_str (en_json E) (ev_params ev) ''targetId'') = tid
      | _ \<Rightarrow> False)"

definition engine_wait ::
  "('w, 'v) env \<Rightarrow> wait_condition \<Rightarrow> nat \<Rightarrow> ('w, 'v cdp_event option runtime_result) io" where
  "engine_wait E cond ms = wait_for E (is_satisfied E cond) (event_matches E cond) ms"

definition wait_json :: "('w, 'v) env \<Rightarrow> wait_condition \<Rightarrow> nat \<Rightarrow> ('w, 'v runtime_result) io" where
  "wait_json E cond ms =
     (let J = en_json E in
      io_try (engine_wait E cond ms) (\<lambda>res. io_return (Inr (j_obj J
        [(''condition'', j_str J (condition_kind cond)), (''satisfied'', j_bool J True),
         (''via'', j_str J (case res of Some ev \<Rightarrow> ev_method ev | None \<Rightarrow> ''check'')),
         (''sequence'', j_u64 J (case res of Some ev \<Rightarrow> ev_sequence ev | None \<Rightarrow> 0))]))))"

section \<open>Lifecycle waits\<close>

definition lifecycle_reached :: "string \<Rightarrow> dom_state \<Rightarrow> bool" where
  "lifecycle_reached desired ds =
     (ds_lifecycle_state ds = desired
      \<or> (desired = ''complete'' \<and> (ds_lifecycle_state ds = ''load'' \<or> ds_ready_state ds = ''complete'')))"

text \<open>\<open>wait_for_lifecycle_state\<close> and its alias.\<close>

definition wait_for_lifecycle :: "('w, 'v) env \<Rightarrow> string \<Rightarrow> nat \<Rightarrow> ('w, unit runtime_result) io" where
  "wait_for_lifecycle E desired ms =
     io_try (wait_for E (io_get (\<lambda>w. lifecycle_reached desired (w_ds (en_shared E w)))) (lifecycle_matches E desired) ms)
       (\<lambda>_. io_return (Inr ()))"

definition wait_for_navigation_complete :: "('w, 'v) env \<Rightarrow> nat \<Rightarrow> ('w, unit runtime_result) io" where
  "wait_for_navigation_complete E ms = wait_for_lifecycle E ''load'' ms"

text \<open>
  The waiters of \<open>DomState\<close> (\<open>wait_for\<close> with a check that does not await, \<open>wait_for_lifecycle\<close>, which
  repeats the one above, \<open>wait_for_navigation\<close>) and those of \<open>EventDispatcher\<close>.
\<close>

definition wait_for_checked ::
  "('w, 'v) env \<Rightarrow> ('w \<Rightarrow> bool) \<Rightarrow> ('v cdp_event \<Rightarrow> bool) \<Rightarrow> nat \<Rightarrow> ('w, 'v cdp_event option runtime_result) io" where
  "wait_for_checked E check matches ms = wait_for E (io_get check) matches ms"

definition dom_wait_for_lifecycle :: "('w, 'v) env \<Rightarrow> string \<Rightarrow> nat \<Rightarrow> ('w, unit runtime_result) io" where
  "dom_wait_for_lifecycle E desired ms =
     io_try (wait_for E
        (io_get (\<lambda>w. let ds = w_ds (en_shared E w); ls = ds_lifecycle_state ds in
           if ls = desired then True
           else if desired = ''complete'' then ls = ''load'' \<or> ds_ready_state ds = ''complete''
           else False))
        (\<lambda>ev. if ev_method ev \<noteq> ''Page.lifecycleEvent'' then False
              else event_name E ev = desired \<or> (desired = ''complete'' \<and> event_name E ev = ''load'')) ms)
       (\<lambda>_. io_return (Inr ()))"

definition dom_wait_for_navigation :: "('w, 'v) env \<Rightarrow> nat \<Rightarrow> ('w, unit runtime_result) io" where
  "dom_wait_for_navigation E ms = dom_wait_for_lifecycle E ''load'' ms"

definition dispatcher_wait_for_lifecycle :: "('w, 'v) env \<Rightarrow> string \<Rightarrow> nat \<Rightarrow> ('w, unit runtime_result) io" where
  "dispatcher_wait_for_lifecycle E desired ms = wait_for_lifecycle E desired ms"

text \<open>The copies agree.\<close>

lemma dom_wait_for_lifecycle_eq: "dom_wait_for_lifecycle E desired ms = wait_for_lifecycle E desired ms"
proof -
  have "(\<lambda>w. let ds = w_ds (en_shared E w); ls = ds_lifecycle_state ds in
           if ls = desired then True
           else if desired = ''complete'' then ls = ''load'' \<or> ds_ready_state ds = ''complete'' else False)
      = (\<lambda>w. lifecycle_reached desired (w_ds (en_shared E w)))"
    by (auto simp: lifecycle_reached_def Let_def fun_eq_iff)
  moreover have "(\<lambda>ev. if ev_method ev \<noteq> ''Page.lifecycleEvent'' then False
        else event_name E ev = desired \<or> (desired = ''complete'' \<and> event_name E ev = ''load'')) = lifecycle_matches E desired"
    by (auto simp: lifecycle_matches_def fun_eq_iff)
  ultimately show ?thesis by (simp only: dom_wait_for_lifecycle_def wait_for_lifecycle_def)
qed

end
