(* ===== verification/Wait_Props.thy ===== *)
theory Wait_Props
  imports Wait
begin

text \<open>
  What the waiting primitive promises: it answers truly, it returns when the clock advances, and what
  the engine's cached check lets through.
\<close>

section \<open>The loop answers truly\<close>

definition wait_answer ::
  "('w, 'v) env \<Rightarrow> ('w, bool) io \<Rightarrow> ('v cdp_event \<Rightarrow> bool) \<Rightarrow> nat option \<Rightarrow> nat \<Rightarrow> nat
   \<Rightarrow> 'v cdp_event option runtime_result \<Rightarrow> 'w \<Rightarrow> bool" where
  "wait_answer E check matches dl ms deadline r w' =
     (case r of
        Inl e \<Rightarrow> e = wait_timeout ms \<and> deadline \<le> en_now E w' \<or> e = wait_closed
      | Inr None \<Rightarrow> (\<exists>w1. check dl w1 = Some (Done True, w'))
      | Inr (Some ev) \<Rightarrow> matches ev \<or> (\<exists>w1. check dl w1 = Some (Done True, w')))"

lemma wait_loop_answer:
  assumes "wait_loop E check matches ms deadline dl w = Some y"
  shows "\<forall>r w'. y = (Done r, w') \<longrightarrow> wait_answer E check matches dl ms deadline r w'"
proof (rule wait_loop.raw_induct [where P = "\<lambda>E check matches ms deadline dl w y.
      \<forall>r w'. y = (Done r, w') \<longrightarrow> wait_answer E check matches dl ms deadline r w'", OF _ assms])
  fix loop E check matches ms deadline dl w y
  assume IH: "\<And>E check matches ms deadline dl w y. loop E check matches ms deadline dl w = Some y \<Longrightarrow>
      \<forall>r w'. y = (Done r, w') \<longrightarrow> wait_answer E check matches dl ms deadline r w'"
    and body: "(if deadline \<le> en_now E w then Some (Done (Inl (wait_timeout ms)), w)
      else Option.bind (io_wake E (min 100 (deadline - en_now E w)) dl w) (\<lambda>(r, w).
        case r of
          Cut \<Rightarrow> Some (Cut, w)
        | Done wk \<Rightarrow>
            (case wk of
               ChannelClosed \<Rightarrow> Some (Done (Inl wait_closed), w)
             | Woken ev \<Rightarrow>
                 if matches ev then Some (Done (Inr (Some ev)), w)
                 else Option.bind (check dl w) (\<lambda>(r, w).
                   case r of
                     Cut \<Rightarrow> Some (Cut, w)
                   | Done ok \<Rightarrow> if ok then Some (Done (Inr (Some ev)), w) else loop E check matches ms deadline dl w)
             | _ \<Rightarrow>
                 Option.bind (check dl w) (\<lambda>(r, w).
                   case r of
                     Cut \<Rightarrow> Some (Cut, w)
                   | Done ok \<Rightarrow> if ok then Some (Done (Inr None), w) else loop E check matches ms deadline dl w)))) = Some y"
  have checked: "\<forall>r w'. y = (Done r, w') \<longrightarrow> wait_answer E check matches dl ms deadline r w'"
    if step: "Option.bind (check dl w1) (\<lambda>(r, w2). case r of Cut \<Rightarrow> Some (Cut, w2)
              | Done ok \<Rightarrow> if ok then Some (Done (Inr x), w2) else loop E check matches ms deadline dl w2) = Some y" for x w1
  proof -
    obtain r w2 where c: "check dl w1 = Some (r, w2)" using step by (auto simp: bind_eq_Some_conv)
    show ?thesis
    proof (cases r)
      case Cut
      then show ?thesis using step c by auto
    next
      case (Done ok)
      then show ?thesis using step c IH [of E check matches ms deadline dl w2 y]
        by (cases x) (auto simp: wait_answer_def split: if_splits)
    qed
  qed
  show "\<forall>r w'. y = (Done r, w') \<longrightarrow> wait_answer E check matches dl ms deadline r w'"
  proof (cases "deadline \<le> en_now E w")
    case True
    then show ?thesis using body by (auto simp: wait_answer_def)
  next
    case False
    then obtain r1 w1 where wk: "io_wake E (min 100 (deadline - en_now E w)) dl w = Some (r1, w1)"
      using body by (auto simp: bind_eq_Some_conv)
    show ?thesis
    proof (cases r1)
      case Cut
      then show ?thesis using body wk False by auto
    next
      case (Done wake)
      show ?thesis
      proof (cases wake)
        case (Woken ev)
        then show ?thesis
          using body wk False Done checked [of w1 "Some ev"] by (cases "matches ev") (auto simp: wait_answer_def)
      qed (use body wk False Done checked [of w1 None] in \<open>auto simp: wait_answer_def\<close>)
    qed
  qed
qed

text \<open>The two checks before the loop.\<close>

lemma wait_for_cases:
  assumes "wait_for E check matches ms dl w = Some (r, w')"
  obtains (now) w1 where "check dl w1 = Some (Done True, w')" "r = Done (Inr None)"
    | (cut) w1 where "check dl w1 = Some (Cut, w')" "r = Cut"
    | (loop) w1 w0 where "check dl w1 = Some (Done False, w0)" "wait_loop E check matches ms (en_now E w0 + ms) dl w0 = Some (r, w')"
proof -
  obtain r1 w1 where c1: "check dl w = Some (r1, w1)"
    using assms by (cases "check dl w") (auto simp: wait_for_def io_bind_def)
  consider (cut1) "r1 = Cut" | (yes) "r1 = Done True" | (no) "r1 = Done False" by (cases r1) auto
  then show thesis
  proof cases
    case no
    obtain r2 w2 where c2: "check dl w1 = Some (r2, w2)"
      using assms c1 no by (cases "check dl w1") (auto simp: wait_for_def io_bind_def)
    consider (cut2) "r2 = Cut" | (yes2) "r2 = Done True" | (no2) "r2 = Done False" by (cases r2) auto
    then show thesis
      using assms c1 c2 no now [of w1] cut [of w1] loop [of w1 w2]
      by cases (auto simp: wait_for_def io_bind_def io_return_def)
  qed (use assms c1 now [of w] cut [of w] in \<open>auto simp: wait_for_def io_bind_def io_return_def\<close>)
qed

section \<open>The loop returns\<close>

lemma wait_loop_returns:
  assumes wake: "\<And>ms w. en_now E w < en_now E (snd (en_wake E dl ms w))"
    and check: "\<And>w. \<exists>r w'. check dl w = Some (r, w') \<and> en_now E w \<le> en_now E w'"
  shows "wait_loop E check matches ms deadline dl w \<noteq> None"
proof (induction "deadline - en_now E w" arbitrary: w rule: less_induct)
  case less
  show ?case
  proof (cases "deadline \<le> en_now E w")
    case True
    then show ?thesis by (simp add: wait_loop.simps)
  next
    case False
    obtain x w1 where k: "en_wake E dl (min 100 (deadline - en_now E w)) w = (x, w1)" by fastforce
    have later: "en_now E w < en_now E w1" using wake [of w "min 100 (deadline - en_now E w)"] k by simp
    obtain r w2 where c: "check dl w1 = Some (r, w2)" "en_now E w1 \<le> en_now E w2" using check by blast
    have "wait_loop E check matches ms deadline dl w2 \<noteq> None"
      using less [of w2] later c(2) False by (simp add: diff_less_mono2)
    then show ?thesis
      using False k c(1)
      by (subst wait_loop.simps) (simp add: io_wake_def await_def split: option.split wake.split run.split)
  qed
qed

section \<open>A sample environment\<close>

text \<open>
  The world is a clock and the shared state; every call takes a millisecond and answers the string
  of its parameters' script, every wait ends with the tick.
\<close>

definition sample_env :: "(nat \<times> world, json) env" where
  "sample_env = \<lparr>en_json = std_json, en_display = json_debug, en_quote = debug_str, en_quotes = debug_strs,
     en_as_bool = (\<lambda>v. case v of JBool b \<Rightarrow> Some b | _ \<Rightarrow> None), en_is_null = (\<lambda>v. v = JNull), en_number = JReal,
     en_as_number = (\<lambda>v. case v of JReal q \<Rightarrow> Some q | JNum n \<Rightarrow> Some (of_int n) | _ \<Rightarrow> None), en_object_len = (\<lambda>v. case v of JObj kvs \<Rightarrow> Some (length kvs) | _ \<Rightarrow> None),
     en_f64_text = (\<lambda>_. ''0''), en_url_error = (\<lambda>_. None),
     en_call = (\<lambda>dl sid m p (t, s). (Some (Inr (JObj [(''result'', JObj [(''value'', JStr ''complete'')])])), (t + 1, s))),
     en_sleep = (\<lambda>dl ms (t, s). (Some (), (t + ms, s))), en_wake = (\<lambda>dl ms (t, s). (Some Tick, (t + ms + 1, s))),
     en_now = fst, en_session = (\<lambda>_. Some ''s1''), en_cancelled = (\<lambda>_. False), en_shared = snd,
     en_targets = (\<lambda>_. target_manager_new None), en_order = (\<lambda>m. m),
     en_target_order = (\<lambda>m. m)\<rparr>"

definition sample_world :: world where
  "sample_world = \<lparr>w_ds = dom_state_new, w_fm = frame_manager_new, w_idx = element_index_new\<rparr>"

section \<open>Properties\<close>

text \<open>
  C23: \<open>wait_for\<close> answers truly. A success is either an event the predicate accepts or a check that has
  just returned true in the current state; a timeout is reported only after the condition had been
  checked false and the full timeout has passed since; and no other error but a closed channel occurs.
\<close>

theorem wait_for_sound:
  assumes "wait_for E check matches ms dl w = Some (Done r, w')"
  shows "case r of
      Inr None \<Rightarrow> \<exists>w1. check dl w1 = Some (Done True, w')
    | Inr (Some ev) \<Rightarrow> matches ev \<or> (\<exists>w1. check dl w1 = Some (Done True, w'))
    | Inl e \<Rightarrow> e = wait_closed \<or>
        e = wait_timeout ms \<and> (\<exists>w1 w0. check dl w1 = Some (Done False, w0) \<and> en_now E w0 + ms \<le> en_now E w')"
  using assms
proof (cases rule: wait_for_cases)
  case (loop w1 w0)
  then show ?thesis
    using wait_loop_answer [OF loop(2)] by (auto simp: wait_answer_def split: sum.splits option.splits; blast)
qed auto

theorem wait_for_sound_witness:
  "\<exists>r w'. wait_for sample_env (io_return False) (\<lambda>_. False) 250 None (0, sample_world) = Some (Done r, w')
     \<and> r = Inl (wait_timeout 250) \<and> 250 \<le> en_now sample_env w'"
proof -
  let ?w = "(251, sample_world)"
  have run: "wait_for sample_env (io_return False) (\<lambda>_. False) 250 None (0, sample_world) = Some (Done (Inl (wait_timeout 250)), ?w)"
    by (simp add: wait_for_def io_bind_def io_return_def wait_loop.simps io_wake_def await_def sample_env_def)
  show ?thesis using wait_for_sound [OF run] run by (auto simp: sample_env_def wait_timeout_def wait_closed_def)
qed

text \<open>
  C24: \<open>wait_for\<close> always returns, provided the clock advances between two wake-ups and the check itself
  returns: it cannot wait past its deadline whatever events arrive.
\<close>

theorem wait_for_returns:
  assumes "\<And>ms w. en_now E w < en_now E (snd (en_wake E dl ms w))"
    and "\<And>w. \<exists>r w'. check dl w = Some (r, w') \<and> en_now E w \<le> en_now E w'"
  shows "\<exists>r w'. wait_for E check matches ms dl w = Some (r, w')"
proof -
  obtain r1 w1 where c1: "check dl w = Some (r1, w1)" using assms(2) by blast
  obtain r2 w2 where c2: "check dl w1 = Some (r2, w2)" using assms(2) by blast
  have "wait_loop E check matches ms (en_now E w2 + ms) dl w2 \<noteq> None" by (rule wait_loop_returns) (rule assms)+
  then have "wait_for E check matches ms dl w \<noteq> None"
    using c1 c2 by (auto simp: wait_for_def io_bind_def io_return_def split: run.split)
  then show ?thesis by auto
qed

theorem wait_for_returns_witness:
  "\<exists>r w'. wait_for sample_env (is_satisfied sample_env DialogAppeared) (event_matches sample_env DialogAppeared) 250 None
     (0, sample_world) = Some (r, w')"
  by (rule wait_for_returns)
    (auto simp: sample_env_def is_satisfied_def io_bind_def io_get_def io_return_def is_satisfied_cached_def live_probe_def
      is_cached_only_def Let_def split_beta)

text \<open>
  The engine's fast path. A condition that the cached state already grants is granted at once, with
  no event and no probe; so a wait for a URL is granted by any tab, also one in the background, and a
  wait for an element by any entry of the index, also one that is stale.
\<close>

lemma cached_wait_is_immediate:
  "(is_satisfied_cached E w cond = Some True \<longrightarrow> engine_wait E cond ms dl w = Some (Done (Inr None), w))
   \<and> (t \<in> set (tm_list_targets (en_target_order E) (en_targets E w)) \<and> str_contains (tr_url t) needle \<longrightarrow>
        engine_wait E (UrlContains needle) ms dl w = Some (Done (Inr None), w))
   \<and> (r \<in> set (ei_find_all (en_order E) (w_idx (en_shared E w))) \<longrightarrow>
        engine_wait E (ElementExists (er_selector r)) ms dl w = Some (Done (Inr None), w))"
proof -
  have now: "engine_wait E cond ms dl w = Some (Done (Inr None), w)" if "is_satisfied_cached E w cond = Some True" for cond
    using that by (simp add: engine_wait_def wait_for_def is_satisfied_def io_bind_def io_get_def io_return_def)
  moreover have "is_satisfied_cached E w (UrlContains needle) = Some True"
    if "t \<in> set (tm_list_targets (en_target_order E) (en_targets E w))" "str_contains (tr_url t) needle"
    using that by (auto simp: is_satisfied_cached_def Let_def list_ex_iff)
  moreover have "is_satisfied_cached E w (ElementExists (er_selector r)) = Some True"
    if "r \<in> set (ei_find_all (en_order E) (w_idx (en_shared E w)))"
    using that by (auto simp: is_satisfied_cached_def Let_def element_index_contains_def list_ex_iff row_contains_def)
  ultimately show ?thesis by blast
qed

end
