(* ===== verification/Plan.thy ===== *)
theory Plan
  imports Wait Journal Transport
begin

text \<open>
  \<open>src/browser_runtime/plan.rs\<close>: the steps of an execution plan, their tags, capabilities and
  validation, and the sequential execution against a browser. The decoding of plans from JSON is
  derived by \<open>serde\<close> and not modelled. An \<open>f64\<close> of a decoded plan is a rational number.
\<close>

section \<open>Steps\<close>

datatype plan_step =
    Navigate string
  | Click "string option" "string option" "string option"
  | Type string "string option" "string option" bool
  | Fill string string bool
  | Select "string option" "string option" "string list"
  | Press string
  | Hover "string option" "string option" "string option"
  | Wait "rat option" "string option" "string option" "string option" "u64 option"
  | Eval string
  | Extract "string option" "string option" "string option" "string option"
  | GoBack
  | GoForward
  | Tabs
  | Snapshot "nat option"

fun step_tag :: "plan_step \<Rightarrow> string" where
  "step_tag (Navigate _) = ''navigate''"
| "step_tag (Click _ _ _) = ''click''"
| "step_tag (Type _ _ _ _) = ''type''"
| "step_tag (Fill _ _ _) = ''fill''"
| "step_tag (Select _ _ _) = ''select''"
| "step_tag (Press _) = ''press''"
| "step_tag (Hover _ _ _) = ''hover''"
| "step_tag (Wait _ _ _ _ _) = ''wait''"
| "step_tag (Eval _) = ''eval''"
| "step_tag (Extract _ _ _ _) = ''extract''"
| "step_tag GoBack = ''go_back''"
| "step_tag GoForward = ''go_forward''"
| "step_tag Tabs = ''tabs''"
| "step_tag (Snapshot _) = ''snapshot''"

fun step_capability :: "plan_step \<Rightarrow> capability_class" where
  "step_capability (Navigate _) = Navigation"
| "step_capability GoBack = Navigation"
| "step_capability GoForward = Navigation"
| "step_capability (Eval _) = RuntimeEvaluate"
| "step_capability (Extract _ _ _ _) = RuntimeEvaluate"
| "step_capability (Type _ _ _ _) = RuntimeEvaluate"
| "step_capability (Fill _ _ _) = RuntimeEvaluate"
| "step_capability (Press _) = RuntimeEvaluate"
| "step_capability (Click _ _ _) = RuntimeEvaluate"
| "step_capability (Select _ _ _) = RuntimeEvaluate"
| "step_capability (Hover _ _ _) = RuntimeEvaluate"
| "step_capability Tabs = NoCapability"
| "step_capability (Snapshot _) = NoCapability"
| "step_capability (Wait _ _ _ _ _) = NoCapability"

section \<open>Validation\<close>

definition is_blank :: "string \<Rightarrow> bool" where
  "is_blank s = (str_trim s = [])"

text \<open>\<open>o.map(|s| !s.trim().is_empty()).unwrap_or(false)\<close>, and \<open>s.contains(":contains")\<close> of an option.\<close>

definition given :: "string option \<Rightarrow> bool" where
  "given x = (case x of None \<Rightarrow> False | Some s \<Rightarrow> \<not> is_blank s)"

definition has_contains :: "string option \<Rightarrow> bool" where
  "has_contains x = (case x of None \<Rightarrow> False | Some s \<Rightarrow> str_contains s '':contains'')"

definition validate_url :: "('w, 'v) env \<Rightarrow> string \<Rightarrow> string + unit" where
  "validate_url E url =
     (if is_blank url then Inl ''navigate: url must be non-empty''
      else if is_prefix_of ''http://'' url \<or> is_prefix_of ''https://'' url \<or> is_prefix_of ''file://'' url
              \<or> url = ''about:blank'' then
        (if is_prefix_of ''http'' url then
           (case en_url_error E url of
              None \<Rightarrow> Inr ()
            | Some e \<Rightarrow> Inl (''navigate: invalid url '' @ debug_str url @ '': '' @ e))
         else Inr ())
      else Inr ())"

fun step_validate :: "('w, 'v) env \<Rightarrow> plan_step \<Rightarrow> string + unit" where
  "step_validate E (Navigate url) = validate_url E url"
| "step_validate E (Click sel rf el) =
     (if \<not> (given sel \<or> given rf \<or> given el) then Inl ''click: need selector, ref, or element''
      else if has_contains sel then
        Inl (''click: selector must not contain :contains() '' @ em_dash @ '' use extract/text tier instead'')
      else Inr ())"
| "step_validate E (Type txt sel rf submit) =
     (if has_contains sel then Inl ''type: selector must not contain :contains()'' else Inr ())"
| "step_validate E (Fill sel txt submit) =
     (if is_blank sel then Inl ''fill: selector must be non-empty''
      else if str_contains sel '':contains'' then Inl ''fill: selector must not contain :contains()''
      else Inr ())"
| "step_validate E (Select sel rf vals) =
     (if vals = [] then Inl ''select: values must be non-empty''
      else if \<not> (given sel \<or> given rf) then Inl ''select: need selector or ref''
      else Inr ())"
| "step_validate E (Press key) = (if is_blank key then Inl ''press: key must be non-empty'' else Inr ())"
| "step_validate E (Hover sel rf el) =
     (if \<not> (given sel \<or> given rf \<or> given el) then Inl ''hover: need selector, ref, or element'' else Inr ())"
| "step_validate E (Wait time uc ue lc ms) =
     (case time of
        None \<Rightarrow> Inr ()
      | Some t \<Rightarrow> if t < 0 \<or> 300 < t then Inl (''wait: time '' @ en_f64_text E t @ '' out of range [0,300]'') else Inr ())"
| "step_validate E (Eval js) = (if is_blank js then Inl ''eval: expression must be non-empty'' else Inr ())"
| "step_validate E (Extract sel attr instr txt) =
     (if \<not> (given sel \<or> given instr \<or> given txt) then Inl ''extract: need selector, instruction, or text'' else Inr ())"
| "step_validate E GoBack = Inr ()"
| "step_validate E GoForward = Inr ()"
| "step_validate E Tabs = Inr ()"
| "step_validate E (Snapshot max_nodes) =
     (case max_nodes of
        None \<Rightarrow> Inr ()
      | Some n \<Rightarrow> if n = 0 \<or> 10000 < n then Inl (''snapshot: max_nodes '' @ show_nat n @ '' out of range'') else Inr ())"

record execution_plan =
  pl_steps :: "plan_step list"
  pl_step_index :: nat

definition plan_new :: "plan_step list \<Rightarrow> execution_plan" where
  "plan_new steps = \<lparr>pl_steps = steps, pl_step_index = 0\<rparr>"

fun validate_steps :: "('w, 'v) env \<Rightarrow> nat \<Rightarrow> plan_step list \<Rightarrow> string + unit" where
  "validate_steps E i [] = Inr ()"
| "validate_steps E i (s # ss) =
     (case step_validate E s of
        Inl e \<Rightarrow> Inl (''step '' @ show_nat i @ '' ('' @ step_tag s @ ''): '' @ e)
      | Inr _ \<Rightarrow> validate_steps E (Suc i) ss)"

definition plan_validate :: "('w, 'v) env \<Rightarrow> execution_plan \<Rightarrow> string + unit" where
  "plan_validate E p =
     (if pl_steps p = [] then Inl ''plan must have at least one step''
      else if 100 < length (pl_steps p) then
        Inl (''plan has '' @ show_nat (length (pl_steps p)) @ '' steps, max 100'')
      else validate_steps E 0 (pl_steps p))"

definition plan_capabilities :: "execution_plan \<Rightarrow> string list" where
  "plan_capabilities p = map (capability_as_str \<circ> step_capability) (pl_steps p)"

section \<open>Scripts\<close>

definition click_js :: "('w, 'v) env \<Rightarrow> string \<Rightarrow> string" where
  \<open>click_js E sel =
     ''(() => { const el=document.querySelector('' @ en_quote E sel @
     ''); if(!el) return {error:'not found', selector:'' @ en_quote E sel @
     ''}; el.click(); const r=el.getBoundingClientRect(); return {clicked:true, tag: el.tagName,'' @
     '' x: r.x, y: r.y}; })()''\<close>

definition type_js :: "('w, 'v) env \<Rightarrow> string \<Rightarrow> string \<Rightarrow> string \<Rightarrow> string" where
  \<open>type_js E sel txt sub =
     ''(() => {'' @ [CHR 0x0A] @ ''  let el=document.querySelector('' @ en_quote E sel @ '');'' @ [CHR 0x0A] @
     ''  if(!el) el=document.activeElement;'' @ [CHR 0x0A] @
     ''  if(!el || (el.tagName!=='INPUT' && el.tagName!=='TEXTAREA' && !el.isContentEditable)) '' @ ''{'' @
     [CHR 0x0A] @ ''    el=document.querySelector('input, textarea, [contenteditable=true]');'' @ [CHR 0x0A] @
     ''  }'' @ [CHR 0x0A] @ ''  if(!el) return {error:'no editable element'};'' @ [CHR 0x0A] @
     ''  el.focus();'' @ [CHR 0x0A] @ ''  if(el.isContentEditable) {'' @ [CHR 0x0A] @
     ''    document.execCommand('selectAll', false, null);'' @ [CHR 0x0A] @
     ''    document.execCommand('insertText', false, '' @ en_quote E txt @ '');'' @ [CHR 0x0A] @
     ''  } else {'' @ [CHR 0x0A] @ ''    el.value='' @ en_quote E txt @ '';'' @ [CHR 0x0A] @
     ''    el.dispatchEvent(new Event('input',{bubbles:true}));'' @ [CHR 0x0A] @
     ''    el.dispatchEvent(new Event('change',{bubbles:true}));'' @ [CHR 0x0A] @ ''  }'' @ [CHR 0x0A] @
     ''  if('' @ sub @ '') {'' @ [CHR 0x0A] @
     ''    el.dispatchEvent(new KeyboardEvent('keydown',{key:'Enter',code:'Enter',keyCode:13,'' @
     ''bubbles:true}));'' @ [CHR 0x0A] @ ''    // also submit form if present'' @ [CHR 0x0A] @
     ''    if(el.form) el.form.dispatchEvent(new Event('submit',{bubbles:true,cancelable:true}'' @ ''));'' @
     [CHR 0x0A] @ ''    // fallback: dispatch Enter on document'' @ [CHR 0x0A] @ ''    if('' @ sub @
     '') { el.dispatchEvent(new KeyboardEvent('keyup',{key:'Enter',bubbles:true})); }'' @ [CHR 0x0A] @
     ''  }'' @ [CHR 0x0A] @ ''  return {typed: '' @ en_quote E txt @
     ''.length, tag: el.tagName, value: (el.value||el.textContent||'' @ [CHR 0x27, CHR 0x27] @
     '').slice(0,500)};'' @ [CHR 0x0A] @ ''})()''\<close>

definition submit_js :: "string" where
  \<open>submit_js =
     ''(() => { const ae=document.activeElement; if(ae&&ae.form) { ae.form.submit(); return '' @
     ''true; } const f=document.querySelector('form'); if(f) { f.submit(); return true;'' @
     '' } return false; })()''\<close>

definition fill_js :: "('w, 'v) env \<Rightarrow> string \<Rightarrow> string \<Rightarrow> string \<Rightarrow> string" where
  \<open>fill_js E sel txt sub =
     ''(() => { const el=document.querySelector('' @ en_quote E sel @
     ''); if(!el) return {error:'not found'}; el.focus(); el.value='' @ en_quote E txt @
     ''; el.dispatchEvent(new Event('input',{bubbles:true})); el.dispatchEvent(new Event('change','' @
     ''{bubbles:true})); if('' @ sub @
     '') { if(el.form) el.form.submit(); else el.form&&el.form.dispatchEvent(new Event('submit','' @
     ''{bubbles:true})); } return {filled:true, value: el.value}; })()''\<close>

definition hover_js :: "('w, 'v) env \<Rightarrow> string \<Rightarrow> string" where
  \<open>hover_js E sel =
     ''(() => { const el=document.querySelector('' @ en_quote E sel @
     ''); if(!el) return {error:'not found'}; el.dispatchEvent(new MouseEvent('mouseover','' @
     ''{bubbles:true})); const r=el.getBoundingClientRect(); return {hovered:true, x:r.x,'' @ '' y:r.y}; })()''\<close>

definition select_js :: "('w, 'v) env \<Rightarrow> string \<Rightarrow> string list \<Rightarrow> string" where
  \<open>select_js E sel vals =
     ''(() => { const el=document.querySelector('' @ en_quote E sel @
     '') || document.querySelector('select'); if(!el) return {error:'no select'}; const '' @ ''vals='' @
     en_quotes E vals @
     ''; for(const o of el.options) { if(vals.includes(o.value) || vals.includes(o.text)) '' @
     ''o.selected=true; } el.dispatchEvent(new Event('change',{bubbles:true})); return '' @
     ''{selected: vals}; })()''\<close>

definition press_js :: "('w, 'v) env \<Rightarrow> string \<Rightarrow> string" where
  \<open>press_js E key =
     ''document.dispatchEvent(new KeyboardEvent('keydown',{key:'' @ en_quote E key @ '',bubbles:true}))''\<close>

definition enter_js :: "string" where
  \<open>enter_js =
     ''(() => { const ae=document.activeElement; if(ae&&ae.form) { ae.form.submit(); return '' @ [CHR 0x27] @
     ''submitted via ae.form'; } const f=document.querySelector('form'); if(f) { f.submit();'' @
     '' return 'submitted via query'; } // fallback: try to trigger via Enter on input'' @ [CHR 0x0A] @
     '' const el=document.activeElement;'' @ [CHR 0x0A] @
     '' if(el) { el.dispatchEvent(new KeyboardEvent('keydown',{key:'Enter',code:'Enter','' @
     ''bubbles:true})); el.dispatchEvent(new KeyboardEvent('keyup',{key:'Enter',bubbles:true}'' @ '')); }'' @
     [CHR 0x0A] @ '' return location.href; })()''\<close>

definition extract_attribute_js :: "('w, 'v) env \<Rightarrow> string \<Rightarrow> string \<Rightarrow> string" where
  \<open>extract_attribute_js E sel attr =
     ''(() => { const el=document.querySelector('' @ en_quote E sel @
     ''); if(!el) return {error:'not found'}; const a='' @ en_quote E attr @
     ''; return {value: el.getAttribute(JSON.parse(a))||'' @ [CHR 0x27, CHR 0x27] @ '', tag: el.tagName}; })()''\<close>

definition extract_js :: "('w, 'v) env \<Rightarrow> string \<Rightarrow> string" where
  \<open>extract_js E sel =
     ''(() => { const el=document.querySelector('' @ en_quote E sel @
     ''); if(!el) return {error:'not found', sel:'' @ en_quote E sel @
     ''}; const v=(el.value!==undefined? el.value : (el.textContent||el.innerText||'' @ [CHR 0x27, CHR 0x27] @
     '')); return {value: String(v).trim().slice(0,5000), tag: el.tagName, url: location.href}'' @ ''; })()''\<close>

definition snapshot_js :: "string" where
  \<open>snapshot_js =
     ''(() => {'' @ [CHR 0x0A] @ ''  const MAX=80;'' @ [CHR 0x0A] @ ''  const out=[];'' @ [CHR 0x0A] @
     ''  const walker=document.createTreeWalker(document.body, NodeFilter.SHOW_ELEMENT);'' @ [CHR 0x0A] @
     ''  let n=walker.currentNode;'' @ [CHR 0x0A] @ ''  let c=0;'' @ [CHR 0x0A] @ ''  while(n && c<MAX){'' @
     [CHR 0x0A] @ ''    const el=n;'' @ [CHR 0x0A] @ ''    const tag=el.tagName.toLowerCase();'' @ [CHR 0x0A] @
     ''    const role=el.getAttribute('role')||({'a':'link','button':'button','input':'textbox','' @
     [CHR 0x27] @ ''select':'combobox','textarea':'textbox'}[tag]||tag);'' @ [CHR 0x0A] @
     ''    const name=(el.getAttribute('aria-label')||el.innerText||el.value||'' @ [CHR 0x27, CHR 0x27] @
     '').trim().slice(0,120);'' @ [CHR 0x0A] @ ''    const rect=el.getBoundingClientRect();'' @ [CHR 0x0A] @
     ''    if(rect.width>0 && rect.height>0) out.push({role,name: name||tag, tag, x:Math.round(rect.x),'' @
     '' y:Math.round(rect.y)});'' @ [CHR 0x0A] @ ''    c++;'' @ [CHR 0x0A] @ ''    n=walker.nextNode();'' @
     [CHR 0x0A] @ ''  }'' @ [CHR 0x0A] @ ''  return out;'' @ [CHR 0x0A] @ ''})()''\<close>

section \<open>Waiting for the page\<close>

definition href_of :: "('w, 'v) env \<Rightarrow> string option \<Rightarrow> ('w, 'v runtime_result) io" where
  "href_of E sid = evaluate E sid ''location.href''"

definition nav_event :: "'v cdp_event \<Rightarrow> bool" where
  "nav_event ev = (ev_method ev = ''Page.frameNavigated'' \<or> ev_method ev = ''Page.lifecycleEvent'')"

definition script_check :: "('w, 'v) env \<Rightarrow> string \<Rightarrow> ('v \<Rightarrow> bool) \<Rightarrow> ('w, bool) io" where
  "script_check E js f =
     io_bind (io_get (en_session E)) (\<lambda>sid.
     io_bind (evaluate E sid js) (\<lambda>r. io_return (case r of Inl _ \<Rightarrow> False | Inr v \<Rightarrow> f v)))"

definition wait_for_url_contains :: "('w, 'v) env \<Rightarrow> string \<Rightarrow> nat \<Rightarrow> ('w, string + 'v) io" where
  "wait_for_url_contains E needle ms =
     (let J = en_json E in
      io_try (io_map_err error_display
        (wait_for E (script_check E ''location.href'' (\<lambda>v. case value_str J v of None \<Rightarrow> False | Some h \<Rightarrow> str_contains h needle))
           nav_event ms)) (\<lambda>_.
      io_bind (io_get (en_session E)) (\<lambda>sid.
      io_try (io_map_err error_display (href_of E sid)) (\<lambda>v.
        let href = unwrap_or [] (value_str J v) in
        io_return (if str_contains href needle
                   then Inr (j_obj J [(''url'', j_str J href), (''contains'', j_str J needle)])
                   else Inl (''wait_for_url timeout: location.href '' @ debug_str href @ '' never contained ''
                             @ debug_str needle))))))"

definition wait_for_url_equals :: "('w, 'v) env \<Rightarrow> string \<Rightarrow> nat \<Rightarrow> ('w, string + 'v) io" where
  "wait_for_url_equals E expected ms =
     (let J = en_json E; href_str = (\<lambda>v. Option.bind (result_value J v) (j_as_str J)) in
      io_try (io_map_err error_display
        (wait_for E (script_check E ''location.href'' (\<lambda>v. href_str v = Some expected)) nav_event ms)) (\<lambda>_.
      io_bind (io_get (en_session E)) (\<lambda>sid.
      io_try (io_map_err error_display (href_of E sid)) (\<lambda>v.
        let href = unwrap_or [] (href_str v) in
        io_return (if href = expected then Inr (j_obj J [(''url'', j_str J href)])
                   else Inl (''wait_for_url_equals timeout: expected '' @ debug_str expected @ '', got ''
                             @ debug_str href))))))"

text \<open>A timeout of this wait is not an error.\<close>

definition is_timeout_error :: "runtime_error \<Rightarrow> bool" where
  "is_timeout_error e = (case e of Timeout _ _ \<Rightarrow> True | _ \<Rightarrow> False)"

definition wait_for_ready_complete :: "('w, 'v) env \<Rightarrow> nat \<Rightarrow> ('w, string + unit) io" where
  "wait_for_ready_complete E ms =
     io_bind
       (wait_for E
          (script_check E ''document.readyState''
             (\<lambda>v. Option.bind (result_value (en_json E) v) (j_as_str (en_json E)) = Some ''complete''))
          (\<lambda>ev. ev_method ev = ''Page.lifecycleEvent'') ms)
       (\<lambda>r. io_return (case r of
            Inr _ \<Rightarrow> Inr ()
          | Inl e \<Rightarrow> if is_timeout_error e then Inr () else Inl (error_display e)))"

section \<open>Keys\<close>

definition upper_char :: "char \<Rightarrow> char" where
  "upper_char c = (if 97 \<le> (of_char c :: nat) \<and> (of_char c :: nat) \<le> 122
                   then char_of ((of_char c :: nat) - 32) else c)"

definition map_key :: "string \<Rightarrow> string \<times> string" where
  "map_key k =
     (let lower = to_lowercase k in
      if lower = ''enter'' then (''Enter'', ''Enter'')
      else if lower = ''escape'' \<or> lower = ''esc'' then (''Escape'', ''Escape'')
      else if lower = ''tab'' then (''Tab'', ''Tab'')
      else if lower = ''arrowleft'' then (''ArrowLeft'', ''ArrowLeft'')
      else if lower = ''arrowright'' then (''ArrowRight'', ''ArrowRight'')
      else if lower = ''arrowup'' then (''ArrowUp'', ''ArrowUp'')
      else if lower = ''arrowdown'' then (''ArrowDown'', ''ArrowDown'')
      else if lower = ''backspace'' then (''Backspace'', ''Backspace'')
      else if lower = ''delete'' \<or> lower = ''del'' then (''Delete'', ''Delete'')
      else if length k = 1 then (k, ''Key'' @ map upper_char k)
      else (k, k))"

definition dispatch_key :: "('w, 'v) env \<Rightarrow> string option \<Rightarrow> string \<Rightarrow> string \<Rightarrow> ('w, 'v runtime_result) io" where
  "dispatch_key E sid kind key =
     (let J = en_json E; (cdp_key, code) = map_key key in
      io_call E sid ''Input.dispatchKeyEvent''
        (j_obj J [(''type'', j_str J kind), (''key'', j_str J cdp_key), (''code'', j_str J code)]))"

section \<open>Executing one step\<close>

text \<open>
  \<open>.map_err(|e| e.to_string())?\<close> of a script's answer; the value it returned, or the whole answer; and
  the check for an \<open>error\<close> field in it.
\<close>

definition run_script :: "('w, 'v runtime_result) io \<Rightarrow> ('v \<Rightarrow> ('w, string + 'v) io) \<Rightarrow> ('w, string + 'v) io" where
  "run_script m f = io_try (io_map_err error_display m) f"

definition inner_value :: "('w, 'v) env \<Rightarrow> 'v \<Rightarrow> 'v" where
  "inner_value E v = unwrap_or v (result_value (en_json E) v)"

definition script_result :: "('w, 'v) env \<Rightarrow> string \<Rightarrow> 'v \<Rightarrow> string + 'v" where
  "script_result E what v =
     (let inner = inner_value E v in
      if j_get (en_json E) inner ''error'' \<noteq> None then Inl (what @ '': '' @ en_display E inner) else Inr inner)"

definition first_given :: "string option list \<Rightarrow> string \<Rightarrow> string" where
  "first_given xs d = unwrap_or d (foldr or_else xs None)"

definition click_this :: string where
  "click_this = ''function(){ this.click(); return this.tagName; }''"

text \<open>A selector of digits only is a backend node id.\<close>

definition click_backend :: "('w, 'v) env \<Rightarrow> string option \<Rightarrow> string \<Rightarrow> ('w, string + 'v) io" where
  "click_backend E sid sel =
     (let J = en_json E in
      case parse_i64 sel of
        None \<Rightarrow> io_return (Inl ''click: invalid backend id'')
      | Some backend \<Rightarrow>
          run_script (io_call E sid ''DOM.resolveNode'' (j_obj J [(''backendNodeId'', j_i64 J backend)])) (\<lambda>resolved.
            case Option.bind (j_get J resolved ''object'') (\<lambda>ob. get_str J ob ''objectId'') of
              None \<Rightarrow> io_return (Inl ''click: resolve failed missing objectId'')
            | Some oid \<Rightarrow>
                run_script (io_call E sid ''Runtime.callFunctionOn''
                    (j_obj J [(''objectId'', j_str J oid), (''functionDeclaration'', j_str J click_this),
                              (''returnByValue'', j_bool J True)])) (\<lambda>clicked.
                  io_then (io_call E sid ''Runtime.releaseObject'' (j_obj J [(''objectId'', j_str J oid)]))
                    (io_return (Inr clicked)))))"

definition submit_flag :: "bool \<Rightarrow> string" where
  "submit_flag b = (if b then ''true'' else ''false'')"

text \<open>\<open>sleep(Duration::from_secs_f64(t))\<close>, which panics on a negative or too large number of seconds.\<close>

definition sleep_secs :: "('w, 'v) env \<Rightarrow> rat \<Rightarrow> ('w, unit) io" where
  "sleep_secs E t = (if t < 0 \<or> 2 ^ 64 \<le> t then (\<lambda>dl w. None) else io_sleep E (nat \<lfloor>t * 1000\<rfloor>))"

definition wait_step :: "('w, 'v) env \<Rightarrow> plan_step \<Rightarrow> ('w, string + 'v) io" where
  "wait_step E step =
     (let J = en_json E in
      case step of
        Wait time uc ue lc ms \<Rightarrow>
          let timeout_ms = unat (unwrap_or 10000 ms) in
          if given uc then wait_for_url_contains E (the uc) timeout_ms
          else if given ue then wait_for_url_equals E (the ue) timeout_ms
          else if given lc then
            io_bind (dom_wait_for_lifecycle E (the lc) timeout_ms) (\<lambda>r.
              case r of
                Inr _ \<Rightarrow> io_return (Inr (j_obj J [(''lifecycle'', j_str J (the lc))]))
              | Inl _ \<Rightarrow>
                  if the lc = ''load'' \<or> the lc = ''complete'' then
                    io_try (wait_for_ready_complete E timeout_ms) (\<lambda>_.
                      io_return (Inr (j_obj J [(''lifecycle'', j_str J (the lc)), (''via'', j_str J ''poll'')])))
                  else io_return (Inl (''wait lifecycle '' @ the lc @ '' timeout'')))
          else (case time of
              Some t \<Rightarrow> io_then (sleep_secs E t) (io_return (Inr (j_obj J [(''waited'', en_number E t)])))
            | None \<Rightarrow> io_then (io_sleep E 200) (io_return (Inr (j_obj J [(''waited'', en_number E (1 / 5))]))))
      | _ \<Rightarrow> io_return (Inl []))"

definition history_step :: "('w, 'v) env \<Rightarrow> string option \<Rightarrow> string \<Rightarrow> ('w, string + 'v) io" where
  "history_step E sid js =
     run_script (evaluate E sid js) (\<lambda>v.
       io_then (dom_wait_for_lifecycle E ''load'' 5000) (io_return (Inr (inner_value E v))))"

definition press_step :: "('w, 'v) env \<Rightarrow> string option \<Rightarrow> string \<Rightarrow> ('w, string + 'v) io" where
  "press_step E sid key =
     (let J = en_json E in
      io_then (dispatch_key E sid ''keyDown'' key)
     (io_then (dispatch_key E sid ''keyUp'' key)
     (io_then (evaluate E sid (press_js E (fst (map_key key))))
       (if to_lowercase key = ''enter'' then
          io_then (evaluate E sid enter_js)
         (io_then (wait_for_ready_complete E 5000)
           (run_script (href_of E sid) (\<lambda>v. io_return (Inr (inner_value E v)))))
        else io_return (Inr (j_obj J [(''pressed'', j_str J key)]))))))"

definition snapshot_step :: "('w, 'v) env \<Rightarrow> string option \<Rightarrow> nat option \<Rightarrow> ('w, string + 'v) io" where
  "snapshot_step E sid max_nodes =
     (let J = en_json E; limit = unwrap_or 60 max_nodes in
      io_bind (io_call E sid ''Accessibility.getFullAXTree'' (j_obj J [])) (\<lambda>r.
        case (case r of Inl _ \<Rightarrow> None | Inr v \<Rightarrow> get_array J v ''nodes'') of
          Some (n # ns) \<Rightarrow>
            let slice = take limit (n # ns) in
            io_return (Inr (j_obj J [(''snapshot'', j_arr J slice), (''via'', j_str J ''Accessibility''),
                                     (''count'', j_u64 J (of_nat (length slice)))]))
        | _ \<Rightarrow> run_script (evaluate E sid snapshot_js) (\<lambda>v. io_return (Inr (inner_value E v)))))"

definition execute_step :: "('w, 'v) env \<Rightarrow> plan_step \<Rightarrow> ('w, string + 'v) io" where
  "execute_step E step =
     io_bind (io_get (en_session E)) (\<lambda>sid.
     let J = en_json E in
     case step of
       Navigate url \<Rightarrow>
         run_script (io_call E sid ''Page.navigate'' (j_obj J [(''url'', j_str J url)])) (\<lambda>res.
           io_then (dom_wait_for_lifecycle E ''load'' 5000)
          (io_then (wait_for_ready_complete E 8000) (io_return (Inr res))))
     | Click sel rf el \<Rightarrow>
         let s = first_given [sel, rf, el] [] in
         if is_blank s then io_return (Inl ''click: no selector'')
         else if list_all is_digit s then click_backend E sid s
         else run_script (evaluate_await E sid (click_js E s)) (\<lambda>v. io_return (script_result E ''click'' v))
     | Type txt sel rf submit \<Rightarrow>
         let s = first_given [sel, rf] ''input, textarea, [contenteditable]'' in
         run_script (evaluate_await E sid (type_js E s txt (submit_flag submit))) (\<lambda>v.
           case script_result E ''type'' v of
             Inl e \<Rightarrow> io_return (Inl e)
           | Inr inner \<Rightarrow>
               if submit then io_then (evaluate E sid submit_js)
                 (io_then (wait_for_ready_complete E 5000) (io_return (Inr inner)))
               else io_return (Inr inner))
     | Fill s txt submit \<Rightarrow>
         run_script (evaluate E sid (fill_js E s txt (submit_flag submit))) (\<lambda>v. io_return (script_result E ''fill'' v))
     | Select sel rf vals \<Rightarrow>
         run_script (evaluate E sid (select_js E (first_given [sel, rf] ''select'') vals))
           (\<lambda>v. io_return (script_result E ''select'' v))
     | Press key \<Rightarrow> press_step E sid key
     | Hover sel rf el \<Rightarrow>
         run_script (evaluate E sid (hover_js E (first_given [sel, rf, el] [])))
           (\<lambda>v. io_return (script_result E ''hover'' v))
     | Wait _ _ _ _ _ \<Rightarrow> wait_step E step
     | Eval js \<Rightarrow>
         run_script (evaluate_await E sid js) (\<lambda>v.
           io_return (case j_get J v ''exceptionDetails'' of
               Some exc \<Rightarrow> Inl (''eval exception: '' @ en_display E exc)
             | None \<Rightarrow> Inr (inner_value E v)))
     | Extract sel attr instr _ \<Rightarrow>
         let s = first_given [sel, instr] ''body'';
             js = (case attr of Some a \<Rightarrow> extract_attribute_js E s a | None \<Rightarrow> extract_js E s)
         in run_script (evaluate E sid js) (\<lambda>v. io_return (script_result E ''extract'' v))
     | GoBack \<Rightarrow> history_step E sid ''history.back(); location.href''
     | GoForward \<Rightarrow> history_step E sid ''history.forward(); location.href''
     | Tabs \<Rightarrow> run_script (io_call E None ''Target.getTargets'' (j_obj J [])) (\<lambda>v. io_return (Inr v))
     | Snapshot max_nodes \<Rightarrow> snapshot_step E sid max_nodes)"

section \<open>Executing a plan\<close>

record 'v plan_outcome =
  po_step_index :: nat
  po_step_type :: string
  po_capability :: string
  po_ok :: bool
  po_result :: "'v"
  po_error :: "string option"
  po_latency_ms :: u64

record 'v plan_result =
  pr_ok :: bool
  pr_steps_executed :: nat
  pr_total_steps :: nat
  pr_results :: "'v plan_outcome list"
  pr_final_url :: "string option"
  pr_final_title :: "string option"
  pr_dom_version :: u64
  pr_frame_tree_version :: u64

definition outcome_of :: "'v json_ops \<Rightarrow> nat \<Rightarrow> plan_step \<Rightarrow> string + 'v \<Rightarrow> nat \<Rightarrow> 'v plan_outcome" where
  "outcome_of J idx step r latency =
     \<lparr>po_step_index = idx, po_step_type = step_tag step, po_capability = capability_as_str (step_capability step),
      po_ok = is_ok r, po_result = (case r of Inl _ \<Rightarrow> j_null J | Inr v \<Rightarrow> v),
      po_error = (case r of Inl e \<Rightarrow> Some e | Inr _ \<Rightarrow> None), po_latency_ms = of_nat latency\<rparr>"

text \<open>The loop: it stops after the first step that fails.\<close>

fun run_steps :: "('w, 'v) env \<Rightarrow> nat \<Rightarrow> plan_step list \<Rightarrow> ('w, 'v plan_outcome list \<times> bool) io" where
  "run_steps E idx [] = io_return ([], True)"
| "run_steps E idx (s # ss) =
     io_bind (io_get (en_now E)) (\<lambda>start.
     io_bind (execute_step E s) (\<lambda>r.
     io_bind (io_get (en_now E)) (\<lambda>stop.
       let out = outcome_of (en_json E) idx s r (stop - start) in
       case r of
         Inl _ \<Rightarrow> io_return ([out], False)
       | Inr _ \<Rightarrow> io_bind (run_steps E (Suc idx) ss) (\<lambda>(outs, ok). io_return (out # outs, ok)))))"

definition fetch_url_title :: "('w, 'v) env \<Rightarrow> ('w, string option \<times> string option) io" where
  "fetch_url_title E =
     (let txt = (\<lambda>r. case r of Inl _ \<Rightarrow> None | Inr v \<Rightarrow> value_str (en_json E) v) in
      io_bind (io_get (en_session E)) (\<lambda>sid.
      io_bind (href_of E sid) (\<lambda>url.
      io_bind (evaluate E sid ''document.title'') (\<lambda>title. io_return (txt url, txt title)))))"

definition validation_failure :: "'v json_ops \<Rightarrow> string \<Rightarrow> 'v plan_outcome" where
  "validation_failure J e =
     \<lparr>po_step_index = 0, po_step_type = ''validate'', po_capability = ''none'', po_ok = False, po_result = j_null J,
      po_error = Some e, po_latency_ms = 0\<rparr>"

definition execute_with_runtime :: "('w, 'v) env \<Rightarrow> execution_plan \<Rightarrow> ('w, 'v plan_result) io" where
  "execute_with_runtime E p =
     (let versions = io_get (\<lambda>w. (ds_dom_version (w_ds (en_shared E w)), ds_frame_tree_version (w_ds (en_shared E w)))) in
      case plan_validate E p of
        Inl e \<Rightarrow>
          io_bind versions (\<lambda>(dv, fv). io_return
            \<lparr>pr_ok = False, pr_steps_executed = 0, pr_total_steps = length (pl_steps p),
             pr_results = [validation_failure (en_json E) e], pr_final_url = None, pr_final_title = None,
             pr_dom_version = dv, pr_frame_tree_version = fv\<rparr>)
      | Inr _ \<Rightarrow>
          io_bind (run_steps E 0 (pl_steps p)) (\<lambda>(results, ok).
          io_bind (fetch_url_title E) (\<lambda>(url, title).
          io_bind versions (\<lambda>(dv, fv). io_return
            \<lparr>pr_ok = ok, pr_steps_executed = length results, pr_total_steps = length (pl_steps p),
             pr_results = results, pr_final_url = url, pr_final_title = title,
             pr_dom_version = dv, pr_frame_tree_version = fv\<rparr>))))"

end
