(* ===== verification/Plan_Props.thy ===== *)
theory Plan_Props
  imports Plan Wait_Props
begin

text \<open>What validation guarantees of a plan, and what its sequential execution reports.\<close>

section \<open>Validation\<close>

lemma validate_steps_ok: "validate_steps E i ss = Inr () \<longleftrightarrow> (\<forall>s \<in> set ss. step_validate E s = Inr ())"
proof (induction ss arbitrary: i)
  case (Cons s ss)
  then show ?case by (cases "step_validate E s") auto
qed simp

lemma validate_steps_first:
  "validate_steps E i ss = Inl e \<Longrightarrow>
   \<exists>k d. k < length ss \<and> step_validate E (ss ! k) = Inl d \<and> (\<forall>j < k. step_validate E (ss ! j) = Inr ())
     \<and> e = ''step '' @ show_nat (i + k) @ '' ('' @ step_tag (ss ! k) @ ''): '' @ d"
proof (induction ss arbitrary: i)
  case (Cons s ss)
  show ?case
  proof (cases "step_validate E s")
    case (Inl d)
    then show ?thesis using Cons.prems by (intro exI [of _ 0]) auto
  next
    case (Inr u)
    then obtain k d where k: "k < length ss" "step_validate E (ss ! k) = Inl d" "\<forall>j < k. step_validate E (ss ! j) = Inr ()"
      "e = ''step '' @ show_nat (Suc i + k) @ '' ('' @ step_tag (ss ! k) @ ''): '' @ d"
      using Cons.IH [of "Suc i"] Cons.prems by auto
    have "\<forall>j < Suc k. step_validate E ((s # ss) ! j) = Inr ()"
      using k(3) Inr by (auto simp: less_Suc_eq_0_disj)
    then show ?thesis using k by (intro exI [of _ "Suc k"] exI [of _ d]) simp
  qed
qed simp

section \<open>The loop\<close>

lemma run_steps_shape:
  "run_steps E idx ss dl w = Some (Done (outs, ok), w') \<Longrightarrow>
   length outs \<le> length ss \<and> map po_step_index outs = [idx..<idx + length outs]
   \<and> map po_step_type outs = map step_tag (take (length outs) ss)
   \<and> (ok \<longleftrightarrow> length outs = length ss \<and> list_all po_ok outs)
   \<and> list_all po_ok (butlast outs) \<and> (\<not> ok \<longrightarrow> outs \<noteq> [] \<and> \<not> po_ok (last outs))"
proof (induction E idx ss arbitrary: outs ok w rule: run_steps.induct)
  case (2 E idx s ss)
  obtain r w1 where r: "execute_step E s dl w = Some (Done r, w1)" using 2(2) by auto
  show ?case
  proof (cases r)
    case (Inl e)
    then show ?thesis using 2(2) r by (auto simp: Let_def outcome_of_def)
  next
    case (Inr v)
    obtain outs' where rest: "run_steps E (Suc idx) ss dl w1 = Some (Done (outs', ok), w')"
      and outs: "outs = outcome_of (en_json E) idx s r (en_now E w1 - en_now E w) # outs'"
      using 2(2) r Inr by (auto simp: Let_def split: prod.splits)
    have IH: "length outs' \<le> length ss" "map po_step_index outs' = [Suc idx..<Suc idx + length outs']"
      "map po_step_type outs' = map step_tag (take (length outs') ss)"
      "ok \<longleftrightarrow> length outs' = length ss \<and> list_all po_ok outs'"
      "list_all po_ok (butlast outs')" "\<not> ok \<longrightarrow> outs' \<noteq> [] \<and> \<not> po_ok (last outs')"
      using 2(1) [OF refl Inr rest] by blast+
    have "[idx..<idx + length outs] = idx # [Suc idx..<Suc idx + length outs']"
      using outs by (simp add: upt_conv_Cons del: upt_Suc)
    then show ?thesis using IH outs Inr by (auto simp: outcome_of_def)
  qed
qed auto

section \<open>Properties\<close>

text \<open>
  Validation of a plan is exact. A plan is accepted just when it has 1 to 100 steps and each step is
  valid by itself; otherwise the error names the first invalid step by position and tag.
\<close>

lemma plan_validate_exact:
  "(plan_validate E p = Inr () \<longleftrightarrow>
      1 \<le> length (pl_steps p) \<and> length (pl_steps p) \<le> 100 \<and> (\<forall>s \<in> set (pl_steps p). step_validate E s = Inr ()))
   \<and> (plan_validate E p = Inl e \<longrightarrow> 1 \<le> length (pl_steps p) \<longrightarrow> length (pl_steps p) \<le> 100 \<longrightarrow>
       (\<exists>k d. k < length (pl_steps p) \<and> step_validate E (pl_steps p ! k) = Inl d
          \<and> (\<forall>j < k. step_validate E (pl_steps p ! j) = Inr ())
          \<and> e = ''step '' @ show_nat k @ '' ('' @ step_tag (pl_steps p ! k) @ ''): '' @ d))"
proof (intro conjI impI)
  show "plan_validate E p = Inr () \<longleftrightarrow>
      1 \<le> length (pl_steps p) \<and> length (pl_steps p) \<le> 100 \<and> (\<forall>s \<in> set (pl_steps p). step_validate E s = Inr ())"
    by (auto simp: plan_validate_def validate_steps_ok Suc_le_eq)
next
  assume "plan_validate E p = Inl e" "1 \<le> length (pl_steps p)" "length (pl_steps p) \<le> 100"
  then have "validate_steps E 0 (pl_steps p) = Inl e" by (auto simp: plan_validate_def split: if_splits)
  from validate_steps_first [OF this]
  show "\<exists>k d. k < length (pl_steps p) \<and> step_validate E (pl_steps p ! k) = Inl d
      \<and> (\<forall>j < k. step_validate E (pl_steps p ! j) = Inr ())
      \<and> e = ''step '' @ show_nat k @ '' ('' @ step_tag (pl_steps p ! k) @ ''): '' @ d" by simp
qed

definition sample_plan :: execution_plan where
  "sample_plan = plan_new [GoBack, Press ''a'', Click None None None]"

text \<open>
  The report of a plan execution is faithful. The outcomes are those of the first steps in order,
  numbered from 0; every one but the last succeeded; the plan is ok just when all its steps ran and
  succeeded, and otherwise the last outcome is the failure it stopped at. An invalid plan touches
  nothing and reports its validation error in a result although no step is counted as executed.
\<close>

lemma plan_execution_report:
  assumes run: "execute_with_runtime E p dl w = Some (Done res, w')"
  shows "case plan_validate E p of
      Inr _ \<Rightarrow>
        (let outs = pr_results res; n = length outs in
         pr_steps_executed res = n \<and> pr_total_steps res = length (pl_steps p) \<and> n \<le> length (pl_steps p)
         \<and> map po_step_index outs = [0..<n] \<and> map po_step_type outs = map step_tag (take n (pl_steps p))
         \<and> list_all po_ok (butlast outs)
         \<and> (pr_ok res \<longleftrightarrow> n = length (pl_steps p) \<and> list_all po_ok outs)
         \<and> (\<not> pr_ok res \<longrightarrow> outs \<noteq> [] \<and> \<not> po_ok (last outs)))
    | Inl e \<Rightarrow>
        w' = w \<and> \<not> pr_ok res \<and> pr_steps_executed res = 0 \<and> map po_error (pr_results res) = [Some e]"
proof (cases "plan_validate E p")
  case (Inl e)
  then show ?thesis
    using run by (auto simp: execute_with_runtime_def Let_def validation_failure_def)
next
  case (Inr u)
  obtain outs ok w1 where steps: "run_steps E 0 (pl_steps p) dl w = Some (Done (outs, ok), w1)"
    and res: "pr_results res = outs" "pr_ok res = ok" "pr_steps_executed res = length outs"
      "pr_total_steps res = length (pl_steps p)"
    using run Inr by (auto simp: execute_with_runtime_def Let_def split: prod.splits)
  show ?thesis using run_steps_shape [OF steps] res Inr by (auto simp: Let_def)
qed

text \<open>
  A script that throws counts as a success. When the browser answers with an exception (no value,
  no \<open>error\<close> field), a click, a fill and an extraction return the raw answer as their result; only
  \<open>Eval\<close> looks for the exception.
\<close>

lemma thrown_script_is_success:
  assumes "j_get (en_json E) v ''exceptionDetails'' = Some exc" "result_value (en_json E) v = None"
    "j_get (en_json E) v ''error'' = None" "\<not> is_blank s" "\<not> list_all is_digit s"
    "\<And>sid m p. en_call E dl sid m p w = (Some (Inr v), w')"
  shows "execute_step E (Click (Some s) None None) dl w = Some (Done (Inr v), w')
    \<and> execute_step E (Fill s txt submit) dl w = Some (Done (Inr v), w')
    \<and> execute_step E (Extract (Some s) attr instr txt') dl w = Some (Done (Inr v), w')
    \<and> execute_step E (Eval s) dl w = Some (Done (Inl (''eval exception: '' @ en_display E exc)), w')"
  using assms by (simp add: execute_step_def io_bind_def io_get_def io_return_def Let_def run_script_def io_try_def io_map_err_def
      evaluate_def evaluate_await_def io_call_def await_def script_result_def inner_value_def first_given_def)

definition throwing_env :: "(nat \<times> world, json) env" where
  "throwing_env = sample_env\<lparr>en_call := (\<lambda>dl sid m p w. (Some (Inr (JObj [(''exceptionDetails'', JStr ''SyntaxError'')])), w))\<rparr>"

end
