(* ===== verification/Executor.thy ===== *)
theory Executor
  imports Plan Recovery
begin

text \<open>
  \<open>src/browser_runtime/executor.rs\<close> and \<open>vision.rs\<close>: the action executor, which takes one plan step
  through the action state machine (resolution, precondition, dispatch, verification) under its
  timeouts, and runs a plan with the cascade. The variables the executor mutates are in the record
  \<open>exec\<close>; \<open>xs_states\<close> is a ghost, the states the action went through. One clock serves \<open>Instant\<close> and
  \<open>SystemTime\<close>.
\<close>

section \<open>Vision\<close>

record visual_target =
  vt_target_id :: string
  vt_session_id :: string
  vt_point :: "rat \<times> rat"
  vt_detail :: string

definition locate_visually :: "string option \<Rightarrow> string option \<Rightarrow> string \<Rightarrow> visual_target runtime_result" where
  "locate_visually sid tid detail =
     Inr \<lparr>vt_target_id = unwrap_or [] tid, vt_session_id = unwrap_or [] sid, vt_point = (200, 100),
          vt_detail = ''vision fallback synthesized point based on: '' @ detail\<rparr>"

section \<open>Configuration and state\<close>

datatype resolved_target = Element element_ref | Visual visual_target

record executor_config =
  ec_resolution_timeout :: nat
  ec_dispatch_timeout :: nat
  ec_verification_timeout :: nat
  ec_overall_timeout :: nat
  ec_inject_resolve_delay :: nat
  ec_inject_dispatch_delay :: nat

definition executor_config_default :: executor_config where
  "executor_config_default = \<lparr>ec_resolution_timeout = 5000, ec_dispatch_timeout = 10000,
     ec_verification_timeout = 5000, ec_overall_timeout = 30000, ec_inject_resolve_delay = 0,
     ec_inject_dispatch_delay = 0\<rparr>"

definition with_timeouts :: "nat \<Rightarrow> nat \<Rightarrow> nat \<Rightarrow> executor_config" where
  "with_timeouts resolution dispatch verification = executor_config_default
     \<lparr>ec_resolution_timeout := resolution, ec_dispatch_timeout := dispatch,
      ec_verification_timeout := verification, ec_overall_timeout := resolution + dispatch + verification + 2000\<rparr>"

text \<open>The executor: its configuration, the test hook run before dispatch, and the process environment.\<close>

record 'w executor =
  ax_config :: executor_config
  ax_pre_dispatch_hook :: "('w \<Rightarrow> 'w) option"
  ax_environ :: "string \<Rightarrow> string option"

definition executor_new :: "(string \<Rightarrow> string option) \<Rightarrow> 'w executor" where
  "executor_new environ =
     \<lparr>ax_config = executor_config_default, ax_pre_dispatch_hook = None, ax_environ = environ\<rparr>"

definition with_config :: "executor_config \<Rightarrow> 'w executor \<Rightarrow> 'w executor" where
  "with_config c A = A\<lparr>ax_config := c\<rparr>"

definition set_pre_dispatch_hook :: "('w \<Rightarrow> 'w) \<Rightarrow> 'w executor \<Rightarrow> 'w executor" where
  "set_pre_dispatch_hook h A = A\<lparr>ax_pre_dispatch_hook := Some h\<rparr>"

record ('w, 'v) exec =
  xs_world :: 'w
  xs_state :: action_state
  xs_states :: "action_state list"
  xs_record :: "'v action_record"
  xs_journal :: "'v action_journal"
  xs_counter :: u64

definition try_cancel :: "action_state \<Rightarrow> bool \<Rightarrow> bool \<times> bool" where
  "try_cancel s token = (if is_cancellable s then (True, True) else (False, token))"

section \<open>Resolution\<close>

text \<open>
  What a step asks the index for: nothing, or a request. The tiers for the five kinds of step differ
  only in the request.
\<close>

definition selector_request :: "string \<Rightarrow> string option \<Rightarrow> resolve_request" where
  "selector_request sel rf = resolve_request_default\<lparr>rq_selector := Some sel, rq_ref_id := rf\<rparr>"

fun step_request :: "plan_step \<Rightarrow> string option \<Rightarrow> resolve_request option" where
  "step_request (Click sel rf el) tid =
     (case or_else sel (or_else rf el) of
        None \<Rightarrow> None
      | Some s \<Rightarrow> if is_blank s then None
                 else Some ((selector_request s (or_else rf el))\<lparr>rq_target_id := tid\<rparr>))"
| "step_request (Type _ sel rf _) tid = map_option (\<lambda>s. selector_request s rf) (or_else sel rf)"
| "step_request (Fill sel _ _) tid = Some (selector_request sel None)"
| "step_request (Select sel rf _) tid = map_option (\<lambda>s. selector_request s rf) (or_else sel rf)"
| "step_request (Hover sel rf el) tid = map_option (\<lambda>s. selector_request s None) (or_else sel (or_else rf el))"
| "step_request _ tid = None"

definition visual_request :: "resolve_request \<Rightarrow> bool" where
  "visual_request req =
     (str_contains (unwrap_or [] (rq_selector req)) ''canvas'' \<or> unwrap_or [] (rq_tag_name req) = ''canvas'')"

text \<open>Resolve, then on a failed resolution recover; \<^term>\<open>None\<close> is a panic of the ladder's logging.\<close>

definition resolve_or_recover ::
  "('w, 'v) env \<Rightarrow> world \<Rightarrow> string option \<Rightarrow> string option \<Rightarrow> resolve_request \<Rightarrow> resolved_target option runtime_result option" where
  "resolve_or_recover E s tid sid req =
     (case resolve_in (en_json E) (en_order E) s req of
        None \<Rightarrow> None
      | Some (Inr r) \<Rightarrow> Some (Inr (Some (Element r)))
      | Some (Inl e) \<Rightarrow>
          if is_resolution_failed e then
            map_option (\<lambda>res.
                case rr_outcome res of
                  Recovered r \<Rightarrow> Inr (Some (Element r))
                | Vision_required detail \<Rightarrow> try_then (locate_visually sid tid detail) (\<lambda>vt. Inr (Some (Visual vt)))
                | _ \<Rightarrow> Inr None)
              (recover (en_json E) (w_ds s) (w_fm s) (en_order E) (w_idx s) None req
                 \<lparr>ro_allow_vision = True, ro_is_visual_context = visual_request req, ro_pierce_shadow = True\<rparr>)
          else Some (Inl e))"

definition resolve_for_step ::
  "('w, 'v) env \<Rightarrow> plan_step \<Rightarrow> string option \<Rightarrow> string option \<Rightarrow> ('w, resolved_target option runtime_result) io" where
  "resolve_for_step E step tid sid =
     (case step_request step tid of
        None \<Rightarrow> io_return (Inr None)
      | Some req \<Rightarrow> io_bind (io_get (en_shared E)) (\<lambda>s. io_pure (resolve_or_recover E s tid sid req)))"

section \<open>Scripts\<close>

definition ex_click_ref_js :: "('w, 'v) env \<Rightarrow> string \<Rightarrow> string" where
  \<open>ex_click_ref_js E sel =
     ''(() => { const el=document.querySelector('' @ en_quote E sel @
     ''); if(!el) return {error:'not found'}; el.click(); const rect=el.getBoundingClientRect();'' @
     '' return {clicked:true, tag: el.tagName, x: rect.x, y: rect.y}; })()''\<close>

definition ex_type_js :: "('w, 'v) env \<Rightarrow> string \<Rightarrow> string \<Rightarrow> string" where
  \<open>ex_type_js E sel txt =
     ''(() => {'' @ [CHR 0x0A] @ ''  let el=document.querySelector('' @ en_quote E sel @ '');'' @ [CHR 0x0A] @
     ''  if(!el) el=document.activeElement;'' @ [CHR 0x0A] @
     ''  if(!el || (el.tagName!=='INPUT' && el.tagName!=='TEXTAREA' && !el.isContentEditable)) '' @ ''{'' @
     [CHR 0x0A] @ ''    el=document.querySelector('input, textarea, [contenteditable=true]');'' @ [CHR 0x0A] @
     ''  }'' @ [CHR 0x0A] @ ''  if(!el) return {error:'no editable element'};'' @ [CHR 0x0A] @
     ''  el.focus();'' @ [CHR 0x0A] @ ''  if(el.isContentEditable) {'' @ [CHR 0x0A] @
     ''    document.execCommand('selectAll', false, null);'' @ [CHR 0x0A] @
     ''    document.execCommand('insertText', false, '' @ en_quote E txt @ '');'' @ [CHR 0x0A] @
     ''  } else {'' @ [CHR 0x0A] @ ''    el.value='' @ en_quote E txt @ '';'' @ [CHR 0x0A] @
     ''    el.dispatchEvent(new Event('input',{bubbles:true}));'' @ [CHR 0x0A] @
     ''    el.dispatchEvent(new Event('change',{bubbles:true}));'' @ [CHR 0x0A] @ ''  }'' @ [CHR 0x0A] @
     ''  return {typed: '' @ en_quote E txt @
     ''.length, tag: el.tagName, value: (el.value||el.textContent||'' @ [CHR 0x27, CHR 0x27] @
     '').slice(0,500)};'' @ [CHR 0x0A] @ ''})()''\<close>

definition ex_fill_js :: "('w, 'v) env \<Rightarrow> string \<Rightarrow> string \<Rightarrow> string \<Rightarrow> string" where
  \<open>ex_fill_js E sel txt sub =
     ''(() => { const el=document.querySelector('' @ en_quote E sel @
     ''); if(!el) return {error:'not found'}; el.focus(); el.value='' @ en_quote E txt @
     ''; el.dispatchEvent(new Event('input',{bubbles:true})); el.dispatchEvent(new Event('change','' @
     ''{bubbles:true})); if('' @ sub @
     '') { if(el.form) el.form.submit(); } return {filled:true, value: el.value}; })()''\<close>

definition ex_extract_attribute_js :: "('w, 'v) env \<Rightarrow> string \<Rightarrow> string \<Rightarrow> string" where
  \<open>ex_extract_attribute_js E sel attr =
     ''(() => { const el=document.querySelector('' @ en_quote E sel @
     ''); if(!el) return {error:'not found'}; return {value: el.getAttribute(JSON.parse('' @ en_quote E attr @
     ''))||'' @ [CHR 0x27, CHR 0x27] @ '', tag: el.tagName}; })()''\<close>

definition ex_enter_js :: "string" where
  \<open>ex_enter_js =
     ''(() => { const ae=document.activeElement; if(ae&&ae.form) { ae.form.submit(); return '' @ [CHR 0x27] @
     ''submitted'; } return location.href; })()''\<close>

definition ex_snapshot_js :: "string" where
  \<open>ex_snapshot_js =
     ''(() => {'' @ [CHR 0x0A] @ ''  const MAX=80;'' @ [CHR 0x0A] @ ''  const out=[];'' @ [CHR 0x0A] @
     ''  const walker=document.createTreeWalker(document.body, NodeFilter.SHOW_ELEMENT);'' @ [CHR 0x0A] @
     ''  let n=walker.currentNode;'' @ [CHR 0x0A] @ ''  let c=0;'' @ [CHR 0x0A] @ ''  while(n && c<MAX){'' @
     [CHR 0x0A] @ ''    const el=n;'' @ [CHR 0x0A] @ ''    const tag=el.tagName.toLowerCase();'' @ [CHR 0x0A] @
     ''    const rect=el.getBoundingClientRect();'' @ [CHR 0x0A] @
     ''    if(rect.width>0 && rect.height>0) out.push({role: el.getAttribute('role')||tag,'' @
     '' name: (el.getAttribute('aria-label')||el.innerText||'' @ [CHR 0x27, CHR 0x27] @
     '').trim().slice(0,120), tag, x:Math.round(rect.x), y:Math.round(rect.y)});'' @ [CHR 0x0A] @
     ''    c++;'' @ [CHR 0x0A] @ ''    n=walker.nextNode();'' @ [CHR 0x0A] @ ''  }'' @ [CHR 0x0A] @
     ''  return out;'' @ [CHR 0x0A] @ ''})()''\<close>

definition read_back_js :: "('w, 'v) env \<Rightarrow> string \<Rightarrow> string" where
  \<open>read_back_js E sel =
     ''(() => { const el=document.querySelector('' @ en_quote E sel @
     ''); if(!el) return null; return el.value!==undefined ? el.value : (el.textContent||'' @
     [CHR 0x27, CHR 0x27] @ ''); })()''\<close>

definition selected_js :: "('w, 'v) env \<Rightarrow> string \<Rightarrow> string" where
  \<open>selected_js E sel =
     ''(() => { const el=document.querySelector('' @ en_quote E sel @
     ''); if(!el) return null; return Array.from(el.selectedOptions||[]).map(o=>o.value);'' @ '' })()''\<close>

definition status_js :: "string" where
  \<open>status_js =
     ''document.getElementById('status') ? document.getElementById('status').textContent '' @ '': '' @
     [CHR 0x27, CHR 0x27]\<close>

section \<open>Dispatch\<close>

definition effective_session :: "('w, 'v) env \<Rightarrow> string option \<Rightarrow> 'w \<Rightarrow> string option" where
  "effective_session E sid w = or_else sid (en_session E w)"

definition ex_click_backend :: "('w, 'v) env \<Rightarrow> string option \<Rightarrow> string \<Rightarrow> ('w, 'v runtime_result) io" where
  "ex_click_backend E sid sel =
     (let J = en_json E in
      io_try (io_call E sid ''DOM.resolveNode'' (j_obj J [(''backendNodeId'', j_i64 J (unwrap_or 0 (parse_i64 sel)))]))
        (\<lambda>resolved.
          case Option.bind (j_get J resolved ''object'') (\<lambda>ob. get_str J ob ''objectId'') of
            None \<Rightarrow> io_return (Inl (InvalidResponse ''resolve missing objectId''))
          | Some oid \<Rightarrow>
              io_bind (io_call E sid ''Runtime.callFunctionOn''
                  (j_obj J [(''objectId'', j_str J oid), (''functionDeclaration'', j_str J click_this),
                            (''returnByValue'', j_bool J True)])) (\<lambda>res.
              io_then (io_call E sid ''Runtime.releaseObject'' (j_obj J [(''objectId'', j_str J oid)]))
                (io_return res))))"

definition ex_press :: "('w, 'v) env \<Rightarrow> string option \<Rightarrow> string \<Rightarrow> ('w, 'v runtime_result) io" where
  "ex_press E sid key =
     (let J = en_json E; pressed = io_return (Inr (j_obj J [(''pressed'', j_str J key)])) in
      io_then (dispatch_key E sid ''keyDown'' key)
     (io_then (dispatch_key E sid ''keyUp'' key)
        (if to_lowercase key = ''enter'' then io_then (evaluate E sid ex_enter_js) pressed else pressed)))"

definition ex_snapshot :: "('w, 'v) env \<Rightarrow> string option \<Rightarrow> nat option \<Rightarrow> ('w, 'v runtime_result) io" where
  "ex_snapshot E sid max_nodes =
     (let J = en_json E; limit = unwrap_or 60 max_nodes in
      io_bind (io_call E sid ''Accessibility.getFullAXTree'' (j_obj J [])) (\<lambda>r.
        case (case r of Inl _ \<Rightarrow> None | Inr v \<Rightarrow> get_array J v ''nodes'') of
          Some (n # ns) \<Rightarrow>
            let slice = take limit (n # ns) in
            io_return (Inr (j_obj J [(''snapshot'', j_arr J slice), (''via'', j_str J ''Accessibility''),
                                     (''count'', j_u64 J (of_nat (length slice)))]))
        | _ \<Rightarrow> evaluate E sid ex_snapshot_js))"

definition dispatch_step ::
  "('w, 'v) env \<Rightarrow> plan_step \<Rightarrow> resolved_target option \<Rightarrow> string option \<Rightarrow> ('w, 'v runtime_result) io" where
  "dispatch_step E step resolved session_id =
     io_bind (io_get (effective_session E session_id)) (\<lambda>sid.
     let J = en_json E in
     case step of
       Click sel rf el \<Rightarrow>
         let s = first_given [sel, rf, el] [] in
         (case resolved of
            Some (Element r) \<Rightarrow> evaluate_await E sid (ex_click_ref_js E (er_selector r))
          | _ \<Rightarrow>
              if s \<noteq> [] \<and> list_all is_digit s then ex_click_backend E sid s
              else if s \<noteq> [] then evaluate_await E sid (click_js E s)
              else io_return (Inl (InvalidResponse ''click: no selector'')))
     | Type txt sel rf submit \<Rightarrow>
         let s = first_given [sel, rf] ''input, textarea, [contenteditable]'' in
         io_try (evaluate_await E sid (ex_type_js E s txt)) (\<lambda>res.
           if submit then io_then (evaluate E sid submit_js) (io_return (Inr res)) else io_return (Inr res))
     | Fill s txt submit \<Rightarrow> evaluate E sid (ex_fill_js E s txt (submit_flag submit))
     | Select sel rf vals \<Rightarrow> evaluate E sid (select_js E (first_given [sel, rf] ''select'') vals)
     | Navigate url \<Rightarrow> io_call E sid ''Page.navigate'' (j_obj J [(''url'', j_str J url)])
     | Eval js \<Rightarrow> evaluate_await E sid js
     | Extract sel attr instr _ \<Rightarrow>
         let s = first_given [sel, instr] ''body'' in
         evaluate E sid (case attr of Some a \<Rightarrow> ex_extract_attribute_js E s a | None \<Rightarrow> extract_js E s)
     | Press key \<Rightarrow> ex_press E sid key
     | Hover sel rf el \<Rightarrow> evaluate E sid (hover_js E (first_given [sel, rf, el] []))
     | Wait time _ _ _ _ \<Rightarrow>
         let waited = io_return (Inr (j_obj J [(''waited'', j_opt J (en_number E) time)])) in
         (case time of Some t \<Rightarrow> io_then (sleep_secs E t) waited | None \<Rightarrow> waited)
     | GoBack \<Rightarrow> evaluate E sid ''history.back(); location.href''
     | GoForward \<Rightarrow> evaluate E sid ''history.forward(); location.href''
     | Tabs \<Rightarrow> io_call E None ''Target.getTargets'' (j_obj J [])
     | Snapshot max_nodes \<Rightarrow> ex_snapshot E sid max_nodes)"

section \<open>Verification\<close>

definition current_url :: "('w, 'v) env \<Rightarrow> string option \<Rightarrow> ('w, string option) io" where
  "current_url E session_id =
     io_bind (io_get (effective_session E session_id)) (\<lambda>sid.
     io_bind (href_of E sid) (\<lambda>r. io_return (case r of Inl _ \<Rightarrow> None | Inr v \<Rightarrow> value_str (en_json E) v)))"

definition opt_debug :: "string option \<Rightarrow> string" where
  "opt_debug x = (case x of None \<Rightarrow> ''None'' | Some s \<Rightarrow> ''Some('' @ debug_str s @ '')'')"

definition url_basename :: "string \<Rightarrow> string" where
  "url_basename url = rev (takeWhile (\<lambda>c. c \<noteq> CHR ''/'') (rev url))"

definition verify_click ::
  "('w, 'v) env \<Rightarrow> string option \<Rightarrow> string \<Rightarrow> 'v \<Rightarrow> string option \<Rightarrow> string option \<Rightarrow> bool \<Rightarrow> ('w, 'v verification_result) io" where
  "verify_click E sid sel value url_before url_after dom_mutated =
     (let J = en_json E; navigated = (url_before \<noteq> url_after); inner = inner_value E value in
      if str_contains sel ''analytics-button'' then
        io_return (verification_result.Inconclusive ''analytics click: no observable DOM/navigation effect (expected)'')
      else if str_contains sel ''login-submit'' then
        io_return (if \<not> navigated then verification_result.Contradicted ''expected navigation after login submit did not occur''
                   else Verified (j_obj J [(''navigated'', j_bool J True)]))
      else if str_contains sel ''disabled-button'' then
        io_return (verification_result.Contradicted ''disabled element should not have dispatched'')
      else if j_get J inner ''error'' \<noteq> None then
        io_return (verification_result.Contradicted (''click dispatch error: '' @ en_display E inner))
      else if dom_mutated \<or> navigated then
        io_return (Verified (j_obj J [(''dom_mutated'', j_bool J dom_mutated), (''navigated'', j_bool J navigated),
                                      (''url_after'', j_opt J (j_str J) url_after)]))
      else io_then (evaluate E sid status_js)
        (io_return (verification_result.Inconclusive
           ''no observable DOM mutation, attribute change, navigation, or dialog after click'')))"

definition verify_text :: "('w, 'v) env \<Rightarrow> string option \<Rightarrow> string \<Rightarrow> string \<Rightarrow> ('w, 'v verification_result) io" where
  "verify_text E sid sel txt =
     (let J = en_json E in
      io_bind (evaluate E sid (read_back_js E sel)) (\<lambda>r.
        io_return (case (case r of Inl _ \<Rightarrow> None | Inr v \<Rightarrow> value_str J v) of
            Some actual \<Rightarrow>
              if actual \<noteq> txt then
                verification_result.Contradicted (''type/fill read-back mismatch: expected '' @ debug_str txt
                  @ '', got '' @ debug_str actual)
              else Verified (j_obj J [(''value'', j_str J actual)])
          | None \<Rightarrow> verification_result.Inconclusive ''no read-back value available'')))"

definition verify_select :: "('w, 'v) env \<Rightarrow> string option \<Rightarrow> string \<Rightarrow> string list \<Rightarrow> ('w, 'v verification_result) io" where
  "verify_select E sid sel vals =
     (let J = en_json E in
      io_bind (evaluate E sid (selected_js E sel)) (\<lambda>r.
        io_return (case (case r of Inl _ \<Rightarrow> None | Inr v \<Rightarrow> Option.bind (result_value J v) (j_as_array J)) of
            Some arr \<Rightarrow>
              let actual = List.map_filter (j_as_str J) arr; missing = filter (\<lambda>v. v \<notin> set actual) vals in
              if missing \<noteq> [] then
                verification_result.Contradicted (''select read-back missing values: '' @ debug_strs missing
                  @ '', got '' @ debug_strs actual)
              else Verified (j_obj J [(''selected'', j_strs J actual)])
          | None \<Rightarrow> verification_result.Inconclusive ''no selected values read-back'')))"

definition verify_navigate :: "('w, 'v) env \<Rightarrow> string option \<Rightarrow> string \<Rightarrow> ('w, 'v verification_result) io" where
  "verify_navigate E sid url =
     (let J = en_json E in
      io_bind (current_url E sid) (\<lambda>u.
        let href = unwrap_or [] u; verified = Verified (j_obj J [(''href'', j_str J href), (''url'', j_str J url)]) in
        if href \<noteq> url \<and> \<not> str_contains href url then
          io_bind (evaluate E sid ''document.readyState'') (\<lambda>r.
            let ready = (case r of Inl _ \<Rightarrow> None | Inr v \<Rightarrow> Option.bind (result_value J v) (j_as_str J)) in
            io_return (if ready \<noteq> Some ''complete'' then
                verification_result.Contradicted (''navigate: location.href '' @ debug_str href @ '' != expected ''
                  @ debug_str url @ '', readyState '' @ opt_debug ready)
              else if \<not> str_contains href (url_basename url) then
                verification_result.Contradicted (''navigate href mismatch: got '' @ debug_str href @ '' expected ''
                  @ debug_str url)
              else verified))
        else io_return verified))"

definition verify_extract :: "('w, 'v) env \<Rightarrow> 'v \<Rightarrow> 'v verification_result" where
  "verify_extract E value =
     (let J = en_json E; inner = inner_value E value in
      if j_get J inner ''error'' \<noteq> None then verification_result.Contradicted (''extract error: '' @ en_display E inner)
      else if j_get J inner ''value'' \<noteq> None \<or> j_get J inner ''url'' \<noteq> None then Verified inner
      else if en_is_null E inner then verification_result.Contradicted ''extract returned null''
      else Verified inner)"

definition verify_step ::
  "('w, 'v) env \<Rightarrow> plan_step \<Rightarrow> 'v \<Rightarrow> string option \<Rightarrow> string option \<Rightarrow> u64 \<Rightarrow> ('w, 'v verification_result) io" where
  "verify_step E step value session_id url_before dom_before =
     io_bind (io_get (effective_session E session_id)) (\<lambda>sid.
     io_bind (current_url E sid) (\<lambda>url_after.
     io_bind (io_get (\<lambda>w. ds_dom_version (w_ds (en_shared E w)))) (\<lambda>dom_after.
     case step of
       Click sel rf el \<Rightarrow>
         verify_click E sid (first_given [sel, rf, el] []) value url_before url_after (dom_after \<noteq> dom_before)
     | Type txt sel rf _ \<Rightarrow> verify_text E sid (first_given [sel, rf] ''input'') txt
     | Fill sel txt _ \<Rightarrow> verify_text E sid sel txt
     | Select sel rf vals \<Rightarrow> verify_select E sid (first_given [sel, rf] ''select'') vals
     | Navigate url \<Rightarrow> verify_navigate E sid url
     | Extract _ _ _ _ \<Rightarrow> io_return (verify_extract E value)
     | Eval _ \<Rightarrow>
         io_return (case j_get (en_json E) value ''exceptionDetails'' of
             Some exc \<Rightarrow> verification_result.Contradicted (''eval exception: '' @ en_display E exc)
           | None \<Rightarrow> Verified value)
     | _ \<Rightarrow> io_return (Verified value))))"

section \<open>One step\<close>

text \<open>A computation on the world, as one of the executor.\<close>

definition on_world :: "('w, 'a) io \<Rightarrow> (('w, 'v) exec, 'a) io" where
  "on_world m dl x =
     (case m dl (xs_world x) of None \<Rightarrow> None | Some (r, w) \<Rightarrow> Some (r, x\<lparr>xs_world := w\<rparr>))"

definition enter :: "action_state \<Rightarrow> (('w, 'v) exec, unit) io" where
  "enter s = io_update (\<lambda>x. x\<lparr>xs_state := s, xs_states := xs_states x @ [s],
                              xs_record := (xs_record x)\<lparr>ar_state := s\<rparr>\<rparr>)"

text \<open>
  A terminal state: the record gets its outcome, error and verification, is completed with the
  versions of the moment and appended to the journal.
\<close>

definition seal ::
  "('w, 'v) env \<Rightarrow> action_state \<Rightarrow> 'v step_outcome \<Rightarrow> 'v verification_result option \<Rightarrow> string option
   \<Rightarrow> ('w, 'v) exec \<Rightarrow> ('w, 'v) exec" where
  "seal E s out verif err x =
     (let w = xs_world x; ds = w_ds (en_shared E w);
          r = (xs_record x)\<lparr>ar_state := s, ar_outcome := out,
                 ar_verification := (case verif of None \<Rightarrow> ar_verification (xs_record x) | Some v \<Rightarrow> Some v),
                 ar_error_detail := (case err of None \<Rightarrow> ar_error_detail (xs_record x) | Some e \<Rightarrow> Some e)\<rparr>;
          r = action_record_complete (en_now E w) (ds_dom_version ds) (ds_frame_tree_version ds) r
      in x\<lparr>xs_state := s, xs_states := xs_states x @ [s], xs_record := r,
           xs_journal := journal_append r (xs_journal x)\<rparr>)"

definition finish ::
  "('w, 'v) env \<Rightarrow> action_state \<Rightarrow> 'v step_outcome \<Rightarrow> 'v verification_result option \<Rightarrow> string option
   \<Rightarrow> (('w, 'v) exec, unit) io" where
  "finish E s out verif err = io_update (seal E s out verif err)"

definition finalize_cancelled :: "('w, 'v) env \<Rightarrow> (('w, 'v) exec, unit) io" where
  "finalize_cancelled E =
     finish E Cancelled (step_outcome.Failed ''cancelled before dispatch'') None (Some ''cancelled'')"

definition unless_cancelled :: "('w, 'v) env \<Rightarrow> (('w, 'v) exec, unit) io \<Rightarrow> (('w, 'v) exec, unit) io" where
  "unless_cancelled E k =
     io_bind (io_get (\<lambda>x. en_cancelled E (xs_world x))) (\<lambda>c. if c then finalize_cancelled E else k)"

definition fail_step :: "('w, 'v) env \<Rightarrow> string \<Rightarrow> string \<Rightarrow> (('w, 'v) exec, unit) io" where
  "fail_step E msg detail = finish E action_state.Failed (step_outcome.Failed msg) None (Some detail)"

text \<open>The checks of \<open>PreconditionCheck\<close>: the message of the first that fails.\<close>

definition precondition :: "world \<Rightarrow> resolved_target option \<Rightarrow> string option" where
  "precondition s resolved =
     (case resolved of
        Some (Element r) \<Rightarrow>
          (case check_interactable r of
             Inl e \<Rightarrow> Some (error_display e)
           | Inr _ \<Rightarrow>
               (case verify_snapshot (w_ds s) (w_fm s) r of
                  Inl e \<Rightarrow> Some (error_display e)
                | Inr _ \<Rightarrow>
                    if er_target_generation r \<noteq> ds_target_generation (w_ds s) then
                      Some (''StaleElementRef target_generation '' @ show_u64 (er_target_generation r) @ '' vs ''
                            @ show_u64 (ds_target_generation (w_ds s)))
                    else None))
      | _ \<Rightarrow> None)"

definition run_hook :: "('w \<Rightarrow> 'w) option \<Rightarrow> (('w, 'v) exec, bool) io" where
  "run_hook h =
     (case h of
        None \<Rightarrow> io_return False
      | Some f \<Rightarrow> io_then (io_update (\<lambda>x. x\<lparr>xs_world := f (xs_world x)\<rparr>)) (io_return True))"

definition hook_check :: "('w, 'v) env \<Rightarrow> bool \<Rightarrow> resolved_target option \<Rightarrow> ('w, 'v) exec \<Rightarrow> runtime_error option" where
  "hook_check E hooked resolved x =
     (case resolved of
        Some (Element r) \<Rightarrow>
          if hooked then
            (case verify_snapshot (w_ds (en_shared E (xs_world x))) (w_fm (en_shared E (xs_world x))) r of
               Inl e \<Rightarrow> Some e | Inr _ \<Rightarrow> None)
          else None
      | _ \<Rightarrow> None)"

text \<open>Rule 31: a lost connection or a timeout of a state-changing dispatch leaves its effect unknown.\<close>

definition is_unknown_error :: "bool \<Rightarrow> runtime_error \<Rightarrow> bool" where
  "is_unknown_error state_changing e =
     (state_changing \<and> (case e of RuntimeDead _ \<Rightarrow> True | Timeout _ _ \<Rightarrow> True | _ \<Rightarrow> False))"

definition dispatch_failed :: "('w, 'v) env \<Rightarrow> bool \<Rightarrow> runtime_error \<Rightarrow> (('w, 'v) exec, unit) io" where
  "dispatch_failed E state_changing e =
     (if is_unknown_error state_changing e then
        finish E Unknown (step_outcome.Failed (''Unknown: '' @ error_display e))
          (Some (verification_result.Inconclusive (''dispatch Unknown: '' @ error_display e))) (Some (error_display e))
      else fail_step E (error_display e) (error_display e))"

definition dispatch_timed_out :: "('w, 'v) env \<Rightarrow> bool \<Rightarrow> nat \<Rightarrow> (('w, 'v) exec, unit) io" where
  "dispatch_timed_out E state_changing ms =
     (if state_changing then
        finish E Unknown (step_outcome.Failed (''dispatch timeout after '' @ show_nat ms @ ''ms '' @ em_dash @ '' Unknown''))
          (Some (verification_result.Inconclusive ''dispatch timeout'')) (Some ''dispatch timeout'')
      else fail_step E (''dispatch timeout after '' @ show_nat ms @ ''ms'') ''dispatch timeout'')"

definition verified_as :: "('w, 'v) env \<Rightarrow> 'v verification_result \<Rightarrow> (('w, 'v) exec, unit) io" where
  "verified_as E vr =
     (case vr of
        Verified v \<Rightarrow> finish E Completed (Ok vr) (Some vr) None
      | verification_result.Contradicted d \<Rightarrow> finish E action_state.Contradicted (Ok vr) (Some vr) (Some d)
      | verification_result.Inconclusive d \<Rightarrow> finish E action_state.Inconclusive (Ok vr) (Some vr) None)"

definition timed :: "('w, 'v) env \<Rightarrow> nat \<Rightarrow> ('w, 'a) io \<Rightarrow> (('w, 'v) exec, 'a option) io" where
  "timed E ms m = on_world (io_timeout (en_now E) ms m)"

text \<open>From \<open>Dispatching\<close> to the end: the verification, what becomes of the dispatch, and the phase.\<close>

definition verify_phase ::
  "('w, 'v) env \<Rightarrow> 'w executor \<Rightarrow> plan_step \<Rightarrow> string option \<Rightarrow> string option \<Rightarrow> u64 \<Rightarrow> 'v \<Rightarrow> (('w, 'v) exec, unit) io" where
  "verify_phase E A step session_id url_before dom_before value =
     io_then (enter Dispatched)
    (io_then (enter Verifying)
    (io_bind (timed E (ec_verification_timeout (ax_config A)) (verify_step E step value session_id url_before dom_before))
       (\<lambda>v. verified_as E (unwrap_or (verification_result.Inconclusive ''verification timeout'') v))))"

definition dispatch_result ::
  "('w, 'v) env \<Rightarrow> 'w executor \<Rightarrow> plan_step \<Rightarrow> string option \<Rightarrow> bool \<Rightarrow> string option \<Rightarrow> u64 \<Rightarrow> 'v runtime_result option
   \<Rightarrow> (('w, 'v) exec, unit) io" where
  "dispatch_result E A step session_id state_changing url_before dom_before res =
     (case res of
        None \<Rightarrow> dispatch_timed_out E state_changing (ec_dispatch_timeout (ax_config A))
      | Some (Inl e) \<Rightarrow> dispatch_failed E state_changing e
      | Some (Inr value) \<Rightarrow> verify_phase E A step session_id url_before dom_before value)"

definition dispatch_phase ::
  "('w, 'v) env \<Rightarrow> 'w executor \<Rightarrow> plan_step \<Rightarrow> string option \<Rightarrow> bool \<Rightarrow> resolved_target option \<Rightarrow> (('w, 'v) exec, unit) io" where
  "dispatch_phase E A step session_id state_changing resolved =
     (let cfg = ax_config A in
      io_then (enter Dispatching)
     (io_then (if 0 < ec_inject_dispatch_delay cfg then on_world (io_sleep E (ec_inject_dispatch_delay cfg)) else io_return ())
     (io_bind (on_world (current_url E session_id)) (\<lambda>url_before.
      io_bind (io_get (\<lambda>x. ds_dom_version (w_ds (en_shared E (xs_world x))))) (\<lambda>dom_before.
      io_bind (timed E (ec_dispatch_timeout cfg) (dispatch_step E step resolved session_id))
        (dispatch_result E A step session_id state_changing url_before dom_before))))))"

definition hook_phase ::
  "('w, 'v) env \<Rightarrow> 'w executor \<Rightarrow> plan_step \<Rightarrow> string option \<Rightarrow> bool \<Rightarrow> resolved_target option \<Rightarrow> (('w, 'v) exec, unit) io" where
  "hook_phase E A step session_id state_changing resolved =
     io_bind (run_hook (ax_pre_dispatch_hook A)) (\<lambda>hooked.
     io_bind (io_get (hook_check E hooked resolved)) (\<lambda>stale.
       case stale of
         Some e \<Rightarrow> fail_step E (error_display e) (''StaleElementRef after pre-dispatch mutation: '' @ error_display e)
       | None \<Rightarrow> dispatch_phase E A step session_id state_changing resolved))"

definition precondition_phase ::
  "('w, 'v) env \<Rightarrow> 'w executor \<Rightarrow> plan_step \<Rightarrow> string option \<Rightarrow> bool \<Rightarrow> resolved_target option \<Rightarrow> (('w, 'v) exec, unit) io" where
  "precondition_phase E A step session_id state_changing resolved =
     io_then (enter PreconditionCheck)
     (io_bind (io_get (\<lambda>x. precondition (en_shared E (xs_world x)) resolved)) (\<lambda>problem.
        case problem of
          Some msg \<Rightarrow> fail_step E msg msg
        | None \<Rightarrow> unless_cancelled E (hook_phase E A step session_id state_changing resolved)))"

definition set_resolution_method :: "string \<Rightarrow> (('w, 'v) exec, unit) io" where
  "set_resolution_method m = io_update (\<lambda>x. x\<lparr>xs_record := (xs_record x)\<lparr>ar_resolution_method := m\<rparr>\<rparr>)"

text \<open>What becomes of the resolution, and the whole of \<open>execute_step_inner\<close>.\<close>

definition resolution_result ::
  "('w, 'v) env \<Rightarrow> 'w executor \<Rightarrow> plan_step \<Rightarrow> string option \<Rightarrow> bool \<Rightarrow> resolved_target option runtime_result
   \<Rightarrow> (('w, 'v) exec, unit) io" where
  "resolution_result E A step session_id state_changing res =
     (case res of
        Inl e \<Rightarrow>
          fail_step E (if is_timeout_error e then ''resolution timeout: '' @ error_display e else error_display e)
            (error_display e)
      | Inr resolved \<Rightarrow>
          unless_cancelled E
           (io_then (enter Resolved)
           (io_then (set_resolution_method (if resolved \<noteq> None then ''element_resolved'' else ''no_element_needed''))
           (unless_cancelled E (precondition_phase E A step session_id state_changing resolved)))))"

definition resolution_phase ::
  "('w, 'v) env \<Rightarrow> 'w executor \<Rightarrow> plan_step \<Rightarrow> string option \<Rightarrow> string option \<Rightarrow> bool \<Rightarrow> (('w, 'v) exec, unit) io" where
  "resolution_phase E A step target_id session_id state_changing =
     (let ms = ec_resolution_timeout (ax_config A) in
      io_bind (timed E ms (resolve_for_step E step target_id session_id)) (\<lambda>res.
        resolution_result E A step session_id state_changing (unwrap_or (Inl (Timeout ''resolution'' (of_nat ms))) res)))"

definition execute_step_inner ::
  "('w, 'v) env \<Rightarrow> 'w executor \<Rightarrow> plan_step \<Rightarrow> string option \<Rightarrow> string option \<Rightarrow> bool \<Rightarrow> (('w, 'v) exec, unit) io" where
  "execute_step_inner E A step target_id session_id state_changing =
     (let cfg = ax_config A; resolve = resolution_phase E A step target_id session_id state_changing in
      io_then (enter Resolving)
        (unless_cancelled E
           (if 0 < ec_inject_resolve_delay cfg
            then io_then (on_world (io_sleep E (ec_inject_resolve_delay cfg))) (unless_cancelled E resolve)
            else resolve)))"

text \<open>The record of a new action, made of the world's versions at that moment.\<close>

definition begin_action ::
  "('w, 'v) env \<Rightarrow> 'w executor \<Rightarrow> plan_step \<Rightarrow> string option \<Rightarrow> string option \<Rightarrow> nat \<Rightarrow> capability_class
   \<Rightarrow> string option \<Rightarrow> ('w, 'v) exec \<Rightarrow> ('w, 'v) exec" where
  "begin_action E A step target_id session_id idx cap user_data_dir x =
     (let w = xs_world x; ds = w_ds (en_shared E w);
          (r, counter) = action_record_new (en_now E w) (en_now E w) (xs_counter x) (unwrap_or ''_default'' target_id)
            (ds_target_generation ds) session_id idx (step_tag step) (capability_as_str cap)
            (ds_runtime_generation ds) (ds_dom_version ds) (ds_frame_tree_version ds)
            (is_production_profile (ax_environ A) user_data_dir)
      in x\<lparr>xs_state := Accepted, xs_states := [Accepted], xs_record := r, xs_counter := counter\<rparr>)"

text \<open>What the overall deadline makes of the action it interrupts.\<close>

definition overall_deadline :: "('w, 'v) env \<Rightarrow> bool \<Rightarrow> (('w, 'v) exec, unit) io" where
  "overall_deadline E state_changing =
     io_bind (io_get xs_state) (\<lambda>s.
       if s = Dispatching \<or> s = Dispatched \<or> s = Verifying then
         (if state_changing then
            finish E Unknown
              (step_outcome.Failed (''overall deadline hit during dispatch '' @ em_dash @ '' Unknown (rule 31)''))
              (Some (verification_result.Inconclusive ''overall deadline during dispatch''))
              (Some ''overall deadline hit during Dispatching'')
          else fail_step E ''overall deadline hit'' ''overall deadline'')
       else fail_step E ''overall deadline hit before dispatch'' ''overall deadline'')"

text \<open>The guard after \<open>execute_step_inner\<close> returned, should it have left no terminal record.\<close>

definition unfinished_guard :: "('w, 'v) env \<Rightarrow> (('w, 'v) exec, unit) io" where
  "unfinished_guard E =
     io_update (\<lambda>x.
       let r = xs_record x; w = xs_world x; ds = w_ds (en_shared E w) in
       if \<not> is_terminal (ar_state r) \<and> ar_completed_at r = None then
         (let r = action_record_complete (en_now E w) (ds_dom_version ds) (ds_frame_tree_version ds) r;
              r = (if ar_state r = Accepted
                   then r\<lparr>ar_state := action_state.Failed,
                          ar_outcome := step_outcome.Failed ''overall timeout without progress''\<rparr> else r)
          in x\<lparr>xs_record := r, xs_journal := journal_append r (xs_journal x)\<rparr>)
       else x)"

definition ax_execute_step ::
  "('w, 'v) env \<Rightarrow> 'w executor \<Rightarrow> plan_step \<Rightarrow> string option \<Rightarrow> string option \<Rightarrow> nat \<Rightarrow> capability_class \<Rightarrow> bool
   \<Rightarrow> string option \<Rightarrow> (('w, 'v) exec, 'v action_record) io" where
  "ax_execute_step E A step target_id session_id idx cap state_changing user_data_dir =
     io_then (io_update (begin_action E A step target_id session_id idx cap user_data_dir))
     (io_bind (io_timeout (en_now E \<circ> xs_world) (ec_overall_timeout (ax_config A))
                 (execute_step_inner E A step target_id session_id state_changing)) (\<lambda>done.
      io_then (case done of Some _ \<Rightarrow> unfinished_guard E | None \<Rightarrow> overall_deadline E state_changing)
        (io_get xs_record)))"

section \<open>A plan\<close>

definition vr_debug :: "'v json_ops \<Rightarrow> 'v verification_result \<Rightarrow> string" where
  "vr_debug J vr =
     (case vr of
        Verified v \<Rightarrow> ''Verified('' @ j_debug J v @ '')''
      | verification_result.Contradicted d \<Rightarrow> ''Contradicted('' @ debug_str d @ '')''
      | verification_result.Inconclusive d \<Rightarrow> ''Inconclusive('' @ debug_str d @ '')'')"

definition outcome_debug :: "'v json_ops \<Rightarrow> 'v step_outcome \<Rightarrow> string" where
  "outcome_debug J out =
     (case out of
        Ok vr \<Rightarrow> ''Ok { verification: '' @ vr_debug J vr @ '' }''
      | step_outcome.Failed d \<Rightarrow> ''Failed('' @ debug_str d @ '')''
      | Skipped d \<Rightarrow> ''Skipped { reason: '' @ debug_str d @ '' }'')"

text \<open>A record without an execution: a skipped step, or one after the cancel.\<close>

definition record_only ::
  "('w, 'v) env \<Rightarrow> 'w executor \<Rightarrow> plan_step \<Rightarrow> string option \<Rightarrow> string option \<Rightarrow> nat \<Rightarrow> 'v step_outcome
   \<Rightarrow> 'v verification_result option \<Rightarrow> (('w, 'v) exec, 'v action_record) io" where
  "record_only E A step target_id session_id idx out verif =
     io_then (io_update (begin_action E A step target_id session_id idx (step_capability step) None))
     (io_then (finish E Cancelled out verif None) (io_get xs_record))"

fun ax_run_steps ::
  "('w, 'v) env \<Rightarrow> 'w executor \<Rightarrow> string option \<Rightarrow> string option \<Rightarrow> string option \<Rightarrow> nat \<Rightarrow> plan_step list
   \<Rightarrow> (('w, 'v) exec, 'v action_record list) io" where
  "ax_run_steps E A target_id session_id skip idx [] = io_return []"
| "ax_run_steps E A target_id session_id skip idx (step # steps) =
     (let rest = (\<lambda>skip r. io_bind (ax_run_steps E A target_id session_id skip (Suc idx) steps) (\<lambda>rs. io_return (r # rs))) in
      case skip of
        Some reason \<Rightarrow>
          io_bind (record_only E A step target_id session_id idx (Skipped reason)
                     (Some (verification_result.Inconclusive ''skipped due to prior Failed/Contradicted''))) (rest skip)
      | None \<Rightarrow>
          io_bind (io_get (\<lambda>x. en_cancelled E (xs_world x))) (\<lambda>cancelled.
            if cancelled \<and> idx \<noteq> 0 then
              io_bind (record_only E A step target_id session_id idx
                         (step_outcome.Failed ''cancelled before dispatch'') None) (rest (Some ''cancelled''))
            else
              io_bind (ax_execute_step E A step target_id session_id idx (step_capability step)
                         (step_capability step \<noteq> NoCapability) None) (\<lambda>r.
                rest (if should_cascade_skip (ar_outcome r)
                      then Some (''step '' @ show_nat idx @ '' outcome '' @ outcome_debug (en_json E) (ar_outcome r)
                                 @ '' cascades to Skipped'')
                      else None) r)))"

definition execute_plan ::
  "('w, 'v) env \<Rightarrow> 'w executor \<Rightarrow> execution_plan \<Rightarrow> string option \<Rightarrow> string option \<Rightarrow> (('w, 'v) exec, 'v action_record list) io" where
  "execute_plan E A plan target_id session_id = ax_run_steps E A target_id session_id None 0 (pl_steps plan)"

end
