(* ===== verification/Executor_Props.thy ===== *)
theory Executor_Props
  imports Executor Plan_Props Resolve_Props
begin

text \<open>
  What the executor guarantees of every step, whatever the browser, the clock, the cancel token and
  the other tasks do: exactly one journal record, terminal and consistent with the outcome, after a
  run of the action machine.
\<close>

section \<open>Open and sealed actions\<close>

text \<open>The run of states up to a state that is not terminal.\<close>

fun states_to :: "action_state \<Rightarrow> action_state list" where
  "states_to Accepted = [Accepted]"
| "states_to Resolving = [Accepted, Resolving]"
| "states_to Resolved = [Accepted, Resolving, Resolved]"
| "states_to PreconditionCheck = [Accepted, Resolving, Resolved, PreconditionCheck]"
| "states_to Dispatching = [Accepted, Resolving, Resolved, PreconditionCheck, Dispatching]"
| "states_to Dispatched = [Accepted, Resolving, Resolved, PreconditionCheck, Dispatching, Dispatched]"
| "states_to Verifying = [Accepted, Resolving, Resolved, PreconditionCheck, Dispatching, Dispatched, Verifying]"
| "states_to _ = []"

text \<open>
  The journal when the action began and the record it began with, of which these fields stay.
\<close>

type_synonym 'v origin = "'v action_journal \<times> 'v action_record"

definition same_action :: "'v action_record \<Rightarrow> 'v action_record \<Rightarrow> bool" where
  "same_action r r' = (ar_action_id r' = ar_action_id r \<and> ar_target_id r' = ar_target_id r
     \<and> ar_step_index r' = ar_step_index r \<and> ar_action r' = ar_action r
     \<and> ar_capability_class r' = ar_capability_class r \<and> ar_production_profile r' = ar_production_profile r)"

definition open_in :: "action_state \<Rightarrow> 'v origin \<Rightarrow> ('w, 'v) exec \<Rightarrow> bool" where
  "open_in s j x = (xs_state x = s \<and> ar_state (xs_record x) = s \<and> xs_states x = states_to s
     \<and> ar_completed_at (xs_record x) = None \<and> xs_journal x = fst j \<and> same_action (snd j) (xs_record x))"

definition awaiting :: "'v origin \<Rightarrow> ('w, 'v) exec \<Rightarrow> bool" where
  "awaiting j x = (open_in Resolving j x \<or> open_in Dispatching j x \<or> open_in Verifying j x)"

text \<open>The edges the executor takes: those of the machine, and one that it lacks.\<close>

definition executor_edge :: "action_state \<Rightarrow> action_state \<Rightarrow> bool" where
  "executor_edge s t = (action_can_transition_to s t \<or> s = Resolved \<and> t = Cancelled)"

definition outcome_agrees :: "'v action_record \<Rightarrow> bool" where
  "outcome_agrees r =
     (case ar_state r of
        Completed \<Rightarrow> \<exists>v. ar_outcome r = Ok (Verified v) \<and> ar_verification r = Some (Verified v)
      | action_state.Contradicted \<Rightarrow> \<exists>d. ar_outcome r = Ok (verification_result.Contradicted d)
      | action_state.Inconclusive \<Rightarrow> \<exists>d. ar_outcome r = Ok (verification_result.Inconclusive d)
      | _ \<Rightarrow> \<exists>d. ar_outcome r = step_outcome.Failed d \<and> ar_error_detail r \<noteq> None)"

definition sealed :: "bool \<Rightarrow> 'v origin \<Rightarrow> ('w, 'v) exec \<Rightarrow> bool" where
  "sealed sc j x =
     (let r = xs_record x in
        xs_journal x = journal_append r (fst j) \<and> same_action (snd j) r \<and> is_terminal (ar_state r) \<and> ar_completed_at r \<noteq> None
        \<and> outcome_agrees r \<and> hd (xs_states x) = Accepted \<and> last (xs_states x) = ar_state r
        \<and> successively executor_edge (xs_states x)
        \<and> (ar_state r = Unknown \<longrightarrow> sc \<and> Dispatching \<in> set (xs_states x))
        \<and> (ar_state r = Cancelled \<longrightarrow> Dispatching \<notin> set (xs_states x)))"

lemma on_world_wp:
  "(\<And>a w. Q a (x\<lparr>xs_world := w\<rparr>)) \<Longrightarrow> (\<And>w. R (x\<lparr>xs_world := w\<rparr>)) \<Longrightarrow> io_wp (on_world m) dl x Q R"
  by (auto simp: io_wp_def on_world_def split: option.splits prod.splits run.splits)

lemma timed_wp:
  "(\<And>a w. Q a (x\<lparr>xs_world := w\<rparr>)) \<Longrightarrow> (\<And>w. R (x\<lparr>xs_world := w\<rparr>)) \<Longrightarrow> io_wp (timed E ms m) dl x Q R"
  unfolding timed_def by (rule on_world_wp)

lemma open_in_world [simp]: "open_in s j (x\<lparr>xs_world := w\<rparr>) = open_in s j x"
  by (simp add: open_in_def)

lemma awaiting_world [simp]: "awaiting j (x\<lparr>xs_world := w\<rparr>) = awaiting j x"
  by (simp add: awaiting_def)

lemma awaiting_open: "open_in Resolving j x \<Longrightarrow> awaiting j x" "open_in Dispatching j x \<Longrightarrow> awaiting j x"
  "open_in Verifying j x \<Longrightarrow> awaiting j x"
  by (simp_all add: awaiting_def)

text \<open>Entering a state, and sealing an action in a terminal one.\<close>

lemma enter_wp:
  "open_in s j x \<Longrightarrow> states_to t = states_to s @ [t] \<Longrightarrow>
   (\<And>x'. open_in t j x' \<Longrightarrow> xs_world x' = xs_world x \<Longrightarrow> Q () x') \<Longrightarrow> io_wp (enter t) dl x Q R"
  by (simp add: enter_def open_in_def same_action_def)

definition seals_to :: "bool \<Rightarrow> action_state \<Rightarrow> action_state \<Rightarrow> bool" where
  "seals_to sc s t = (is_terminal t \<and> successively executor_edge (states_to s @ [t]) \<and> hd (states_to s @ [t]) = Accepted
     \<and> (t = Unknown \<longrightarrow> sc \<and> Dispatching \<in> set (states_to s)) \<and> (t = Cancelled \<longrightarrow> Dispatching \<notin> set (states_to s)))"

lemma finish_wp:
  assumes "open_in s j x" "seals_to sc s t"
    and "outcome_agrees (xs_record (seal E t out verif err x))"
  shows "io_wp (finish E t out verif err) dl x (\<lambda>_. sealed sc j) R"
proof -
  have "sealed sc j (seal E t out verif err x)"
    using assms by (auto simp: sealed_def seal_def open_in_def seals_to_def action_record_complete_def same_action_def Let_def)
  then show ?thesis by (simp add: finish_def)
qed

lemma seals_to_simps [simp]:
  "seals_to sc Resolving action_state.Failed" "seals_to sc Resolving Cancelled" "seals_to sc Resolved Cancelled"
  "seals_to sc PreconditionCheck action_state.Failed" "seals_to sc PreconditionCheck Cancelled"
  "seals_to sc Dispatching action_state.Failed" "seals_to True Dispatching Unknown"
  "seals_to sc Verifying action_state.Failed" "seals_to True Verifying Unknown"
  "seals_to sc Verifying Completed" "seals_to sc Verifying action_state.Contradicted"
  "seals_to sc Verifying action_state.Inconclusive"
  by (simp_all add: seals_to_def executor_edge_def action_machine_defs)

lemma agrees_failed:
  "t \<in> {action_state.Failed, Cancelled, Unknown} \<Longrightarrow>
   outcome_agrees (xs_record (seal E t (step_outcome.Failed d) verif (Some e) x))"
  by (auto simp: outcome_agrees_def seal_def action_record_complete_def Let_def)

lemma fail_step_wp: "open_in s j x \<Longrightarrow> seals_to sc s action_state.Failed \<Longrightarrow> io_wp (fail_step E m d) dl x (\<lambda>_. sealed sc j) R"
  unfolding fail_step_def by (rule finish_wp) (simp_all add: agrees_failed)

lemma unless_cancelled_wp:
  "open_in s j x \<Longrightarrow> seals_to sc s Cancelled \<Longrightarrow> io_wp k dl x (\<lambda>_. sealed sc j) R \<Longrightarrow>
   io_wp (unless_cancelled E k) dl x (\<lambda>_. sealed sc j) R"
  by (simp add: unless_cancelled_def finalize_cancelled_def finish_wp agrees_failed)

lemma verified_as_wp: "open_in Verifying j x \<Longrightarrow> io_wp (verified_as E vr) dl x (\<lambda>_. sealed sc j) R"
  by (auto simp: verified_as_def outcome_agrees_def seal_def action_record_complete_def Let_def
      split: verification_result.split intro!: finish_wp [where s = Verifying])

lemma dispatch_failed_wp: "open_in Dispatching j x \<Longrightarrow> io_wp (dispatch_failed E sc e) dl x (\<lambda>_. sealed sc j) R"
  by (cases sc) (auto simp: dispatch_failed_def is_unknown_error_def agrees_failed
      intro!: finish_wp [where s = Dispatching] fail_step_wp [where s = Dispatching])

lemma dispatch_timed_out_wp: "open_in Dispatching j x \<Longrightarrow> io_wp (dispatch_timed_out E sc ms) dl x (\<lambda>_. sealed sc j) R"
  by (cases sc) (auto simp: dispatch_timed_out_def agrees_failed
      intro!: finish_wp [where s = Dispatching] fail_step_wp [where s = Dispatching])

section \<open>The phases\<close>

lemma verify_phase_wp:
  "open_in Dispatching j x \<Longrightarrow>
   io_wp (verify_phase E A step sid ub db value) dl x (\<lambda>_. sealed sc j) (awaiting j)"
  unfolding verify_phase_def wp_then wp_bind
  by (rule enter_wp, assumption, simp, rule enter_wp, assumption, simp, rule timed_wp)
    (simp_all add: verified_as_wp awaiting_open)

lemma dispatch_result_wp:
  "open_in Dispatching j x \<Longrightarrow>
   io_wp (dispatch_result E A step sid sc ub db res) dl x (\<lambda>_. sealed sc j) (awaiting j)"
  by (auto simp: dispatch_result_def dispatch_timed_out_wp dispatch_failed_wp verify_phase_wp split: option.split sum.split)

lemma maybe_sleep_wp:
  "open_in s j x \<Longrightarrow> (\<And>x. open_in s j x \<Longrightarrow> Q () x) \<Longrightarrow> (\<And>x. open_in s j x \<Longrightarrow> R x) \<Longrightarrow>
   io_wp (if b then on_world (io_sleep E ms) else io_return ()) dl x Q R"
  by (simp add: on_world_wp)

lemma dispatch_phase_wp:
  "open_in PreconditionCheck j x \<Longrightarrow>
   io_wp (dispatch_phase E A step sid sc resolved) dl x (\<lambda>_. sealed sc j) (awaiting j)"
  unfolding dispatch_phase_def Let_def wp_then wp_bind wp_get
  by (rule enter_wp, assumption, simp, rule maybe_sleep_wp, assumption, rule on_world_wp, rule timed_wp)
    (simp_all add: dispatch_result_wp awaiting_open)

lemma run_hook_wp: "open_in s j x \<Longrightarrow> (\<And>b x. open_in s j x \<Longrightarrow> Q b x) \<Longrightarrow> io_wp (run_hook h) dl x Q R"
  by (cases h) (simp_all add: run_hook_def)

lemma hook_phase_wp:
  "open_in PreconditionCheck j x \<Longrightarrow>
   io_wp (hook_phase E A step sid sc resolved) dl x (\<lambda>_. sealed sc j) (awaiting j)"
  unfolding hook_phase_def wp_bind wp_get
  by (rule run_hook_wp, assumption) (auto simp: dispatch_phase_wp intro: fail_step_wp split: option.split)

lemma precondition_phase_wp:
  "open_in Resolved j x \<Longrightarrow>
   io_wp (precondition_phase E A step sid sc resolved) dl x (\<lambda>_. sealed sc j) (awaiting j)"
  unfolding precondition_phase_def wp_then wp_bind wp_get
  by (rule enter_wp, assumption, simp)
    (auto split: option.split intro: fail_step_wp intro!: unless_cancelled_wp [where s = PreconditionCheck] hook_phase_wp)

lemma resolved_wp:
  "open_in Resolving j x \<Longrightarrow>
   io_wp (io_then (enter Resolved) (io_then (set_resolution_method m)
      (unless_cancelled E (precondition_phase E A step sid sc r)))) dl x (\<lambda>_. sealed sc j) (awaiting j)"
  unfolding set_resolution_method_def wp_then wp_update
  by (rule enter_wp, assumption, simp, rule unless_cancelled_wp [where s = Resolved])
    (simp_all add: precondition_phase_wp open_in_def same_action_def)

lemma resolution_result_wp:
  "open_in Resolving j x \<Longrightarrow>
   io_wp (resolution_result E A step sid sc res) dl x (\<lambda>_. sealed sc j) (awaiting j)"
  unfolding resolution_result_def
  by (cases res) (simp_all only: sum.case fail_step_wp [where s = Resolving] unless_cancelled_wp [where s = Resolving]
      seals_to_simps resolved_wp)

lemma resolution_phase_wp:
  "open_in Resolving j x \<Longrightarrow> io_wp (resolution_phase E A step tid sid sc) dl x (\<lambda>_. sealed sc j) (awaiting j)"
  unfolding resolution_phase_def Let_def wp_bind
  by (rule timed_wp) (simp_all add: resolution_result_wp awaiting_open)

lemma execute_step_inner_wp:
  "open_in Accepted j x \<Longrightarrow> io_wp (execute_step_inner E A step tid sid sc) dl x (\<lambda>_. sealed sc j) (awaiting j)"
  unfolding execute_step_inner_def Let_def wp_then
  by (erule enter_wp, simp)
    (auto simp: awaiting_open(1) intro!: unless_cancelled_wp [where s = Resolving] resolution_phase_wp on_world_wp)

section \<open>A whole step\<close>

lemma overall_deadline_wp: "awaiting j x \<Longrightarrow> io_wp (overall_deadline E sc) dl x (\<lambda>_. sealed sc j) R"
proof -
  assume "awaiting j x"
  then consider "open_in Resolving j x" | "open_in Dispatching j x" | "open_in Verifying j x"
    by (auto simp: awaiting_def)
  then show ?thesis
  proof cases
    case 1
    then have "xs_state x = Resolving" by (simp add: open_in_def)
    then show ?thesis using 1 by (simp add: overall_deadline_def fail_step_wp)
  next
    case 2
    then have "xs_state x = Dispatching" by (simp add: open_in_def)
    then show ?thesis using 2
      by (cases sc) (auto simp: overall_deadline_def agrees_failed intro!: finish_wp [where s = Dispatching] fail_step_wp [where s = Dispatching])
  next
    case 3
    then have "xs_state x = Verifying" by (simp add: open_in_def)
    then show ?thesis using 3
      by (cases sc) (auto simp: overall_deadline_def agrees_failed intro!: finish_wp [where s = Verifying] fail_step_wp [where s = Verifying])
  qed
qed

lemma unfinished_guard_wp: "sealed sc j x \<Longrightarrow> io_wp (unfinished_guard E) dl x (\<lambda>_. sealed sc j) R"
  by (simp add: unfinished_guard_def Let_def sealed_def)

lemma begin_action_open:
  "open_in Accepted (xs_journal x, xs_record (begin_action E A step tid sid idx cap dir x))
     (begin_action E A step tid sid idx cap dir x)"
  by (simp add: begin_action_def open_in_def same_action_def action_record_new_def next_action_id_def Let_def)

lemma begin_action_record:
  "ar_step_index (xs_record (begin_action E A step tid sid idx cap dir x)) = idx"
  "ar_action (xs_record (begin_action E A step tid sid idx cap dir x)) = step_tag step"
  "ar_capability_class (xs_record (begin_action E A step tid sid idx cap dir x)) = capability_as_str cap"
  "ar_target_id (xs_record (begin_action E A step tid sid idx cap dir x)) = unwrap_or ''_default'' tid"
  "ar_production_profile (xs_record (begin_action E A step tid sid idx cap dir x)) = is_production_profile (ax_environ A) dir"
  by (simp_all add: begin_action_def action_record_new_def next_action_id_def Let_def)

lemma ax_execute_step_wp:
  "io_wp (ax_execute_step E A step tid sid idx cap sc dir) dl x
     (\<lambda>r x'. sealed sc (xs_journal x, xs_record (begin_action E A step tid sid idx cap dir x)) x' \<and> r = xs_record x') (\<lambda>_. True)"
proof -
  let ?x = "begin_action E A step tid sid idx cap dir x"
  let ?j = "(xs_journal x, xs_record ?x)"
  have ended: "io_wp (case d of Some _ \<Rightarrow> unfinished_guard E | None \<Rightarrow> overall_deadline E sc) dl y
      (\<lambda>_ y. sealed sc ?j y \<and> xs_record y = xs_record y) (\<lambda>_. True)"
    if "case d of Some _ \<Rightarrow> sealed sc ?j y | None \<Rightarrow> awaiting ?j y" for d :: "unit option" and y
    using that by (cases d) (auto intro: unfinished_guard_wp overall_deadline_wp)
  have "io_wp (io_timeout (en_now E \<circ> xs_world) ms (execute_step_inner E A step tid sid sc)) dl ?x
      (\<lambda>d y. case d of Some _ \<Rightarrow> sealed sc ?j y | None \<Rightarrow> awaiting ?j y) (\<lambda>_. True)" for ms
    by (rule wp_timeout) (simp add: execute_step_inner_wp [OF begin_action_open])
  then show ?thesis
    unfolding ax_execute_step_def wp_then wp_bind wp_update
    by (rule wp_mono) (use ended in auto)
qed

section \<open>A whole plan\<close>

fun cascade_ok :: "bool \<Rightarrow> 'v action_record list \<Rightarrow> bool" where
  "cascade_ok b [] = True"
| "cascade_ok b (r # rs) =
     (outcome_is_skipped (ar_outcome r) = b \<and> cascade_ok (b \<or> should_cascade_skip (ar_outcome r)) rs)"

lemma cascade_ok_nth:
  "cascade_ok b rs \<Longrightarrow> j < length rs \<Longrightarrow>
   outcome_is_skipped (ar_outcome (rs ! j)) \<longleftrightarrow> b \<or> (\<exists>i < j. should_cascade_skip (ar_outcome (rs ! i)))"
proof (induction rs arbitrary: b j)
  case (Cons r rs)
  then show ?case by (cases j) (auto simp: Ex_less_Suc2)
qed simp

definition record_ok :: "'v action_record \<Rightarrow> bool" where
  "record_ok r = (is_terminal (ar_state r) \<and> ar_completed_at r \<noteq> None)"

definition plan_report ::
  "'v action_journal \<Rightarrow> bool \<Rightarrow> nat \<Rightarrow> plan_step list \<Rightarrow> 'v action_record list \<Rightarrow> ('w, 'v) exec \<Rightarrow> bool" where
  "plan_report j b idx steps rs x =
     (xs_journal x = foldl (\<lambda>j r. journal_append r j) j rs \<and> cascade_ok b rs \<and> list_all record_ok rs
      \<and> map ar_step_index rs = [idx..<idx + length steps] \<and> map ar_action rs = map step_tag steps)"

lemma record_only_wp:
  "io_wp (record_only E A step tid sid idx out verif) dl x
     (\<lambda>r x'. xs_journal x' = journal_append r (xs_journal x) \<and> record_ok r \<and> ar_outcome r = out
        \<and> ar_step_index r = idx \<and> ar_action r = step_tag step) R"
  by (simp add: record_only_def finish_def seal_def action_record_complete_def Let_def record_ok_def is_terminal_def
      begin_action_record) (simp add: begin_action_def action_record_new_def next_action_id_def Let_def)

lemma sealed_not_skipped: "sealed sc j x \<Longrightarrow> \<not> outcome_is_skipped (ar_outcome (xs_record x))"
  by (auto simp: sealed_def Let_def outcome_agrees_def split: action_state.splits)

lemma plan_report_Cons:
  "record_ok r \<Longrightarrow> ar_step_index r = idx \<Longrightarrow> ar_action r = step_tag step \<Longrightarrow>
   outcome_is_skipped (ar_outcome r) = b \<Longrightarrow>
   plan_report (journal_append r j) (b \<or> should_cascade_skip (ar_outcome r)) (Suc idx) steps rs x \<Longrightarrow>
   plan_report j b idx (step # steps) (r # rs) x"
  by (simp add: plan_report_def upt_conv_Cons del: upt_Suc)

lemma ax_run_steps_wp:
  "io_wp (ax_run_steps E A tid sid skip idx steps) dl x
     (plan_report (xs_journal x) (skip \<noteq> None) idx steps) (\<lambda>_. True)"
proof (induction steps arbitrary: skip idx x)
  case Nil
  show ?case by (simp add: plan_report_def)
next
  case (Cons step steps)
  have rest: "io_wp (io_bind (ax_run_steps E A tid sid skip' (Suc idx) steps) (\<lambda>rs. io_return (r # rs))) dl y
      (plan_report j b idx (step # steps)) (\<lambda>_. True)"
    if "xs_journal y = journal_append r j" "record_ok r" "ar_step_index r = idx" "ar_action r = step_tag step"
      "outcome_is_skipped (ar_outcome r) = b" "(skip' \<noteq> None) = (b \<or> should_cascade_skip (ar_outcome r))" for r y j b skip'
    unfolding wp_bind wp_return
    by (rule wp_mono [OF Cons.IH]) (use that in \<open>auto intro: plan_report_Cons\<close>)
  show ?case
  proof (cases skip)
    case (Some reason)
    have "io_wp (record_only E A step tid sid idx (Skipped reason) v) dl x
        (\<lambda>r y. io_wp (io_bind (ax_run_steps E A tid sid (Some reason) (Suc idx) steps) (\<lambda>rs. io_return (r # rs))) dl y
           (plan_report (xs_journal x) True idx (step # steps)) (\<lambda>_. True)) (\<lambda>_. True)" for v
      by (intro wp_mono [OF record_only_wp] rest) simp_all
    then show ?thesis using Some by simp
  next
    case None
    have cancelled: "io_wp (record_only E A step tid sid idx (step_outcome.Failed m) None) dl x
        (\<lambda>r y. io_wp (io_bind (ax_run_steps E A tid sid (Some m') (Suc idx) steps) (\<lambda>rs. io_return (r # rs))) dl y
           (plan_report (xs_journal x) False idx (step # steps)) (\<lambda>_. True)) (\<lambda>_. True)" for m m'
      by (intro wp_mono [OF record_only_wp] rest) simp_all
    have executed: "io_wp (ax_execute_step E A step tid sid idx cap sc None) dl x
        (\<lambda>r y. io_wp (io_bind (ax_run_steps E A tid sid (if should_cascade_skip (ar_outcome r) then Some (m r) else None)
              (Suc idx) steps) (\<lambda>rs. io_return (r # rs))) dl y
           (plan_report (xs_journal x) False idx (step # steps)) (\<lambda>_. True)) (\<lambda>_. True)" for cap sc m
    proof (rule wp_mono [OF ax_execute_step_wp], rule rest)
      fix r y assume s: "sealed sc (xs_journal x, xs_record (begin_action E A step tid sid idx cap None x)) y \<and> r = xs_record y"
      then show "outcome_is_skipped (ar_outcome r) = False" using sealed_not_skipped by blast
    qed (auto simp: sealed_def Let_def same_action_def begin_action_record record_ok_def)
    show ?thesis
      using None cancelled executed by simp
  qed
qed

section \<open>Samples\<close>

definition sample_exec :: "(nat \<times> world, json) exec" where
  "sample_exec = \<lparr>xs_world = (0, sample_world), xs_state = Accepted, xs_states = [],
     xs_record = fst (action_record_new 0 0 0 [] 0 None 0 [] [] 0 0 0 False), xs_journal = journal_new 10, xs_counter = 1\<rparr>"

definition dead_env :: "(nat \<times> world, json) env" where
  "dead_env = sample_env\<lparr>en_call := (\<lambda>dl sid m p w. (Some (Inl (RuntimeDead ''gone'')), w))\<rparr>"

text \<open>A page that changes at every call: the DOM version goes up before the answer arrives.\<close>

definition racing_env :: "(nat \<times> world, json) env" where
  "racing_env = sample_env\<lparr>en_call := (\<lambda>dl sid m p (t, s).
     (Some (Inr (JObj [(''result'', JObj [(''value'', JStr ''u'')])])),
      (t + 1, s\<lparr>w_ds := (w_ds s)\<lparr>ds_dom_version := ds_dom_version (w_ds s) + 1\<rparr>\<rparr>)))\<rparr>"

definition ok_ref :: element_ref where
  "ok_ref = the (ei_get sample_index ''e_001'')"

definition ok_world :: world where
  "ok_world = \<lparr>w_ds = dom_state_new, w_fm = frame_manager_new, w_idx = sample_index\<rparr>"

lemmas run_defs = ax_execute_step_def execute_step_inner_def resolution_phase_def resolution_result_def
  precondition_phase_def hook_phase_def dispatch_phase_def dispatch_result_def verify_phase_def
  io_then_def io_bind_def io_return_def io_get_def io_update_def io_pure_def io_timeout_def timed_def on_world_def
  enter_def unless_cancelled_def set_resolution_method_def run_hook_def hook_check_def precondition_def
  resolve_for_step_def dispatch_step_def verify_step_def verified_as_def fail_step_def finish_def seal_def
  dispatch_failed_def dispatch_timed_out_def is_unknown_error_def unfinished_guard_def
  executor_new_def executor_config_default_def current_url_def effective_session_def href_of_def evaluate_def
  evaluate_await_def io_call_def await_def result_value_def value_str_def get_str_def first_given_def inner_value_def
  sample_env_def dead_env_def racing_env_def sample_exec_def Let_def begin_action_def action_record_new_def
  next_action_id_def action_record_complete_def is_terminal_def

lemma dead_tabs_run:
  "\<exists>r x. ax_execute_step dead_env (executor_new (\<lambda>_. None)) Tabs None None 0 NoCapability False None None sample_exec
     = Some (Done r, x) \<and> ar_state r = action_state.Failed"
  by (simp add: run_defs)

lemma dead_eval_run:
  "\<exists>r x. ax_execute_step dead_env (executor_new (\<lambda>_. None)) (Eval ''1'') None None 0 RuntimeEvaluate True None None sample_exec
     = Some (Done r, x) \<and> ar_state r = Unknown"
  by (simp add: run_defs)

section \<open>Properties\<close>

text \<open>
  C4: every step that returns leaves exactly one record in the journal, the one it returns. The record is
  completed and terminal, and carries the index and the tag of the step.
\<close>

theorem step_leaves_one_record:
  assumes "ax_execute_step E A step tid sid idx cap sc dir dl x = Some (Done r, x')"
  shows "xs_journal x' = journal_append r (xs_journal x) \<and> is_terminal (ar_state r) \<and> ar_completed_at r \<noteq> None
    \<and> ar_step_index r = idx \<and> ar_action r = step_tag step \<and> ar_target_id r = unwrap_or ''_default'' tid"
  using io_wpD [OF ax_execute_step_wp assms]
  by (auto simp: sealed_def Let_def same_action_def begin_action_record)

theorem step_leaves_one_record_witness:
  "\<exists>r x'. ax_execute_step dead_env (executor_new (\<lambda>_. None)) Tabs None None 0 NoCapability False None None sample_exec
     = Some (Done r, x') \<and> xs_journal x' = journal_append r (xs_journal sample_exec) \<and> is_terminal (ar_state r)"
proof -
  obtain r x' where run: "ax_execute_step dead_env (executor_new (\<lambda>_. None)) Tabs None None 0 NoCapability False None None sample_exec
     = Some (Done r, x')" using dead_tabs_run by blast
  show ?thesis using step_leaves_one_record [OF run] run by blast
qed



text \<open>
  C5: every step is a run of the action machine, from \<open>Accepted\<close> to the recorded state, but for the edge
  from \<open>Resolved\<close> to \<open>Cancelled\<close>, which the machine lacks. Its effect is unknown only if it was state
  changing and had been dispatched, and it is cancelled only before any dispatch.
\<close>

theorem step_follows_machine:
  assumes "ax_execute_step E A step tid sid idx cap sc dir dl x = Some (Done r, x')"
  shows "successively (\<lambda>s t. action_can_transition_to s t \<or> s = Resolved \<and> t = Cancelled) (xs_states x')
    \<and> hd (xs_states x') = Accepted \<and> last (xs_states x') = ar_state r
    \<and> (ar_state r = Unknown \<longrightarrow> sc \<and> Dispatching \<in> set (xs_states x'))
    \<and> (ar_state r = Cancelled \<longrightarrow> Dispatching \<notin> set (xs_states x'))"
  using io_wpD [OF ax_execute_step_wp assms]
  by (auto simp: sealed_def Let_def executor_edge_def [abs_def])

theorem step_follows_machine_witness:
  "\<exists>r x'. ax_execute_step dead_env (executor_new (\<lambda>_. None)) (Eval ''1'') None None 0 RuntimeEvaluate True None None sample_exec
     = Some (Done r, x') \<and> ar_state r = Unknown \<and> Dispatching \<in> set (xs_states x')"
proof -
  obtain r x' where run: "ax_execute_step dead_env (executor_new (\<lambda>_. None)) (Eval ''1'') None None 0 RuntimeEvaluate True None
      None sample_exec = Some (Done r, x')" and u: "ar_state r = Unknown" using dead_eval_run by blast
  show ?thesis using step_follows_machine [OF run] run u by blast
qed

text \<open>
  C10: a plan run through the executor leaves one completed, terminal record per step, in order, in the
  result and in the journal. A step is skipped just when an earlier one failed or was contradicted; an
  inconclusive step does not stop the plan.
\<close>

theorem plan_cascade:
  assumes "execute_plan E A plan tid sid dl x = Some (Done rs, x')"
  shows "map ar_step_index rs = [0..<length (pl_steps plan)] \<and> map ar_action rs = map step_tag (pl_steps plan)
    \<and> xs_journal x' = foldl (\<lambda>j r. journal_append r j) (xs_journal x) rs
    \<and> (\<forall>r \<in> set rs. is_terminal (ar_state r) \<and> ar_completed_at r \<noteq> None)
    \<and> (\<forall>j < length rs. outcome_is_skipped (ar_outcome (rs ! j)) \<longleftrightarrow>
          (\<exists>i < j. should_cascade_skip (ar_outcome (rs ! i))))"
proof -
  have p: "plan_report (xs_journal x) False 0 (pl_steps plan) rs x'"
    using io_wpD [OF ax_run_steps_wp assms [unfolded execute_plan_def]] by simp
  then have "\<forall>j < length rs. outcome_is_skipped (ar_outcome (rs ! j)) \<longleftrightarrow>
      (\<exists>i < j. should_cascade_skip (ar_outcome (rs ! i)))"
    using cascade_ok_nth [of False rs] by (simp add: plan_report_def)
  then show ?thesis using p by (simp add: plan_report_def list_all_iff record_ok_def)
qed

theorem plan_cascade_witness:
  "\<exists>rs x'. execute_plan dead_env (executor_new (\<lambda>_. None)) (plan_new [Tabs, GoBack]) None None None sample_exec
       = Some (Done rs, x') \<and> map ar_action rs = [''tabs'', ''go_back'']
     \<and> (outcome_is_skipped (ar_outcome (rs ! 1)) \<longleftrightarrow> should_cascade_skip (ar_outcome (rs ! 0)))"
proof -
  have "\<exists>rs x'. execute_plan dead_env (executor_new (\<lambda>_. None)) (plan_new [Tabs, GoBack]) None None None sample_exec
      = Some (Done rs, x')"
    by (simp add: execute_plan_def plan_new_def record_only_def run_defs)
  then obtain rs x' where run: "execute_plan dead_env (executor_new (\<lambda>_. None)) (plan_new [Tabs, GoBack]) None None None
      sample_exec = Some (Done rs, x')" by blast
  have "length rs = 2" using plan_cascade [OF run] by (auto simp: plan_new_def dest: map_eq_imp_length_eq)
  then show ?thesis using plan_cascade [OF run] run by (auto simp: plan_new_def less_Suc_eq)
qed

end
