(* ===== verification/Executor_Live.thy ===== *)
theory Executor_Live
  imports Executor_Props
begin

text \<open>
  Every step and every plan comes to an end, whatever the browser answers or fails to answer: the
  executor awaits only under its timeouts.
\<close>

section \<open>Computations that return\<close>

text \<open>\<open>total m\<close>: no panic and no endless loop; \<open>uncut m\<close>: moreover not dropped when no deadline is in force.\<close>

definition total :: "('w, 'a) io \<Rightarrow> bool" where
  "total m = (\<forall>dl w. m dl w \<noteq> None)"

definition uncut :: "('w, 'a) io \<Rightarrow> bool" where
  "uncut m = (\<forall>w. \<exists>a w'. m None w = Some (Done a, w'))"

named_theorems returning

lemma total_basic [simp, returning]:
  "total (io_return a)" "total (io_get f)" "total (io_update g)" "total (io_call E sid m p)" "total (io_sleep E ms)"
  by (auto simp: total_def io_return_def io_get_def io_update_def io_call_def io_sleep_def await_def split: prod.split option.split)

lemma total_bind [returning]: "total m \<Longrightarrow> (\<And>a. total (f a)) \<Longrightarrow> total (io_bind m f)"
  by (auto simp: total_def io_bind_def split: option.split run.split)

lemma total_then [returning]: "total m \<Longrightarrow> total k \<Longrightarrow> total (io_then m k)"
  by (simp add: io_then_def total_bind)

lemma total_try [returning]: "total m \<Longrightarrow> (\<And>a. total (f a)) \<Longrightarrow> total (io_try m f)"
  by (auto simp: io_try_def intro!: total_bind split: sum.split)

lemma total_timeout [returning]: "total m \<Longrightarrow> total (io_timeout now ms m)"
proof (unfold total_def, intro allI)
  fix dl w
  assume m: "\<forall>dl w. m dl w \<noteq> None"
  let ?dl = "if case dl of None \<Rightarrow> False | Some d \<Rightarrow> d < now w + ms then dl else Some (now w + ms)"
  obtain r w' where "m ?dl w = Some (r, w')" using m by (metis option.exhaust surj_pair)
  then show "io_timeout now ms m dl w \<noteq> None" by (cases r) (simp_all add: io_timeout_def)
qed

lemma total_on_world [returning]: "total m \<Longrightarrow> total (on_world m)"
  by (auto simp: total_def on_world_def split: option.splits)

lemma total_timed [returning]: "total m \<Longrightarrow> total (timed E ms m)"
  by (simp add: timed_def total_on_world total_timeout)

lemma uncut_basic: "uncut (io_return a)" "uncut (io_get f)" "uncut (io_update g)"
  by (auto simp: uncut_def io_return_def io_get_def io_update_def)

lemma uncut_bind: "uncut m \<Longrightarrow> (\<And>a. uncut (f a)) \<Longrightarrow> uncut (io_bind m f)"
  by (force simp: uncut_def)

lemma uncut_then: "uncut m \<Longrightarrow> uncut k \<Longrightarrow> uncut (io_then m k)"
  by (simp add: io_then_def uncut_bind)

lemma uncut_timeout: "total m \<Longrightarrow> uncut (io_timeout now ms m)"
proof (unfold uncut_def, intro allI)
  fix w
  assume "total m"
  then obtain r w' where "m (Some (now w + ms)) w = Some (r, w')" by (force simp: total_def)
  then show "\<exists>a w'. io_timeout now ms m None w = Some (Done a, w')"
    by (cases r) (simp_all add: io_timeout_def)
qed

section \<open>The phases\<close>

lemma total_scripts [simp, returning]:
  "total (evaluate E sid js)" "total (evaluate_await E sid js)" "total (href_of E sid)" "total (dispatch_key E sid ty key)"
  by (simp_all add: evaluate_def evaluate_await_def href_of_def dispatch_key_def Let_def returning split: prod.split)

text \<open>The time of a wait that \<open>Duration::from_secs_f64\<close> takes without a panic.\<close>

fun sleepable :: "plan_step \<Rightarrow> bool" where
  "sleepable (Wait (Some t) _ _ _ _) = (0 \<le> t \<and> t < 2 ^ 64)"
| "sleepable _ = True"

lemma total_sleep_secs [simp, returning]: "0 \<le> t \<Longrightarrow> t < 2 ^ 64 \<Longrightarrow> total (sleep_secs E t)"
  by (simp add: sleep_secs_def)

lemma total_current_url [simp, returning]: "total (current_url E sid)"
  by (auto simp: current_url_def intro!: returning)

lemma total_dispatch_step [returning]: "sleepable step \<Longrightarrow> total (dispatch_step E step res sid)"
  by (cases step)
    (auto simp: dispatch_step_def ex_click_backend_def ex_press_def ex_snapshot_def Let_def
      intro!: returning split: option.split resolved_target.split list.split)

lemma total_verify_step [returning]: "total (verify_step E step v sid ub db)"
  by (cases step)
    (auto simp: verify_step_def verify_click_def verify_text_def verify_select_def verify_navigate_def Let_def
      intro!: returning)

lemma total_steps [simp, returning]:
  "total (enter s)" "total (finish E s out verif err)" "total (fail_step E m d)" "total (finalize_cancelled E)"
  "total (verified_as E vr)" "total (dispatch_failed E sc e)" "total (dispatch_timed_out E sc ms)" "total (run_hook h)"
  "total (set_resolution_method m)"
  by (auto simp: enter_def finish_def fail_step_def finalize_cancelled_def verified_as_def dispatch_failed_def
      dispatch_timed_out_def run_hook_def set_resolution_method_def intro!: returning split: verification_result.split option.split)

lemma total_unless_cancelled [returning]: "total k \<Longrightarrow> total (unless_cancelled E k)"
  by (auto simp: unless_cancelled_def intro!: returning)

lemma total_dispatch_phase [returning]: "sleepable step \<Longrightarrow> total (dispatch_phase E A step sid sc resolved)"
  by (auto simp: dispatch_phase_def dispatch_result_def verify_phase_def Let_def intro!: returning split: option.split sum.split)

lemma total_precondition_phase [returning]: "sleepable step \<Longrightarrow> total (precondition_phase E A step sid sc resolved)"
  by (auto simp: precondition_phase_def hook_phase_def intro!: returning split: option.split)

lemma total_execute_step_inner:
  "sleepable step \<Longrightarrow> total (resolve_for_step E step tid sid) \<Longrightarrow> total (execute_step_inner E A step tid sid sc)"
  by (auto simp: execute_step_inner_def resolution_phase_def resolution_result_def Let_def intro!: returning split: sum.split)

lemma uncut_execute_step:
  "sleepable step \<Longrightarrow> total (resolve_for_step E step tid sid) \<Longrightarrow> uncut (ax_execute_step E A step tid sid idx cap sc dir)"
  unfolding ax_execute_step_def
  by (auto simp: unfinished_guard_def overall_deadline_def fail_step_def finish_def
      intro!: uncut_basic uncut_then uncut_bind uncut_timeout total_execute_step_inner split: option.split)

lemma uncut_record_only: "uncut (record_only E A step tid sid idx out verif)"
  by (auto simp: record_only_def finish_def intro!: uncut_then uncut_basic)

lemma uncut_run_steps:
  "list_all (\<lambda>step. sleepable step \<and> total (resolve_for_step E step tid sid)) steps \<Longrightarrow> uncut (ax_run_steps E A tid sid skip idx steps)"
  by (induction steps arbitrary: skip idx)
    (auto simp: Let_def intro!: uncut_basic uncut_bind uncut_record_only uncut_execute_step split: option.split)

lemma total_resolve_for_step:
  "(\<And>req s. step_request step tid = Some req \<Longrightarrow> resolve_or_recover E s tid sid req \<noteq> None) \<Longrightarrow>
   total (resolve_for_step E step tid sid)"
  by (auto simp: total_def resolve_for_step_def io_bind_def io_get_def io_pure_def io_return_def split: option.split)

text \<open>
  C9: a plan always comes to an end with one record per step, however the browser behaves: a call that
  is never answered is cut by a timeout, so the only ways not to return are the panic in the
  logging of the recovery ladder and that of a wait whose time is negative or too large.
\<close>

theorem plan_always_ends:
  assumes "\<forall>step \<in> set (pl_steps plan). \<forall>req s. step_request step tid = Some req \<longrightarrow>
      resolve_or_recover E s tid sid req \<noteq> None"
    and "list_all sleepable (pl_steps plan)"
  shows "\<exists>rs x'. execute_plan E A plan tid sid None x = Some (Done rs, x') \<and> length rs = length (pl_steps plan)
    \<and> (\<forall>r \<in> set rs. is_terminal (ar_state r))"
proof -
  have "list_all (\<lambda>step. sleepable step \<and> total (resolve_for_step E step tid sid)) (pl_steps plan)"
    using assms by (auto simp: list_all_iff intro!: total_resolve_for_step)
  then obtain rs x' where run: "execute_plan E A plan tid sid None x = Some (Done rs, x')"
    unfolding execute_plan_def using uncut_run_steps unfolding uncut_def by blast
  have "plan_report (xs_journal x) False 0 (pl_steps plan) rs x'"
    using io_wpD [OF ax_run_steps_wp run [unfolded execute_plan_def]] by simp
  then have "length rs = length (pl_steps plan) \<and> (\<forall>r \<in> set rs. is_terminal (ar_state r))"
    by (auto simp: plan_report_def record_ok_def list_all_iff dest: map_eq_imp_length_eq)
  then show ?thesis using run by blast
qed

theorem plan_always_ends_witness:
  "\<exists>rs x'. execute_plan dead_env (executor_new (\<lambda>_. None)) (plan_new [Navigate ''https://a.org'', Tabs, GoBack]) None None
     None sample_exec = Some (Done rs, x') \<and> length rs = Suc (Suc (Suc 0)) \<and> (\<forall>r \<in> set rs. is_terminal (ar_state r))"
  using plan_always_ends [of "plan_new [Navigate ''https://a.org'', Tabs, GoBack]" None dead_env None "executor_new (\<lambda>_. None)" sample_exec]
  by (simp add: plan_new_def)

end
