(* ===== verification/Executor_Dispatch.thy ===== *)
theory Executor_Dispatch
  imports Executor_Props
begin

text \<open>
  What the executor has checked when it dispatches, and what it has not: the precondition, the
  reference used, the unresolved element, the conditions of a wait and the verdict on a navigation.
\<close>

section \<open>The precondition\<close>

text \<open>
  The precondition passes an element just when it is visible and enabled, no version it was
  recorded with has moved on in the state at that moment, and its target generation is the current one.
\<close>

lemma precondition_exact:
  "precondition s (Some (Element r)) = None \<longleftrightarrow>
     er_visible r \<and> er_enabled r \<and> \<not> ei_is_stale (w_ds s) (w_fm s) r
     \<and> er_target_generation r = ds_target_generation (w_ds s)"
  by (simp add: precondition_def check_interactable_def verify_snapshot_def ei_is_stale_def)

text \<open>
  Between the precondition and the dispatch the executor awaits a browser call. In this run the
  reference passes the precondition, the DOM version goes up during that call, and the click on the
  reference, stale by then, is dispatched and recorded as completed.
\<close>

lemma stale_reference_dispatched:
  "\<exists>u w1 x'. precondition ok_world (Some (Element ok_ref)) = None
     \<and> current_url racing_env None None (0, ok_world) = Some (Done u, w1)
     \<and> precondition (snd w1) (Some (Element ok_ref)) \<noteq> None
     \<and> dispatch_phase racing_env (executor_new (\<lambda>_. None)) (Click (Some ''#ok'') None None) None True (Some (Element ok_ref))
         None (sample_exec\<lparr>xs_world := (0, ok_world)\<rparr>) = Some (Done (), x')
     \<and> ar_state (xs_record x') = Completed"
proof -
  have "precondition ok_world (Some (Element ok_ref)) = None" by code_simp
  moreover have "precondition (ok_world\<lparr>w_ds := (w_ds ok_world)\<lparr>ds_dom_version := ds_dom_version (w_ds ok_world) + 1\<rparr>\<rparr>)
      (Some (Element ok_ref)) \<noteq> None" by code_simp
  ultimately show ?thesis
    by (simp add: run_defs verify_click_def add.commute del: precondition_def)
qed

section \<open>The reference\<close>

text \<open>
  Only a click uses the element that was resolved and checked. Every other step is dispatched by its
  raw selector, to whatever element of the page matches it first.
\<close>

lemma only_click_uses_reference:
  "\<forall>sel rf el. step \<noteq> Click sel rf el \<Longrightarrow> dispatch_step E step resolved sid = dispatch_step E step None sid"
  by (cases step) (simp_all add: dispatch_step_def)

text \<open>
  When neither the index nor the recovery ladder finds the element, or the ladder finds several, the
  step is not failed: the executor goes on without an element, every precondition passes, and a click
  runs its raw selector in the page.
\<close>

lemma unresolved_click_dispatched:
  assumes "resolve_in (en_json E) (en_order E) s req = Some (Inl e)" "is_resolution_failed e"
    and "recover (en_json E) (w_ds s) (w_fm s) (en_order E) (w_idx s) None req
           \<lparr>ro_allow_vision = True, ro_is_visual_context = visual_request req, ro_pierce_shadow = True\<rparr> = Some res"
    and "\<forall>r. rr_outcome res \<noteq> Recovered r" "\<forall>d. rr_outcome res \<noteq> Vision_required d"
    and "sel \<noteq> []" "\<not> list_all is_digit sel"
  shows "resolve_or_recover E s tid sid req = Some (Inr None) \<and> precondition s' None = None
    \<and> dispatch_step E (Click (Some sel) rf el) None sid dl w
        = evaluate_await E (effective_session E sid w) (click_js E sel) dl w"
  using assms
  by (auto simp: resolve_or_recover_def precondition_def dispatch_step_def first_given_def io_bind_def io_get_def Let_def
      split: recovery_outcome.split)

section \<open>Waits and navigations\<close>

text \<open>
  A wait step of the executor without a time returns at once and unchanged, whatever URL or lifecycle
  condition and timeout it has.
\<close>

lemma executor_wait_ignores_condition:
  "dispatch_step E (Wait None uc ue lc ms) resolved sid dl w
     = Some (Done (Inr (j_obj (en_json E) [(''waited'', j_null (en_json E))])), w)"
  by (simp add: dispatch_step_def io_bind_def io_get_def io_return_def Let_def j_opt_def)

text \<open>
  A navigation to a URL that ends in a slash is verified on every page whose document is complete,
  since the last part of the URL that must occur in the address is empty.
\<close>

lemma navigate_verified_anywhere:
  assumes "current_url E sid dl w = Some (Done u, w1)"
    and "evaluate E sid ''document.readyState'' dl w1 = Some (Done (Inr v), w2)"
    and "Option.bind (result_value (en_json E) v) (j_as_str (en_json E)) = Some ''complete''"
    and "unwrap_or [] u \<noteq> url @ ''/''" "\<not> str_contains (unwrap_or [] u) (url @ ''/'')"
  shows "\<exists>value. verify_navigate E sid (url @ ''/'') dl w = Some (Done (Verified value), w2)"
  using assms
  by (simp add: verify_navigate_def io_bind_def io_return_def Let_def url_basename_def)

text \<open>A page somewhere else: the first call answers with its address.\<close>

definition elsewhere_env :: "(nat \<times> world, json) env" where
  "elsewhere_env = sample_env\<lparr>en_call := (\<lambda>dl sid m p (t, s).
     (Some (Inr (JObj [(''result'', JObj [(''value'', JStr (if t = 0 then ''https://other.org/x'' else ''complete''))])])),
      (t + 1, s)))\<rparr>"

end
