(* ===== verification/Metrics.thy ===== *)
theory Metrics
  imports Complex_Main Transport_Calls Dom_Diff Actions
begin

text \<open>
  \<open>src/browser_runtime/metrics.rs\<close>: the counters of the daemon, the bounded window of latencies and its
  percentiles, the snapshot, and the benchmark results. \<open>f64\<close> values are rationals. The percentiles the
  code asks for (0.5, 0.9 and 0.99 of a window of at most 4096 samples) have ranks that the rounding of
  \<open>f64\<close> does not change.
\<close>

section \<open>Percentiles\<close>

definition latency_sample_cap :: nat where "latency_sample_cap = 4096"
definition handshake_saved_ms_per_call :: u64 where "handshake_saved_ms_per_call = 5"

definition percentile_sorted :: "u64 list \<Rightarrow> rat \<Rightarrow> u64" where
  "percentile_sorted xs pct =
     (if xs = [] then 0
      else
        let pct = min 1 (max 0 pct) in
        if pct \<le> 0 then xs ! 0
        else if 1 \<le> pct then xs ! (length xs - 1)
        else
          let rank = nat \<lceil>pct * of_nat (length xs)\<rceil>;
              idx = min (rank - 1) (length xs - 1)
          in xs ! idx)"

definition percentile_of :: "u64 list \<Rightarrow> rat \<Rightarrow> u64" where
  "percentile_of samples pct = (if samples = [] then 0 else percentile_sorted (sort samples) pct)"

definition average :: "nat \<Rightarrow> nat \<Rightarrow> rat" where
  "average t n = of_nat t / of_nat n"

definition min_max_avg :: "u64 list \<Rightarrow> u64 \<times> u64 \<times> rat" where
  "min_max_avg samples =
     (if samples = [] then (0, 0, 0)
      else (Min (set samples), Max (set samples), average (sum_list (map unat samples)) (length samples)))"

section \<open>The metrics\<close>

record runtime_metrics =
  rm_action_count :: u64
  rm_total_latency_ms :: u64
  rm_latency_samples :: "u64 list"
  rm_cap :: nat
  rm_vision_fallback_count :: u64
  rm_reconnect_count :: u64
  rm_dom_rebuild_count :: u64
  rm_incremental_update_count :: u64
  rm_offloaded_decode_count :: u64
  rm_offloaded_decode_latency_us :: u64
  rm_oversize_dropped_count :: u64
  rm_cdp_call_count :: u64
  rm_cdp_error_count :: u64

definition metrics_with_cap :: "nat \<Rightarrow> runtime_metrics" where
  "metrics_with_cap cap = \<lparr>rm_action_count = 0, rm_total_latency_ms = 0, rm_latency_samples = [],
     rm_cap = max cap 1, rm_vision_fallback_count = 0, rm_reconnect_count = 0, rm_dom_rebuild_count = 0,
     rm_incremental_update_count = 0, rm_offloaded_decode_count = 0, rm_offloaded_decode_latency_us = 0,
     rm_oversize_dropped_count = 0, rm_cdp_call_count = 0, rm_cdp_error_count = 0\<rparr>"

definition metrics_new :: runtime_metrics where
  "metrics_new = metrics_with_cap latency_sample_cap"

definition record_action :: "u64 \<Rightarrow> action_state \<Rightarrow> runtime_metrics \<Rightarrow> runtime_metrics" where
  "record_action latency_ms state m =
     (let g = rm_latency_samples m;
          g = (if rm_cap m \<le> length g then tl g else g)
      in m\<lparr>rm_action_count := rm_action_count m + 1, rm_total_latency_ms := rm_total_latency_ms m + latency_ms,
           rm_latency_samples := g @ [latency_ms]\<rparr>)"

definition record_vision_fallback :: "runtime_metrics \<Rightarrow> runtime_metrics" where
  "record_vision_fallback m = m\<lparr>rm_vision_fallback_count := rm_vision_fallback_count m + 1\<rparr>"

definition record_reconnect :: "runtime_metrics \<Rightarrow> runtime_metrics" where
  "record_reconnect m = m\<lparr>rm_reconnect_count := rm_reconnect_count m + 1\<rparr>"

definition record_dom_rebuild :: "runtime_metrics \<Rightarrow> runtime_metrics" where
  "record_dom_rebuild m = m\<lparr>rm_dom_rebuild_count := rm_dom_rebuild_count m + 1\<rparr>"

definition record_incremental :: "runtime_metrics \<Rightarrow> runtime_metrics" where
  "record_incremental m = m\<lparr>rm_incremental_update_count := rm_incremental_update_count m + 1\<rparr>"

definition record_offloaded :: "u64 \<Rightarrow> runtime_metrics \<Rightarrow> runtime_metrics" where
  "record_offloaded us m = m\<lparr>rm_offloaded_decode_count := rm_offloaded_decode_count m + 1,
     rm_offloaded_decode_latency_us := rm_offloaded_decode_latency_us m + us\<rparr>"

definition record_oversize :: "runtime_metrics \<Rightarrow> runtime_metrics" where
  "record_oversize m = m\<lparr>rm_oversize_dropped_count := rm_oversize_dropped_count m + 1\<rparr>"

definition record_cdp_call :: "bool \<Rightarrow> runtime_metrics \<Rightarrow> runtime_metrics" where
  "record_cdp_call success m =
     (let m = m\<lparr>rm_cdp_call_count := rm_cdp_call_count m + 1\<rparr> in
      if \<not> success then m\<lparr>rm_cdp_error_count := rm_cdp_error_count m + 1\<rparr> else m)"

definition merge_transport_diagnostics :: "transport_diagnostics \<Rightarrow> runtime_metrics \<Rightarrow> runtime_metrics" where
  "merge_transport_diagnostics diag m =
     (let m = (if rm_offloaded_decode_count m < td_offloaded_decode_count diag
               then m\<lparr>rm_offloaded_decode_count := td_offloaded_decode_count diag\<rparr> else m)
      in if rm_oversize_dropped_count m < td_oversize_dropped_count diag
         then m\<lparr>rm_oversize_dropped_count := td_oversize_dropped_count diag\<rparr> else m)"

definition latency_samples_snapshot :: "runtime_metrics \<Rightarrow> u64 list" where
  "latency_samples_snapshot m = rm_latency_samples m"

definition latency_sample_len :: "runtime_metrics \<Rightarrow> nat" where
  "latency_sample_len m = length (rm_latency_samples m)"

definition latency_percentile :: "rat \<Rightarrow> runtime_metrics \<Rightarrow> u64" where
  "latency_percentile pct m = percentile_of (latency_samples_snapshot m) pct"

definition metrics_clear :: "runtime_metrics \<Rightarrow> runtime_metrics" where
  "metrics_clear m = m\<lparr>rm_action_count := 0, rm_total_latency_ms := 0, rm_latency_samples := [],
     rm_vision_fallback_count := 0, rm_reconnect_count := 0, rm_dom_rebuild_count := 0,
     rm_incremental_update_count := 0, rm_offloaded_decode_count := 0, rm_offloaded_decode_latency_us := 0,
     rm_oversize_dropped_count := 0, rm_cdp_call_count := 0, rm_cdp_error_count := 0\<rparr>"

section \<open>Snapshots\<close>

record metrics_snapshot =
  ms_action_count :: u64
  ms_cdp_call_count :: u64
  ms_cdp_error_count :: u64
  ms_latency_avg_ms :: rat
  ms_latency_p50_ms :: u64
  ms_latency_p90_ms :: u64
  ms_latency_p99_ms :: u64
  ms_latency_min_ms :: u64
  ms_latency_max_ms :: u64
  ms_vision_fallback_count :: u64
  ms_reconnect_count :: u64
  ms_dom_rebuild_count :: u64
  ms_incremental_update_count :: u64
  ms_offloaded_decode_count :: u64
  ms_offloaded_decode_total_us :: u64
  ms_oversize_dropped_count :: u64
  ms_reorder_buffer_depth_current :: nat
  ms_reorder_buffer_depth_max :: nat
  ms_event_count :: u64
  ms_pending_request_count :: nat
  ms_element_count :: nat
  ms_timestamp_ms :: u64

definition three_percentiles :: "u64 list \<Rightarrow> u64 \<times> u64 \<times> u64" where
  "three_percentiles samples =
     (if samples = [] then (0, 0, 0)
      else let xs = sort samples in
           (percentile_sorted xs (1 / 2), percentile_sorted xs (9 / 10), percentile_sorted xs (99 / 100)))"

definition metrics_snapshot_of ::
  "nat \<Rightarrow> transport_diagnostics \<Rightarrow> diff_metrics \<Rightarrow> runtime_metrics \<Rightarrow> metrics_snapshot" where
  "metrics_snapshot_of now diag diff m =
     (let samples = latency_samples_snapshot m;
          (mn, mx, avg_samples) = min_max_avg samples;
          avg = (if 0 < rm_action_count m then average (unat (rm_total_latency_ms m)) (unat (rm_action_count m))
                 else if samples \<noteq> [] then avg_samples else 0);
          (p50, p90, p99) = three_percentiles samples
      in \<lparr>ms_action_count = rm_action_count m, ms_cdp_call_count = rm_cdp_call_count m,
          ms_cdp_error_count = rm_cdp_error_count m, ms_latency_avg_ms = avg, ms_latency_p50_ms = p50,
          ms_latency_p90_ms = p90, ms_latency_p99_ms = p99, ms_latency_min_ms = mn, ms_latency_max_ms = mx,
          ms_vision_fallback_count = rm_vision_fallback_count m, ms_reconnect_count = rm_reconnect_count m,
          ms_dom_rebuild_count = max (rm_dom_rebuild_count m) (dm_rebuild_count diff),
          ms_incremental_update_count = max (rm_incremental_update_count m) (dm_incremental_count diff),
          ms_offloaded_decode_count = max (rm_offloaded_decode_count m) (td_offloaded_decode_count diag),
          ms_offloaded_decode_total_us = rm_offloaded_decode_latency_us m,
          ms_oversize_dropped_count = max (rm_oversize_dropped_count m) (td_oversize_dropped_count diag),
          ms_reorder_buffer_depth_current = td_depth_current diag, ms_reorder_buffer_depth_max = td_depth_max diag,
          ms_event_count = td_event_count diag, ms_pending_request_count = td_pending_request_count diag,
          ms_element_count = dm_element_count diff, ms_timestamp_ms = of_nat now\<rparr>)"

text \<open>The JSON of a snapshot; \<open>num\<close> makes a JSON number of an \<open>f64\<close>.\<close>

definition j_usize :: "'v json_ops \<Rightarrow> nat \<Rightarrow> 'v" where
  "j_usize J n = j_u64 J (of_nat n)"

definition metrics_snapshot_to_value :: "'v json_ops \<Rightarrow> (rat \<Rightarrow> 'v) \<Rightarrow> metrics_snapshot \<Rightarrow> 'v" where
  "metrics_snapshot_to_value J num s = j_obj J
     [(''action_count'', j_u64 J (ms_action_count s)), (''cdp_call_count'', j_u64 J (ms_cdp_call_count s)),
      (''cdp_error_count'', j_u64 J (ms_cdp_error_count s)), (''latency_avg_ms'', num (ms_latency_avg_ms s)),
      (''latency_p50_ms'', j_u64 J (ms_latency_p50_ms s)), (''latency_p90_ms'', j_u64 J (ms_latency_p90_ms s)),
      (''latency_p99_ms'', j_u64 J (ms_latency_p99_ms s)), (''latency_min_ms'', j_u64 J (ms_latency_min_ms s)),
      (''latency_max_ms'', j_u64 J (ms_latency_max_ms s)),
      (''vision_fallback_count'', j_u64 J (ms_vision_fallback_count s)),
      (''reconnect_count'', j_u64 J (ms_reconnect_count s)), (''dom_rebuild_count'', j_u64 J (ms_dom_rebuild_count s)),
      (''incremental_update_count'', j_u64 J (ms_incremental_update_count s)),
      (''offloaded_decode_count'', j_u64 J (ms_offloaded_decode_count s)),
      (''offloaded_decode_total_us'', j_u64 J (ms_offloaded_decode_total_us s)),
      (''oversize_dropped_count'', j_u64 J (ms_oversize_dropped_count s)),
      (''reorder_buffer_depth_current'', j_usize J (ms_reorder_buffer_depth_current s)),
      (''reorder_buffer_depth_max'', j_usize J (ms_reorder_buffer_depth_max s)),
      (''event_count'', j_u64 J (ms_event_count s)),
      (''pending_request_count'', j_usize J (ms_pending_request_count s)),
      (''element_count'', j_usize J (ms_element_count s)), (''timestamp_ms'', j_u64 J (ms_timestamp_ms s))]"

section \<open>Benchmarks\<close>

text \<open>\<open>now\<close> is the reading of \<open>now_ms\<close>; a vector longer than memory allows aborts in the code.\<close>

record benchmark_result =
  br_bench_id :: string
  br_iterations :: nat
  br_total_ms :: u64
  br_avg_ms :: rat
  br_p50_ms :: u64
  br_p90_ms :: u64
  br_p99_ms :: u64
  br_cdp_connections :: nat
  br_handshake_count :: nat
  br_per_call_connections :: nat
  br_handshake_saved_ms :: u64
  br_notes :: string

definition benchmark_latency_samples :: "u64 \<Rightarrow> u64 list \<Rightarrow> benchmark_result" where
  "benchmark_latency_samples now samples =
     (let iterations = length samples;
          total_ms = sum_list samples;
          avg_ms = (if 0 < iterations then average (unat total_ms) iterations else 0);
          (p50, p90, p99) = three_percentiles samples;
          saved = of_nat iterations * handshake_saved_ms_per_call;
          n = show_nat iterations
      in \<lparr>br_bench_id = ''latency-'' @ n @ ''-'' @ show_u64 now, br_iterations = iterations,
          br_total_ms = total_ms, br_avg_ms = avg_ms, br_p50_ms = p50, br_p90_ms = p90, br_p99_ms = p99,
          br_cdp_connections = 1, br_handshake_count = 0, br_per_call_connections = iterations,
          br_handshake_saved_ms = saved,
          br_notes = ''Persistent BrowserRuntime eliminates repeated /json + WebSocket handshake from normal actions: ''
            @ ''1 browser-level connection vs '' @ n @ '' per-call connections; 0 handshakes after initial vs '' @ n
            @ '' handshakes; ~'' @ show_u64 saved @ ''ms saved ('' @ show_u64 handshake_saved_ms_per_call
            @ ''ms per handshake x '' @ n @ '' iterations). Invariant I1 holds.''\<rparr>)"

definition benchmark_handshake_elimination_with_iterations :: "u64 \<Rightarrow> nat \<Rightarrow> benchmark_result" where
  "benchmark_handshake_elimination_with_iterations now iterations =
     (let it = max iterations 1;
          fake_samples = map (\<lambda>i. 8 + (of_nat i :: u64) mod 13) [0..<it];
          res = benchmark_latency_samples now fake_samples;
          saved = of_nat (it - 1) * handshake_saved_ms_per_call;
          n = show_nat it
      in res\<lparr>br_bench_id := ''handshake-elimination-'' @ n @ ''-'' @ show_u64 now,
             br_handshake_saved_ms := saved,
             br_notes := ''Persistent BrowserRuntime: 1 browser-level WebSocket for '' @ n
               @ '' actions, 0 handshakes after initial. Per-call equivalent: '' @ n @ '' connections + '' @ n
               @ '' handshakes (one /json discovery + connect per action). Estimated saving: '' @ show_u64 saved
               @ ''ms ('' @ show_u64 handshake_saved_ms_per_call @ ''ms x '' @ show_nat (it - 1)
               @ '' extra handshakes). Proves I1: exactly one persistent connection, no connect outside connection.rs, handshake eliminated from normal actions.''\<rparr>)"

definition benchmark_handshake_elimination :: "u64 \<Rightarrow> benchmark_result" where
  "benchmark_handshake_elimination now = benchmark_handshake_elimination_with_iterations now 100"

definition benchmark_result_to_value :: "'v json_ops \<Rightarrow> (rat \<Rightarrow> 'v) \<Rightarrow> benchmark_result \<Rightarrow> 'v" where
  "benchmark_result_to_value J num r = j_obj J
     [(''bench_id'', j_str J (br_bench_id r)), (''iterations'', j_usize J (br_iterations r)),
      (''total_ms'', j_u64 J (br_total_ms r)), (''avg_ms'', num (br_avg_ms r)), (''p50_ms'', j_u64 J (br_p50_ms r)),
      (''p90_ms'', j_u64 J (br_p90_ms r)), (''p99_ms'', j_u64 J (br_p99_ms r)),
      (''cdp_connections'', j_usize J (br_cdp_connections r)),
      (''handshake_count'', j_usize J (br_handshake_count r)),
      (''per_call_connections'', j_usize J (br_per_call_connections r)),
      (''handshake_saved_ms'', j_u64 J (br_handshake_saved_ms r)), (''notes'', j_str J (br_notes r))]"

text \<open>
  \<open>benchmark_incremental_vs_rebuild\<close> of \<open>dom_diff.rs\<close> and its wrapper: no update is run, the result is
  computed from the engine's totals or from fixed costs.
\<close>

record diff_benchmark =
  db_mutations :: nat
  db_incremental_total_us :: u64
  db_rebuild_total_us :: u64
  db_incremental_avg_us :: rat
  db_rebuild_avg_us :: rat
  db_speedup :: rat

definition synthetic_rebuild_us :: "nat \<Rightarrow> u64" where
  "synthetic_rebuild_us element_count = 500 + of_nat element_count * 10"

definition benchmark_incremental_vs_rebuild :: "diff_engine \<Rightarrow> nat \<Rightarrow> nat \<Rightarrow> diff_benchmark" where
  "benchmark_incremental_vs_rebuild e mutations element_count =
     (let incr_total = de_total_incremental_us e; rebuild_total = de_total_rebuild_us e;
          m = of_nat mutations;
          (incr_us, rebuild_us) =
            (if 0 < mutations \<and> incr_total = 0 \<and> rebuild_total = 0 then (5 * m, synthetic_rebuild_us element_count * m)
             else if 0 < mutations then
               ((if 0 < de_incremental_count e then incr_total div max (de_incremental_count e) 1 else 5) * m,
                (if 0 < de_rebuild_count e then rebuild_total div max (de_rebuild_count e) 1
                 else synthetic_rebuild_us element_count) * m)
             else (incr_total, rebuild_total));
          avg_incr = (if 0 < mutations then average (unat incr_us) mutations else 0);
          avg_rebuild = (if 0 < mutations then average (unat rebuild_us) mutations else 0)
      in \<lparr>db_mutations = mutations, db_incremental_total_us = incr_us, db_rebuild_total_us = rebuild_us,
          db_incremental_avg_us = avg_incr, db_rebuild_avg_us = avg_rebuild,
          db_speedup = (if 0 < avg_incr then avg_rebuild / avg_incr else 0)\<rparr>)"

definition diff_benchmark_to_value :: "'v json_ops \<Rightarrow> (rat \<Rightarrow> 'v) \<Rightarrow> diff_benchmark \<Rightarrow> 'v" where
  "diff_benchmark_to_value J num b = j_obj J
     [(''mutations'', j_usize J (db_mutations b)), (''incremental_total_us'', j_u64 J (db_incremental_total_us b)),
      (''rebuild_total_us'', j_u64 J (db_rebuild_total_us b)), (''incremental_avg_us'', num (db_incremental_avg_us b)),
      (''rebuild_avg_us'', num (db_rebuild_avg_us b)), (''speedup'', num (db_speedup b))]"

definition diff_metrics_to_value :: "'v json_ops \<Rightarrow> diff_metrics \<Rightarrow> 'v" where
  "diff_metrics_to_value J d = j_obj J
     [(''incremental_count'', j_u64 J (dm_incremental_count d)), (''rebuild_count'', j_u64 J (dm_rebuild_count d)),
      (''total_incremental_us'', j_u64 J (dm_total_incremental_us d)),
      (''total_rebuild_us'', j_u64 J (dm_total_rebuild_us d)), (''element_count'', j_usize J (dm_element_count d)),
      (''last_diff_kind'', j_opt J (j_str J) (dm_last_diff_kind d))]"

section \<open>The window and its percentiles\<close>

interpretation lw: bounded_log "\<lambda>l. record_action l st" rm_latency_samples rm_cap for st
  by unfold_locales (simp_all add: record_action_def Let_def)

lemma record_action_totals:
  "rm_action_count (foldl (\<lambda>m l. record_action l st m) m ls) = rm_action_count m + of_nat (length ls)
   \<and> rm_total_latency_ms (foldl (\<lambda>m l. record_action l st m) m ls) = rm_total_latency_ms m + sum_list ls"
  by (induction ls arbitrary: m) (simp_all add: record_action_def Let_def algebra_simps)

lemma length_filter_sort: "length (filter P (sort xs)) = length (filter P xs)"
proof -
  have "mset (filter P (sort xs)) = mset (filter P xs)" by simp
  then show ?thesis by (rule mset_eq_length)
qed

lemma sorted_rank_below:
  assumes "sorted (xs :: 'a::linorder list)" and "i < length xs"
  shows "i < length (filter (\<lambda>x. x \<le> xs ! i) xs)" and "length (filter (\<lambda>x. x < xs ! i) xs) \<le> i"
proof -
  have "filter (\<lambda>x. x \<le> xs ! i) (take (Suc i) xs) = take (Suc i) xs"
    using assms by (auto simp: filter_id_conv in_set_conv_nth sorted_nth_mono)
  moreover have "length (filter (\<lambda>x. x \<le> xs ! i) xs) =
      length (filter (\<lambda>x. x \<le> xs ! i) (take (Suc i) xs)) + length (filter (\<lambda>x. x \<le> xs ! i) (drop (Suc i) xs))"
    by (metis append_take_drop_id filter_append length_append)
  ultimately show "i < length (filter (\<lambda>x. x \<le> xs ! i) xs)" using assms(2) by simp
  have "filter (\<lambda>x. x < xs ! i) (drop i xs) = []"
    using assms by (auto simp: filter_empty_conv in_set_conv_nth sorted_nth_mono not_less)
  moreover have "length (filter (\<lambda>x. x < xs ! i) xs) =
      length (filter (\<lambda>x. x < xs ! i) (take i xs)) + length (filter (\<lambda>x. x < xs ! i) (drop i xs))"
    by (metis append_take_drop_id filter_append length_append)
  moreover have "length (filter (\<lambda>x. x < xs ! i) (take i xs)) \<le> i"
    by (rule le_trans [OF length_filter_le]) simp
  ultimately show "length (filter (\<lambda>x. x < xs ! i) xs) \<le> i" by simp
qed

definition rank_index :: "rat \<Rightarrow> nat \<Rightarrow> nat" where
  "rank_index pct n = nat \<lceil>pct * of_nat n\<rceil> - 1"

lemma rank_index_bounds:
  assumes "0 < pct" "pct \<le> 1" "0 < n"
  shows "rank_index pct n < n" "of_nat (rank_index pct n) < pct * of_nat n" "pct * of_nat n \<le> of_nat (Suc (rank_index pct n))"
proof -
  let ?c = "\<lceil>pct * of_nat n\<rceil>"
  have pos: "0 < pct * of_nat n" using assms by simp
  then have c: "1 \<le> ?c" by (simp add: le_ceiling_iff)
  have "pct * of_nat n \<le> of_nat n" using assms by (simp add: mult_le_cancel_right1)
  then have cn: "?c \<le> int n" by (simp add: ceiling_le_iff)
  have suc: "int (Suc (rank_index pct n)) = ?c" using c by (simp add: rank_index_def)
  show "rank_index pct n < n" using suc cn by linarith
  have "of_int ?c - 1 < pct * of_nat n" by linarith
  moreover have "of_nat (rank_index pct n) = (of_int ?c - 1 :: rat)"
    using suc by (metis of_int_of_nat_eq of_nat_Suc add_diff_cancel_left')
  ultimately show "of_nat (rank_index pct n) < pct * of_nat n" by simp
  have "(of_nat (Suc (rank_index pct n)) :: rat) = of_int ?c" using suc by (metis of_int_of_nat_eq)
  then show "pct * of_nat n \<le> of_nat (Suc (rank_index pct n))" by (simp add: le_of_int_ceiling)
qed

lemma percentile_sorted_rank:
  assumes "xs \<noteq> []" "0 < pct" "pct \<le> 1"
  shows "percentile_sorted xs pct = xs ! rank_index pct (length xs)"
proof -
  have "rank_index pct (length xs) < length xs" using assms rank_index_bounds by simp
  moreover have "rank_index 1 n = n - 1" for n by (simp add: rank_index_def)
  ultimately show ?thesis
    using assms unfolding percentile_sorted_def Let_def
    by (auto simp: rank_index_def min_def max_def)
qed

definition nearest_rank :: "rat \<Rightarrow> u64 list \<Rightarrow> u64 \<Rightarrow> bool" where
  "nearest_rank pct xs v = (v \<in> set xs
     \<and> pct * of_nat (length xs) \<le> of_nat (length (filter (\<lambda>x. x \<le> v) xs))
     \<and> of_nat (length (filter (\<lambda>x. x < v) xs)) < pct * of_nat (length xs))"

lemma sort_nonempty: "xs \<noteq> [] \<Longrightarrow> sort xs \<noteq> []"
  by (metis length_0_conv length_sort)

lemma percentile_nearest_rank:
  assumes "xs \<noteq> []" "0 < pct" "pct \<le> 1"
  shows "nearest_rank pct xs (percentile_of xs pct)"
proof -
  let ?s = "sort xs" and ?i = "rank_index pct (length xs)"
  have n: "0 < length xs" using assms by simp
  note b = rank_index_bounds [OF assms(2,3) n]
  have v: "percentile_of xs pct = ?s ! ?i"
    using assms percentile_sorted_rank [of ?s pct] sort_nonempty [OF assms(1)] by (simp add: percentile_of_def)
  have "?i < length (filter (\<lambda>x. x \<le> ?s ! ?i) xs)" "length (filter (\<lambda>x. x < ?s ! ?i) xs) \<le> ?i"
    using sorted_rank_below [of ?s ?i] b(1) by (simp_all add: length_filter_sort)
  then have "pct * of_nat (length xs) \<le> of_nat (length (filter (\<lambda>x. x \<le> ?s ! ?i) xs))"
    "of_nat (length (filter (\<lambda>x. x < ?s ! ?i) xs)) < pct * of_nat (length xs)"
    using b(2,3) by (auto intro: order_trans [OF b(3)] order_le_less_trans [OF _ b(2)] simp del: of_nat_Suc)
  moreover have "?s ! ?i \<in> set xs" using b(1) nth_mem [of ?i ?s] by simp
  ultimately show ?thesis by (simp add: nearest_rank_def v)
qed

lemma nearest_rank_mono:
  assumes "nearest_rank p xs v" "nearest_rank q xs w" "p \<le> q"
  shows "v \<le> w"
proof (rule ccontr)
  assume "\<not> v \<le> w"
  then have "length (filter (\<lambda>x. x \<le> w) xs) \<le> length (filter (\<lambda>x. x < v) xs)"
    by (induction xs) auto
  then have "(of_nat (length (filter (\<lambda>x. x \<le> w) xs)) :: rat) \<le> of_nat (length (filter (\<lambda>x. x < v) xs))"
    by simp
  then have "q * of_nat (length xs) < p * (of_nat (length xs) :: rat)"
    using assms(1,2) unfolding nearest_rank_def by linarith
  moreover have "p * (of_nat (length xs) :: rat) \<le> q * of_nat (length xs)"
    using assms(3) by (simp add: mult_right_mono)
  ultimately show False by simp
qed

lemma three_percentiles_eq:
  "xs \<noteq> [] \<Longrightarrow> three_percentiles xs = (percentile_of xs (1 / 2), percentile_of xs (9 / 10), percentile_of xs (99 / 100))"
  by (simp add: three_percentiles_def percentile_of_def Let_def)

lemma nearest_rank_bounds: "nearest_rank p xs v \<Longrightarrow> Min (set xs) \<le> v \<and> v \<le> Max (set xs)"
  by (simp add: nearest_rank_def)

lemma snapshot_fields:
  assumes "rm_latency_samples m = w" "w \<noteq> []" "0 < rm_action_count m"
  shows "ms_latency_p50_ms (metrics_snapshot_of now diag diff m) = percentile_of w (1 / 2)"
    and "ms_latency_p90_ms (metrics_snapshot_of now diag diff m) = percentile_of w (9 / 10)"
    and "ms_latency_p99_ms (metrics_snapshot_of now diag diff m) = percentile_of w (99 / 100)"
    and "ms_latency_min_ms (metrics_snapshot_of now diag diff m) = Min (set w)"
    and "ms_latency_max_ms (metrics_snapshot_of now diag diff m) = Max (set w)"
    and "ms_latency_avg_ms (metrics_snapshot_of now diag diff m) =
      average (unat (rm_total_latency_ms m)) (unat (rm_action_count m))"
  using assms by (simp_all add: metrics_snapshot_of_def Let_def latency_samples_snapshot_def three_percentiles_eq
      min_max_avg_def)

lemma unat_sum_list: "sum_list (map unat xs) < 2 ^ 64 \<Longrightarrow> unat (sum_list xs) = sum_list (map unat xs)" for xs :: "u64 list"
proof (induction xs)
  case (Cons x xs)
  then have "unat (sum_list xs) = sum_list (map unat xs)" by simp
  then show ?case using Cons.prems by (simp add: unat_word_ariths)
qed simp

lemma metrics_run:
  fixes st cap
  assumes "ls \<noteq> []" and "sum_list (map unat ls) < 2 ^ 64" and "length ls < 2 ^ 64"
  defines "m \<equiv> foldl (\<lambda>m l. record_action l st m) (metrics_with_cap cap) ls"
  shows "rm_latency_samples m = keep_last (max 1 cap) ls" and "unat (rm_total_latency_ms m) = sum_list (map unat ls)"
    and "unat (rm_action_count m) = length ls" and "0 < rm_action_count m"
proof -
  note t = record_action_totals [of st "metrics_with_cap cap" ls, folded m_def]
  show "rm_latency_samples m = keep_last (max 1 cap) ls"
    using lw.view_run [of "metrics_with_cap cap" st ls] unfolding m_def by (simp add: metrics_with_cap_def max.commute)
  show "unat (rm_total_latency_ms m) = sum_list (map unat ls)"
    using t unat_sum_list [OF assms(2)] by (simp add: metrics_with_cap_def)
  show c: "unat (rm_action_count m) = length ls"
    using t assms(3) by (simp add: metrics_with_cap_def unat_of_nat)
  then show "0 < rm_action_count m" using assms(1) by (simp add: word_less_nat_alt)
qed

text \<open>
  The latency figures of a snapshot after any number of recorded actions. The percentiles are
  nearest-rank percentiles of the last \<open>cap\<close> latencies, ordered between the minimum and the maximum of
  that window; the average is over all actions ever recorded, not over the window (as long as
  neither counter wraps).
\<close>

lemma snapshot_latencies:
  assumes "ls \<noteq> []" and "sum_list (map unat ls) < 2 ^ 64" and "length ls < 2 ^ 64"
  shows "let s = metrics_snapshot_of now diag diff (foldl (\<lambda>m l. record_action l st m) (metrics_with_cap cap) ls);
             w = keep_last (max 1 cap) ls
         in nearest_rank (1 / 2) w (ms_latency_p50_ms s) \<and> nearest_rank (9 / 10) w (ms_latency_p90_ms s)
          \<and> nearest_rank (99 / 100) w (ms_latency_p99_ms s)
          \<and> Min (set w) = ms_latency_min_ms s \<and> ms_latency_min_ms s \<le> ms_latency_p50_ms s
          \<and> ms_latency_p50_ms s \<le> ms_latency_p90_ms s \<and> ms_latency_p90_ms s \<le> ms_latency_p99_ms s
          \<and> ms_latency_p99_ms s \<le> ms_latency_max_ms s \<and> ms_latency_max_ms s = Max (set w)
          \<and> ms_latency_avg_ms s * of_nat (length ls) = of_nat (sum_list (map unat ls))"
proof -
  let ?w = "keep_last (max 1 cap) ls"
  note r = metrics_run [OF assms, of st cap]
  have ne: "?w \<noteq> []"
    using assms(1) length_keep_last [of "max 1 cap" ls] by (metis length_0_conv min_def max.cobounded1 not_one_le_zero)
  note f = snapshot_fields [OF r(1) ne r(4), of now diag diff]
  have p: "nearest_rank (1 / 2) ?w (percentile_of ?w (1 / 2))" "nearest_rank (9 / 10) ?w (percentile_of ?w (9 / 10))"
    "nearest_rank (99 / 100) ?w (percentile_of ?w (99 / 100))"
    by (rule percentile_nearest_rank [OF ne]; simp)+
  note le = nearest_rank_bounds [OF p(1), THEN conjunct1] nearest_rank_mono [OF p(1) p(2)]
    nearest_rank_mono [OF p(2) p(3)] nearest_rank_bounds [OF p(3), THEN conjunct2]
  show ?thesis
    unfolding Let_def f r(2,3) average_def using p le assms(1) by simp
qed

text \<open>Handshake elimination is a constant: whatever the samples, the benchmark reports one connection and no handshake.\<close>

lemma benchmark_is_static:
  "br_cdp_connections (benchmark_latency_samples now xs) = 1 \<and> br_handshake_count (benchmark_latency_samples now xs) = 0
   \<and> br_per_call_connections (benchmark_latency_samples now xs) = length xs
   \<and> br_iterations (benchmark_handshake_elimination_with_iterations now n) = max n 1
   \<and> br_handshake_saved_ms (benchmark_handshake_elimination_with_iterations now n) = of_nat (n - 1) * 5"
  by (cases n) (simp_all add: benchmark_latency_samples_def benchmark_handshake_elimination_with_iterations_def Let_def
      handshake_saved_ms_per_call_def split: prod.split)

text \<open>\<open>merge_transport_diagnostics\<close> never lowers a counter and brings both at least to the transport's values.\<close>

lemma merge_monotone:
  "rm_offloaded_decode_count (merge_transport_diagnostics d m) = max (rm_offloaded_decode_count m) (td_offloaded_decode_count d)
   \<and> rm_oversize_dropped_count (merge_transport_diagnostics d m) = max (rm_oversize_dropped_count m) (td_oversize_dropped_count d)
   \<and> merge_transport_diagnostics d (merge_transport_diagnostics d m) = merge_transport_diagnostics d m"
  by (auto simp: merge_transport_diagnostics_def Let_def max_def)

text \<open>The reported speedup of an engine that has measured nothing is a function of the page size alone.\<close>

lemma unmeasured_speedup:
  assumes "de_total_incremental_us e = 0" "de_total_rebuild_us e = 0" "0 < mutations" "mutations < 2 ^ 30" "n < 2 ^ 20"
  shows "db_speedup (benchmark_incremental_vs_rebuild e mutations n) = of_nat (100 + 2 * n)"
proof -
  have a: "unat (5 * of_nat mutations :: u64) = 5 * mutations"
    using assms(4) by (simp add: unat_word_ariths unat_of_nat)
  have "(500 + n * 10) * mutations < 2 ^ 25 * 2 ^ 30"
    using assms(4,5) by (intro mult_strict_mono) auto
  then have b: "unat (synthetic_rebuild_us n * of_nat mutations) = (500 + n * 10) * mutations"
    using assms(4,5) by (simp add: synthetic_rebuild_us_def unat_word_ariths unat_of_nat)
  show ?thesis
    using assms(1-3)
    by (simp add: benchmark_incremental_vs_rebuild_def Let_def a b average_def del: of_nat_unat)
qed

end
