(* ===== verification/Trace.thy ===== *)
theory Trace
  imports Metrics Journal
begin

text \<open>
  \<open>src/browser_runtime/trace.rs\<close>: the per-action trace entries, the per-call traces and the bounded
  collector of both, with the JSON forms that serde derives for them and for the journal. The static
  \<open>TRACE_COUNTER\<close> is passed and returned, the two clock readings of a new entry are arguments and
  the locks are never poisoned.
\<close>

section \<open>JSON forms of the action data\<close>

fun verification_to_value :: "'v json_ops \<Rightarrow> 'v verification_result \<Rightarrow> 'v" where
  "verification_to_value J (Verified v) = j_obj J [(''Verified'', v)]"
| "verification_to_value J (verification_result.Contradicted s) = j_obj J [(''Contradicted'', j_str J s)]"
| "verification_to_value J (verification_result.Inconclusive s) = j_obj J [(''Inconclusive'', j_str J s)]"

fun outcome_to_value :: "'v json_ops \<Rightarrow> 'v step_outcome \<Rightarrow> 'v" where
  "outcome_to_value J (Ok v) = j_obj J [(''Ok'', j_obj J [(''verification'', verification_to_value J v)])]"
| "outcome_to_value J (step_outcome.Failed d) = j_obj J [(''Failed'', j_str J d)]"
| "outcome_to_value J (Skipped r) = j_obj J [(''Skipped'', j_obj J [(''reason'', j_str J r)])]"

text \<open>The derived form of an action state is the variant's name, as \<open>ActionState::name\<close> is.\<close>

definition action_record_to_value :: "'v json_ops \<Rightarrow> 'v action_record \<Rightarrow> 'v" where
  "action_record_to_value J r = j_obj J
     ([(''action_id'', j_str J (ar_action_id r)), (''target_id'', j_str J (ar_target_id r)),
       (''target_generation'', j_u64 J (ar_target_generation r)),
       (''session_id'', j_opt J (j_str J) (ar_session_id r)), (''step_index'', j_usize J (ar_step_index r)),
       (''action'', j_str J (ar_action r)), (''capability_class'', j_str J (ar_capability_class r)),
       (''started_at'', j_u64 J (ar_started_at r)), (''completed_at'', j_opt J (j_u64 J) (ar_completed_at r)),
       (''runtime_generation'', j_u64 J (ar_runtime_generation r)),
       (''dom_version_before'', j_u64 J (ar_dom_version_before r)),
       (''dom_version_after'', j_u64 J (ar_dom_version_after r)),
       (''frame_tree_version_before'', j_u64 J (ar_frame_tree_version_before r)),
       (''frame_tree_version_after'', j_u64 J (ar_frame_tree_version_after r)),
       (''resolution_method'', j_str J (ar_resolution_method r)),
       (''verification'', j_opt J (verification_to_value J) (ar_verification r)),
       (''outcome'', outcome_to_value J (ar_outcome r)), (''state'', j_str J (action_state_name (ar_state r))),
       (''production_profile'', j_bool J (ar_production_profile r)), (''latency_ms'', j_u64 J (ar_latency_ms r))]
      @ (case ar_error_detail r of None \<Rightarrow> [] | Some d \<Rightarrow> [(''error_detail'', j_str J d)]))"

definition count_map_to_value :: "'v json_ops \<Rightarrow> (string, nat) hashmap \<Rightarrow> 'v" where
  "count_map_to_value J m = j_obj J (map (\<lambda>(k, n). (k, j_usize J n)) m)"

text \<open>\<open>ActionJournal::trace_snapshot\<close>: the entries leave out the resolution method and the error detail.\<close>

definition journal_entry_to_value :: "'v json_ops \<Rightarrow> 'v action_record \<Rightarrow> 'v" where
  "journal_entry_to_value J r = j_obj J
     [(''action_id'', j_str J (ar_action_id r)), (''target_id'', j_str J (ar_target_id r)),
      (''target_generation'', j_u64 J (ar_target_generation r)),
      (''session_id'', j_opt J (j_str J) (ar_session_id r)), (''step_index'', j_usize J (ar_step_index r)),
      (''action'', j_str J (ar_action r)), (''capability_class'', j_str J (ar_capability_class r)),
      (''state'', j_str J (action_state_name (ar_state r))), (''outcome'', outcome_to_value J (ar_outcome r)),
      (''verification'', j_opt J (verification_to_value J) (ar_verification r)),
      (''production_profile'', j_bool J (ar_production_profile r)),
      (''runtime_generation'', j_u64 J (ar_runtime_generation r)),
      (''dom_version_before'', j_u64 J (ar_dom_version_before r)),
      (''dom_version_after'', j_u64 J (ar_dom_version_after r)),
      (''frame_tree_version_before'', j_u64 J (ar_frame_tree_version_before r)),
      (''frame_tree_version_after'', j_u64 J (ar_frame_tree_version_after r)),
      (''started_at'', j_u64 J (ar_started_at r)), (''completed_at'', j_opt J (j_u64 J) (ar_completed_at r)),
      (''latency_ms'', j_u64 J (ar_latency_ms r))]"

definition journal_trace_snapshot :: "'v json_ops \<Rightarrow> 'v action_journal \<Rightarrow> 'v" where
  "journal_trace_snapshot J j = j_obj J
     [(''total'', j_usize J (journal_total j)), (''production_count'', j_usize J (journal_production_count j)),
      (''non_production_count'', j_usize J (journal_non_production_count j)),
      (''by_capability'', count_map_to_value J (journal_by_capability j)),
      (''entries'', j_arr J (map (journal_entry_to_value J) (journal_snapshot j)))]"

section \<open>Trace entries\<close>

record 'v trace_entry =
  te_trace_id :: string
  te_timestamp_ms :: u64
  te_action_id :: string
  te_target_id :: string
  te_session_id :: "string option"
  te_step_index :: nat
  te_operation :: string
  te_capability_class :: string
  te_state :: string
  te_started_at :: u64
  te_completed_at :: "u64 option"
  te_latency_ms :: u64
  te_dom_version_before :: u64
  te_dom_version_after :: u64
  te_frame_tree_version_before :: u64
  te_frame_tree_version_after :: u64
  te_runtime_generation :: u64
  te_target_generation :: u64
  te_resolution_method :: string
  te_verification :: "'v verification_result option"
  te_outcome :: "'v step_outcome"
  te_production_profile :: bool
  te_error_detail :: "string option"
  te_depth_current :: nat
  te_depth_max :: nat
  te_offloaded_decode_count :: u64
  te_oversize_dropped_count :: u64

definition next_trace_id :: "u64 \<Rightarrow> u64 \<Rightarrow> string \<times> u64" where
  "next_trace_id ms counter = (''trace-'' @ show_u64 counter @ ''-'' @ show_u64 ms, counter + 1)"

definition trace_entry_from_action ::
  "u64 \<Rightarrow> u64 \<Rightarrow> u64 \<Rightarrow> 'v action_record \<Rightarrow> 'v trace_entry \<times> u64" where
  "trace_entry_from_action now_id now counter r =
     (let (tid, counter) = next_trace_id now_id counter in
      (\<lparr>te_trace_id = tid, te_timestamp_ms = now, te_action_id = ar_action_id r, te_target_id = ar_target_id r,
        te_session_id = ar_session_id r, te_step_index = ar_step_index r, te_operation = ar_action r,
        te_capability_class = ar_capability_class r, te_state = action_state_name (ar_state r),
        te_started_at = ar_started_at r, te_completed_at = ar_completed_at r, te_latency_ms = ar_latency_ms r,
        te_dom_version_before = ar_dom_version_before r, te_dom_version_after = ar_dom_version_after r,
        te_frame_tree_version_before = ar_frame_tree_version_before r,
        te_frame_tree_version_after = ar_frame_tree_version_after r,
        te_runtime_generation = ar_runtime_generation r, te_target_generation = ar_target_generation r,
        te_resolution_method = ar_resolution_method r, te_verification = ar_verification r,
        te_outcome = ar_outcome r, te_production_profile = ar_production_profile r,
        te_error_detail = ar_error_detail r, te_depth_current = 0, te_depth_max = 0,
        te_offloaded_decode_count = 0, te_oversize_dropped_count = 0\<rparr>, counter))"

definition with_diagnostics :: "transport_diagnostics \<Rightarrow> 'v trace_entry \<Rightarrow> 'v trace_entry" where
  "with_diagnostics diag e = e\<lparr>te_depth_current := td_depth_current diag, te_depth_max := td_depth_max diag,
     te_offloaded_decode_count := td_offloaded_decode_count diag,
     te_oversize_dropped_count := td_oversize_dropped_count diag\<rparr>"

definition trace_entry_to_value :: "'v json_ops \<Rightarrow> 'v trace_entry \<Rightarrow> 'v" where
  "trace_entry_to_value J e = j_obj J
     [(''trace_id'', j_str J (te_trace_id e)), (''timestamp_ms'', j_u64 J (te_timestamp_ms e)),
      (''action_id'', j_str J (te_action_id e)), (''target_id'', j_str J (te_target_id e)),
      (''session_id'', j_opt J (j_str J) (te_session_id e)), (''step_index'', j_usize J (te_step_index e)),
      (''operation'', j_str J (te_operation e)), (''capability_class'', j_str J (te_capability_class e)),
      (''state'', j_str J (te_state e)), (''started_at'', j_u64 J (te_started_at e)),
      (''completed_at'', j_opt J (j_u64 J) (te_completed_at e)), (''latency_ms'', j_u64 J (te_latency_ms e)),
      (''dom_version_before'', j_u64 J (te_dom_version_before e)),
      (''dom_version_after'', j_u64 J (te_dom_version_after e)),
      (''frame_tree_version_before'', j_u64 J (te_frame_tree_version_before e)),
      (''frame_tree_version_after'', j_u64 J (te_frame_tree_version_after e)),
      (''runtime_generation'', j_u64 J (te_runtime_generation e)),
      (''target_generation'', j_u64 J (te_target_generation e)),
      (''resolution_method'', j_str J (te_resolution_method e)),
      (''verification'', j_opt J (verification_to_value J) (te_verification e)),
      (''outcome'', outcome_to_value J (te_outcome e)), (''production_profile'', j_bool J (te_production_profile e)),
      (''error_detail'', j_opt J (j_str J) (te_error_detail e)),
      (''reorder_buffer_depth_current'', j_usize J (te_depth_current e)),
      (''reorder_buffer_depth_max'', j_usize J (te_depth_max e)),
      (''offloaded_decode_count'', j_u64 J (te_offloaded_decode_count e)),
      (''oversize_dropped_count'', j_u64 J (te_oversize_dropped_count e))]"

record cdp_trace =
  ct_cdp_method :: string
  ct_session_id :: "string option"
  ct_latency_ms :: u64
  ct_timestamp_ms :: u64
  ct_success :: bool
  ct_pending_count_at_start :: nat
  ct_reorder_depth_at_start :: nat

definition cdp_trace_new :: "u64 \<Rightarrow> string \<Rightarrow> string option \<Rightarrow> u64 \<Rightarrow> bool \<Rightarrow> nat \<Rightarrow> nat \<Rightarrow> cdp_trace" where
  "cdp_trace_new now cdp_method sid latency success pending depth =
     \<lparr>ct_cdp_method = cdp_method, ct_session_id = sid, ct_latency_ms = latency, ct_timestamp_ms = now,
      ct_success = success, ct_pending_count_at_start = pending, ct_reorder_depth_at_start = depth\<rparr>"

section \<open>The collector\<close>

record 'v trace_collector =
  tc_entries :: "'v trace_entry list"
  tc_cdp_traces :: "cdp_trace list"
  tc_max_entries :: nat

definition trace_collector_new :: "nat \<Rightarrow> 'v trace_collector" where
  "trace_collector_new max_entries = \<lparr>tc_entries = [], tc_cdp_traces = [], tc_max_entries = max max_entries 1\<rparr>"

definition trace_record :: "'v trace_entry \<Rightarrow> 'v trace_collector \<Rightarrow> 'v trace_collector" where
  "trace_record e t =
     (let g = tc_entries t;
          g = (if tc_max_entries t \<le> length g then tl g else g)
      in t\<lparr>tc_entries := g @ [e]\<rparr>)"

definition record_from_action ::
  "u64 \<Rightarrow> u64 \<Rightarrow> 'v action_record \<Rightarrow> transport_diagnostics \<Rightarrow> 'v trace_collector \<times> u64 \<Rightarrow> 'v trace_collector \<times> u64" where
  "record_from_action now_id now r diag = (\<lambda>(t, counter).
     let (e, counter) = trace_entry_from_action now_id now counter r
     in (trace_record (with_diagnostics diag e) t, counter))"

definition trace_snapshot :: "'v trace_collector \<Rightarrow> 'v trace_entry list" where
  "trace_snapshot t = tc_entries t"

definition trace_len :: "'v trace_collector \<Rightarrow> nat" where
  "trace_len t = length (tc_entries t)"

definition trace_is_empty :: "'v trace_collector \<Rightarrow> bool" where
  "trace_is_empty t = (trace_len t = 0)"

definition trace_clear :: "'v trace_collector \<Rightarrow> 'v trace_collector" where
  "trace_clear t = t\<lparr>tc_entries := [], tc_cdp_traces := []\<rparr>"

definition trace_last_n :: "nat \<Rightarrow> 'v trace_collector \<Rightarrow> 'v trace_entry list" where
  "trace_last_n n t = rev (take n (rev (tc_entries t)))"

definition record_cdp :: "cdp_trace \<Rightarrow> 'v trace_collector \<Rightarrow> 'v trace_collector" where
  "record_cdp c t =
     (let g = tc_cdp_traces t;
          g = (if tc_max_entries t \<le> length g then tl g else g)
      in t\<lparr>tc_cdp_traces := g @ [c]\<rparr>)"

definition trace_record_cdp_call ::
  "u64 \<Rightarrow> string \<Rightarrow> string option \<Rightarrow> u64 \<Rightarrow> bool \<Rightarrow> nat \<Rightarrow> nat \<Rightarrow> 'v trace_collector \<Rightarrow> 'v trace_collector" where
  "trace_record_cdp_call now cdp_method sid latency success pending depth t =
     record_cdp (cdp_trace_new now cdp_method sid latency success pending depth) t"

definition cdp_snapshot :: "'v trace_collector \<Rightarrow> cdp_trace list" where
  "cdp_snapshot t = tc_cdp_traces t"

definition cdp_len :: "'v trace_collector \<Rightarrow> nat" where
  "cdp_len t = length (tc_cdp_traces t)"

definition cdp_last_n :: "nat \<Rightarrow> 'v trace_collector \<Rightarrow> cdp_trace list" where
  "cdp_last_n n t = rev (take n (rev (tc_cdp_traces t)))"

definition clear_cdp :: "'v trace_collector \<Rightarrow> 'v trace_collector" where
  "clear_cdp t = t\<lparr>tc_cdp_traces := []\<rparr>"

text \<open>The three counters of a snapshot are built in one pass.\<close>

definition count_in :: "('a \<Rightarrow> string) \<Rightarrow> 'a list \<Rightarrow> (string, nat) hashmap" where
  "count_in f xs = foldl (\<lambda>m x. hm_entry (f x) Suc 1 m) [] xs"

definition trace_snapshot_value :: "'v json_ops \<Rightarrow> 'v trace_collector \<Rightarrow> 'v" where
  "trace_snapshot_value J t =
     (let entries = trace_snapshot t in j_obj J
       [(''total'', j_usize J (length entries)),
        (''by_state'', count_map_to_value J (count_in te_state entries)),
        (''by_capability'', count_map_to_value J (count_in te_capability_class entries)),
        (''by_operation'', count_map_to_value J (count_in te_operation entries)),
        (''recent'', j_arr J (map (trace_entry_to_value J) (rev (take 20 (rev entries))))),
        (''entries'', j_arr J (map (trace_entry_to_value J) entries))])"

section \<open>What the collector keeps\<close>

interpretation tr: bounded_log trace_record tc_entries tc_max_entries
  by unfold_locales (simp_all add: trace_record_def Let_def)

interpretation ct: bounded_log record_cdp tc_cdp_traces tc_max_entries
  by unfold_locales (simp_all add: record_cdp_def Let_def)

lemma count_in_get:
  "hm_get (count_in f xs) c = (let n = length (filter (\<lambda>x. f x = c) xs) in if n = 0 then None else Some n)"
proof -
  have "hm_get (foldl (\<lambda>m x. hm_entry (f x) Suc 1 m) m xs) c =
     (let n = length (filter (\<lambda>x. f x = c) xs) in
      case hm_get m c of None \<Rightarrow> if n = 0 then None else Some n | Some k \<Rightarrow> Some (k + n))" for m
    by (induction xs arbitrary: m) (auto simp: Let_def split: option.splits)
  then show ?thesis by (simp add: count_in_def Let_def)
qed

text \<open>One recorded action with its clock readings and the diagnostics read beside it.\<close>

definition record_run ::
  "(u64 \<times> u64 \<times> 'v action_record \<times> transport_diagnostics) list \<Rightarrow> 'v trace_collector \<times> u64 \<Rightarrow> 'v trace_collector \<times> u64"
  where "record_run rs w = foldl (\<lambda>w (now_id, now, r, diag). record_from_action now_id now r diag w) w rs"

fun traced :: "u64 \<Rightarrow> (u64 \<times> u64 \<times> 'v action_record \<times> transport_diagnostics) list \<Rightarrow> 'v trace_entry list" where
  "traced counter [] = []"
| "traced counter ((now_id, now, r, diag) # rs) =
     with_diagnostics diag (fst (trace_entry_from_action now_id now counter r)) # traced (counter + 1) rs"

lemma record_run_eq:
  "record_run rs (t, counter) = (foldl (\<lambda>t e. trace_record e t) t (traced counter rs), counter + of_nat (length rs))"
proof (induction rs arbitrary: t counter)
  case (Cons x rs)
  obtain now_id now r diag where x: "x = (now_id, now, r, diag)" by (cases x) auto
  have "record_run (x # rs) (t, counter) = record_run rs (record_from_action now_id now r diag (t, counter))"
    by (simp add: record_run_def x)
  moreover have "record_from_action now_id now r diag (t, counter) =
      (trace_record (with_diagnostics diag (fst (trace_entry_from_action now_id now counter r))) t, counter + 1)"
    by (simp add: record_from_action_def trace_entry_from_action_def next_trace_id_def)
  ultimately show ?case using Cons.IH by (simp add: x algebra_simps)
qed (simp add: record_run_def)

lemma length_traced [simp]: "length (traced counter rs) = length rs"
  by (induction counter rs rule: traced.induct) simp_all

lemma map_traced:
  "map te_action_id (traced counter rs) = map (\<lambda>(_, _, r, _). ar_action_id r) rs"
  "map te_outcome (traced counter rs) = map (\<lambda>(_, _, r, _). ar_outcome r) rs"
  "map te_state (traced counter rs) = map (\<lambda>(_, _, r, _). action_state_name (ar_state r)) rs"
  by (induction counter rs rule: traced.induct)
     (simp_all add: with_diagnostics_def trace_entry_from_action_def next_trace_id_def)

lemma map_keep_last: "map f (keep_last n xs) = keep_last n (map f xs)"
  by (simp add: keep_last_def drop_map)

definition sample_records :: "(u64 \<times> u64 \<times> json action_record \<times> transport_diagnostics) list" where
  "sample_records = map (\<lambda>i. (7, 8, fst (action_record_new 5 5 i ''t'' 1 None 0 ''click'' ''none'' 1 1 1 False),
     diagnostics ''c'' (browser_info_of std_json JNull) (shared_new :: json shared))) [1, 2, 3]"



text \<open>
  What \<open>recent\<close> shows is the last 20 entries of what \<open>entries\<close> shows, and \<open>last_n\<close> is the last \<open>n\<close>
  of them; a cleared collector is empty.
\<close>

lemma trace_views:
  "trace_last_n n t = keep_last n (trace_snapshot t)"
  "cdp_last_n n t = keep_last n (cdp_snapshot t)"
  "trace_is_empty (trace_clear t)" "cdp_len (clear_cdp t) = 0"
  "trace_snapshot (clear_cdp t) = trace_snapshot t"
  by (simp_all add: trace_last_n_def cdp_last_n_def trace_snapshot_def cdp_snapshot_def keep_last_def rev_take
      trace_is_empty_def trace_clear_def trace_len_def clear_cdp_def cdp_len_def)

end
