(* ===== verification/Plan_Json.thy ===== *)
theory Plan_Json
  imports Plan Wait_Props
begin

text \<open>
  The JSON form of execution plans (\<open>src/browser_runtime/plan.rs\<close>): what the attributes \<open>tag = "type"\<close>,
  \<open>rename_all\<close>, \<open>default\<close> and \<open>alias\<close> on \<open>PlanStep\<close> and \<open>ExecutionPlan\<close> mean to \<open>serde\<close>, in both
  directions, and \<open>from_json\<close>. Besides objects \<open>serde\<close> takes a step as an array, the tag first and the
  fields in their order. The texts of its errors are a parameter, a function of the rejected value.
\<close>

section \<open>Decoding fields\<close>

text \<open>
  A field by its position and its names. It may be missing; two of its names in one object are a
  duplicate field, an error.
\<close>

datatype 'v fields = Named 'v | Listed "'v list"

fun field :: "'v json_ops \<Rightarrow> 'v fields \<Rightarrow> nat \<Rightarrow> string list \<Rightarrow> 'v option option" where
  "field J (Named v) i names =
     (case List.map_filter (j_get J v) names of [] \<Rightarrow> Some None | [x] \<Rightarrow> Some (Some x) | _ \<Rightarrow> None)"
| "field J (Listed vs) i names = Some (if i < length vs then Some (vs ! i) else None)"

text \<open>A list of fields may not be longer than the struct.\<close>

fun fits :: "nat \<Rightarrow> 'v fields \<Rightarrow> bool" where
  "fits n (Named v) = True"
| "fits n (Listed vs) = (length vs \<le> n)"

definition required :: "('v \<Rightarrow> 'a option) \<Rightarrow> 'v option option \<Rightarrow> 'a option" where
  "required dec x = (case x of Some (Some v) \<Rightarrow> dec v | _ \<Rightarrow> None)"

definition defaulted :: "'a \<Rightarrow> ('v \<Rightarrow> 'a option) \<Rightarrow> 'v option option \<Rightarrow> 'a option" where
  "defaulted d dec x = (case x of None \<Rightarrow> None | Some None \<Rightarrow> Some d | Some (Some v) \<Rightarrow> dec v)"

text \<open>An \<open>Option\<close>: \<open>null\<close> is \<^term>\<open>None\<close>.\<close>

definition opt_value :: "('w, 'v) env \<Rightarrow> ('v \<Rightarrow> 'a option) \<Rightarrow> 'v \<Rightarrow> 'a option option" where
  "opt_value E dec v = (if en_is_null E v then Some None else map_option Some (dec v))"

definition usize_value :: "'v json_ops \<Rightarrow> 'v \<Rightarrow> nat option" where
  "usize_value J v = map_option unat (j_as_u64 J v)"

fun all_some :: "'a option list \<Rightarrow> 'a list option" where
  "all_some [] = Some []"
| "all_some (None # xs) = None"
| "all_some (Some x # xs) = map_option ((#) x) (all_some xs)"

definition strs_value :: "'v json_ops \<Rightarrow> 'v \<Rightarrow> string list option" where
  "strs_value J v = (case j_as_array J v of None \<Rightarrow> None | Some vs \<Rightarrow> all_some (map (j_as_str J) vs))"

definition opt_str :: "('w, 'v) env \<Rightarrow> 'v option option \<Rightarrow> string option option" where
  "opt_str E = defaulted None (opt_value E (j_as_str (en_json E)))"

definition req_str :: "('w, 'v) env \<Rightarrow> 'v option option \<Rightarrow> string option" where
  "req_str E = required (j_as_str (en_json E))"

definition flag :: "('w, 'v) env \<Rightarrow> 'v option option \<Rightarrow> bool option" where
  "flag E = defaulted False (en_as_bool E)"

text \<open>Apply a constructor to decoded fields, none of which may have failed.\<close>

definition app :: "('a \<Rightarrow> 'b) option \<Rightarrow> 'a option \<Rightarrow> 'b option" where
  "app f x = (case f of None \<Rightarrow> None | Some g \<Rightarrow> map_option g x)"

section \<open>Decoding steps and plans\<close>

definition step_of_fields :: "('w, 'v) env \<Rightarrow> string \<Rightarrow> 'v fields \<Rightarrow> plan_step option" where
  "step_of_fields E tag fs =
     (let f = field (en_json E) fs; ok = (\<lambda>n x. if fits n fs then x else None) in
      if tag = ''navigate'' then ok 1 (app (Some Navigate) (req_str E (f 0 [''url''])))
      else if tag = ''click'' then
        ok 3 (app (app (app (Some Click) (opt_str E (f 0 [''selector'']))) (opt_str E (f 1 [''ref'']))) (opt_str E (f 2 [''element''])))
      else if tag = ''type'' then
        ok 4 (app (app (app (app (Some Type) (req_str E (f 0 [''text'']))) (opt_str E (f 1 [''selector''])))
                (opt_str E (f 2 [''ref'']))) (flag E (f 3 [''submit''])))
      else if tag = ''fill'' then
        ok 3 (app (app (app (Some Fill) (req_str E (f 0 [''selector'']))) (req_str E (f 1 [''text'']))) (flag E (f 2 [''submit''])))
      else if tag = ''select'' then
        ok 3 (app (app (app (Some Select) (opt_str E (f 0 [''selector'']))) (opt_str E (f 1 [''ref''])))
                (required (strs_value (en_json E)) (f 2 [''values''])))
      else if tag = ''press'' then ok 1 (app (Some Press) (req_str E (f 0 [''key''])))
      else if tag = ''hover'' then
        ok 3 (app (app (app (Some Hover) (opt_str E (f 0 [''selector'']))) (opt_str E (f 1 [''ref'']))) (opt_str E (f 2 [''element''])))
      else if tag = ''wait'' then
        ok 5 (app (app (app (app (app (Some Wait) (defaulted None (opt_value E (en_as_number E)) (f 0 [''time''])))
                (opt_str E (f 1 [''url_contains'']))) (opt_str E (f 2 [''url_equals'']))) (opt_str E (f 3 [''lifecycle''])))
                (defaulted None (opt_value E (j_as_u64 (en_json E))) (f 4 [''timeout_ms''])))
      else if tag = ''eval'' then ok 1 (app (Some Eval) (req_str E (f 0 [''expression'', ''js''])))
      else if tag = ''extract'' then
        ok 4 (app (app (app (app (Some Extract) (opt_str E (f 0 [''selector'']))) (opt_str E (f 1 [''attribute''])))
                (opt_str E (f 2 [''instruction'']))) (opt_str E (f 3 [''text''])))
      else if tag = ''go_back'' then ok 0 (Some GoBack)
      else if tag = ''go_forward'' then ok 0 (Some GoForward)
      else if tag = ''tabs'' then ok 0 (Some Tabs)
      else if tag = ''snapshot'' then
        ok 1 (app (Some Snapshot) (defaulted None (opt_value E (usize_value (en_json E))) (f 0 [''max_nodes''])))
      else None)"

definition step_of_value :: "('w, 'v) env \<Rightarrow> 'v \<Rightarrow> plan_step option" where
  "step_of_value E v =
     (let J = en_json E in
      case j_as_array J v of
        Some (t # vs) \<Rightarrow> Option.bind (j_as_str J t) (\<lambda>tag. step_of_fields E tag (Listed vs))
      | Some [] \<Rightarrow> None
      | None \<Rightarrow> Option.bind (get_str J v ''type'') (\<lambda>tag. step_of_fields E tag (Named v)))"

definition steps_of_value :: "('w, 'v) env \<Rightarrow> 'v list \<Rightarrow> plan_step list option" where
  "steps_of_value E vs = all_some (map (step_of_value E) vs)"

definition plan_of_value :: "('w, 'v) env \<Rightarrow> 'v \<Rightarrow> execution_plan option" where
  "plan_of_value E v =
     (let J = en_json E; fs = Named v in
      app (app (Some (\<lambda>steps i. \<lparr>pl_steps = steps, pl_step_index = i\<rparr>))
             (required (\<lambda>x. Option.bind (j_as_array J x) (steps_of_value E)) (field J fs 0 [''steps''])))
        (defaulted 0 (usize_value J) (field J fs 1 [''step_index''])))"

text \<open>\<open>serde_error\<close> is the text of the decoding error of a value.\<close>

definition plan_from_json :: "('w, 'v) env \<Rightarrow> ('v \<Rightarrow> string) \<Rightarrow> 'v \<Rightarrow> execution_plan runtime_result" where
  "plan_from_json E serde_error v =
     (case j_as_array (en_json E) v of
        Some vs \<Rightarrow>
          (case steps_of_value E vs of
             Some steps \<Rightarrow> Inr \<lparr>pl_steps = steps, pl_step_index = 0\<rparr>
           | None \<Rightarrow> Inl (InvalidResponse (''plan steps decode: '' @ serde_error v)))
      | None \<Rightarrow>
          (case plan_of_value E v of
             Some p \<Rightarrow> Inr p
           | None \<Rightarrow> Inl (InvalidResponse (''plan decode: '' @ serde_error v))))"

section \<open>Encoding\<close>

definition j_opt_str :: "'v json_ops \<Rightarrow> string option \<Rightarrow> 'v" where
  "j_opt_str J = j_opt J (j_str J)"

fun step_fields :: "('w, 'v) env \<Rightarrow> plan_step \<Rightarrow> (string \<times> 'v) list" where
  "step_fields E (Navigate url) = [(''url'', j_str (en_json E) url)]"
| "step_fields E (Click s r e) = [(''selector'', j_opt_str (en_json E) s), (''ref'', j_opt_str (en_json E) r),
     (''element'', j_opt_str (en_json E) e)]"
| "step_fields E (Type t s r b) = [(''text'', j_str (en_json E) t), (''selector'', j_opt_str (en_json E) s),
     (''ref'', j_opt_str (en_json E) r), (''submit'', j_bool (en_json E) b)]"
| "step_fields E (Fill s t b) = [(''selector'', j_str (en_json E) s), (''text'', j_str (en_json E) t),
     (''submit'', j_bool (en_json E) b)]"
| "step_fields E (Select s r vs) = [(''selector'', j_opt_str (en_json E) s), (''ref'', j_opt_str (en_json E) r),
     (''values'', j_strs (en_json E) vs)]"
| "step_fields E (Press k) = [(''key'', j_str (en_json E) k)]"
| "step_fields E (Hover s r e) = [(''selector'', j_opt_str (en_json E) s), (''ref'', j_opt_str (en_json E) r),
     (''element'', j_opt_str (en_json E) e)]"
| "step_fields E (Wait t uc ue lc ms) = [(''time'', j_opt (en_json E) (en_number E) t),
     (''url_contains'', j_opt_str (en_json E) uc), (''url_equals'', j_opt_str (en_json E) ue),
     (''lifecycle'', j_opt_str (en_json E) lc), (''timeout_ms'', j_opt (en_json E) (j_u64 (en_json E)) ms)]"
| "step_fields E (Eval js) = [(''expression'', j_str (en_json E) js)]"
| "step_fields E (Extract s a i t) = [(''selector'', j_opt_str (en_json E) s), (''attribute'', j_opt_str (en_json E) a),
     (''instruction'', j_opt_str (en_json E) i), (''text'', j_opt_str (en_json E) t)]"
| "step_fields E GoBack = []"
| "step_fields E GoForward = []"
| "step_fields E Tabs = []"
| "step_fields E (Snapshot n) = [(''max_nodes'', j_opt (en_json E) (\<lambda>n. j_u64 (en_json E) (of_nat n)) n)]"

definition step_to_value :: "('w, 'v) env \<Rightarrow> plan_step \<Rightarrow> 'v" where
  "step_to_value E s = j_obj (en_json E) ((''type'', j_str (en_json E) (step_tag s)) # step_fields E s)"

definition plan_to_json :: "('w, 'v) env \<Rightarrow> execution_plan \<Rightarrow> 'v" where
  "plan_to_json E p = j_obj (en_json E)
     [(''steps'', j_arr (en_json E) (map (step_to_value E) (pl_steps p))),
      (''step_index'', j_u64 (en_json E) (of_nat (pl_step_index p)))]"

section \<open>Round trip\<close>

text \<open>What \<open>serde_json\<close> promises beyond \<open>json_value\<close>: the kinds of values are apart and scalars read back.\<close>

locale serde_value = json_value "en_json E" for E :: "('w, 'v) env" +
  assumes as_bool_bool: "en_as_bool E (j_bool (en_json E) b) = Some b"
    and as_number_number: "en_as_number E (en_number E q) = Some q"
    and null_null: "en_is_null E (j_null (en_json E))"
    and not_null: "\<not> en_is_null E (j_str (en_json E) s)" "\<not> en_is_null E (j_u64 (en_json E) n)"
      "\<not> en_is_null E (en_number E q)"
    and not_array: "j_as_array (en_json E) (j_obj (en_json E) kvs) = None"
begin

lemma field_obj:
  "distinct (map fst kvs) \<Longrightarrow> field (en_json E) (Named (j_obj (en_json E) kvs)) i [k] = Some (map_of kvs k)"
  by (cases "map_of kvs k") (simp_all add: get_obj List.map_filter_simps)

lemma field_obj2:
  "distinct (map fst kvs) \<Longrightarrow> map_of kvs k' = None \<Longrightarrow>
   field (en_json E) (Named (j_obj (en_json E) kvs)) i [k, k'] = Some (map_of kvs k)"
  by (cases "map_of kvs k") (simp_all add: get_obj List.map_filter_simps)

lemma opt_str_opt: "opt_str E (Some (Some (j_opt_str (en_json E) s))) = Some s"
  by (cases s) (simp_all add: opt_str_def defaulted_def opt_value_def j_opt_str_def j_opt_def null_null not_null as_str_str)

lemma req_str_str: "req_str E (Some (Some (j_str (en_json E) s))) = Some s"
  by (simp add: req_str_def required_def as_str_str)

lemma flag_bool: "flag E (Some (Some (j_bool (en_json E) b))) = Some b"
  by (simp add: flag_def defaulted_def as_bool_bool)

lemma all_some_map: "(\<And>x. x \<in> set xs \<Longrightarrow> f x = Some (g x)) \<Longrightarrow> all_some (map f xs) = Some (map g xs)"
  by (induction xs) simp_all

lemma strs_strs: "required (strs_value (en_json E)) (Some (Some (j_strs (en_json E) ss))) = Some ss"
  using all_some_map [of ss "\<lambda>s. j_as_str (en_json E) (j_str (en_json E) s)" id]
  by (simp add: required_def strs_value_def j_strs_def as_array_arr as_str_str comp_def)

lemma opt_number: "defaulted None (opt_value E (en_as_number E)) (Some (Some (j_opt (en_json E) (en_number E) q))) = Some q"
  by (cases q) (simp_all add: defaulted_def opt_value_def j_opt_def null_null not_null as_number_number)

lemma opt_u64: "defaulted None (opt_value E (j_as_u64 (en_json E))) (Some (Some (j_opt (en_json E) (j_u64 (en_json E)) q))) = Some q"
  by (cases q) (simp_all add: defaulted_def opt_value_def j_opt_def null_null not_null as_u64_u64)

lemma opt_usize:
  "(\<And>n. q = Some n \<Longrightarrow> n < 2 ^ 64) \<Longrightarrow>
   defaulted None (opt_value E (usize_value (en_json E))) (Some (Some (j_opt (en_json E) (\<lambda>n. j_u64 (en_json E) (of_nat n)) q))) = Some q"
  by (cases q) (simp_all add: defaulted_def opt_value_def j_opt_def null_null not_null as_u64_u64 usize_value_def unat_of_nat)

lemmas decoded = field_obj field_obj2 opt_str_opt req_str_str flag_bool strs_strs opt_number opt_u64

lemma step_roundtrip:
  assumes "\<And>n. s = Snapshot (Some n) \<Longrightarrow> n < 2 ^ 64"
  shows "step_of_value E (step_to_value E s) = Some s"
  using assms
  by (cases s)
     (simp_all add: step_of_value_def step_to_value_def not_array Let_def get_str_def get_obj as_str_str step_of_fields_def
       decoded app_def opt_usize)

lemma steps_roundtrip:
  assumes "\<And>n. Snapshot (Some n) \<in> set ss \<Longrightarrow> n < 2 ^ 64"
  shows "steps_of_value E (map (step_to_value E) ss) = Some ss"
proof -
  have "step_of_value E (step_to_value E s) = Some s" if "s \<in> set ss" for s
    using step_roundtrip [of s] assms that by blast
  then show ?thesis
    using all_some_map [of ss "\<lambda>s. step_of_value E (step_to_value E s)" id] by (simp add: steps_of_value_def comp_def)
qed

lemma plan_roundtrip:
  assumes "\<And>n. Snapshot (Some n) \<in> set (pl_steps p) \<Longrightarrow> n < 2 ^ 64" "pl_step_index p < 2 ^ 64"
  shows "plan_from_json E err (plan_to_json E p) = Inr p"
  using assms(2) steps_roundtrip [of "pl_steps p"] assms(1)
  by (simp add: plan_from_json_def plan_to_json_def not_array plan_of_value_def Let_def field_obj required_def as_array_arr
      defaulted_def usize_value_def as_u64_u64 unat_of_nat app_def del: field.simps)

lemma plan_array_roundtrip:
  assumes "\<And>n. Snapshot (Some n) \<in> set (pl_steps p) \<Longrightarrow> n < 2 ^ 64"
  shows "plan_from_json E err (j_arr (en_json E) (map (step_to_value E) (pl_steps p))) = Inr (p\<lparr>pl_step_index := 0\<rparr>)"
  using steps_roundtrip [of "pl_steps p"] assms by (simp add: plan_from_json_def as_array_arr)

end

interpretation sv: serde_value sample_env
  by (intro_locales, simp add: sample_env_def, unfold_locales; simp add: sample_env_def)

definition sample_plan :: execution_plan where
  "sample_plan = plan_new [Navigate ''https://a.b'', Click (Some ''#x'') None (Some ''e_1''), Wait (Some (3 / 2)) None None None (Some 5),
     Select None (Some ''r'') [''a'', ''b''], Snapshot (Some 40), GoBack]"

text \<open>
  C37: Plans survive the wire. On any JSON library with the laws of \<open>serde_value\<close>, decoding an encoded plan
  gives the plan back (its \<open>usize\<close> fields fit into 64 bits), and a bare array of its steps gives the same
  steps with the index reset.
\<close>

theorem plan_json_roundtrip:
  assumes "serde_value E" "\<And>n. Snapshot (Some n) \<in> set (pl_steps p) \<Longrightarrow> n < 2 ^ 64" "pl_step_index p < 2 ^ 64"
  shows "plan_from_json E err (plan_to_json E p) = Inr p
    \<and> plan_from_json E err (j_arr (en_json E) (map (step_to_value E) (pl_steps p))) = Inr (p\<lparr>pl_step_index := 0\<rparr>)"
  using serde_value.plan_roundtrip [OF assms] serde_value.plan_array_roundtrip [OF assms(1,2)] by simp

theorem plan_json_roundtrip_witness:
  "plan_from_json sample_env (\<lambda>_. []) (plan_to_json sample_env sample_plan) = Inr sample_plan
   \<and> length (pl_steps sample_plan) = 6"
  using plan_json_roundtrip [OF sv.serde_value_axioms, of sample_plan "\<lambda>_. []"] by (simp add: sample_plan_def plan_new_def)

text \<open>
  What the decoder takes and what it refuses: the aliases, both names of a field at once, an unknown
  tag, a missing field, an array of fields and one that is too long.
\<close>

lemma decode_samples:
  "step_of_value sample_env (JObj [(''type'', JStr ''eval''), (''js'', JStr ''1'')]) = Some (Eval ''1'')"
  "step_of_value sample_env (JObj [(''type'', JStr ''eval''), (''js'', JStr ''1''), (''expression'', JStr ''2'')]) = None"
  "step_of_value sample_env (JObj [(''type'', JStr ''drag'')]) = None"
  "step_of_value sample_env (JObj [(''type'', JStr ''type''), (''selector'', JStr ''#a'')]) = None"
  "step_of_value sample_env (JObj [(''type'', JStr ''type''), (''text'', JStr ''t''), (''ref'', JNull)]) = Some (Type ''t'' None None False)"
  "step_of_value sample_env (JArr [JStr ''press'', JStr ''Enter'']) = Some (Press ''Enter'')"
  "step_of_value sample_env (JArr [JStr ''press'', JStr ''Enter'', JNull]) = None"
  by code_simp+

end
