(* ===== verification/Server.thy ===== *)
theory Server
  imports Daemon Executor Trace Plan_Json
begin

text \<open>
  The state of the daemon's server (\<open>src/browser_runtime/server.rs\<close>), the JSON forms of what it reports,
  its status, and the pieces the request handlers share. The world of a handler is the server together
  with everything else (the transport, the clock, the file system, the clients); other tasks change
  both while the handler awaits a call, a timer or the lock of a target.
\<close>

section \<open>State\<close>

text \<open>
  \<open>is_core\<close> holds the lifecycle state and the state owners, \<open>is_runtime\<close> says whether the server has a
  browser connection; the two counters are the statics of the actions and the traces.
\<close>

record 'v ipc_server =
  is_core :: server
  is_runtime :: bool
  is_journal :: "'v action_journal"
  is_trace :: "'v trace_collector"
  is_metrics :: runtime_metrics
  is_pending :: u64
  is_conn_counter :: u64
  is_shutdown_started :: bool
  is_restart_on_crash :: bool
  is_action_counter :: u64
  is_trace_counter :: u64

definition ipc_server_new :: "lifecycle_state \<Rightarrow> bool \<Rightarrow> 'v ipc_server" where
  "ipc_server_new initial restart_on_crash =
     \<lparr>is_core = \<lparr>sv_state = initial, sv_rt = runtime_state_new None\<rparr>, is_runtime = False,
      is_journal = journal_new 10000, is_trace = trace_collector_new 10000, is_metrics = metrics_new,
      is_pending = 0, is_conn_counter = 1, is_shutdown_started = False, is_restart_on_crash = restart_on_crash,
      is_action_counter = 1, is_trace_counter = 1\<rparr>"

definition sv_life :: "'o \<times> 'v ipc_server \<Rightarrow> lifecycle_state" where "sv_life w = sv_state (is_core (snd w))"
definition sv_run :: "'o \<times> 'v ipc_server \<Rightarrow> runtime_state" where "sv_run w = sv_rt (is_core (snd w))"

definition set_life :: "lifecycle_state \<Rightarrow> 'o \<times> 'v ipc_server \<Rightarrow> 'o \<times> 'v ipc_server" where
  "set_life l w = (fst w, (snd w)\<lparr>is_core := (is_core (snd w))\<lparr>sv_state := l\<rparr>\<rparr>)"

definition set_run :: "runtime_state \<Rightarrow> 'o \<times> 'v ipc_server \<Rightarrow> 'o \<times> 'v ipc_server" where
  "set_run r w = (fst w, (snd w)\<lparr>is_core := (is_core (snd w))\<lparr>sv_rt := r\<rparr>\<rparr>)"

definition on_server :: "('v ipc_server \<Rightarrow> 'v ipc_server) \<Rightarrow> 'o \<times> 'v ipc_server \<Rightarrow> 'o \<times> 'v ipc_server" where
  "on_server f w = (fst w, f (snd w))"

text \<open>
  The surroundings: the environment of the asynchronous code, \<open>from_str\<close> of \<open>serde_json\<close> and its error
  text, the JSON of a \<open>SystemTime\<close> and of a bounding box (\<open>f64\<close> fields), the order of the frame map, what happens while a handler waits
  for a target's lock, the transport's \<open>is_alive\<close> and \<open>diagnostics\<close> with its connection time, the clocks, the
  mode of the socket file, the length of the persisted task list, whether the locks of the
  runtime and of the lifecycle state are taken when only tried, the environment variables, and the
  write of a line to the client, which may fail.
\<close>

record ('o, 'v) daemon_env =
  dn_env :: "('o \<times> 'v ipc_server, 'v) env"
  dn_parse :: "string \<Rightarrow> 'v option"
  dn_serde_error :: "'v \<Rightarrow> string"
  dn_system_time :: "nat \<Rightarrow> 'v"
  dn_box :: "bounding_box \<Rightarrow> 'v"
  dn_frame_order :: "(string \<times> frame_record) list \<Rightarrow> (string \<times> frame_record) list"
  dn_lock :: "string \<Rightarrow> 'o \<times> 'v ipc_server \<Rightarrow> 'o \<times> 'v ipc_server"
  dn_alive :: "'o \<Rightarrow> bool"
  dn_diagnostics :: "'o \<Rightarrow> transport_diagnostics"
  dn_connected_ms :: "'o \<Rightarrow> u64"
  dn_clock :: "'o \<times> 'v ipc_server \<Rightarrow> clock"
  dn_socket_mode :: "'o \<Rightarrow> string"
  dn_task_total :: "'o \<Rightarrow> u64"
  dn_runtime_busy :: "'o \<Rightarrow> bool"
  dn_state_busy :: "'o \<Rightarrow> bool"
  dn_environ :: "string \<Rightarrow> string option"
  dn_write :: "'v \<Rightarrow> 'o \<times> 'v ipc_server \<Rightarrow> bool \<times> ('o \<times> 'v ipc_server)"

text \<open>The modules the server owns are the ones the executor and the waits see.\<close>

definition server_env :: "('o, 'v) daemon_env \<Rightarrow> ('o \<times> 'v ipc_server, 'v) env" where
  "server_env D = (dn_env D)
     \<lparr>en_session := (\<lambda>w. case td_attached_session_ids (dn_diagnostics D (fst w)) of [] \<Rightarrow> None | s # _ \<Rightarrow> Some s),
      en_shared := (\<lambda>w. \<lparr>w_ds = rs_ds (sv_run w), w_fm = rs_fm (sv_run w), w_idx = rs_index (sv_run w)\<rparr>),
      en_targets := (\<lambda>w. rs_tm (sv_run w))\<rparr>"

abbreviation dn_json :: "('o, 'v) daemon_env \<Rightarrow> 'v json_ops" where "dn_json D \<equiv> en_json (dn_env D)"

definition dn_now :: "('o, 'v) daemon_env \<Rightarrow> 'o \<times> 'v ipc_server \<Rightarrow> nat" where
  "dn_now D w = en_now (dn_env D) w"

lemma server_env_sel [simp]:
  "en_json (server_env D) = dn_json D" "en_call (server_env D) = en_call (dn_env D)"
  "en_now (server_env D) = en_now (dn_env D)" "en_order (server_env D) = en_order (dn_env D)"
  "en_target_order (server_env D) = en_target_order (dn_env D)" "en_sleep (server_env D) = en_sleep (dn_env D)"
  "en_wake (server_env D) = en_wake (dn_env D)" "en_as_bool (server_env D) = en_as_bool (dn_env D)"
  by (simp_all add: server_env_def)

section \<open>JSON of records\<close>

fun target_lifecycle_variant :: "target_lifecycle \<Rightarrow> string" where
  "target_lifecycle_variant Created = ''Created''"
| "target_lifecycle_variant Attached = ''Attached''"
| "target_lifecycle_variant Detached = ''Detached''"
| "target_lifecycle_variant Destroyed = ''Destroyed''"
| "target_lifecycle_variant Crashed = ''Crashed''"
| "target_lifecycle_variant Navigated = ''Navigated''"

definition target_record_to_value :: "('o, 'v) daemon_env \<Rightarrow> target_record \<Rightarrow> 'v" where
  "target_record_to_value D r = (let J = dn_json D in j_obj J
     [(''target_id'', j_str J (tr_target_id r)), (''target_generation'', j_u64 J (tr_target_generation r)),
      (''session_id'', j_opt J (j_str J) (tr_session_id r)),
      (''connection_generation'', j_u64 J (tr_connection_generation r)), (''url'', j_str J (tr_url r)),
      (''title'', j_str J (tr_title r)), (''target_type'', j_str J (tr_target_type r)),
      (''active'', j_bool J (tr_active r)), (''lifecycle'', j_str J (target_lifecycle_variant (tr_lifecycle r))),
      (''created_at'', dn_system_time D (tr_created_at r)), (''crashed'', j_bool J (tr_crashed r))])"

definition element_ref_to_value :: "('o, 'v) daemon_env \<Rightarrow> element_ref \<Rightarrow> 'v" where
  "element_ref_to_value D r = (let J = dn_json D in j_obj J
     [(''id'', j_str J (er_id r)), (''backend_node_id'', j_i64 J (er_backend_node_id r)),
      (''node_id'', j_i64 J (er_node_id r)), (''target_id'', j_str J (er_target_id r)),
      (''target_generation'', j_u64 J (er_target_generation r)), (''frame_id'', j_str J (er_frame_id r)),
      (''frame_tree_version'', j_u64 J (er_frame_tree_version r)), (''role'', j_str J (er_role r)),
      (''name'', j_str J (er_name r)), (''tag_name'', j_str J (er_tag_name r)), (''dom_id'', j_str J (er_dom_id r)),
      (''classes'', j_strs J (er_classes r)), (''selector'', j_str J (er_selector r)),
      (''text_content'', j_str J (er_text_content r)),
      (''bounding_box'', j_opt J (dn_box D) (er_bounding_box r)), (''visible'', j_bool J (er_visible r)),
      (''enabled'', j_bool J (er_enabled r)), (''dom_version_created'', j_u64 J (er_dom_version_created r))])"

section \<open>Diagnostics and status\<close>

definition browser_info_default :: browser_info where
  "browser_info_default = \<lparr>bi_product = [], bi_revision = [], bi_protocol_version = [], bi_js_version = []\<rparr>"

definition no_diagnostics :: "nat \<Rightarrow> u64 \<Rightarrow> nat \<Rightarrow> nat \<Rightarrow> transport_diagnostics" where
  "no_diagnostics pending events cur mx = \<lparr>td_connection_id = [], td_browser_info = browser_info_default,
     td_pending_request_count = pending, td_event_count = events, td_attached_session_ids = [], td_depth_current = cur,
     td_depth_max = mx, td_offloaded_decode_count = 0, td_oversize_dropped_count = 0\<rparr>"

definition live_diagnostics :: "('o, 'v) daemon_env \<Rightarrow> 'o \<times> 'v ipc_server \<Rightarrow> transport_diagnostics" where
  "live_diagnostics D w = (if is_runtime (snd w) then dn_diagnostics D (fst w) else no_diagnostics 0 0 0 0)"

definition server_diff_metrics :: "'o \<times> 'v ipc_server \<Rightarrow> diff_metrics" where
  "server_diff_metrics w = de_metrics (rs_engine (sv_run w)) (rs_index (sv_run w))"

definition server_metrics_snapshot :: "('o, 'v) daemon_env \<Rightarrow> 'o \<times> 'v ipc_server \<Rightarrow> metrics_snapshot" where
  "server_metrics_snapshot D w =
     metrics_snapshot_of (dn_now D w) (live_diagnostics D w) (server_diff_metrics w) (is_metrics (snd w))"

text \<open>\<open>RuntimeStatus\<close>; the fallback counters of the server are never set and stay 0.\<close>

record 'v runtime_status =
  st_state :: string
  st_state_detail :: "string option"
  st_product :: string
  st_revision :: string
  st_protocol :: string
  st_target_count :: nat
  st_cdp_connections :: nat
  st_pending_requests :: nat
  st_ipc_in_flight :: u64
  st_dom_version :: u64
  st_navigation_generation :: u64
  st_runtime_generation :: u64
  st_frame_tree_version :: u64
  st_event_count :: u64
  st_socket_mode :: string
  st_restart_on_crash :: bool
  st_reorder_buffer_depth :: nat
  st_reorder_buffer_depth_max :: nat
  st_metrics :: metrics_snapshot
  st_trace_summary :: 'v

definition or_counter :: "u64 \<Rightarrow> u64 \<Rightarrow> u64" where
  "or_counter x counter = (if x \<noteq> 0 then x else counter)"

definition build_status :: "('o, 'v) daemon_env \<Rightarrow> 'o \<times> 'v ipc_server \<Rightarrow> 'v runtime_status" where
  "build_status D w =
     (let l = sv_life w; d = live_diagnostics D w; ds = rs_ds (sv_run w) in
      \<lparr>st_state = lifecycle_name l, st_state_detail = (case l of lifecycle_state.Failed r \<Rightarrow> Some r | _ \<Rightarrow> None),
       st_product = bi_product (td_browser_info d), st_revision = bi_revision (td_browser_info d),
       st_protocol = bi_protocol_version (td_browser_info d), st_target_count = tm_target_count (rs_tm (sv_run w)),
       st_cdp_connections = (if is_runtime (snd w) \<and> dn_alive D (fst w) then 1 else 0),
       st_pending_requests = td_pending_request_count d, st_ipc_in_flight = is_pending (snd w),
       st_dom_version = or_counter (ds_dom_version ds) 0,
       st_navigation_generation = or_counter (ds_navigation_generation ds) 0,
       st_runtime_generation = or_counter (ds_runtime_generation ds) 0,
       st_frame_tree_version = or_counter (ds_frame_tree_version ds) 0, st_event_count = td_event_count d,
       st_socket_mode = dn_socket_mode D (fst w), st_restart_on_crash = is_restart_on_crash (snd w),
       st_reorder_buffer_depth = td_depth_current d, st_reorder_buffer_depth_max = td_depth_max d,
       st_metrics = server_metrics_snapshot D w, st_trace_summary = trace_snapshot_value (dn_json D) (is_trace (snd w))\<rparr>)"

definition status_to_value :: "('o, 'v) daemon_env \<Rightarrow> 'v runtime_status \<Rightarrow> 'v" where
  "status_to_value D s = (let J = dn_json D; num = en_number (dn_env D); m = st_metrics s in j_obj J
     ([(''state'', j_str J (st_state s))]
      @ (case st_state_detail s of None \<Rightarrow> [] | Some d \<Rightarrow> [(''state_detail'', j_str J d)])
      @ [(''product'', j_str J (st_product s)), (''revision'', j_str J (st_revision s)),
         (''protocol'', j_str J (st_protocol s)), (''target_count'', j_usize J (st_target_count s)),
         (''cdp_connections'', j_usize J (st_cdp_connections s)),
         (''pending_requests'', j_usize J (st_pending_requests s)), (''ipc_in_flight'', j_u64 J (st_ipc_in_flight s)),
         (''dom_version'', j_u64 J (st_dom_version s)),
         (''navigation_generation'', j_u64 J (st_navigation_generation s)),
         (''runtime_generation'', j_u64 J (st_runtime_generation s)),
         (''frame_tree_version'', j_u64 J (st_frame_tree_version s)), (''event_count'', j_u64 J (st_event_count s)),
         (''socket_mode'', j_str J (st_socket_mode s)), (''restart_on_crash'', j_bool J (st_restart_on_crash s)),
         (''reorder_buffer_depth'', j_usize J (st_reorder_buffer_depth s)),
         (''reorder_buffer_depth_max'', j_usize J (st_reorder_buffer_depth_max s)),
         (''metrics'', metrics_snapshot_to_value J num m), (''trace_summary'', st_trace_summary s),
         (''offloaded_decode_count'', j_u64 J (ms_offloaded_decode_count m)),
         (''oversize_dropped_count'', j_u64 J (ms_oversize_dropped_count m)),
         (''vision_fallback_count'', j_u64 J (ms_vision_fallback_count m)),
         (''reconnect_count'', j_u64 J (ms_reconnect_count m)), (''dom_rebuild_count'', j_u64 J (ms_dom_rebuild_count m)),
         (''incremental_update_count'', j_u64 J (ms_incremental_update_count m)),
         (''latency_p50_ms'', j_u64 J (ms_latency_p50_ms m)), (''latency_p90_ms'', j_u64 J (ms_latency_p90_ms m)),
         (''latency_p99_ms'', j_u64 J (ms_latency_p99_ms m)), (''latency_avg_ms'', num (ms_latency_avg_ms m))]))"

definition diagnostics_to_value :: "('o, 'v) daemon_env \<Rightarrow> 'o \<times> 'v ipc_server \<Rightarrow> 'v" where
  "diagnostics_to_value D w = (let J = dn_json D; d = live_diagnostics D w; b = td_browser_info d in j_obj J
     [(''connection_id'', j_str J (td_connection_id d)),
      (''browser_info'', j_obj J
        [(''product'', j_str J (bi_product b)), (''revision'', j_str J (bi_revision b)),
         (''protocol_version'', j_str J (bi_protocol_version b)), (''js_version'', j_str J (bi_js_version b))]),
      (''pending_request_count'', j_usize J (td_pending_request_count d)), (''event_count'', j_u64 J (td_event_count d)),
      (''connected_at_ms'', j_u64 J (if is_runtime (snd w) then dn_connected_ms D (fst w) else of_nat (dn_now D w))),
      (''attached_session_ids'', j_strs J (td_attached_session_ids d)),
      (''reorder_buffer_depth_current'', j_usize J (td_depth_current d)),
      (''reorder_buffer_depth_max'', j_usize J (td_depth_max d)),
      (''offloaded_decode_count'', j_u64 J (td_offloaded_decode_count d)),
      (''oversize_dropped_count'', j_u64 J (td_oversize_dropped_count d))])"

section \<open>Shared pieces of the handlers\<close>

definition server_transition_to :: "lifecycle_state \<Rightarrow> 'o \<times> 'v ipc_server \<Rightarrow> 'o \<times> 'v ipc_server" where
  "server_transition_to next w = set_life (server_transition (sv_life w) next) w"

definition current_lifecycle_name :: "('o, 'v) daemon_env \<Rightarrow> 'o \<times> 'v ipc_server \<Rightarrow> string" where
  "current_lifecycle_name D w = (if dn_state_busy D (fst w) then ''Unknown'' else lifecycle_name (sv_life w))"

definition initiate_shutdown :: "'o \<times> 'v ipc_server \<Rightarrow> 'o \<times> 'v ipc_server" where
  "initiate_shutdown w =
     (if is_shutdown_started (snd w) then w
      else server_transition_to Stopping (on_server (\<lambda>s. s\<lparr>is_shutdown_started := True\<rparr>) w))"

definition gate :: "request_kind \<Rightarrow> ('o \<times> 'v ipc_server, 'a runtime_result) io \<Rightarrow> ('o \<times> 'v ipc_server, 'a runtime_result) io" where
  "gate kind k = io_try (io_get (\<lambda>w. lifecycle_check (sv_life w) kind)) (\<lambda>_. k)"

definition validate_session_id :: "('o, 'v) daemon_env \<Rightarrow> string option \<Rightarrow> 'o \<times> 'v ipc_server \<Rightarrow> unit runtime_result" where
  "validate_session_id D sid w =
     (case sid of
        None \<Rightarrow> Inr ()
      | Some s \<Rightarrow>
          if s \<noteq> [] then check_session_id (en_target_order (dn_env D)) (rs_ds (sv_run w)) (rs_tm (sv_run w)) s
          else Inr ())"

definition with_target_lock ::
  "('o, 'v) daemon_env \<Rightarrow> string \<Rightarrow> ('o \<times> 'v ipc_server, 'a) io \<Rightarrow> ('o \<times> 'v ipc_server, 'a) io" where
  "with_target_lock D key m = io_then (io_update (dn_lock D key)) m"

definition no_connection :: runtime_error where
  "no_connection = RuntimeDead ''daemon has no browser connection''"

definition dead_connection :: runtime_error where
  "dead_connection = RuntimeDead ''browser connection is dead''"

definition has_runtime :: "'o \<times> 'v ipc_server \<Rightarrow> unit runtime_result" where
  "has_runtime w = (if is_runtime (snd w) then Inr () else Inl no_connection)"

definition live_runtime :: "('o, 'v) daemon_env \<Rightarrow> 'o \<times> 'v ipc_server \<Rightarrow> unit runtime_result" where
  "live_runtime D w =
     (if \<not> is_runtime (snd w) then Inl no_connection
      else if \<not> dn_alive D (fst w) then Inl dead_connection
      else Inr ())"

definition first_session :: "('o, 'v) daemon_env \<Rightarrow> 'o \<times> 'v ipc_server \<Rightarrow> string option" where
  "first_session D w = en_session (server_env D) w"

text \<open>\<open>record_traces\<close>: trace and metrics of completed actions.\<close>

definition record_trace ::
  "('o, 'v) daemon_env \<Rightarrow> transport_diagnostics option \<Rightarrow> 'v action_record \<Rightarrow> 'o \<times> 'v ipc_server \<Rightarrow> 'o \<times> 'v ipc_server" where
  "record_trace D diag_opt r w =
     (let now = of_nat (dn_now D w); s = snd w;
          m = record_action (ar_latency_ms r) (ar_state r) (is_metrics s);
          m = (if ar_action r = ''vision_fallback'' then record_vision_fallback m else m);
          (t, counter) = record_from_action now now r (unwrap_or (no_diagnostics 0 0 0 0) diag_opt) (is_trace s, is_trace_counter s);
          m = (case diag_opt of None \<Rightarrow> m | Some d \<Rightarrow> merge_transport_diagnostics d m)
      in (fst w, s\<lparr>is_metrics := m, is_trace := t, is_trace_counter := counter\<rparr>))"

definition record_traces ::
  "('o, 'v) daemon_env \<Rightarrow> 'v action_record list \<Rightarrow> 'o \<times> 'v ipc_server \<Rightarrow> 'o \<times> 'v ipc_server" where
  "record_traces D rs w =
     (let diag_opt = (if dn_runtime_busy D (fst w) \<or> \<not> is_runtime (snd w) then None else Some (dn_diagnostics D (fst w)))
      in foldl (\<lambda>w r. record_trace D diag_opt r w) w rs)"

text \<open>
  \<open>build_executor\<close> and a run of it. The executor keeps the journal and the action counter while it
  runs; what it starts from before its first action is never read.
\<close>

definition executor_start :: "'o \<times> 'v ipc_server \<Rightarrow> ('o \<times> 'v ipc_server, 'v) exec" where
  "executor_start w =
     \<lparr>xs_world = w, xs_state = Accepted, xs_states = [],
      xs_record = fst (action_record_new 0 0 0 [] 0 None 0 [] [] 0 0 0 False),
      xs_journal = is_journal (snd w), xs_counter = is_action_counter (snd w)\<rparr>"

definition executor_end :: "('o \<times> 'v ipc_server, 'v) exec \<Rightarrow> 'o \<times> 'v ipc_server" where
  "executor_end x = on_server (\<lambda>s. s\<lparr>is_journal := xs_journal x, is_action_counter := xs_counter x\<rparr>) (xs_world x)"

definition run_executor :: "(('o \<times> 'v ipc_server, 'v) exec, 'a) io \<Rightarrow> ('o \<times> 'v ipc_server, 'a) io" where
  "run_executor m dl w =
     (case m dl (executor_start w) of None \<Rightarrow> None | Some (r, x) \<Rightarrow> Some (r, executor_end x))"

end
