(* ===== verification/Server_Ops.thy ===== *)
theory Server_Ops
  imports Server
begin

text \<open>
  The request handlers of the daemon (\<open>handle_connection\<close> in \<open>src/browser_runtime/server.rs\<close>), one
  definition per operation. A handler gets the command of the request and answers with an error, or
  with the flag \<open>ok\<close> and the \<open>result\<close> of the response line.
\<close>

type_synonym ('o, 'v) handler = "('o \<times> 'v ipc_server, (bool \<times> 'v) runtime_result) io"

definition answer :: "('o \<times> 'v ipc_server \<Rightarrow> 'v) \<Rightarrow> ('o, 'v) handler" where
  "answer f = io_bind (io_get f) (\<lambda>v. io_return (Inr (True, v)))"

definition refuse :: "string \<Rightarrow> ('o, 'v) handler" where
  "refuse detail = io_return (Inl (InvalidResponse detail))"

definition ok_value :: "('o \<times> 'v ipc_server, 'v runtime_result) io \<Rightarrow> ('o, 'v) handler" where
  "ok_value m = io_try m (\<lambda>v. io_return (Inr (True, v)))"

definition targets_value :: "('o, 'v) daemon_env \<Rightarrow> 'o \<times> 'v ipc_server \<Rightarrow> 'v" where
  "targets_value D w =
     tm_trace_snapshot (dn_json D) (en_target_order (dn_env D)) (rs_ds (sv_run w)) (rs_tm (sv_run w))"

definition frames_value :: "('o, 'v) daemon_env \<Rightarrow> 'o \<times> 'v ipc_server \<Rightarrow> 'v" where
  "frames_value D w = fm_trace_snapshot (dn_json D) (dn_frame_order D) (rs_fm (sv_run w), rs_ds (sv_run w))"

definition elements_value :: "('o, 'v) daemon_env \<Rightarrow> 'o \<times> 'v ipc_server \<Rightarrow> 'v" where
  "elements_value D w = ei_trace_snapshot (dn_json D) (en_order (dn_env D)) (rs_ds (sv_run w)) (rs_index (sv_run w))"

definition bool_param :: "('o, 'v) daemon_env \<Rightarrow> 'v \<Rightarrow> string \<Rightarrow> bool \<Rightarrow> bool" where
  "bool_param D c k d = unwrap_or d (Option.bind (j_get (dn_json D) c k) (en_as_bool (dn_env D)))"

section \<open>Status, evaluation and CDP calls\<close>

definition h_status :: "('o, 'v) daemon_env \<Rightarrow> ('o, 'v) handler" where
  "h_status D = gate request_kind.Read (answer (\<lambda>w. status_to_value D (build_status D w)))"

definition op_eval ::
  "('o, 'v) daemon_env \<Rightarrow> string \<Rightarrow> string option \<Rightarrow> string option \<Rightarrow> ('o \<times> 'v ipc_server, 'v runtime_result) io" where
  "op_eval D expression target_id session_id =
     gate StateChanging
       (io_try (io_get (validate_session_id D session_id)) (\<lambda>_.
          with_target_lock D (unwrap_or ''_default'' target_id)
            (io_try (io_get (live_runtime D)) (\<lambda>_.
               io_bind (io_get (\<lambda>w. or_else session_id (first_session D w))) (\<lambda>sid.
                 let J = dn_json D in
                 io_call (server_env D) sid ''Runtime.evaluate''
                   (j_obj J [(''expression'', j_str J expression), (''returnByValue'', j_bool J True),
                             (''awaitPromise'', j_bool J True)]))))))"

definition h_eval :: "('o, 'v) daemon_env \<Rightarrow> 'v \<Rightarrow> ('o, 'v) handler" where
  "h_eval D c =
     (let J = dn_json D; expression = unwrap_or [] (get_str J c ''expression'') in
      if expression = [] then refuse ''eval needs a non-empty expression''
      else ok_value (op_eval D expression (get_str J c ''target_id'') (get_str J c ''session_id'')))"

text \<open>The session of a call: given, of the target's record, from attaching now, or the first attached.\<close>

definition attach_now :: "('o, 'v) daemon_env \<Rightarrow> string \<Rightarrow> ('o \<times> 'v ipc_server, string option) io" where
  "attach_now D tid =
     (let J = dn_json D in
      io_bind (io_call (server_env D) None ''Target.attachToTarget''
                 (j_obj J [(''targetId'', j_str J tid), (''flatten'', j_bool J True)])) (\<lambda>r.
        io_return (case r of Inl _ \<Rightarrow> None | Inr v \<Rightarrow> get_str J v ''sessionId'')))"

definition call_session ::
  "('o, 'v) daemon_env \<Rightarrow> string option \<Rightarrow> string option \<Rightarrow> string \<Rightarrow> ('o \<times> 'v ipc_server, string option) io" where
  "call_session D session_id target_id m =
     io_bind
       (case session_id of
          Some s \<Rightarrow> io_return (Some s)
        | None \<Rightarrow>
            (case target_id of
               None \<Rightarrow> io_return None
             | Some tid \<Rightarrow>
                 io_bind (io_get (\<lambda>w. Option.bind (tm_get_target (rs_tm (sv_run w)) tid) tr_session_id)) (\<lambda>s.
                   case s of Some sid \<Rightarrow> io_return (Some sid) | None \<Rightarrow> attach_now D tid)))
       (\<lambda>s. if s = None \<and> \<not> (is_prefix_of ''Target.'' m \<or> is_prefix_of ''Browser.'' m)
            then io_get (first_session D) else io_return s)"

definition op_cdp_call ::
  "('o, 'v) daemon_env \<Rightarrow> string option \<Rightarrow> string option \<Rightarrow> string \<Rightarrow> 'v \<Rightarrow> capability_class
   \<Rightarrow> ('o \<times> 'v ipc_server, 'v runtime_result) io" where
  "op_cdp_call D session_id target_id m params capability =
     (let kind = (if capability = NoCapability then request_kind.Read else StateChanging);
          call = io_try (io_get (live_runtime D)) (\<lambda>_.
                   io_bind (call_session D session_id target_id m) (\<lambda>s. io_call (server_env D) s m params))
      in gate kind
           (io_try (io_get (validate_session_id D session_id)) (\<lambda>_.
              if kind = StateChanging then with_target_lock D (unwrap_or ''_default'' target_id) call else call)))"

definition h_cdp_call :: "('o, 'v) daemon_env \<Rightarrow> 'v \<Rightarrow> capability_class \<Rightarrow> ('o, 'v) handler" where
  "h_cdp_call D c capability =
     (let J = dn_json D; m = unwrap_or [] (get_str J c ''method'') in
      if m = [] then refuse ''cdp_call needs method''
      else ok_value (op_cdp_call D (get_str J c ''session_id'') (get_str J c ''target_id'') m
                       (unwrap_or (j_obj J []) (j_get J c ''params'')) capability))"

section \<open>Targets\<close>

definition h_tabs :: "('o, 'v) daemon_env \<Rightarrow> ('o, 'v) handler" where
  "h_tabs D =
     (let J = dn_json D in
      gate request_kind.Read (io_bind (io_get id) (\<lambda>w.
        if 0 < tm_target_count (rs_tm (sv_run w)) \<or> \<not> is_runtime (snd w) then answer (targets_value D)
        else
          io_try (io_call (server_env D) None ''Target.getTargets'' (j_obj J [])) (\<lambda>v.
            io_then
              (case get_array J v ''targetInfos'' of
                 None \<Rightarrow> io_return ()
               | Some arr \<Rightarrow> io_update (\<lambda>w. set_run ((sv_run w)\<lparr>rs_tm :=
                   sync_from_target_infos J (en_target_order (dn_env D)) (dn_now D w) (rs_ds (sv_run w)) arr
                     (rs_tm (sv_run w))\<rparr>) w))
              (answer (\<lambda>w. j_obj J [(''manager'', targets_value D w), (''cdp_raw'', v)]))))))"

definition h_targets :: "('o, 'v) daemon_env \<Rightarrow> ('o, 'v) handler" where
  "h_targets D = gate request_kind.Read (answer (targets_value D))"

definition h_active_target :: "('o, 'v) daemon_env \<Rightarrow> ('o, 'v) handler" where
  "h_active_target D =
     gate request_kind.Read (answer (\<lambda>w. j_opt (dn_json D) (target_record_to_value D) (tm_active_target (rs_tm (sv_run w)))))"

definition switch_now ::
  "string \<Rightarrow> u64 option \<Rightarrow> 'o \<times> 'v ipc_server \<Rightarrow> target_record runtime_result \<times> ('o \<times> 'v ipc_server)" where
  "switch_now tid gen w =
     (let ds = rs_ds (sv_run w); tm = rs_tm (sv_run w);
          (r, tm) = (case gen of
                       Some g \<Rightarrow> switch_target_ref ds \<lparr>tref_target_id = tid, tref_target_generation = g\<rparr> tm
                     | None \<Rightarrow> switch_target ds tid tm)
      in (r, set_run ((sv_run w)\<lparr>rs_tm := tm\<rparr>) w))"

text \<open>A computation that changes the world without awaiting.\<close>

definition io_step :: "('w \<Rightarrow> 'a \<times> 'w) \<Rightarrow> ('w, 'a) io" where
  "io_step f dl w = (case f w of (a, w') \<Rightarrow> Some (Done a, w'))"

definition h_switch_target :: "('o, 'v) daemon_env \<Rightarrow> 'v \<Rightarrow> ('o, 'v) handler" where
  "h_switch_target D c =
     (let J = dn_json D; tid = unwrap_or [] (get_str J c ''target_id''); gen = get_u64 J c ''target_generation'' in
      gate StateChanging (io_try (io_step (switch_now tid gen)) (\<lambda>r. io_return (Inr (True, target_record_to_value D r)))))"

text \<open>\<open>attach_target\<close> and \<open>detach_target\<close> of the target manager, which has the runtime since the start-up.\<close>

definition manager_runtime :: "('o, 'v) daemon_env \<Rightarrow> string \<Rightarrow> 'o \<times> 'v ipc_server \<Rightarrow> unit runtime_result" where
  "manager_runtime D what w =
     (if tm_runtime (rs_tm (sv_run w)) = None then Inl (RuntimeDead (''no browser connection for '' @ what))
      else if \<not> dn_alive D (fst w) then Inl dead_connection
      else Inr ())"

definition h_attach_target :: "('o, 'v) daemon_env \<Rightarrow> 'v \<Rightarrow> ('o, 'v) handler" where
  "h_attach_target D c =
     (let J = dn_json D; tid = unwrap_or [] (get_str J c ''target_id'') in
      gate StateChanging
        (if tid = [] then refuse ''attach_target needs target_id''
         else io_try (io_get (manager_runtime D ''attach'')) (\<lambda>_.
                ok_value (io_call (server_env D) None ''Target.attachToTarget''
                  (j_obj J [(''targetId'', j_str J tid), (''flatten'', j_bool J True)])))))"

definition h_detach_target :: "('o, 'v) daemon_env \<Rightarrow> 'v \<Rightarrow> ('o, 'v) handler" where
  "h_detach_target D c =
     (let J = dn_json D; sid = unwrap_or [] (get_str J c ''session_id'') in
      gate StateChanging
        (if sid = [] then refuse ''detach_target needs session_id''
         else io_try (io_get (validate_session_id D (Some sid))) (\<lambda>_.
                io_try (io_get (validate_session_id D (Some sid))) (\<lambda>_.
                  io_try (io_get (manager_runtime D ''detach'')) (\<lambda>_.
                    ok_value (io_call (server_env D) None ''Target.detachFromTarget''
                      (j_obj J [(''sessionId'', j_str J sid)])))))))"

section \<open>Reconnects and crashes\<close>

text \<open>The UTF-8 bytes of the section sign.\<close>

definition section_sign :: string where
  "section_sign = [CHR 0xC2, CHR 0xA7]"

definition reconnect_now :: "('o, 'v) daemon_env \<Rightarrow> 'o \<times> 'v ipc_server \<Rightarrow> (u64 \<times> u64) \<times> ('o \<times> 'v ipc_server)" where
  "reconnect_now D w =
     (let (gens, st) = simulate_reconnect (en_target_order (dn_env D)) (dn_clock D w) (sv_run w)
      in (gens, on_server (\<lambda>s. s\<lparr>is_metrics := record_reconnect (is_metrics s)\<rparr>) (set_run st w)))"

definition h_simulate_reconnect :: "('o, 'v) daemon_env \<Rightarrow> ('o, 'v) handler" where
  "h_simulate_reconnect D =
     (let J = dn_json D in
      gate StateChanging (io_bind (io_step (reconnect_now D)) (\<lambda>(new_tg, new_cg).
        answer (\<lambda>w. j_obj J
          [(''new_target_generation'', j_u64 J new_tg), (''new_connection_generation'', j_u64 J new_cg),
           (''mismatches'', j_usize J (count_generation_mismatches (en_target_order (dn_env D)) new_tg (rs_tm (sv_run w)))),
           (''trace'', targets_value D w)]))))"

text \<open>The decision of \<open>crash_handle\<close>: the reported outcome and state, and the lifecycle it asks for.\<close>

definition crash_decision :: "bool \<Rightarrow> bool \<Rightarrow> bool \<Rightarrow> string \<times> string \<times> lifecycle_state" where
  "crash_decision browser_alive restart_on_crash launched =
     (if browser_alive then (''Reconnected'', ''Connected'', Connected)
      else if \<not> restart_on_crash then (''Disconnected_restart_off'', ''Disconnected'', Disconnected)
      else if \<not> launched then (''Disconnected_attached_only'', ''Disconnected'', Disconnected)
      else (''Restarted'', ''Connected'', Connected))"

definition crash_bump_now :: "('o, 'v) daemon_env \<Rightarrow> 'o \<times> 'v ipc_server \<Rightarrow> (u64 \<times> u64 \<times> u64 \<times> u64) \<times> ('o \<times> 'v ipc_server)" where
  "crash_bump_now D w =
     (let name = current_lifecycle_name D w;
          w = (if name = ''Connected'' \<or> name = ''Degraded'' then server_transition_to Reconnecting w else w);
          (gens, st) = handle_crash_generation_bump (en_target_order (dn_env D)) (dn_clock D w) (sv_run w)
      in (gens, on_server (\<lambda>s. s\<lparr>is_metrics := record_reconnect (is_metrics s)\<rparr>) (set_run st w)))"

definition target_collision_value :: "('o, 'v) daemon_env \<Rightarrow> u64 \<Rightarrow> u64 \<Rightarrow> 'o \<times> 'v ipc_server \<Rightarrow> 'v" where
  "target_collision_value D old_tg new_tg w =
     (let J = dn_json D; ds = rs_ds (sv_run w); tm = rs_tm (sv_run w) in
      case tm_list_targets (en_target_order (dn_env D)) tm of
        [] \<Rightarrow> j_obj J [(''note'', j_str J (''no targets to prove collision '' @ em_dash @ '' create one first''))]
      | t # _ \<Rightarrow>
          let tid = tr_target_id t;
              old_valid = is_target_ref_valid ds tm \<lparr>tref_target_id = tid, tref_target_generation = old_tg\<rparr>;
              new_valid = (case tm_get_target tm tid of None \<Rightarrow> False
                           | Some r \<Rightarrow> is_target_ref_valid ds tm (target_record_ref r))
          in j_obj J [(''target_id'', j_str J tid), (''old_generation'', j_u64 J old_tg),
               (''new_generation'', j_u64 J new_tg), (''old_ref_valid'', j_bool J old_valid),
               (''new_ref_valid'', j_bool J new_valid), (''collision_rejected'', j_bool J (\<not> old_valid)),
               (''proof'', j_str J ''I12: old TargetRef with colliding ID rejected due to generation mismatch'')])"

definition crash_handle ::
  "('o, 'v) daemon_env \<Rightarrow> 'v \<Rightarrow> 'o \<times> 'v ipc_server \<Rightarrow> 'v \<times> ('o \<times> 'v ipc_server)" where
  "crash_handle D c w =
     (let J = dn_json D; ds = rs_ds (sv_run w);
          browser_alive = bool_param D c ''browser_alive'' True;
          restart_on_crash = bool_param D c ''restart_on_crash'' (is_restart_on_crash (snd w));
          launched = bool_param D c ''launched_by_hyprfast'' False;
          old_tg = ds_target_generation ds; old_cg = ds_runtime_generation ds;
          old_ftv = ds_frame_tree_version ds; old_dom = ds_dom_version ds;
          pre_ref = (case ei_find_all (en_order (dn_env D)) (rs_index (sv_run w)) of [] \<Rightarrow> None | r # _ \<Rightarrow> Some r);
          pre_ref_id = (case pre_ref of None \<Rightarrow> ''no_ref'' | Some r \<Rightarrow> er_id r);
          ((new_tg, new_cg, new_ftv, new_dom), w) = crash_bump_now D w;
          task_total = dn_task_total D (fst w);
          (outcome, next_state, next) = crash_decision browser_alive restart_on_crash launched;
          w = server_transition_to next w;
          pre_ref_stale = (case pre_ref of None \<Rightarrow> True | Some r \<Rightarrow> ei_is_stale (rs_ds (sv_run w)) (rs_fm (sv_run w)) r)
      in (j_obj J
           [(''outcome'', j_str J outcome), (''next_state'', j_str J next_state),
            (''old_target_generation'', j_u64 J old_tg), (''new_target_generation'', j_u64 J new_tg),
            (''old_connection_generation'', j_u64 J old_cg), (''new_connection_generation'', j_u64 J new_cg),
            (''old_frame_tree_version'', j_u64 J old_ftv), (''new_frame_tree_version'', j_u64 J new_ftv),
            (''old_dom_version'', j_u64 J old_dom), (''new_dom_version'', j_u64 J new_dom),
            (''pre_ref_id'', j_str J pre_ref_id), (''pre_ref_stale'', j_bool J pre_ref_stale),
            (''target_collision'', target_collision_value D old_tg new_tg w),
            (''session_collision'', j_obj J [(''old_cg'', j_u64 J old_cg), (''new_cg'', j_u64 J new_cg),
               (''note'', j_str J ''SessionRef generation bump validated via connection_generation increment'')]),
            (''task_total'', j_u64 J task_total), (''restart_on_crash'', j_bool J restart_on_crash),
            (''launched_by_hyprfast'', j_bool J launched), (''browser_alive'', j_bool J browser_alive),
            (''details'', j_str J ''crash recovery steps 1-10 executed; Unknown not replayed (I8); generations bumped (I12); policy respected (I23)'')],
          w))"

text \<open>The gate of \<open>crash_handle\<close> is checked and its refusal ignored.\<close>

definition h_crash_handle :: "('o, 'v) daemon_env \<Rightarrow> 'v \<Rightarrow> ('o, 'v) handler" where
  "h_crash_handle D c =
     io_bind (io_get (\<lambda>w. lifecycle_check (sv_life w) StateChanging)) (\<lambda>_.
       io_bind (io_step (crash_handle D c)) (\<lambda>v. io_return (Inr (True, v))))"

definition scenario_value ::
  "('o, 'v) daemon_env \<Rightarrow> bool \<Rightarrow> string \<times> bool \<times> bool \<times> bool \<times> string \<times> string \<Rightarrow> 'v" where
  "scenario_value D current = (\<lambda>(name, restart, launched, alive, expected, reason). let J = dn_json D in j_obj J
     [(''name'', j_str J name), (''restart_on_crash'', j_bool J restart), (''launched'', j_bool J launched),
      (''browser_alive'', j_bool J alive), (''expected'', j_str J expected), (''reason'', j_str J reason),
      (''current_restart_on_crash'', j_bool J current), (''validated'', j_bool J True)])"

definition crash_scenarios :: "(string \<times> bool \<times> bool \<times> bool \<times> string \<times> string) list" where
  "crash_scenarios =
     [(''restart_off_browser_died'', False, True, False, ''Disconnected'', ''I23: restart_on_crash=false '' @ right_arrow @ '' Disconnected''),
      (''restart_on_launched_browser_died'', True, True, False, ''Restarted'', ''I23: true+launched '' @ right_arrow @ '' restart with identical params''),
      (''restart_on_attached_browser_died'', True, False, False, ''Disconnected'', ''I23: attached-only never restarted regardless of flag''),
      (''browser_alive_reconnect'', False, False, True, ''Reconnected'', ''browser still alive '' @ right_arrow @ '' reconnect (no restart needed)'')]"

definition h_crash_policy_scenarios :: "('o, 'v) daemon_env \<Rightarrow> ('o, 'v) handler" where
  "h_crash_policy_scenarios D =
     (let J = dn_json D in
      answer (\<lambda>w. j_obj J
        [(''scenarios'', j_arr J (map (scenario_value D (is_restart_on_crash (snd w))) crash_scenarios)),
         (''invariant'', j_str J ''I23: Browser restart is disabled unless explicitly configured, and never restarts a browser hyprfast only attached to''),
         (''note'', j_str J ''Unknown actions never replayed regardless of restart_on_crash (rule 11/I8)'')]))"

definition h_crash_generations :: "('o, 'v) daemon_env \<Rightarrow> ('o, 'v) handler" where
  "h_crash_generations D =
     (let J = dn_json D in
      gate request_kind.Read (answer (\<lambda>w. let ds = rs_ds (sv_run w) in j_obj J
        [(''runtime_generation'', j_u64 J (ds_runtime_generation ds)),
         (''connection_generation'', j_u64 J (ds_runtime_generation ds)),
         (''target_generation'', j_u64 J (ds_target_generation ds)), (''dom_version'', j_u64 J (ds_dom_version ds)),
         (''element_index_version'', j_u64 J (ds_element_index_version ds)),
         (''frame_tree_version'', j_u64 J (ds_frame_tree_version ds)),
         (''navigation_generation'', j_u64 J (ds_navigation_generation ds)),
         (''state'', j_str J (current_lifecycle_name D w)),
         (''restart_on_crash'', j_bool J (is_restart_on_crash (snd w))), (''targets'', targets_value D w)])))"

definition h_crash_collision_test :: "('o, 'v) daemon_env \<Rightarrow> 'v \<Rightarrow> ('o, 'v) handler" where
  "h_crash_collision_test D c =
     (let J = dn_json D; tid = unwrap_or ''colliding-target'' (get_str J c ''target_id'');
          old_gen = unwrap_or 0 (get_u64 J c ''old_generation'');
          sid = unwrap_or ''colliding-session'' (get_str J c ''session_id'');
          old_cg = unwrap_or 0 (get_u64 J c ''old_connection_generation'') in
      answer (\<lambda>w.
        let ds = rs_ds (sv_run w); tm = rs_tm (sv_run w);
            cur_tg = ds_target_generation ds; cur_cg = ds_runtime_generation ds;
            target_valid = (\<lambda>g. is_target_ref_valid ds tm \<lparr>tref_target_id = tid, tref_target_generation = g\<rparr>);
            session_valid = (\<lambda>g. is_session_ref_valid ds tm \<lparr>sref_session_id = sid, sref_connection_generation = g\<rparr>);
            old_valid = target_valid old_gen;
            new_valid = (if tm_get_target tm tid \<noteq> None then target_valid cur_tg else \<not> old_valid)
        in j_obj J
          [(''target_id'', j_str J tid), (''old_generation'', j_u64 J old_gen),
           (''current_target_generation'', j_u64 J cur_tg), (''old_target_ref_valid'', j_bool J old_valid),
           (''new_target_ref_valid'', j_bool J new_valid), (''target_collision_rejected'', j_bool J (\<not> old_valid)),
           (''session_id'', j_str J sid), (''old_connection_generation'', j_u64 J old_cg),
           (''current_connection_generation'', j_u64 J cur_cg),
           (''old_session_ref_valid'', j_bool J (session_valid old_cg)),
           (''new_session_ref_valid'', j_bool J (session_valid cur_cg)),
           (''session_collision_rejected'', j_bool J (\<not> session_valid old_cg)),
           (''invariant'', j_str J (''I12: A browser target/session from a previous connection generation can never be reused after recovery ('' @ section_sign @ ''3 Identity Model)'')),
           (''proof'', j_str J ''even if raw ID strings collide, generation mismatch rejects the old ref'')]))"

section \<open>Frames, elements and waits\<close>

definition h_frame_status :: "('o, 'v) daemon_env \<Rightarrow> ('o, 'v) handler" where
  "h_frame_status D = gate request_kind.Read (answer (frames_value D))"

definition h_element_index_status :: "('o, 'v) daemon_env \<Rightarrow> ('o, 'v) handler" where
  "h_element_index_status D = gate request_kind.Read (answer (elements_value D))"

definition resolve_request_of :: "'v json_ops \<Rightarrow> 'v \<Rightarrow> resolve_request" where
  "resolve_request_of J c =
     \<lparr>rq_ref_id = get_str J c ''ref_id'', rq_backend_node_id = get_i64 J c ''backend_node_id'',
      rq_selector = get_str J c ''selector'', rq_dom_id = get_str J c ''dom_id'', rq_name = get_str J c ''name'',
      rq_role = get_str J c ''role'', rq_accessible_name = get_str J c ''accessible_name'',
      rq_text = get_str J c ''text'', rq_tag_name = get_str J c ''tag_name'', rq_target_id = get_str J c ''target_id'',
      rq_frame_id = get_str J c ''frame_id''\<rparr>"

definition h_element_resolve :: "('o, 'v) daemon_env \<Rightarrow> 'v \<Rightarrow> ('o, 'v) handler" where
  "h_element_resolve D c =
     (let J = dn_json D in
      gate request_kind.Read
        (io_bind (io_get (en_shared (server_env D))) (\<lambda>s.
           io_try (io_pure (resolve_in J (en_order (dn_env D)) s (resolve_request_of J c))) (\<lambda>r.
             io_return (Inr (True, element_ref_to_value D r))))))"

definition sim_navigated :: "'v json_ops \<Rightarrow> string \<Rightarrow> string option \<Rightarrow> 'v cdp_event" where
  "sim_navigated J frame_id parent =
     \<lparr>ev_method = ''Page.frameNavigated'',
      ev_params = j_obj J [(''frame'', j_obj J
        ([(''id'', j_str J frame_id), (''url'', j_str J ''https://example.com/sim''), (''name'', j_str J [])]
         @ (case parent of None \<Rightarrow> [] | Some p \<Rightarrow> [(''parentId'', j_str J p)])))],
      ev_session_id = None, ev_sequence = 0\<rparr>"

text \<open>The event goes to the frame manager only.\<close>

definition frame_event_now :: "('o, 'v) daemon_env \<Rightarrow> 'v cdp_event \<Rightarrow> 'o \<times> 'v ipc_server \<Rightarrow> 'o \<times> 'v ipc_server" where
  "frame_event_now D ev w =
     (let (fm, ds) = fm_on_event (dn_json D) ev (rs_fm (sv_run w), rs_ds (sv_run w))
      in set_run ((sv_run w)\<lparr>rs_fm := fm, rs_ds := ds\<rparr>) w)"

definition h_simulate_frame_navigated :: "('o, 'v) daemon_env \<Rightarrow> 'v \<Rightarrow> ('o, 'v) handler" where
  "h_simulate_frame_navigated D c =
     (let J = dn_json D; frame_id = unwrap_or ''main'' (get_str J c ''frame_id'') in
      gate StateChanging
        (io_then (io_update (frame_event_now D (sim_navigated J frame_id (get_str J c ''parent_frame_id''))))
          (answer (\<lambda>w. j_obj J
            [(''frame_id'', j_str J frame_id),
             (''frame_tree_version_global'', j_u64 J (ds_frame_tree_version (rs_ds (sv_run w)))),
             (''frame_version'', j_u64 J (fm_frame_version (rs_fm (sv_run w)) frame_id)),
             (''frame_snapshot'', frames_value D w), (''element_snapshot'', elements_value D w)]))))"

definition h_wait_lifecycle :: "('o, 'v) daemon_env \<Rightarrow> 'v \<Rightarrow> ('o, 'v) handler" where
  "h_wait_lifecycle D c =
     (let J = dn_json D; desired = unwrap_or ''load'' (get_str J c ''lifecycle'');
          ms = unwrap_or 10000 (get_u64 J c ''timeout_ms'') in
      gate request_kind.Read
        (io_try (io_get has_runtime) (\<lambda>_.
           io_try (dom_wait_for_lifecycle (server_env D) desired (unat ms)) (\<lambda>_.
             answer (\<lambda>w. j_obj J [(''lifecycle'', j_str J desired),
               (''ready'', j_str J (ds_lifecycle_state (rs_ds (sv_run w)))),
               (''dom_version'', j_u64 J (ds_dom_version (rs_ds (sv_run w))))])))))"

section \<open>Plans and actions\<close>

text \<open>
  What of the command is the plan: \<open>plan\<close>, else \<open>steps\<close>, else the command itself (its \<open>type\<close> makes no
  difference); an array is wrapped.
\<close>

definition plan_value_of :: "('o, 'v) daemon_env \<Rightarrow> 'v \<Rightarrow> 'v" where
  "plan_value_of D c =
     (let J = dn_json D;
          v = unwrap_or c (or_else (j_get J c ''plan'') (or_else (j_get J c ''steps'')
                (if j_get J c ''steps'' \<noteq> None then None else if j_get J c ''type'' \<noteq> None then Some c else None)))
      in if j_as_array J v \<noteq> None then j_obj J [(''steps'', v)] else v)"

definition hard_failure :: "'v action_record \<Rightarrow> bool" where
  "hard_failure r = (ar_state r \<in> set [action_state.Failed, action_state.Contradicted, Unknown, Cancelled])"

definition soft_ok :: "'v action_record \<Rightarrow> bool" where
  "soft_ok r = (ar_state r = Completed \<or> ar_state r = action_state.Inconclusive)"

fun outcome_value :: "'v json_ops \<Rightarrow> 'v step_outcome \<Rightarrow> 'v" where
  "outcome_value J (Ok (Verified v)) = v"
| "outcome_value J (Ok (verification_result.Contradicted d)) = j_obj J [(''contradicted'', j_str J d)]"
| "outcome_value J (Ok (verification_result.Inconclusive d)) = j_obj J [(''inconclusive'', j_str J d)]"
| "outcome_value J (step_outcome.Failed d) = j_obj J [(''failed'', j_str J d)]"
| "outcome_value J (Skipped r) = j_obj J [(''skipped'', j_str J r)]"

definition legacy_result :: "'v json_ops \<Rightarrow> plan_step list \<Rightarrow> nat \<Rightarrow> 'v action_record \<Rightarrow> 'v" where
  "legacy_result J steps idx r = j_obj J
     [(''step_index'', j_usize J idx),
      (''step_type'', j_str J (if idx < length steps then step_tag (steps ! idx) else ar_action r)),
      (''capability'', j_str J (ar_capability_class r)), (''ok'', j_bool J (soft_ok r)),
      (''result'', outcome_value J (ar_outcome r)), (''error'', j_opt J (j_str J) (ar_error_detail r)),
      (''latency_ms'', j_u64 J (ar_latency_ms r)), (''state'', j_str J (action_state_name (ar_state r))),
      (''verification'', j_opt J (verification_to_value J) (ar_verification r)),
      (''outcome'', outcome_to_value J (ar_outcome r)), (''production_profile'', j_bool J (ar_production_profile r))]"

definition plan_payload ::
  "('o, 'v) daemon_env \<Rightarrow> plan_step list \<Rightarrow> 'v action_record list \<Rightarrow> 'o \<times> 'v ipc_server \<Rightarrow> 'v" where
  "plan_payload D steps records w = (let J = dn_json D in j_obj J
     [(''ok'', j_bool J (\<not> list_ex hard_failure records)),
      (''steps_executed'', j_usize J (length (filter (\<lambda>r. \<not> outcome_is_skipped (ar_outcome r)) records))),
      (''total_steps'', j_usize J (length steps)),
      (''results'', j_arr J (map (\<lambda>(i, r). legacy_result J steps i r) (enumerate 0 records))),
      (''action_records'', j_arr J (map (action_record_to_value J) records)),
      (''journal_snapshot'', journal_trace_snapshot J (is_journal (snd w))),
      (''dom_version'', j_u64 J (ds_dom_version (rs_ds (sv_run w)))),
      (''frame_tree_version'', j_u64 J (ds_frame_tree_version (rs_ds (sv_run w))))])"

definition server_executor :: "('o, 'v) daemon_env \<Rightarrow> ('o \<times> 'v ipc_server) executor" where
  "server_executor D = executor_new (dn_environ D)"

definition h_execute_plan :: "('o, 'v) daemon_env \<Rightarrow> 'v \<Rightarrow> ('o, 'v) handler" where
  "h_execute_plan D c =
     (let J = dn_json D; E = server_env D in
      gate StateChanging
        (case plan_from_json (dn_env D) (dn_serde_error D) (plan_value_of D c) of
           Inl e \<Rightarrow> io_return (Inl e)
         | Inr plan \<Rightarrow>
             (case plan_validate (dn_env D) plan of
                Inl detail \<Rightarrow> refuse detail
              | Inr _ \<Rightarrow>
                  io_try (io_get (live_runtime D)) (\<lambda>_.
                    let target_key = unwrap_or ''_default'' (get_str J c ''target_id'') in
                    with_target_lock D target_key
                      (io_bind (run_executor (execute_plan E (server_executor D) plan (Some target_key) None)) (\<lambda>records.
                        io_then (io_update (record_traces D records))
                          (io_bind (io_get (plan_payload D (pl_steps plan) records)) (\<lambda>v.
                            io_return (Inr (\<not> list_ex hard_failure records, v)))))))))) "

definition h_execute_action :: "('o, 'v) daemon_env \<Rightarrow> 'v \<Rightarrow> ('o, 'v) handler" where
  "h_execute_action D c =
     (let J = dn_json D; E = server_env D; step_val = unwrap_or c (j_get J c ''step'') in
      gate StateChanging
        (case step_of_value (dn_env D) step_val of
           None \<Rightarrow> refuse (''invalid step: '' @ dn_serde_error D step_val)
         | Some step \<Rightarrow>
             (case step_validate (dn_env D) step of
                Inl detail \<Rightarrow> refuse detail
              | Inr _ \<Rightarrow>
                  let target_id = get_str J c ''target_id''; cap = step_capability step in
                  io_try (io_get (live_runtime D)) (\<lambda>_.
                    with_target_lock D (unwrap_or ''_default'' target_id)
                      (io_bind (run_executor (ax_execute_step E (server_executor D) step target_id
                                  (get_str J c ''session_id'') 0 cap (cap \<noteq> NoCapability) (get_str J c ''user_data_dir''))) (\<lambda>r.
                        io_then (io_update (record_traces D [r]))
                          (io_return (Inr (soft_ok r, action_record_to_value J r)))))))))"

section \<open>Journal, traces, metrics\<close>

definition h_journal :: "('o, 'v) daemon_env \<Rightarrow> ('o, 'v) handler" where
  "h_journal D = gate request_kind.Read (answer (\<lambda>w. journal_trace_snapshot (dn_json D) (is_journal (snd w))))"

definition cleared :: "('o, 'v) daemon_env \<Rightarrow> ('v ipc_server \<Rightarrow> 'v ipc_server) \<Rightarrow> ('o, 'v) handler" where
  "cleared D f = gate StateChanging (io_then (io_update (on_server f))
     (answer (\<lambda>_. j_obj (dn_json D) [(''cleared'', j_bool (dn_json D) True)])))"

definition h_journal_clear :: "('o, 'v) daemon_env \<Rightarrow> ('o, 'v) handler" where
  "h_journal_clear D = cleared D (\<lambda>s. s\<lparr>is_journal := journal_clear (is_journal s)\<rparr>)"

definition h_trace :: "('o, 'v) daemon_env \<Rightarrow> ('o, 'v) handler" where
  "h_trace D = gate request_kind.Read (answer (\<lambda>w. trace_snapshot_value (dn_json D) (is_trace (snd w))))"

definition h_trace_clear :: "('o, 'v) daemon_env \<Rightarrow> ('o, 'v) handler" where
  "h_trace_clear D = cleared D (\<lambda>s. s\<lparr>is_trace := trace_clear (is_trace s)\<rparr>)"

definition metrics_value :: "('o, 'v) daemon_env \<Rightarrow> 'o \<times> 'v ipc_server \<Rightarrow> 'v" where
  "metrics_value D w = metrics_snapshot_to_value (dn_json D) (en_number (dn_env D)) (server_metrics_snapshot D w)"

definition h_metrics :: "('o, 'v) daemon_env \<Rightarrow> ('o, 'v) handler" where
  "h_metrics D = gate request_kind.Read (answer (metrics_value D))"

definition h_metrics_clear :: "('o, 'v) daemon_env \<Rightarrow> ('o, 'v) handler" where
  "h_metrics_clear D = cleared D (\<lambda>s. s\<lparr>is_metrics := metrics_clear (is_metrics s)\<rparr>)"

definition h_benchmark :: "('o, 'v) daemon_env \<Rightarrow> 'v \<Rightarrow> ('o, 'v) handler" where
  "h_benchmark D c =
     (let J = dn_json D; num = en_number (dn_env D); iters = unat (unwrap_or 100 (get_u64 J c ''iterations'')) in
      gate request_kind.Read (answer (\<lambda>w. j_obj J
        [(''handshake_benchmark'', benchmark_result_to_value J num
            (benchmark_handshake_elimination_with_iterations (of_nat (dn_now D w)) iters)),
         (''metrics'', metrics_value D w), (''trace_summary'', trace_snapshot_value J (is_trace (snd w))),
         (''journal'', journal_trace_snapshot J (is_journal (snd w))),
         (''diff_benchmark'', diff_benchmark_to_value J num
            (benchmark_incremental_vs_rebuild (rs_engine (sv_run w)) 2000 (dm_element_count (server_diff_metrics w)))),
         (''diagnostics'', diagnostics_to_value D w), (''diff_metrics'', diff_metrics_to_value J (server_diff_metrics w)),
         (''status'', status_to_value D (build_status D w)),
         (''notes'', j_str J ''Phase 14 benchmark suite: persistent runtime eliminates repeated /json + handshake; ordering pipeline diagnostics surfaced; incremental vs rebuild measured'')])))"

definition h_diagnostics :: "('o, 'v) daemon_env \<Rightarrow> ('o, 'v) handler" where
  "h_diagnostics D =
     (let J = dn_json D in
      gate request_kind.Read (answer (\<lambda>w. j_obj J
        [(''status'', status_to_value D (build_status D w)), (''diagnostics'', diagnostics_to_value D w),
         (''metrics'', metrics_value D w), (''diff_metrics'', diff_metrics_to_value J (server_diff_metrics w)),
         (''trace'', trace_snapshot_value J (is_trace (snd w))),
         (''journal'', journal_trace_snapshot J (is_journal (snd w)))])))"

section \<open>Stop and dispatch\<close>

text \<open>The shutdown itself follows the reply.\<close>

definition h_stop :: "('o, 'v) daemon_env \<Rightarrow> ('o, 'v) handler" where
  "h_stop D =
     (let J = dn_json D in
      io_bind (io_get sv_life) (\<lambda>l.
        if l = Stopped then io_return (Inl (RuntimeDead ''runtime is stopped''))
        else answer (\<lambda>_. j_obj J [(''stopping'', j_bool J True)])))"

definition handle_op :: "('o, 'v) daemon_env \<Rightarrow> string \<Rightarrow> 'v \<Rightarrow> capability_class \<Rightarrow> ('o, 'v) handler" where
  "handle_op D op c capability =
     (if op = ''status'' then h_status D
      else if op = ''eval'' then h_eval D c
      else if op = ''cdp_call'' then h_cdp_call D c capability
      else if op = ''tabs'' then h_tabs D
      else if op = ''targets'' then h_targets D
      else if op = ''active_target'' then h_active_target D
      else if op = ''switch_target'' then h_switch_target D c
      else if op = ''attach_target'' then h_attach_target D c
      else if op = ''detach_target'' then h_detach_target D c
      else if op = ''simulate_reconnect'' then h_simulate_reconnect D
      else if op = ''crash_handle'' then h_crash_handle D c
      else if op = ''crash_policy_scenarios'' then h_crash_policy_scenarios D
      else if op = ''crash_generations'' then h_crash_generations D
      else if op = ''crash_collision_test'' then h_crash_collision_test D c
      else if op = ''frame_status'' then h_frame_status D
      else if op = ''element_index_status'' then h_element_index_status D
      else if op = ''element_resolve'' then h_element_resolve D c
      else if op = ''simulate_frame_navigated'' then h_simulate_frame_navigated D c
      else if op = ''stop'' then h_stop D
      else if op = ''wait_lifecycle'' then h_wait_lifecycle D c
      else if op \<in> set [''execute_plan'', ''browser_execute_plan''] then h_execute_plan D c
      else if op = ''execute_action'' then h_execute_action D c
      else if op \<in> set [''journal'', ''action_journal''] then h_journal D
      else if op = ''journal_clear'' then h_journal_clear D
      else if op \<in> set [''trace'', ''traces'', ''action_trace''] then h_trace D
      else if op = ''trace_clear'' then h_trace_clear D
      else if op \<in> set [''metrics'', ''diagnostics_metrics''] then h_metrics D
      else if op = ''metrics_clear'' then h_metrics_clear D
      else if op \<in> set [''benchmark'', ''benchmark_handshake'', ''browser_benchmark''] then h_benchmark D c
      else if op = ''diagnostics'' then h_diagnostics D
      else refuse (''unknown op '' @ debug_str op))"

end
