(* ===== verification/Server_Conn.thy ===== *)
theory Server_Conn
  imports Server_Ops
begin

text \<open>
  A client connection of the daemon (\<open>handle_connection\<close> of \<open>src/browser_runtime/server.rs\<close>): the handshake,
  the request loop with its in-flight accounting, and the reply lines. A connection is given by the
  lines the client sends until it disconnects; the definitions return the replies, in order. Also the
  probe, the binding of the socket and the socket path.
\<close>

definition ipc_protocol_version :: u32 where "ipc_protocol_version = 1"
definition max_ipc_frame_bytes :: nat where "max_ipc_frame_bytes = 256 * 1024 * 1024"
definition runtime_version :: string where "runtime_version = ''0.9.0-dev''"

section \<open>Replies\<close>

definition error_line :: "'v json_ops \<Rightarrow> 'v \<Rightarrow> runtime_error \<Rightarrow> 'v" where
  "error_line J i e = j_obj J
     [(''kind'', j_str J ''error''), (''id'', i), (''ok'', j_bool J False), (''error'', to_wire J e)]"

definition response_line :: "'v json_ops \<Rightarrow> 'v \<Rightarrow> bool \<Rightarrow> 'v \<Rightarrow> 'v" where
  "response_line J i ok v = j_obj J
     [(''kind'', j_str J ''response''), (''id'', i), (''ok'', j_bool J ok), (''result'', v)]"

definition reply_line :: "'v json_ops \<Rightarrow> 'v \<Rightarrow> (bool \<times> 'v) runtime_result \<Rightarrow> 'v" where
  "reply_line J i r = (case r of Inl e \<Rightarrow> error_line J i e | Inr (ok, v) \<Rightarrow> response_line J i ok v)"

definition write_line :: "('o, 'v) daemon_env \<Rightarrow> 'v \<Rightarrow> ('o \<times> 'v ipc_server, bool) io" where
  "write_line D v = io_step (dn_write D v)"

section \<open>One request\<close>

definition pending_add :: "'o \<times> 'v ipc_server \<Rightarrow> 'o \<times> 'v ipc_server" where
  "pending_add = on_server (\<lambda>s. s\<lparr>is_pending := is_pending s + 1\<rparr>)"

definition pending_sub :: "'o \<times> 'v ipc_server \<Rightarrow> 'o \<times> 'v ipc_server" where
  "pending_sub = on_server (\<lambda>s. s\<lparr>is_pending := is_pending s - 1\<rparr>)"

definition request_id :: "'v json_ops \<Rightarrow> 'v \<Rightarrow> 'v" where
  "request_id J req = unwrap_or (j_null J) (j_get J req ''id'')"

definition request_capability :: "'v json_ops \<Rightarrow> 'v \<Rightarrow> capability_class" where
  "request_capability J req = (case get_str J req ''capability'' of None \<Rightarrow> NoCapability | Some s \<Rightarrow> capability_parse s)"

definition request_command :: "'v json_ops \<Rightarrow> 'v \<Rightarrow> 'v" where
  "request_command J req = unwrap_or (j_null J) (j_get J req ''command'')"

definition request_op :: "'v json_ops \<Rightarrow> 'v \<Rightarrow> string" where
  "request_op J req = unwrap_or [] (get_str J (request_command J req) ''op'')"

text \<open>The reply, and whether the connection goes on.\<close>

definition serve_request :: "('o, 'v) daemon_env \<Rightarrow> 'v \<Rightarrow> ('o \<times> 'v ipc_server, 'v \<times> bool) io" where
  "serve_request D req =
     (let J = dn_json D; op = request_op J req in
      io_then (io_update pending_add)
        (io_bind (handle_op D op (request_command J req) (request_capability J req)) (\<lambda>r.
          let reply = reply_line J (request_id J req) r; stopping = op = ''stop'' \<and> is_ok r in
          io_bind (write_line D reply) (\<lambda>written.
            io_then (if stopping then io_update initiate_shutdown else io_return ())
              (io_then (io_update pending_sub) (io_return (reply, written \<and> \<not> stopping)))))))"

section \<open>The connection\<close>

text \<open>What a line is: skipped, refused with an error, or a request.\<close>

definition classify_line :: "('o, 'v) daemon_env \<Rightarrow> string \<Rightarrow> (runtime_error + 'v) option" where
  "classify_line D line =
     (if str_trim line = [] then None
      else if max_ipc_frame_bytes < length line then
        Some (Inl (InvalidResponse ''IPC frame exceeds maximum accepted size''))
      else (case dn_parse D (str_trim line) of
              None \<Rightarrow> Some (Inl (InvalidResponse ''request must be a JSON object''))
            | Some req \<Rightarrow> Some (Inr req)))"

fun serve_lines :: "('o, 'v) daemon_env \<Rightarrow> string list \<Rightarrow> ('o \<times> 'v ipc_server, 'v list) io" where
  "serve_lines D [] = io_return []"
| "serve_lines D (line # ls) =
     (case classify_line D line of
        None \<Rightarrow> serve_lines D ls
      | Some (Inl e) \<Rightarrow>
          (let reply = error_line (dn_json D) (j_null (dn_json D)) e in
           io_bind (write_line D reply) (\<lambda>_. io_bind (serve_lines D ls) (\<lambda>rs. io_return (reply # rs))))
      | Some (Inr req) \<Rightarrow>
          io_bind (serve_request D req) (\<lambda>(reply, continues).
            if continues then io_bind (serve_lines D ls) (\<lambda>rs. io_return (reply # rs)) else io_return [reply]))"

text \<open>The check of the first frame: the error to answer with, if it is not a handshake of this version.\<close>

definition check_handshake :: "('o, 'v) daemon_env \<Rightarrow> string \<Rightarrow> runtime_error option" where
  "check_handshake D line =
     (let J = dn_json D in
      case dn_parse D (str_trim line) of
        None \<Rightarrow> Some (HandshakeRequired ''first frame must be a JSON handshake'')
      | Some hello \<Rightarrow>
          if get_str J hello ''kind'' \<noteq> Some ''handshake'' then
            Some (HandshakeRequired (''first message must be {'' @ CHR 0x22 # ''kind'' @ CHR 0x22 # '':''
                    @ CHR 0x22 # ''handshake'' @ CHR 0x22 # '',...}''))
          else
            let got = ucast (unwrap_or 0 (get_u64 J hello ''protocol_version'')) in
            if got \<noteq> ipc_protocol_version then Some (ProtocolMismatch ipc_protocol_version got) else None)"

definition handshake_ok :: "'v json_ops \<Rightarrow> u64 \<Rightarrow> 'v" where
  "handshake_ok J n = j_obj J
     [(''kind'', j_str J ''handshake_ok''), (''protocol_version'', j_u64 J (ucast ipc_protocol_version)),
      (''runtime_version'', j_str J runtime_version), (''capabilities'', j_strs J capability_all),
      (''connection_id'', j_str J (''ipc-'' @ show_u64 n))]"

definition next_connection :: "'o \<times> 'v ipc_server \<Rightarrow> u64 \<times> ('o \<times> 'v ipc_server)" where
  "next_connection w = (is_conn_counter (snd w), on_server (\<lambda>s. s\<lparr>is_conn_counter := is_conn_counter s + 1\<rparr>) w)"

fun handle_connection :: "('o, 'v) daemon_env \<Rightarrow> string list \<Rightarrow> ('o \<times> 'v ipc_server, 'v list) io" where
  "handle_connection D [] = io_return []"
| "handle_connection D (first # ls) =
     (let J = dn_json D in
      if max_ipc_frame_bytes < length first then io_return []
      else
        (case check_handshake D first of
           Some e \<Rightarrow> (let reply = error_line J (j_null J) e in io_bind (write_line D reply) (\<lambda>_. io_return [reply]))
         | None \<Rightarrow>
             io_bind (io_step next_connection) (\<lambda>n.
               let hello = handshake_ok J n in
               io_bind (write_line D hello) (\<lambda>written.
                 if written then io_bind (serve_lines D ls) (\<lambda>rs. io_return (hello # rs)) else io_return [hello]))))"

section \<open>The socket\<close>

text \<open>\<open>PathBuf::join\<close> of a relative name.\<close>

definition path_join :: "string \<Rightarrow> string \<Rightarrow> string" where
  "path_join base name = (if base = [] \<or> last base = CHR ''/'' then base @ name else base @ ''/'' @ name)"

definition browser_socket_path :: "(string \<Rightarrow> string option) \<Rightarrow> string \<Rightarrow> string" where
  "browser_socket_path environ uid =
     (case environ ''HYPRFAST_BROWSER_SOCK'' of
        Some p \<Rightarrow> if p \<noteq> [] then p
                  else path_join (unwrap_or (''/run/user/'' @ uid) (environ ''XDG_RUNTIME_DIR'')) ''hyprfast-browser.sock''
      | None \<Rightarrow> path_join (unwrap_or (''/run/user/'' @ uid) (environ ''XDG_RUNTIME_DIR'')) ''hyprfast-browser.sock'')"

definition restart_on_crash_from_env :: "(string \<Rightarrow> string option) \<Rightarrow> bool" where
  "restart_on_crash_from_env environ =
     (to_lowercase (unwrap_or [] (environ ''HYPRFAST_RESTART_ON_CRASH'')) \<in> set [''1'', ''true'', ''yes''])"

text \<open>
  The answer of the process at the socket: none within the timeouts (or an empty or oversized one), or a
  line. A live daemon answers with \<open>handshake_ok\<close> or with a decodable error.
\<close>

definition probe_live :: "'v json_ops \<Rightarrow> (string \<Rightarrow> 'v option) \<Rightarrow> string option \<Rightarrow> bool" where
  "probe_live J parse ans =
     (case ans of
        None \<Rightarrow> False
      | Some resp \<Rightarrow>
          if resp = [] \<or> max_ipc_frame_bytes < length resp then False
          else
            (case parse (str_trim resp) of
               None \<Rightarrow> False
             | Some v \<Rightarrow>
                 let kind = get_str J v ''kind'' in
                 if kind = Some ''handshake_ok'' then True
                 else if kind = Some ''error'' then
                   Option.bind (j_get J v ''error'') (from_wire J) \<noteq> None
                 else False))"

text \<open>
  The file system during \<open>bind_socket_exclusive\<close>: the owner of the containing directory (or the error of
  creating or stating it), whether the path exists, the answers to the two probes, the error of
  removing the file (that it is gone already is none), of binding (whether \<open>AddrInUse\<close>) and of setting the mode. The result lists what was
  done to the path.
\<close>

datatype socket_action = Removed | Bound | Mode_0600

record fs_outcome =
  fo_dir_error :: "string option"
  fo_owner :: nat
  fo_euid :: nat
  fo_exists :: bool
  fo_probe :: bool
  fo_remove_error :: "string option"
  fo_bind_error :: "(bool \<times> string) option"
  fo_second_probe :: bool
  fo_chmod_error :: "string option"

definition ensure_owned_dir :: "string \<Rightarrow> fs_outcome \<Rightarrow> unit runtime_result" where
  "ensure_owned_dir dir f =
     (case fo_dir_error f of
        Some e \<Rightarrow> Inl (Socket e)
      | None \<Rightarrow>
          if fo_owner f \<noteq> fo_euid f then
            Inl (Socket (''refusing to bind: '' @ dir @ '' owned by uid '' @ show_nat (fo_owner f) @ '', not euid ''
                   @ show_nat (fo_euid f)))
          else Inr ())"

definition bind_socket :: "string \<Rightarrow> fs_outcome \<Rightarrow> socket_action list \<Rightarrow> unit runtime_result \<times> socket_action list" where
  "bind_socket path f acts =
     (case fo_bind_error f of
        None \<Rightarrow>
          (case fo_chmod_error f of
             Some e \<Rightarrow> (Inl (Socket (''cannot chmod 0600 '' @ path @ '': '' @ e)), acts @ [Bound])
           | None \<Rightarrow> (Inr (), acts @ [Bound, Mode_0600]))
      | Some (in_use, e) \<Rightarrow>
          if in_use then
            (if fo_second_probe f then (Inl (DaemonAlreadyRunning (''lost bind race; live daemon owns '' @ path)), acts)
             else (Inl (Socket (''bind '' @ path @ '' failed with AddrInUse but no live daemon answered: '' @ e)), acts))
          else (Inl (Socket (''bind '' @ path @ '' failed: '' @ e)), acts))"

definition bind_socket_exclusive :: "string \<Rightarrow> string \<Rightarrow> fs_outcome \<Rightarrow> unit runtime_result \<times> socket_action list" where
  "bind_socket_exclusive path dir f =
     (case ensure_owned_dir dir f of
        Inl e \<Rightarrow> (Inl e, [])
      | Inr _ \<Rightarrow>
          if fo_exists f then
            (if fo_probe f then (Inl (DaemonAlreadyRunning (''live daemon owns '' @ path)), [])
             else
               (case fo_remove_error f of
                  Some e \<Rightarrow> (Inl (Socket (''cannot remove stale socket '' @ path @ '': '' @ e)), [])
                | None \<Rightarrow> bind_socket path f [Removed]))
          else bind_socket path f [])"

end
