(* ===== verification/Server_Frame.thy ===== *)
theory Server_Frame
  imports Server_Conn Executor_Live
begin

text \<open>
  What a request leaves alone. A property of the world that the other tasks keep during every await is
  kept by the waits, by the executor and, for the properties they do not touch, by the handlers.
\<close>

section \<open>Computations that keep a property\<close>

definition keeps :: "('w \<Rightarrow> bool) \<Rightarrow> ('w, 'a) io \<Rightarrow> bool" where
  "keeps P m = (\<forall>dl w r w'. P w \<longrightarrow> m dl w = Some (r, w') \<longrightarrow> P w')"

definition env_keeps :: "('w \<Rightarrow> bool) \<Rightarrow> ('w, 'v) env \<Rightarrow> bool" where
  "env_keeps P E =
     ((\<forall>dl sid m p w. P w \<longrightarrow> P (snd (en_call E dl sid m p w)))
      \<and> (\<forall>dl ms w. P w \<longrightarrow> P (snd (en_sleep E dl ms w)))
      \<and> (\<forall>dl ms w. P w \<longrightarrow> P (snd (en_wake E dl ms w))))"

named_theorems keeping

lemma keepsD: "keeps P m \<Longrightarrow> m dl w = Some (r, w') \<Longrightarrow> P w \<Longrightarrow> P w'"
  by (auto simp: keeps_def)

lemma keeps_basic [simp, keeping]: "keeps P (io_return a)" "keeps P (io_get f)" "keeps P (io_pure x)"
  by (auto simp: keeps_def io_return_def io_get_def io_pure_def)

lemma keeps_update [keeping]: "(\<And>w. P w \<Longrightarrow> P (g w)) \<Longrightarrow> keeps P (io_update g)"
  by (auto simp: keeps_def io_update_def)

lemma keeps_step [keeping]: "(\<And>w. P w \<Longrightarrow> P (snd (f w))) \<Longrightarrow> keeps P (io_step f)"
  by (auto simp: keeps_def io_step_def case_prod_beta)

lemma keeps_bind [keeping]:
  assumes "keeps P m" "\<And>a. keeps P (f a)"
  shows "keeps P (io_bind m f)"
  unfolding keeps_def
proof (intro allI impI)
  fix dl w r w'
  assume w: "P w" and run: "io_bind m f dl w = Some (r, w')"
  obtain r1 w1 where m: "m dl w = Some (r1, w1)" using run by (cases "m dl w") (auto simp: io_bind_def)
  then have "P w1" using keepsD [OF assms(1)] w by blast
  then show "P w'" using run m keepsD [OF assms(2)] by (cases r1) (auto simp: io_bind_def)
qed

lemma keeps_then [keeping]: "keeps P m \<Longrightarrow> keeps P k \<Longrightarrow> keeps P (io_then m k)"
  by (simp add: io_then_def keeps_bind)

lemma keeps_try [keeping]: "keeps P m \<Longrightarrow> (\<And>a. keeps P (f a)) \<Longrightarrow> keeps P (io_try m f)"
  by (auto simp: io_try_def intro!: keeps_bind split: sum.split)

lemma keeps_await: "(\<And>w. P w \<Longrightarrow> P (snd (f w))) \<Longrightarrow> P w \<Longrightarrow> await f w = Some (r, w') \<Longrightarrow> P w'"
  by (fastforce simp: await_def split: prod.splits option.splits)

lemma keeps_env [keeping]:
  "env_keeps P E \<Longrightarrow> keeps P (io_call E sid m p)" "env_keeps P E \<Longrightarrow> keeps P (io_sleep E ms)"
  "env_keeps P E \<Longrightarrow> keeps P (io_wake E ms)"
  by (auto simp: keeps_def env_keeps_def io_call_def io_sleep_def io_wake_def elim!: keeps_await [rotated 2])

lemma keeps_timeout [keeping]: "keeps P m \<Longrightarrow> keeps P (io_timeout now ms m)"
  by (fastforce simp: keeps_def io_timeout_def Let_def split: option.splits prod.splits run.splits if_splits)

section \<open>Waits\<close>

lemma wait_loop_keeps:
  assumes "wait_loop E check matches ms deadline dl w = Some y"
  shows "env_keeps P E \<longrightarrow> keeps P check \<longrightarrow> P w \<longrightarrow> P (snd y)"
proof (rule wait_loop.raw_induct [where P = "\<lambda>E check matches ms deadline dl w y.
      env_keeps P E \<longrightarrow> keeps P check \<longrightarrow> P w \<longrightarrow> P (snd y)", OF _ assms], intro impI)
  fix loop E check matches ms deadline dl w y
  assume IH: "\<And>E check matches ms deadline dl w y. loop E check matches ms deadline dl w = Some y \<Longrightarrow>
      env_keeps P E \<longrightarrow> keeps P check \<longrightarrow> P w \<longrightarrow> P (snd y)"
    and body: "(if deadline \<le> en_now E w then Some (Done (Inl (wait_timeout ms)), w)
      else Option.bind (io_wake E (min 100 (deadline - en_now E w)) dl w) (\<lambda>(r, w).
        case r of
          Cut \<Rightarrow> Some (Cut, w)
        | Done wk \<Rightarrow>
            (case wk of
               ChannelClosed \<Rightarrow> Some (Done (Inl wait_closed), w)
             | Woken ev \<Rightarrow>
                 if matches ev then Some (Done (Inr (Some ev)), w)
                 else Option.bind (check dl w) (\<lambda>(r, w).
                   case r of
                     Cut \<Rightarrow> Some (Cut, w)
                   | Done ok \<Rightarrow> if ok then Some (Done (Inr (Some ev)), w) else loop E check matches ms deadline dl w)
             | _ \<Rightarrow>
                 Option.bind (check dl w) (\<lambda>(r, w).
                   case r of
                     Cut \<Rightarrow> Some (Cut, w)
                   | Done ok \<Rightarrow> if ok then Some (Done (Inr None), w) else loop E check matches ms deadline dl w)))) = Some y"
    and E: "env_keeps P E" and c: "keeps P check" and w: "P w"
  have checked: "P (snd y)"
    if step: "Option.bind (check dl w1) (\<lambda>(r, w2). case r of Cut \<Rightarrow> Some (Cut, w2)
              | Done ok \<Rightarrow> if ok then Some (Done (Inr x), w2) else loop E check matches ms deadline dl w2) = Some y"
      and w1: "P w1" for x w1
  proof -
    obtain r w2 where c1: "check dl w1 = Some (r, w2)" using step by (cases "check dl w1") auto
    then have w2: "P w2" using keepsD [OF c] w1 by blast
    show ?thesis
    proof (cases r)
      case (Done ok)
      then show ?thesis using step c1 w2 E c IH [of E check matches ms deadline dl w2 y] by (cases ok) auto
    qed (use step c1 w2 in auto)
  qed
  show "P (snd y)"
  proof (cases "deadline \<le> en_now E w")
    case True
    then show ?thesis using body w by auto
  next
    case False
    then obtain r1 w1 where wk: "io_wake E (min 100 (deadline - en_now E w)) dl w = Some (r1, w1)"
      using body by (auto simp: bind_eq_Some_conv)
    then have w1: "P w1" using keeps_env(3) [OF E] keepsD w by metis
    show ?thesis
    proof (cases r1)
      case Cut
      then show ?thesis using body wk False w1 by auto
    next
      case (Done wake)
      show ?thesis
        by (cases wake) (use body wk False Done w1 checked [of w1] in \<open>auto split: if_splits\<close>)
    qed
  qed
qed

lemma keeps_wait_loop [keeping]:
  "env_keeps P E \<Longrightarrow> keeps P check \<Longrightarrow> keeps P (\<lambda>dl w. wait_loop E check matches ms (d w) dl w)"
  unfolding keeps_def [of P "\<lambda>dl w. wait_loop E check matches ms (d w) dl w"]
  using wait_loop_keeps by fastforce

lemma keeps_wait_for [keeping]: "env_keeps P E \<Longrightarrow> keeps P check \<Longrightarrow> keeps P (wait_for E check matches ms)"
  by (auto simp: wait_for_def intro!: keeping)

lemma keeps_dom_wait [keeping]: "env_keeps P E \<Longrightarrow> keeps P (dom_wait_for_lifecycle E desired ms)"
  by (auto simp: dom_wait_for_lifecycle_def intro!: keeping)

section \<open>The executor\<close>

abbreviation on_xs :: "('w \<Rightarrow> bool) \<Rightarrow> ('w, 'v) exec \<Rightarrow> bool" where "on_xs P x \<equiv> P (xs_world x)"

lemma keeps_on_world [keeping]: "keeps P m \<Longrightarrow> keeps (on_xs P) (on_world m)"
  by (auto simp: keeps_def on_world_def split: option.splits)

lemma keeps_timed [keeping]: "keeps P m \<Longrightarrow> keeps (on_xs P) (timed E ms m)"
  by (simp add: timed_def keeps_on_world keeps_timeout)

lemma keeps_scripts [keeping]:
  "env_keeps P E \<Longrightarrow> keeps P (evaluate E sid js)" "env_keeps P E \<Longrightarrow> keeps P (evaluate_await E sid js)"
  "env_keeps P E \<Longrightarrow> keeps P (href_of E sid)" "env_keeps P E \<Longrightarrow> keeps P (dispatch_key E sid ty key)"
  "env_keeps P E \<Longrightarrow> keeps P (sleep_secs E t)" "env_keeps P E \<Longrightarrow> keeps P (current_url E sid)"
  by (auto simp: evaluate_def evaluate_await_def href_of_def dispatch_key_def sleep_secs_def current_url_def Let_def
      keeps_def [of _ "\<lambda>_ _. None"] intro!: keeping split: prod.split)

lemma keeps_dispatch_step [keeping]: "env_keeps P E \<Longrightarrow> keeps P (dispatch_step E step res sid)"
  by (cases step)
    (auto simp: dispatch_step_def ex_click_backend_def ex_press_def ex_snapshot_def Let_def
      intro!: keeping split: option.split resolved_target.split list.split)

lemma keeps_verify_step [keeping]: "env_keeps P E \<Longrightarrow> keeps P (verify_step E step v sid ub db)"
  by (cases step)
    (auto simp: verify_step_def verify_click_def verify_text_def verify_select_def verify_navigate_def Let_def
      intro!: keeping)

lemma keeps_resolve [keeping]: "keeps P (resolve_for_step E step tid sid)"
  by (auto simp: resolve_for_step_def intro!: keeping split: option.split)

lemma keeps_steps [keeping]:
  "keeps (on_xs P) (enter s)" "keeps (on_xs P) (finish E s out verif err)" "keeps (on_xs P) (fail_step E m d)"
  "keeps (on_xs P) (finalize_cancelled E)" "keeps (on_xs P) (verified_as E vr)" "keeps (on_xs P) (dispatch_failed E sc e)"
  "keeps (on_xs P) (dispatch_timed_out E sc ms)" "keeps (on_xs P) (run_hook None)"
  "keeps (on_xs P) (set_resolution_method m)"
  by (auto simp: enter_def finish_def seal_def fail_step_def finalize_cancelled_def verified_as_def dispatch_failed_def
      dispatch_timed_out_def run_hook_def set_resolution_method_def Let_def intro!: keeping
      split: verification_result.split option.split)

lemma keeps_unless_cancelled [keeping]: "keeps (on_xs P) k \<Longrightarrow> keeps (on_xs P) (unless_cancelled E k)"
  by (auto simp: unless_cancelled_def intro!: keeping)

lemma keeps_phases [keeping]:
  "env_keeps P E \<Longrightarrow> keeps (on_xs P) (dispatch_phase E A step sid sc resolved)"
  by (auto simp: dispatch_phase_def dispatch_result_def verify_phase_def Let_def intro!: keeping split: option.split sum.split)

lemma keeps_inner [keeping]:
  "env_keeps P E \<Longrightarrow> ax_pre_dispatch_hook A = None \<Longrightarrow> keeps (on_xs P) (execute_step_inner E A step tid sid sc)"
  by (auto simp: execute_step_inner_def resolution_phase_def resolution_result_def precondition_phase_def hook_phase_def
      Let_def intro!: keeping split: sum.split option.split)

lemma keeps_execute_step [keeping]:
  assumes "env_keeps P E" "ax_pre_dispatch_hook A = None"
  shows "keeps (on_xs P) (ax_execute_step E A step tid sid idx cap sc dir)"
proof -
  have "keeps (on_xs P) (io_update (begin_action E A step tid sid idx cap dir))"
    by (auto simp: begin_action_def Let_def intro!: keeping split: prod.split)
  moreover have "keeps (on_xs P) (unfinished_guard E)"
    by (auto simp: unfinished_guard_def Let_def intro!: keeping)
  moreover have "keeps (on_xs P) (overall_deadline E sc)"
    by (auto simp: overall_deadline_def intro!: keeping)
  ultimately show ?thesis
    unfolding ax_execute_step_def using assms by (auto intro!: keeping split: option.split)
qed

lemma keeps_record_only [keeping]: "keeps (on_xs P) (record_only E A step tid sid idx out verif)"
  by (auto simp: record_only_def begin_action_def Let_def intro!: keeping split: prod.split)

lemma keeps_run_steps [keeping]:
  "env_keeps P E \<Longrightarrow> ax_pre_dispatch_hook A = None \<Longrightarrow> keeps (on_xs P) (ax_run_steps E A tid sid skip idx steps)"
  by (induction steps arbitrary: skip idx) (auto simp: Let_def intro!: keeping split: option.split)

section \<open>The handlers\<close>

definition daemon_keeps :: "('o \<times> 'v ipc_server \<Rightarrow> bool) \<Rightarrow> ('o, 'v) daemon_env \<Rightarrow> bool" where
  "daemon_keeps P D =
     (env_keeps P (dn_env D) \<and> (\<forall>k w. P w \<longrightarrow> P (dn_lock D k w)) \<and> (\<forall>v w. P w \<longrightarrow> P (snd (dn_write D v w))))"

text \<open>
  An observation of the server that the logs and counters do not change, nor a new state of the modules
  with the same target generation.
\<close>

definition blind_to_logs :: "('v ipc_server \<Rightarrow> 'x) \<Rightarrow> bool" where
  "blind_to_logs f =
     (\<forall>s j a t m c. f (s\<lparr>is_journal := j, is_action_counter := a\<rparr>) = f s \<and> f (s\<lparr>is_journal := j\<rparr>) = f s
        \<and> f (s\<lparr>is_metrics := m, is_trace := t, is_trace_counter := c\<rparr>) = f s
        \<and> f (s\<lparr>is_trace := t\<rparr>) = f s \<and> f (s\<lparr>is_metrics := m\<rparr>) = f s)"

definition blind_to_run :: "('v ipc_server \<Rightarrow> 'x) \<Rightarrow> bool" where
  "blind_to_run f =
     (\<forall>s r. ds_target_generation (rs_ds r) = ds_target_generation (rs_ds (sv_rt (is_core s))) \<longrightarrow>
        f (s\<lparr>is_core := (is_core s)\<lparr>sv_rt := r\<rparr>\<rparr>) = f s)"

definition sees :: "('v ipc_server \<Rightarrow> 'x) \<Rightarrow> 'x \<Rightarrow> 'o \<times> 'v ipc_server \<Rightarrow> bool" where
  "sees f v w = (f (snd w) = v)"

lemma env_keeps_server [keeping]: "daemon_keeps P D \<Longrightarrow> env_keeps P (server_env D)"
  by (simp add: daemon_keeps_def env_keeps_def)

lemma keeps_lock [keeping]: "daemon_keeps P D \<Longrightarrow> keeps P m \<Longrightarrow> keeps P (with_target_lock D k m)"
  unfolding with_target_lock_def by (intro keeping) (simp_all add: daemon_keeps_def del: split_paired_All)

lemma keeps_gate [keeping]: "keeps P k \<Longrightarrow> keeps P (gate kind k)"
  by (simp add: gate_def keeping)

lemma keeps_answer [simp, keeping]: "keeps P (answer f)" "keeps P (refuse d)"
  by (auto simp: answer_def refuse_def intro!: keeping)

lemma keeps_ok_value [keeping]: "keeps P m \<Longrightarrow> keeps P (ok_value m)"
  by (simp add: ok_value_def keeping)

lemma keeps_run_executor [keeping]:
  "blind_to_logs f \<Longrightarrow> keeps (on_xs (sees f v)) m \<Longrightarrow> keeps (sees f v) (run_executor m)"
  unfolding keeps_def
proof (intro allI impI)
  fix dl w r w'
  assume f: "blind_to_logs f" and m: "\<forall>dl x r x'. sees f v (xs_world x) \<longrightarrow> m dl x = Some (r, x') \<longrightarrow> sees f v (xs_world x')"
    and w: "sees f v w" and run: "run_executor m dl w = Some (r, w')"
  obtain x where x: "m dl (executor_start w) = Some (r, x)" "w' = executor_end x"
    using run by (auto simp: run_executor_def split: option.splits)
  have "sees f v (xs_world (executor_start w))" using w by (simp add: executor_start_def)
  then have "sees f v (xs_world x)" using m x(1) by blast
  then show "sees f v w'" using f by (simp add: x(2) executor_end_def on_server_def sees_def blind_to_logs_def)
qed

lemma server_executor_hook [simp]: "ax_pre_dispatch_hook (server_executor D) = None"
  by (simp add: server_executor_def executor_new_def)

lemma sees_record_traces [simp]: "blind_to_logs f \<Longrightarrow> sees f v (record_traces D rs w) = sees f v w"
proof -
  assume f: "blind_to_logs f"
  then have "f (snd (foldl (\<lambda>w r. record_trace D d r w) w rs)) = f (snd w)" for d
    by (induction rs arbitrary: w) (simp_all add: record_trace_def Let_def blind_to_logs_def split: prod.split)
  then show ?thesis by (simp add: sees_def record_traces_def)
qed

lemma sees_set_run:
  "blind_to_run f \<Longrightarrow> ds_target_generation (rs_ds r) = ds_target_generation (rs_ds (sv_run w)) \<Longrightarrow>
   sees f v (set_run r w) = sees f v w"
  by (simp add: sees_def set_run_def blind_to_run_def sv_run_def)

lemma keeps_op_eval [keeping]: "daemon_keeps P D \<Longrightarrow> keeps P (op_eval D e tid sid)"
  by (auto simp: op_eval_def Let_def intro!: keeping)

lemma keeps_op_cdp_call [keeping]: "daemon_keeps P D \<Longrightarrow> keeps P (op_cdp_call D sid tid m p cap)"
  by (auto simp: op_cdp_call_def call_session_def attach_now_def Let_def intro!: keeping split: option.split)

lemma keeps_tabs [keeping]: "blind_to_run f \<Longrightarrow> daemon_keeps (sees f v) D \<Longrightarrow> keeps (sees f v) (h_tabs D)"
  by (auto simp: h_tabs_def Let_def sees_set_run intro!: keeping split: option.split)

lemma keeps_switch [keeping]: "blind_to_run f \<Longrightarrow> keeps (sees f v) (h_switch_target D c)"
  by (auto simp: h_switch_target_def switch_now_def Let_def sees_set_run intro!: keeping split: prod.split)

lemma keeps_attach_detach [keeping]:
  "daemon_keeps P D \<Longrightarrow> keeps P (h_attach_target D c)" "daemon_keeps P D \<Longrightarrow> keeps P (h_detach_target D c)"
  by (auto simp: h_attach_target_def h_detach_target_def Let_def intro!: keeping)

lemma frame_event_generation [simp]:
  "ds_target_generation (snd (fm_on_event J ev st)) = ds_target_generation (snd st)"
  by (cases st) (simp add: fm_on_event_versions(2))

lemma keeps_frame_navigated [keeping]: "blind_to_run f \<Longrightarrow> keeps (sees f v) (h_simulate_frame_navigated D c)"
  by (auto simp: h_simulate_frame_navigated_def frame_event_now_def Let_def sees_set_run case_prod_beta intro!: keeping)

lemma keeps_plan [keeping]:
  assumes "blind_to_logs f" "daemon_keeps (sees f v) D"
  shows "keeps (sees f v) (h_execute_plan D c)" "keeps (sees f v) (h_execute_action D c)"
proof -
  have "keeps (on_xs (sees f v)) (execute_plan (server_env D) (server_executor D) plan tid sid)" for plan tid sid
    using assms(2) by (auto simp: execute_plan_def intro!: keeping)
  moreover have "keeps (on_xs (sees f v)) (ax_execute_step (server_env D) (server_executor D) step tid sid i cap sc dir)"
    for step tid sid i cap sc dir
    using assms(2) by (auto intro!: keeping)
  ultimately show "keeps (sees f v) (h_execute_plan D c)" "keeps (sees f v) (h_execute_action D c)"
    using assms by (auto simp: h_execute_plan_def h_execute_action_def Let_def intro!: keeping split: sum.split option.split)
qed

lemma keeps_clear [keeping]: "blind_to_logs f \<Longrightarrow> keeps (sees f v) (h_journal_clear D)"
  "blind_to_logs f \<Longrightarrow> keeps (sees f v) (h_trace_clear D)" "blind_to_logs f \<Longrightarrow> keeps (sees f v) (h_metrics_clear D)"
  by (auto simp: h_journal_clear_def h_trace_clear_def h_metrics_clear_def cleared_def on_server_def sees_def blind_to_logs_def
      intro!: keeping)

lemma keeps_if: "(b \<Longrightarrow> keeps P x) \<Longrightarrow> (\<not> b \<Longrightarrow> keeps P y) \<Longrightarrow> keeps P (if b then x else y)"
  by simp

lemma keeps_reads [keeping]:
  "keeps P (h_status D)" "keeps P (h_targets D)" "keeps P (h_active_target D)" "keeps P (h_crash_policy_scenarios D)"
  "keeps P (h_crash_generations D)" "keeps P (h_crash_collision_test D c)" "keeps P (h_frame_status D)"
  "keeps P (h_element_index_status D)" "keeps P (h_element_resolve D c)" "keeps P (h_journal D)" "keeps P (h_trace D)"
  "keeps P (h_metrics D)" "keeps P (h_benchmark D c)" "keeps P (h_diagnostics D)" "keeps P (h_stop D)"
  unfolding h_status_def h_targets_def h_active_target_def h_crash_policy_scenarios_def h_crash_generations_def
    h_crash_collision_test_def h_frame_status_def h_element_index_status_def h_element_resolve_def h_journal_def h_trace_def
    h_metrics_def h_benchmark_def h_diagnostics_def h_stop_def Let_def
  by (intro keeping keeps_if)+

lemma keeps_calls [keeping]:
  "daemon_keeps P D \<Longrightarrow> keeps P (h_eval D c)" "daemon_keeps P D \<Longrightarrow> keeps P (h_cdp_call D c cap)"
  "daemon_keeps P D \<Longrightarrow> keeps P (h_wait_lifecycle D c)"
  by (simp_all add: h_eval_def h_cdp_call_def h_wait_lifecycle_def Let_def keeping)

lemma keeps_reconnects [keeping]:
  assumes "blind_to_logs f" "\<And>s core. f (s\<lparr>is_core := core\<rparr>) = f s"
  shows "keeps (sees f v) (h_crash_handle D c)" "keeps (sees f v) (h_simulate_reconnect D)"
proof -
  have t: "f (snd (server_transition_to l w)) = f (snd w)" and r: "f (snd (set_run st w)) = f (snd w)"
    and m: "f (snd (on_server (\<lambda>s. s\<lparr>is_metrics := g (is_metrics s)\<rparr>) w)) = f (snd w)" for l w st g
    using assms by (simp_all add: server_transition_to_def set_life_def set_run_def on_server_def blind_to_logs_def)
  have "f (snd (snd (crash_bump_now D w))) = f (snd w)" for w
    by (simp add: crash_bump_now_def Let_def case_prod_beta m r t)
  then have "f (snd (snd (crash_handle D c w))) = f (snd w)" for w
    by (simp add: crash_handle_def Let_def case_prod_beta t)
  then show "keeps (sees f v) (h_crash_handle D c)"
    by (auto simp: h_crash_handle_def sees_def intro!: keeping)
  have "f (snd (snd (reconnect_now D w))) = f (snd w)" for w
    by (simp add: reconnect_now_def Let_def case_prod_beta m r)
  then show "keeps (sees f v) (h_simulate_reconnect D)"
    by (auto simp: h_simulate_reconnect_def Let_def sees_def intro!: keeping)
qed

lemma handle_op_keeps:
  assumes "blind_to_logs f" "blind_to_run f" "daemon_keeps (sees f v) D"
    and "op \<in> {''crash_handle'', ''simulate_reconnect''} \<Longrightarrow> \<forall>s core. f (s\<lparr>is_core := core\<rparr>) = f s"
  shows "keeps (sees f v) (handle_op D op c cap)"
  unfolding handle_op_def
  by (intro keeps_if keeping assms(1-3)) (use assms(4) in simp_all)

end
