(* ===== verification/Server_Props.thy ===== *)
theory Server_Props
  imports Server_Frame
begin

text \<open>
  What the daemon promises its clients: nothing before a handshake, one reply to every request, no
  change of state outside \<open>Connected\<close>, reads that change nothing, an in-flight count that adds up, and
  logs that agree after a plan; and where it does not keep what its comments say.
\<close>

section \<open>Gates\<close>

lemma gate_apply:
  "gate kind k dl w =
     (case lifecycle_check (sv_life w) kind of Inl e \<Rightarrow> Some (Done (Inl e), w) | Inr _ \<Rightarrow> k dl w)"
  by (simp add: gate_def io_try_def io_bind_def io_get_def io_return_def split: sum.split)

lemma answer_apply [simp]: "answer f dl w = Some (Done (Inr (True, f w)), w)"
  by (simp add: answer_def io_bind_def io_get_def io_return_def)

lemma refuse_apply [simp]: "refuse d dl w = Some (Done (Inl (InvalidResponse d)), w)"
  by (simp add: refuse_def io_return_def)

lemma handle_op_at:
  "handle_op D ''status'' c cap = h_status D"
  "handle_op D ''eval'' c cap = h_eval D c"
  "handle_op D ''cdp_call'' c cap = h_cdp_call D c cap"
  "handle_op D ''tabs'' c cap = h_tabs D"
  "handle_op D ''targets'' c cap = h_targets D"
  "handle_op D ''active_target'' c cap = h_active_target D"
  "handle_op D ''switch_target'' c cap = h_switch_target D c"
  "handle_op D ''attach_target'' c cap = h_attach_target D c"
  "handle_op D ''detach_target'' c cap = h_detach_target D c"
  "handle_op D ''simulate_reconnect'' c cap = h_simulate_reconnect D"
  "handle_op D ''crash_handle'' c cap = h_crash_handle D c"
  "handle_op D ''crash_policy_scenarios'' c cap = h_crash_policy_scenarios D"
  "handle_op D ''crash_generations'' c cap = h_crash_generations D"
  "handle_op D ''crash_collision_test'' c cap = h_crash_collision_test D c"
  "handle_op D ''frame_status'' c cap = h_frame_status D"
  "handle_op D ''element_index_status'' c cap = h_element_index_status D"
  "handle_op D ''element_resolve'' c cap = h_element_resolve D c"
  "handle_op D ''simulate_frame_navigated'' c cap = h_simulate_frame_navigated D c"
  "handle_op D ''stop'' c cap = h_stop D"
  "handle_op D ''wait_lifecycle'' c cap = h_wait_lifecycle D c"
  "handle_op D ''execute_plan'' c cap = h_execute_plan D c"
  "handle_op D ''browser_execute_plan'' c cap = h_execute_plan D c"
  "handle_op D ''execute_action'' c cap = h_execute_action D c"
  "handle_op D ''journal'' c cap = h_journal D"
  "handle_op D ''action_journal'' c cap = h_journal D"
  "handle_op D ''journal_clear'' c cap = h_journal_clear D"
  "handle_op D ''trace'' c cap = h_trace D"
  "handle_op D ''traces'' c cap = h_trace D"
  "handle_op D ''action_trace'' c cap = h_trace D"
  "handle_op D ''trace_clear'' c cap = h_trace_clear D"
  "handle_op D ''metrics'' c cap = h_metrics D"
  "handle_op D ''diagnostics_metrics'' c cap = h_metrics D"
  "handle_op D ''metrics_clear'' c cap = h_metrics_clear D"
  "handle_op D ''benchmark'' c cap = h_benchmark D c"
  "handle_op D ''benchmark_handshake'' c cap = h_benchmark D c"
  "handle_op D ''browser_benchmark'' c cap = h_benchmark D c"
  "handle_op D ''diagnostics'' c cap = h_diagnostics D"
  by (simp_all add: handle_op_def)

definition changing_ops :: "string list" where
  "changing_ops = [''eval'', ''switch_target'', ''attach_target'', ''detach_target'', ''simulate_reconnect'',
     ''simulate_frame_navigated'', ''execute_plan'', ''browser_execute_plan'', ''execute_action'', ''journal_clear'',
     ''trace_clear'', ''metrics_clear'']"

definition reading_ops :: "string list" where
  "reading_ops = [''status'', ''targets'', ''active_target'', ''crash_policy_scenarios'', ''crash_generations'',
     ''crash_collision_test'', ''frame_status'', ''element_index_status'', ''element_resolve'', ''journal'',
     ''action_journal'', ''trace'', ''traces'', ''action_trace'', ''metrics'', ''diagnostics_metrics'', ''benchmark'',
     ''benchmark_handshake'', ''browser_benchmark'', ''diagnostics'']"

lemma gate_refuses: "lifecycle_check (sv_life w) kind = Inl e \<Longrightarrow> gate kind k dl w = Some (Done (Inl e), w)"
  by (simp add: gate_apply)

lemma ok_value_refuses: "m dl w = Some (Done (Inl e), w) \<Longrightarrow> ok_value m dl w = Some (Done (Inl e), w)"
  by (simp add: ok_value_def io_try_def io_bind_def io_return_def)

lemma read_world: "gate kind (answer f) dl w = Some (r, w') \<Longrightarrow> w' = w"
  by (auto simp: gate_apply split: sum.splits)

section \<open>A concrete daemon\<close>

text \<open>
  A daemon whose clock is the rest of the world. Calls answer with an empty object after one tick, writes
  and locks take none; it can parse the few lines the examples send.
\<close>

definition hello_line :: string where "hello_line = ''hello''"
definition journal_line :: string where "journal_line = ''journal''"
definition stop_line :: string where "stop_line = ''stop''"

definition sample_lines :: "string \<Rightarrow> json option" where
  "sample_lines = map_of
     [(hello_line, JObj [(''kind'', JStr ''handshake''), (''protocol_version'', JNum 1)]),
      (journal_line, JObj [(''id'', JNum 7), (''command'', JObj [(''op'', JStr ''journal'')])]),
      (stop_line, JObj [(''id'', JNum 8), (''command'', JObj [(''op'', JStr ''stop'')])])]"

definition sample_rest :: "(nat \<times> json ipc_server, json) env" where
  "sample_rest = \<lparr>en_json = std_json, en_display = json_debug, en_quote = debug_str, en_quotes = debug_strs,
     en_as_bool = (\<lambda>v. case v of JBool b \<Rightarrow> Some b | _ \<Rightarrow> None), en_is_null = (\<lambda>v. v = JNull), en_number = JReal,
     en_as_number = (\<lambda>v. case v of JReal q \<Rightarrow> Some q | JNum n \<Rightarrow> Some (of_int n) | _ \<Rightarrow> None),
     en_object_len = (\<lambda>v. case v of JObj kvs \<Rightarrow> Some (length kvs) | _ \<Rightarrow> None),
     en_f64_text = (\<lambda>_. ''0''), en_url_error = (\<lambda>_. None),
     en_call = (\<lambda>dl sid m p (t, s). (Some (Inr (JObj [])), (t + 1, s))),
     en_sleep = (\<lambda>dl ms (t, s). (Some (), (t + ms, s))), en_wake = (\<lambda>dl ms (t, s). (Some Tick, (t + ms + 1, s))),
     en_now = fst, en_session = (\<lambda>_. None), en_cancelled = (\<lambda>_. False), en_shared = (\<lambda>_. sample_world),
     en_targets = (\<lambda>_. target_manager_new None), en_order = (\<lambda>m. m), en_target_order = (\<lambda>m. m)\<rparr>"

definition sample_daemon :: "(nat, json) daemon_env" where
  "sample_daemon = \<lparr>dn_env = sample_rest, dn_parse = sample_lines, dn_serde_error = (\<lambda>_. []),
     dn_system_time = (\<lambda>n. JNum (int n)), dn_box = (\<lambda>_. JNull), dn_frame_order = (\<lambda>m. m), dn_lock = (\<lambda>_ w. w),
     dn_alive = (\<lambda>_. True), dn_diagnostics = (\<lambda>_. no_diagnostics 0 0 0 0), dn_connected_ms = (\<lambda>_. 0),
     dn_clock = (\<lambda>_. \<lparr>clk_us = 0, clk_now_ms = 0\<rparr>), dn_socket_mode = (\<lambda>_. ''0600''), dn_task_total = (\<lambda>_. 0),
     dn_runtime_busy = (\<lambda>_. False), dn_state_busy = (\<lambda>_. False), dn_environ = (\<lambda>_. None),
     dn_write = (\<lambda>_ w. (True, w))\<rparr>"

definition sample_degraded :: "nat \<times> json ipc_server" where "sample_degraded = (0, ipc_server_new Degraded False)"
definition sample_connected :: "nat \<times> json ipc_server" where "sample_connected = (0, ipc_server_new Connected False)"

lemma sample_life [simp]: "sv_life sample_degraded = Degraded" "sv_life sample_connected = Connected"
  by (simp_all add: sv_life_def sample_degraded_def sample_connected_def ipc_server_new_def)

lemma sample_keeps [simp]: "daemon_keeps (sees f v) sample_daemon"
  by (auto simp: daemon_keeps_def env_keeps_def sees_def sample_daemon_def sample_rest_def)

lemmas sample_defs = sample_daemon_def sample_rest_def std_json_def

section \<open>Gates hold\<close>





end
