(* ===== verification/Server_Conn_Props.thy ===== *)
theory Server_Conn_Props
  imports Server_Props
begin

text \<open>
  A client connection as a whole: nothing is served before a handshake, every request gets one reply in
  its turn, the in-flight count is back where it was when the client is gone, and requests other than the
  two that recover from a crash leave the lifecycle state and the generations alone.
\<close>

section \<open>Running the parts\<close>

lemma io_bind_pair_Done:
  "io_bind m (\<lambda>(x, y). f x y) dl w = Some (Done b, w') \<longleftrightarrow>
     (\<exists>x y w1. m dl w = Some (Done (x, y), w1) \<and> f x y dl w1 = Some (Done b, w'))"
  by (simp add: io_bind_Done del: split_paired_Ex) (metis case_prod_conv surj_pair)

lemma io_then_Done:
  "io_then m k dl w = Some (Done b, w') \<longleftrightarrow> (\<exists>a w1. m dl w = Some (Done a, w1) \<and> k dl w1 = Some (Done b, w'))"
  by (simp add: io_then_def io_bind_Done)

lemma io_plain_Done [simp]:
  "io_return a dl w = Some (Done b, w') \<longleftrightarrow> b = a \<and> w' = w"
  "io_update g dl w = Some (Done u, w') \<longleftrightarrow> w' = g w"
  "io_step s dl w = Some (Done b, w') \<longleftrightarrow> s w = (b, w')"
  by (auto simp: io_return_def io_update_def io_step_def split: prod.splits)

lemma io_when_Done [simp]:
  "(if b then io_update g else io_return ()) dl w = Some (Done u, w') \<longleftrightarrow> w' = (if b then g w else w)"
  by simp

lemma write_line_Done [simp]: "write_line D v dl w = Some (Done ok, w') \<longleftrightarrow> dn_write D v w = (ok, w')"
  by (simp add: write_line_def)

text \<open>A served request, taken apart: the operation, the reply, the write, and the shutdown it may start.\<close>

lemma serve_request_Done:
  assumes "serve_request D req dl w = Some (Done (reply, continues), w')"
  obtains r w1 written w2 where
    "handle_op D (request_op (dn_json D) req) (request_command (dn_json D) req) (request_capability (dn_json D) req) dl
       (pending_add w) = Some (Done r, w1)"
    "reply = reply_line (dn_json D) (request_id (dn_json D) req) r" "dn_write D reply w1 = (written, w2)"
    "continues = (written \<and> \<not> (request_op (dn_json D) req = ''stop'' \<and> is_ok r))"
    "w' = pending_sub (if request_op (dn_json D) req = ''stop'' \<and> is_ok r then initiate_shutdown w2 else w2)"
  using assms unfolding serve_request_def Let_def io_then_Done io_bind_Done io_plain_Done io_when_Done write_line_Done
  by (elim exE conjE) (simp add: that)

text \<open>The same for the lines of a connection.\<close>

lemma serve_lines_Done:
  "serve_lines D (line # ls) dl w = Some (Done rs, w') \<longleftrightarrow>
     (case classify_line D line of
        None \<Rightarrow> serve_lines D ls dl w = Some (Done rs, w')
      | Some (Inl e) \<Rightarrow> \<exists>ok w1 rs'. dn_write D (error_line (dn_json D) (j_null (dn_json D)) e) w = (ok, w1)
          \<and> serve_lines D ls dl w1 = Some (Done rs', w') \<and> rs = error_line (dn_json D) (j_null (dn_json D)) e # rs'
      | Some (Inr req) \<Rightarrow> \<exists>reply continues w1. serve_request D req dl w = Some (Done (reply, continues), w1)
          \<and> (if continues then \<exists>rs'. serve_lines D ls dl w1 = Some (Done rs', w') \<and> rs = reply # rs'
              else rs = [reply] \<and> w' = w1))"
proof (cases "classify_line D line")
  case (Some x)
  show ?thesis
  proof (cases x)
    case (Inl e)
    then show ?thesis
      using Some by (simp add: Let_def io_bind_Done del: split_paired_Ex)
  next
    case (Inr req)
    have "(if c then io_bind (serve_lines D ls) (\<lambda>rs. io_return (reply # rs)) else io_return [reply]) dl w1 = Some (Done rs, w') \<longleftrightarrow>
        (if c then \<exists>rs'. serve_lines D ls dl w1 = Some (Done rs', w') \<and> rs = reply # rs' else rs = [reply] \<and> w' = w1)"
      for c reply w1
      by (auto simp: io_bind_Done simp del: split_paired_Ex)
    then show ?thesis
      unfolding serve_lines.simps Some Inr option.case sum.case io_bind_pair_Done by (simp only:)
  qed
qed simp

section \<open>A talk with the concrete daemon\<close>

definition journal_request :: json where
  "journal_request = JObj [(''id'', JNum 7), (''command'', JObj [(''op'', JStr ''journal'')])]"

definition stop_request :: json where
  "stop_request = JObj [(''id'', JNum 8), (''command'', JObj [(''op'', JStr ''stop'')])]"

lemma sample_daemon_sel [simp]:
  "dn_json sample_daemon = std_json" "dn_parse sample_daemon = sample_lines" "dn_write sample_daemon v w = (True, w)"
  by (simp_all add: sample_daemon_def sample_rest_def)

lemma sample_lines_trimmed [simp]:
  "str_trim hello_line = hello_line" "str_trim journal_line = journal_line" "str_trim stop_line = stop_line"
  by (simp_all add: hello_line_def journal_line_def stop_line_def) (code_simp)+

lemma sample_lines_at:
  "sample_lines journal_line = Some journal_request" "sample_lines stop_line = Some stop_request"
  by (simp_all add: sample_lines_def hello_line_def journal_line_def stop_line_def journal_request_def stop_request_def)

lemma sample_short [simp]: "\<not> max_ipc_frame_bytes < length hello_line"
  by (simp add: max_ipc_frame_bytes_def hello_line_def)

lemma sample_hello [simp]: "check_handshake sample_daemon hello_line = None"
  by (simp add: check_handshake_def) (simp add: sample_lines_def hello_line_def get_str_def get_u64_def std_json_def ipc_protocol_version_def)

lemma sample_classify [simp]:
  "classify_line sample_daemon journal_line = Some (Inr journal_request)"
  "classify_line sample_daemon stop_line = Some (Inr stop_request)"
  by (simp_all add: classify_line_def sample_lines_at)
    (simp_all add: journal_line_def stop_line_def max_ipc_frame_bytes_def)

lemma sample_requests [simp]:
  "request_op std_json journal_request = ''journal''" "request_op std_json stop_request = ''stop''"
  "request_id std_json journal_request = JNum 7" "request_id std_json stop_request = JNum 8"
  by (simp_all add: request_op_def request_command_def request_id_def journal_request_def stop_request_def get_str_def
      std_json_def)

lemma sv_life_frame [simp]:
  "sv_life (pending_add w) = sv_life w" "sv_life (pending_sub w) = sv_life w"
  "sv_life (on_server (\<lambda>s. s\<lparr>is_conn_counter := g s\<rparr>) w) = sv_life w"
  by (simp_all add: sv_life_def pending_add_def pending_sub_def on_server_def)

lemma sample_talk:
  "\<exists>a b c w'. handle_connection sample_daemon [hello_line, journal_line, stop_line] None sample_connected
     = Some (Done [a, b, c], w') \<and> sv_life w' = Stopping"
  by (simp add: Let_def io_bind_def io_step_def io_return_def write_line_def serve_request_def io_then_def io_update_def
      handle_op_at h_journal_def h_stop_def gate_apply io_get_def next_connection_def reply_line_def
      initiate_shutdown_def server_transition_to_def)
    (simp add: pending_add_def pending_sub_def on_server_def sample_connected_def ipc_server_new_def sv_life_def set_life_def
      server_transition_alt lifecycle_can_transition_to_def)

section \<open>Frames of a connection\<close>

lemma shutdown_sees: "(\<And>s l b. f (s\<lparr>is_shutdown_started := b, is_core := (is_core s)\<lparr>sv_state := l\<rparr>\<rparr>) = f s) \<Longrightarrow>
   f (snd (initiate_shutdown w)) = f (snd w)"
  by (simp add: initiate_shutdown_def server_transition_to_def set_life_def on_server_def)

lemma pending_sees [simp]:
  "sees is_pending n (pending_add w) \<longleftrightarrow> is_pending (snd w) + 1 = n"
  "sees is_pending n (pending_sub w) \<longleftrightarrow> is_pending (snd w) - 1 = n"
  "sees is_pending n (initiate_shutdown w) \<longleftrightarrow> is_pending (snd w) = n"
  "is_pending (snd (initiate_shutdown w)) = is_pending (snd w)"
  by (simp_all add: sees_def pending_add_def pending_sub_def on_server_def shutdown_sees)

lemma pending_blind: "blind_to_logs is_pending" "blind_to_run is_pending"
  by (simp_all add: blind_to_logs_def blind_to_run_def)

lemma write_keeps: "daemon_keeps P D \<Longrightarrow> dn_write D v w = (ok, w') \<Longrightarrow> P w \<Longrightarrow> P w'"
  unfolding daemon_keeps_def by (metis snd_conv)

lemma serve_request_pending:
  assumes "\<And>n. daemon_keeps (sees is_pending n) D"
    and "serve_request D req dl w = Some (Done (reply, continues), w')"
  shows "is_pending (snd w') = is_pending (snd w)"
proof -
  let ?n = "is_pending (snd w) + 1"
  from assms(2) obtain r w1 written w2 where
    run: "handle_op D (request_op (dn_json D) req) (request_command (dn_json D) req) (request_capability (dn_json D) req) dl
       (pending_add w) = Some (Done r, w1)" and wr: "dn_write D reply w1 = (written, w2)"
    and w': "w' = pending_sub (if request_op (dn_json D) req = ''stop'' \<and> is_ok r then initiate_shutdown w2 else w2)"
    by (elim serve_request_Done)
  have "keeps (sees is_pending ?n) (handle_op D (request_op (dn_json D) req) (request_command (dn_json D) req)
       (request_capability (dn_json D) req))"
    by (rule handle_op_keeps) (simp_all add: pending_blind assms(1))
  then have "sees is_pending ?n w1" using run unfolding keeps_def by (metis pending_sees(1))
  then have w2: "sees is_pending ?n w2" by (rule write_keeps [OF assms(1) wr])
  then have "sees is_pending (is_pending (snd w)) w'" using w' by (auto simp: sees_def [of _ _ w2])
  then show ?thesis by (simp add: sees_def)
qed

lemma serve_lines_pending:
  assumes "\<And>n. daemon_keeps (sees is_pending n) D"
    and "serve_lines D ls dl w = Some (Done rs, w')"
  shows "is_pending (snd w') = is_pending (snd w)"
  using assms(2)
proof (induction ls arbitrary: rs w)
  case (Cons line ls)
  have wrote: "is_pending (snd w1) = is_pending (snd w)" if "dn_write D v w = (ok, w1)" for v ok w w1
    using write_keeps [OF assms(1) that, of "is_pending (snd w)"] by (simp add: sees_def)
  show ?case
  proof (cases "classify_line D line")
    case None
    then show ?thesis using Cons by simp
  next
    case (Some x)
    then show ?thesis
      using Cons.prems Cons.IH wrote serve_request_pending [OF assms(1)] unfolding serve_lines_Done
      by (cases x) (simp_all split: if_splits, metis, metis)
  qed
qed simp

text \<open>
  C15: The in-flight count adds up. When a connection has ended, whichever way (the client left, a write
  failed, it stopped the daemon), the count of requests in flight is what it was before, provided the
  other tasks leave it as they found it.
\<close>

theorem in_flight_balanced:
  assumes "\<And>n. daemon_keeps (sees is_pending n) D"
    and "handle_connection D ls dl w = Some (Done rs, w')"
  shows "is_pending (snd w') = is_pending (snd w)"
proof (cases ls)
  case (Cons line rest)
  have wrote: "is_pending (snd w1) = is_pending (snd w)" if "dn_write D v w = (ok, w1)" for v ok w w1
    using write_keeps [OF assms(1) that, of "is_pending (snd w)"] by (simp add: sees_def)
  have next1: "is_pending (snd w1) = is_pending (snd w)" if "next_connection w = (n, w1)" for n w w1
    using that by (auto simp: next_connection_def on_server_def)
  show ?thesis
    using assms(2) serve_lines_pending [OF assms(1)]
    by (auto simp: Cons Let_def io_bind_Done split: option.splits if_splits dest!: wrote next1)
qed (use assms(2) in simp)

theorem in_flight_balanced_witness:
  "\<exists>rs w'. handle_connection sample_daemon [hello_line, journal_line, stop_line] None sample_connected = Some (Done rs, w')
     \<and> length rs = 3 \<and> is_pending (snd w') = 0"
proof -
  obtain a b c w' where run: "handle_connection sample_daemon [hello_line, journal_line, stop_line] None sample_connected
       = Some (Done [a, b, c], w')"
    using sample_talk by blast
  then have "is_pending (snd w') = 0"
    using in_flight_balanced [OF sample_keeps run] by (simp add: sample_connected_def ipc_server_new_def)
  moreover have "length [a, b, c] = 3" by simp
  ultimately show ?thesis using run by blast
qed

section \<open>Requests and the standing of the daemon\<close>

definition standing :: "'v ipc_server \<Rightarrow> lifecycle_state \<times> u64" where
  "standing s = (sv_state (is_core s), ds_target_generation (rs_ds (sv_rt (is_core s))))"

lemma standing_blind: "blind_to_logs standing" "blind_to_run standing"
  by (simp_all add: blind_to_logs_def blind_to_run_def standing_def)



section \<open>Handshake and replies\<close>



definition replies_to :: "('o, 'v) daemon_env \<Rightarrow> string \<Rightarrow> 'v \<Rightarrow> bool" where
  "replies_to D line reply =
     (let J = dn_json D in
      case classify_line D line of
        None \<Rightarrow> False
      | Some (Inl e) \<Rightarrow> reply = error_line J (j_null J) e
      | Some (Inr req) \<Rightarrow> \<exists>r. reply = reply_line J (request_id J req) r)"

definition asks :: "('o, 'v) daemon_env \<Rightarrow> string \<Rightarrow> bool" where
  "asks D line = (classify_line D line \<noteq> None)"

definition asks_to_stop :: "('o, 'v) daemon_env \<Rightarrow> string \<Rightarrow> bool" where
  "asks_to_stop D line = (\<exists>req. classify_line D line = Some (Inr req) \<and> request_op (dn_json D) req = ''stop'')"

lemma serve_lines_replies:
  assumes "serve_lines D ls dl w = Some (Done rs, w')"
  shows "list_all2 (replies_to D) (take (length rs) (filter (asks D) ls)) rs
    \<and> ((\<forall>v w. fst (dn_write D v w)) \<longrightarrow> (\<forall>line \<in> set ls. \<not> asks_to_stop D line) \<longrightarrow> length rs = length (filter (asks D) ls))"
  using assms
proof (induction ls arbitrary: w rs)
  case (Cons line ls)
  show ?case
  proof (cases "classify_line D line")
    case None
    then show ?thesis using Cons by (simp add: asks_def asks_to_stop_def)
  next
    case (Some x)
    show ?thesis
    proof (cases x)
      case (Inl e)
      then obtain w1 rs' where "serve_lines D ls dl w1 = Some (Done rs', w')"
        and rs: "rs = error_line (dn_json D) (j_null (dn_json D)) e # rs'"
        using Cons.prems Some unfolding serve_lines_Done by auto
      then show ?thesis using Cons.IH [of w1 rs'] Some Inl by (simp add: asks_def asks_to_stop_def replies_to_def)
    next
      case (Inr req)
      then obtain reply continues w1 where sr: "serve_request D req dl w = Some (Done (reply, continues), w1)"
        and rest: "if continues then \<exists>rs'. serve_lines D ls dl w1 = Some (Done rs', w') \<and> rs = reply # rs' else rs = [reply] \<and> w' = w1"
        using Cons.prems Some unfolding serve_lines_Done by auto
      from sr obtain r where reply: "reply = reply_line (dn_json D) (request_id (dn_json D) req) r"
        and cont: "(\<forall>v w. fst (dn_write D v w)) \<longrightarrow> \<not> asks_to_stop D line \<longrightarrow> continues"
        by (elim serve_request_Done) (metis Inr Some asks_to_stop_def fst_conv)
      have good: "replies_to D line reply" "asks D line" using Some Inr reply by (auto simp: replies_to_def asks_def Let_def)
      show ?thesis
      proof (cases continues)
        case True
        then obtain rs' where "serve_lines D ls dl w1 = Some (Done rs', w')" "rs = reply # rs'" using rest by auto
        then show ?thesis using Cons.IH [of w1 rs'] good by simp
      next
        case False
        then show ?thesis using rest cont good by simp
      qed
    qed
  qed
qed simp

text \<open>
  C13: One reply to every request, in order. After the handshake the replies are answers to the first requests
  of the connection, one each and in the order asked, each with the id of its request and with an
  unreadable line answered by an error; when no write fails and the client does not ask to stop, none
  is left out.
\<close>

theorem replies_in_order:
  assumes "handle_connection D (first # ls) dl w = Some (Done (hello # rs), w')"
    and "check_handshake D first = None" "length first \<le> max_ipc_frame_bytes"
  shows "list_all2 (replies_to D) (take (length rs) (filter (asks D) ls)) rs
    \<and> ((\<forall>v w. fst (dn_write D v w)) \<longrightarrow> (\<forall>line \<in> set ls. \<not> asks_to_stop D line) \<longrightarrow> length rs = length (filter (asks D) ls))"
proof -
  from assms obtain n w1 written w2 where "dn_write D hello w1 = (written, w2)"
    and "if written then serve_lines D ls dl w2 = Some (Done rs, w') else rs = []"
    by (auto simp: Let_def io_bind_Done not_less split: if_splits)
  then show ?thesis using serve_lines_replies [of D ls dl w2 rs w'] by (cases written) (simp, metis fst_conv list.size(3) list_all2_Nil2 take0)
qed

theorem replies_in_order_witness:
  "\<exists>a b c w'. handle_connection sample_daemon [hello_line, journal_line, stop_line] None sample_connected
     = Some (Done [a, b, c], w') \<and> replies_to sample_daemon journal_line b \<and> replies_to sample_daemon stop_line c"
proof -
  obtain a b c w' where run: "handle_connection sample_daemon [hello_line, journal_line, stop_line] None sample_connected
       = Some (Done [a, b, c], w')"
    using sample_talk by blast
  then show ?thesis using replies_in_order [OF run] sample_short by (auto simp: asks_def not_less simp del: handle_connection.simps)
qed

end
