(* ===== verification/Server_Effects.thy ===== *)
theory Server_Effects
  imports Server_Conn_Props
begin

text \<open>
  What single requests do to the daemon: the logs after a plan, the request that plays a crash, a call
  that passes the gate untagged, and the taking of the socket.
\<close>

section \<open>Plans\<close>

lemma record_traces_counts:
  "rm_action_count (is_metrics (snd (record_traces D rs w))) = rm_action_count (is_metrics (snd w)) + of_nat (length rs)"
  "is_trace_counter (snd (record_traces D rs w)) = is_trace_counter (snd w) + of_nat (length rs)"
  "is_journal (snd (record_traces D rs w)) = is_journal (snd w)"
proof -
  have "rm_action_count (is_metrics (snd (foldl (\<lambda>w r. record_trace D d r w) w rs)))
        = rm_action_count (is_metrics (snd w)) + of_nat (length rs)
      \<and> is_trace_counter (snd (foldl (\<lambda>w r. record_trace D d r w) w rs)) = is_trace_counter (snd w) + of_nat (length rs)
      \<and> is_journal (snd (foldl (\<lambda>w r. record_trace D d r w) w rs)) = is_journal (snd w)" for d
    by (induction rs arbitrary: w)
      (auto simp: record_trace_def Let_def record_action_def record_vision_fallback_def merge_transport_diagnostics_def
        record_from_action_def trace_entry_from_action_def next_trace_id_def split: option.split)
  then show "rm_action_count (is_metrics (snd (record_traces D rs w))) = rm_action_count (is_metrics (snd w)) + of_nat (length rs)"
    "is_trace_counter (snd (record_traces D rs w)) = is_trace_counter (snd w) + of_nat (length rs)"
    "is_journal (snd (record_traces D rs w)) = is_journal (snd w)"
    by (simp_all add: record_traces_def)
qed


definition plan_request :: json where
  "plan_request = JObj [(''plan'', JArr [JObj [(''type'', JStr ''tabs'')], JObj [(''type'', JStr ''go_back'')]])]"

definition sample_up :: "nat \<times> json ipc_server" where
  "sample_up = (0, (ipc_server_new Connected False)\<lparr>is_runtime := True\<rparr>)"

lemma sample_plan_decodes:
  "plan_from_json sample_rest (\<lambda>_. []) (plan_value_of sample_daemon plan_request) = Inr (plan_new [Tabs, GoBack])"
  "plan_validate sample_rest (plan_new [Tabs, GoBack]) = Inr ()"
  by (code_simp, code_simp)

lemma sample_plan_runs:
  "\<exists>rs w1. run_executor (execute_plan (server_env D) A (plan_new [Tabs, GoBack]) tid None) None w = Some (Done rs, w1)"
proof -
  have "uncut (execute_plan (server_env D) A (plan_new [Tabs, GoBack]) tid None)"
    unfolding execute_plan_def by (rule uncut_run_steps) (auto simp: plan_new_def intro!: total_resolve_for_step)
  then obtain rs x where "execute_plan (server_env D) A (plan_new [Tabs, GoBack]) tid None None (executor_start w) = Some (Done rs, x)"
    unfolding uncut_def by blast
  then show ?thesis by (simp add: run_executor_def)
qed


section \<open>The request that plays a crash\<close>

lemma crash_bump_now_run:
  "sv_run (snd (crash_bump_now D w)) = snd (handle_crash_generation_bump (en_target_order (dn_env D)) (dn_clock D
     (if current_lifecycle_name D w = ''Connected'' \<or> current_lifecycle_name D w = ''Degraded'' then server_transition_to Reconnecting w else w))
     (sv_run w))"
  "sv_life (snd (crash_bump_now D w)) =
     (if current_lifecycle_name D w = ''Connected'' \<or> current_lifecycle_name D w = ''Degraded''
      then server_transition (sv_life w) Reconnecting else sv_life w)"
  by (simp_all add: crash_bump_now_def Let_def case_prod_beta on_server_def set_run_def sv_run_def sv_life_def
      server_transition_to_def set_life_def)

lemma crash_handle_parts:
  assumes "json_value (dn_json D)" "bool_param D c ''browser_alive'' True"
  shows "sv_run (snd (crash_handle D c w)) = sv_run (snd (crash_bump_now D w))"
    and "sv_life (snd (crash_handle D c w)) = server_transition (sv_life (snd (crash_bump_now D w))) Connected"
    and "get_str (dn_json D) (fst (crash_handle D c w)) ''next_state'' = Some ''Connected''"
  using assms(2)
  by (simp_all add: crash_handle_def Let_def case_prod_beta sv_run_def sv_life_def server_transition_to_def set_life_def
      crash_decision_def json_value.get_str_obj [OF assms(1)])

text \<open>
  The crash request is not gated and reports what did not happen. In a state from which \<open>Connected\<close> cannot
  be reached (also a stopping, stopped, failed or disconnected daemon), a \<open>crash_handle\<close> request, which any
  client may send, succeeds and says that the next state is \<open>Connected\<close>; the state stays as it was, but
  every reference of every client is stale, the index is empty and no session is valid any more.
\<close>

lemma crash_request_misreports:
  assumes "json_value (dn_json D)" "bool_param D c ''browser_alive'' True" "\<not> dn_state_busy D (fst w)"
    and "sv_life w \<in> {Starting, Disconnected, Stopping, Stopped} \<or> is_Failed (sv_life w)"
  shows "\<exists>v w'. handle_op D ''crash_handle'' c cap dl w = Some (Done (Inr (True, v)), w')
    \<and> get_str (dn_json D) v ''next_state'' = Some ''Connected'' \<and> sv_life w' = sv_life w
    \<and> ei_len (rs_index (sv_run w')) = 0
    \<and> (\<forall>t. tref_target_generation t = ds_target_generation (rs_ds (sv_run w)) \<longrightarrow>
           \<not> is_target_ref_valid (rs_ds (sv_run w')) (rs_tm (sv_run w')) t)
    \<and> (\<forall>s. \<not> is_session_ref_valid (rs_ds (sv_run w')) (rs_tm (sv_run w')) s)"
proof -
  define w' where "w' = snd (crash_handle D c w)"
  have name: "current_lifecycle_name D w \<notin> {''Connected'', ''Degraded''}"
    using assms(3,4) by (cases "sv_life w") (auto simp: current_lifecycle_name_def)
  have "handle_op D ''crash_handle'' c cap dl w = Some (Done (Inr (True, fst (crash_handle D c w))), w')"
    by (simp add: handle_op_at h_crash_handle_def io_bind_def io_get_def io_step_def io_return_def w'_def case_prod_beta)
  moreover have "sv_life w' = sv_life w"
    using assms(4) name crash_handle_parts(2) [OF assms(1,2)]
    by (auto simp: w'_def crash_bump_now_run server_transition_alt lifecycle_can_transition_to_def)
  moreover obtain clk where "sv_run w' = snd (crash_bump (en_target_order (dn_env D)) clk (sv_run w))"
    using crash_handle_parts(1) [OF assms(1,2)] by (auto simp: w'_def crash_bump_now_run crash_bumps_agree)
  ultimately show ?thesis
    using crash_handle_parts(3) [OF assms(1,2)]
    by (auto simp: crash_bump_sel ds_on_reconnected_eq is_target_ref_valid_def target_ref_is_valid_def is_session_ref_valid_def
        hm_contains_def)
qed

lemma sample_free: "\<not> dn_state_busy sample_daemon x" by (simp add: sample_daemon_def)

section \<open>Untagged calls\<close>

text \<open>
  The gate of a CDP call is chosen by the client. A call without a capability tag passes the gate of a
  read: while the state-changing requests are refused (in \<open>Degraded\<close>, \<open>Stopping\<close> and all states but
  \<open>Connected\<close> and \<open>Stopped\<close>), any method whatever is sent to the browser, without a target lock.
\<close>

lemma untagged_call_is_sent:
  assumes "sv_life w \<noteq> Stopped" "live_runtime D w = Inr ()"
    and "get_str (dn_json D) c ''method'' = Some m" "m \<noteq> []" "get_str (dn_json D) c ''session_id'' = None"
    and "get_str (dn_json D) c ''target_id'' = None" "j_get (dn_json D) c ''params'' = Some p"
  shows "handle_op D ''cdp_call'' c NoCapability dl w =
    ok_value (io_call (server_env D) (if is_prefix_of ''Target.'' m \<or> is_prefix_of ''Browser.'' m then None else first_session D w) m p) dl w"
proof -
  have "lifecycle_check (sv_life w) request_kind.Read = Inr ()" using assms(1) by (cases "sv_life w") simp_all
  moreover have "(case m of [] \<Rightarrow> x | _ \<Rightarrow> y) = y" for x y :: 'z using assms(4) by (cases m) auto
  ultimately show ?thesis
    using assms by (simp add: handle_op_at h_cdp_call_def Let_def op_cdp_call_def call_session_def ok_value_def io_try_def io_bind_def
        gate_apply io_get_def io_return_def validate_session_id_def)
qed

section \<open>The socket\<close>

text \<open>
  The socket is taken safely. The path is bound only in a directory of the user; a socket at which a daemon
  answers is neither removed nor bound; whenever binding succeeds the last thing done is to set the mode
  to 0600; and the only file ever removed is one that exists and does not answer.
\<close>

lemma socket_taken_safely:
  "case bind_socket_exclusive path dir f of (r, acts) \<Rightarrow>
     (acts = [] \<or> fo_dir_error f = None \<and> fo_owner f = fo_euid f)
     \<and> (\<not> (fo_dir_error f = None \<and> fo_owner f = fo_euid f \<and> fo_exists f \<and> fo_probe f)
          \<or> (\<exists>d. r = Inl (DaemonAlreadyRunning d)) \<and> acts = [])
     \<and> (r = Inr () \<longleftrightarrow> acts \<noteq> [] \<and> last acts = Mode_0600)
     \<and> (Removed \<in> set acts \<longleftrightarrow> fo_dir_error f = None \<and> fo_owner f = fo_euid f \<and> fo_exists f \<and> \<not> fo_probe f \<and> fo_remove_error f = None)"
  by (auto simp: bind_socket_exclusive_def ensure_owned_dir_def bind_socket_def split: option.splits prod.splits)

end
