(* ===== verification/Serve.thy ===== *)
theory Serve
  imports Lifecycle
begin

text \<open>
  The tasks of the daemon process around its shutdown (\<open>serve\<close>, \<open>accept_loop\<close>, \<open>initiate_shutdown\<close> and
  \<open>teardown\<close> of \<open>src/browser_runtime/server.rs\<close>): the main task, the accept loop, and whoever asks for the
  shutdown (a \<open>stop\<close> request, a signal, the main task itself). \<open>notify_waiters\<close> wakes the tasks that
  wait at that moment and leaves nothing behind for later ones.
\<close>

section \<open>The tasks\<close>

text \<open>
  The accept loop listens, hands over a new connection, or has ended. The main task starts up, has
  failed to, waits for the shutdown, waits for the accept loop to end, tears down, or has returned. The
  shutdown has not begun, has been announced (the flag is set, the state is \<open>Stopping\<close>), or has
  notified the waiting tasks.
\<close>

datatype accept_phase = Listening | Handing_over | Accept_done
datatype main_phase = Starting_up | Start_failed | Up | Joining | Tearing | Returned
datatype shutdown_phase = No_shutdown | Announced | Notified

record serve_state =
  se_life :: lifecycle_state
  se_shutdown :: shutdown_phase
  se_accept :: accept_phase
  se_main :: main_phase

definition serve_init :: serve_state where
  "serve_init = \<lparr>se_life = server_transition Starting Connecting, se_shutdown = No_shutdown, se_accept = Listening,
     se_main = Starting_up\<rparr>"

inductive serve_step :: "serve_state \<Rightarrow> serve_state \<Rightarrow> bool" where
  connected: "se_main s = Starting_up \<Longrightarrow>
    serve_step s (s\<lparr>se_main := Up, se_life := server_transition (se_life s) Connected\<rparr>)"
| start_failed: "se_main s = Starting_up \<Longrightarrow>
    serve_step s (s\<lparr>se_main := Start_failed, se_life := server_transition (se_life s) (Failed r)\<rparr>)"
| give_up: "se_main s = Start_failed \<Longrightarrow> se_shutdown s \<noteq> No_shutdown \<Longrightarrow> serve_step s (s\<lparr>se_main := Joining\<rparr>)"
| announce: "se_shutdown s = No_shutdown \<Longrightarrow>
    serve_step s (s\<lparr>se_shutdown := Announced, se_life := server_transition (se_life s) Stopping\<rparr>)"
| notify: "se_shutdown s = Announced \<Longrightarrow>
    serve_step s (s\<lparr>se_shutdown := Notified,
       se_accept := (if se_accept s = Listening then Accept_done else se_accept s),
       se_main := (if se_main s = Up then Joining else se_main s)\<rparr>)"
| accept_new: "se_accept s = Listening \<Longrightarrow> serve_step s (s\<lparr>se_accept := Handing_over\<rparr>)"
| accept_next: "se_accept s = Handing_over \<Longrightarrow> serve_step s (s\<lparr>se_accept := Listening\<rparr>)"
| accept_error: "se_accept s = Listening \<Longrightarrow> se_shutdown s \<noteq> No_shutdown \<Longrightarrow> serve_step s (s\<lparr>se_accept := Accept_done\<rparr>)"
| joined: "se_main s = Joining \<Longrightarrow> se_accept s = Accept_done \<Longrightarrow> serve_step s (s\<lparr>se_main := Tearing\<rparr>)"
| torn_down: "se_main s = Tearing \<Longrightarrow>
    serve_step s (s\<lparr>se_main := Returned, se_life := server_transition (se_life s) Stopped\<rparr>)"
| lifecycle: "serve_step s (s\<lparr>se_life := server_transition (se_life s) l\<rparr>)"

inductive_cases serve_stepE: "serve_step s s'"

abbreviation serve_steps :: "serve_state \<Rightarrow> serve_state \<Rightarrow> bool" where
  "serve_steps \<equiv> serve_step\<^sup>*\<^sup>*"

section \<open>Invariants\<close>

definition serve_ok :: "serve_state \<Rightarrow> bool" where
  "serve_ok s =
     ((se_shutdown s \<noteq> No_shutdown \<longrightarrow> se_life s = Stopping \<or> se_life s = Stopped)
      \<and> (se_main s \<in> {Joining, Tearing, Returned} \<longrightarrow> se_shutdown s \<noteq> No_shutdown)
      \<and> (se_accept s = Accept_done \<longrightarrow> se_shutdown s \<noteq> No_shutdown)
      \<and> (se_main s \<in> {Tearing, Returned} \<longrightarrow> se_accept s = Accept_done)
      \<and> (se_main s = Returned \<longrightarrow> se_life s = Stopped))"

lemma stopping_stays: "s = Stopping \<or> s = Stopped \<Longrightarrow> server_transition s l = Stopping \<or> server_transition s l = Stopped"
  by (auto simp: server_transition_alt lifecycle_can_transition_to_def split: if_splits)

lemma stopped_stays [simp]: "server_transition Stopped l = Stopped"
  by (simp add: server_transition_alt lifecycle_can_transition_to_def)

lemma to_stopping: "server_transition s Stopping = Stopping \<or> server_transition s Stopping = Stopped"
  by (cases s) (simp_all add: server_transition_alt lifecycle_can_transition_to_def)

lemma stopping_to_stopped: "s = Stopping \<or> s = Stopped \<Longrightarrow> server_transition s Stopped = Stopped"
  by (auto simp: server_transition_alt lifecycle_can_transition_to_def)

lemma serve_step_ok: "serve_step s s' \<Longrightarrow> serve_ok s \<Longrightarrow> serve_ok s'"
  by (erule serve_stepE; use stopping_stays [of "se_life s"] to_stopping [of "se_life s"] stopping_to_stopped [of "se_life s"]
      in \<open>auto simp: serve_ok_def split: if_splits\<close>)

lemma serve_reach_ok: "serve_steps serve_init s \<Longrightarrow> serve_ok s"
proof (induction rule: rtranclp_induct)
  case base
  then show ?case by (simp add: serve_ok_def serve_init_def)
qed (rule serve_step_ok)

section \<open>The lost wake-up\<close>

definition deaf :: "serve_state \<Rightarrow> bool" where
  "deaf s = (se_shutdown s = Notified \<and> se_main s = Up)"

lemma deaf_step: "serve_step s s' \<Longrightarrow> deaf s \<Longrightarrow> deaf s'"
  by (erule serve_stepE) (auto simp: deaf_def)

lemma deaf_stays: "serve_steps s s' \<Longrightarrow> deaf s \<Longrightarrow> deaf s'"
  by (induction rule: rtranclp_induct) (auto intro: deaf_step)

section \<open>Towards the end\<close>

definition ending :: "serve_state \<Rightarrow> bool" where
  "ending s = (se_shutdown s = Notified \<and> se_accept s = Accept_done \<and> se_main s \<in> {Joining, Tearing, Returned})"

fun main_togo :: "main_phase \<Rightarrow> nat" where
  "main_togo Returned = 0"
| "main_togo Tearing = 1"
| "main_togo _ = 2"

lemma ending_step: "serve_step s s' \<Longrightarrow> ending s \<Longrightarrow> ending s' \<and> main_togo (se_main s') \<le> main_togo (se_main s)"
  by (erule serve_stepE) (auto simp: ending_def)

lemma ending_progress:
  "ending s \<Longrightarrow> se_main s \<noteq> Returned \<Longrightarrow> \<exists>s'. serve_step s s' \<and> main_togo (se_main s') < main_togo (se_main s)"
  using joined [of s] torn_down [of s] by (auto simp: ending_def)

section \<open>Properties\<close>


lemma serve_example_run:
  "serve_steps serve_init \<lparr>se_life = Stopped, se_shutdown = Notified, se_accept = Accept_done, se_main = Returned\<rparr>"
proof -
  define s1 where "s1 = serve_init\<lparr>se_main := Up, se_life := Connected\<rparr>"
  define s2 where "s2 = s1\<lparr>se_shutdown := Announced, se_life := Stopping\<rparr>"
  define s3 where "s3 = s2\<lparr>se_shutdown := Notified, se_accept := Accept_done, se_main := Joining\<rparr>"
  define s4 where "s4 = s3\<lparr>se_main := Tearing\<rparr>"
  note d = s1_def s2_def s3_def s4_def serve_init_def server_transition_alt lifecycle_can_transition_to_def
  have "serve_step serve_init s1" using connected [of serve_init] by (simp add: d)
  moreover have "serve_step s1 s2" using announce [of s1] by (simp add: d)
  moreover have "serve_step s2 s3" using notify [of s2] by (simp add: d)
  moreover have "serve_step s3 s4" using joined [of s3] by (simp add: d)
  moreover have "serve_step s4 (s4\<lparr>se_main := Returned, se_life := Stopped\<rparr>)" using torn_down [of s4] by (simp add: d)
  ultimately have "serve_steps serve_init (s4\<lparr>se_main := Returned, se_life := Stopped\<rparr>)"
    by (meson rtranclp.rtrancl_into_rtrancl rtranclp.rtrancl_refl)
  then show ?thesis by (simp add: d)
qed




text \<open>
  A shutdown that completes its notification before the daemon waits for it is lost: the daemon can reach
  a state in which the shutdown was asked for and notified, and from which \<open>serve\<close> never returns, whatever
  happens; later requests to stop change nothing.
\<close>

lemma early_shutdown_is_lost:
  "\<exists>s. serve_steps serve_init s \<and> se_shutdown s = Notified \<and> se_accept s = Accept_done
     \<and> \<not> (\<exists>t. serve_steps s t \<and> se_main t = Returned)"
proof -
  define s1 where "s1 = serve_init\<lparr>se_shutdown := Announced, se_life := Stopping\<rparr>"
  define s2 where "s2 = s1\<lparr>se_shutdown := Notified, se_accept := Accept_done\<rparr>"
  define s3 where "s3 = s2\<lparr>se_main := Up\<rparr>"
  note d = s1_def s2_def s3_def serve_init_def server_transition_alt lifecycle_can_transition_to_def
  have "serve_step serve_init s1" using announce [of serve_init] by (simp add: d)
  moreover have "serve_step s1 s2" using notify [of s1] by (simp add: d)
  moreover have "serve_step s2 s3" using connected [of s2] by (simp add: d)
  ultimately have "serve_steps serve_init s3" by (meson rtranclp.rtrancl_into_rtrancl rtranclp.rtrancl_refl)
  moreover have "deaf s3" by (simp add: d deaf_def)
  then have "\<not> (\<exists>t. serve_steps s3 t \<and> se_main t = Returned)" using deaf_stays [of s3] by (auto simp: deaf_def)
  ultimately show ?thesis by (intro exI [of _ s3]) (simp add: d)
qed

end
