(* ===== verification/F64.thy ===== *)
theory F64
  imports Complex_Main Prelude
begin

text \<open>
  The floating point numbers of the decider and of the perception code: a finite value is the rational it
  stands for, the special values are constructors of their own, and rounding (to nearest, ties to even) is
  written out for any binary format. Negative zero is not told from zero; no comparison or difference does.
\<close>

section \<open>Rounding\<close>

text \<open>The bits of a number, the exponent \<open>k\<close> with \<open>2 ^ k \<le> q < 2 ^ (k + 1)\<close>, and the nearest integer.\<close>

fun bit_count :: "int \<Rightarrow> int" where
  "bit_count n = (if n \<le> 0 then 0 else bit_count (n div 2) + 1)"

declare bit_count.simps [simp del]

definition pow2 :: "int \<Rightarrow> rat" where
  "pow2 e = (if 0 \<le> e then 2 ^ nat e else 1 / 2 ^ nat (- e))"

definition log2_floor :: "rat \<Rightarrow> int" where
  "log2_floor q =
     (let (n, d) = quotient_of q; k = bit_count n - bit_count d
      in if pow2 k \<le> q then k else k - 1)"

definition round_even :: "rat \<Rightarrow> int" where
  "round_even q = (let f = \<lfloor>q\<rfloor>; r = q - of_int f in if r < 1 / 2 \<or> r = 1 / 2 \<and> even f then f else f + 1)"

datatype f64 = Finite rat | PosInf | NegInf | NaN

text \<open>A format by its precision, its smallest exponent and its largest one.\<close>

definition round_binary :: "nat \<Rightarrow> int \<Rightarrow> nat \<Rightarrow> rat \<Rightarrow> f64" where
  "round_binary prec emin emax q =
     (if q = 0 then Finite 0
      else let a = \<bar>q\<bar>; e = max (log2_floor a - int (prec - 1)) emin; m = of_int (round_even (a / pow2 e)) * pow2 e
           in if int emax \<le> log2_floor m then (if q < 0 then NegInf else PosInf) else Finite (if q < 0 then - m else m))"

definition round_f64 :: "rat \<Rightarrow> f64" where
  "round_f64 = round_binary 53 (-1074) 1024"

text \<open>An \<open>f32\<close> is kept as the \<open>f64\<close> of the same value.\<close>

definition round_f32 :: "rat \<Rightarrow> f64" where
  "round_f32 = round_binary 24 (-149) 128"

section \<open>Comparison and difference\<close>

fun is_finite :: "f64 \<Rightarrow> bool" where
  "is_finite (Finite q) = True"
| "is_finite _ = False"

text \<open>A comparison with \<open>NaN\<close> is false.\<close>

fun f64_less :: "f64 \<Rightarrow> f64 \<Rightarrow> bool" where
  "f64_less (Finite x) (Finite y) = (x < y)"
| "f64_less (Finite x) PosInf = True"
| "f64_less NegInf (Finite y) = True"
| "f64_less NegInf PosInf = True"
| "f64_less _ _ = False"

fun f64_neg :: "f64 \<Rightarrow> f64" where
  "f64_neg (Finite x) = Finite (- x)"
| "f64_neg PosInf = NegInf"
| "f64_neg NegInf = PosInf"
| "f64_neg NaN = NaN"

fun f64_add :: "f64 \<Rightarrow> f64 \<Rightarrow> f64" where
  "f64_add (Finite x) (Finite y) = round_f64 (x + y)"
| "f64_add NaN y = NaN"
| "f64_add x NaN = NaN"
| "f64_add PosInf NegInf = NaN"
| "f64_add NegInf PosInf = NaN"
| "f64_add PosInf y = PosInf"
| "f64_add NegInf y = NegInf"
| "f64_add x y = y"

definition f64_sub :: "f64 \<Rightarrow> f64 \<Rightarrow> f64" where
  "f64_sub x y = f64_add x (f64_neg y)"

text \<open>What the program prints of a value that is not finite.\<close>

fun special_text :: "f64 \<Rightarrow> string" where
  "special_text PosInf = ''inf''"
| "special_text NegInf = ''-inf''"
| "special_text _ = ''NaN''"

lemma f64_less_irrefl [simp]: "\<not> f64_less x x"
  by (cases x) simp_all

lemma f64_less_trans: "f64_less x y \<Longrightarrow> f64_less y z \<Longrightarrow> f64_less x z"
  by (cases x; cases y; cases z) simp_all

lemma f64_less_Finite [simp]: "is_finite x \<Longrightarrow> is_finite y \<Longrightarrow> \<not> f64_less x y \<longleftrightarrow> x = y \<or> f64_less y x"
  by (cases x; cases y) auto

text \<open>The literals of the sources are the nearest doubles.\<close>

lemma literals:
  "round_f64 (55 / 100) = Finite (2476979795053773 / 4503599627370496)"
  "round_f64 (1 / 10) = Finite (3602879701896397 / 36028797018963968)"
  by code_simp+

section \<open>Sorting with a comparison\<close>

text \<open>\<open>sort_by\<close> keeps the order of elements that compare equal; \<open>le\<close> is the comparison.\<close>

fun insert_by :: "('a \<Rightarrow> 'a \<Rightarrow> bool) \<Rightarrow> 'a \<Rightarrow> 'a list \<Rightarrow> 'a list" where
  "insert_by le x [] = [x]"
| "insert_by le x (y # ys) = (if le x y then x # y # ys else y # insert_by le x ys)"

definition sort_by :: "('a \<Rightarrow> 'a \<Rightarrow> bool) \<Rightarrow> 'a list \<Rightarrow> 'a list" where
  "sort_by le xs = foldr (insert_by le) xs []"

lemma mset_insert_by [simp]: "mset (insert_by le x ys) = add_mset x (mset ys)"
  by (induction ys) simp_all

lemma mset_sort_by [simp]: "mset (sort_by le xs) = mset xs"
  by (induction xs) (simp_all add: sort_by_def)

lemma set_sort_by [simp]: "set (sort_by le xs) = set xs"
  by (metis mset_sort_by set_mset_mset)

lemma length_sort_by [simp]: "length (sort_by le xs) = length xs"
  by (metis mset_sort_by size_mset)

lemma sorted_insert_by:
  assumes "\<And>a b c. le a b \<Longrightarrow> le b c \<Longrightarrow> le a c" "\<And>a b. le a b \<or> le b a" "sorted_wrt le ys"
  shows "sorted_wrt le (insert_by le x ys)"
  using assms(3)
proof (induction ys)
  case (Cons y ys)
  have "set (insert_by le x ys) = insert x (set ys)"
    by (metis mset_insert_by set_mset_add_mset_insert set_mset_mset)
  moreover have "\<not> le x y \<Longrightarrow> le y x" using assms(2) by blast
  ultimately show ?case using Cons assms(1) by (auto split: if_splits)
qed simp

lemma sorted_sort_by:
  assumes "\<And>a b c. le a b \<Longrightarrow> le b c \<Longrightarrow> le a c" "\<And>a b. le a b \<or> le b a"
  shows "sorted_wrt le (sort_by le xs)"
  by (induction xs) (simp_all add: sort_by_def sorted_insert_by [of le, OF assms])

text \<open>Bytewise comparison of strings.\<close>

fun str_le :: "string \<Rightarrow> string \<Rightarrow> bool" where
  "str_le [] t = True"
| "str_le (c # cs) [] = False"
| "str_le (c # cs) (d # ds) = ((of_char c :: nat) < of_char d \<or> c = d \<and> str_le cs ds)"

lemma str_le_total: "str_le s t \<or> str_le t s"
proof (induction s t rule: str_le.induct)
  case (3 c cs d ds)
  then show ?case by (cases "(of_char c :: nat) < of_char d"; cases "(of_char d :: nat) < of_char c") (auto simp: not_less)
qed simp_all

lemma str_le_trans: "str_le s t \<Longrightarrow> str_le t u \<Longrightarrow> str_le s u"
proof (induction s t arbitrary: u rule: str_le.induct)
  case (3 c cs d ds)
  then show ?case by (cases u) auto
qed simp_all

end
