(* ===== verification/Decider_Types.thy ===== *)
theory Decider_Types
  imports F64 Plan_Json
begin

text \<open>
  The requests and responses of the decider service (\<open>src/decider/types.rs\<close>): questions, the decoding of
  responses in their several shapes, \<open>normalize_choices\<close>, which turns the option texts a server answers
  with into numbers, and \<open>validate\<close>. \<open>anyhow\<close> errors are the text they display, the outermost context.
\<close>

section \<open>Libraries\<close>

text \<open>
  \<open>serde_json\<close> beyond \<open>json_ops\<close>: \<open>as_bool\<close>, \<open>is_null\<close>, \<open>is_number\<close>, \<open>Display\<close>, \<open>as_f64\<close> (every number of a JSON
  text is finite), a number from an \<open>f64\<close> and the entries of an object in the order of its map; the two
  decoders of \<open>base64\<close>, of which only success matters.
\<close>

record 'v libs =
  li_json :: "'v json_ops"
  li_as_bool :: "'v \<Rightarrow> bool option"
  li_is_null :: "'v \<Rightarrow> bool"
  li_is_number :: "'v \<Rightarrow> bool"
  li_display :: "'v \<Rightarrow> string"
  li_as_f64 :: "'v \<Rightarrow> rat option"
  li_f64 :: "rat \<Rightarrow> 'v"
  li_entries :: "'v \<Rightarrow> (string \<times> 'v) list option"
  li_parse :: "string \<Rightarrow> 'v option"
  li_base64 :: "string \<Rightarrow> bool"
  li_base64_no_pad :: "string \<Rightarrow> bool"

text \<open>\<open>json!\<close> of an \<open>f64\<close>, \<open>null\<close> when it is not finite, and of an \<open>Option\<close> of one.\<close>

fun f64_value :: "'v libs \<Rightarrow> f64 \<Rightarrow> 'v" where
  "f64_value L (Finite q) = li_f64 L q"
| "f64_value L _ = j_null (li_json L)"

text \<open>
  \<open>parse\<close> of an unsigned integer of so many bits: an optional plus sign and digits; and \<open>usize\<close>.
\<close>

definition parse_uint :: "nat \<Rightarrow> string \<Rightarrow> nat option" where
  "parse_uint bits s =
     (let ds = (case s of [] \<Rightarrow> [] | c # cs \<Rightarrow> if c = CHR ''+'' then cs else s)
      in if ds = [] \<or> \<not> list_all is_digit ds \<or> (2 :: int) ^ bits \<le> int (read_nat ds) then None else Some (read_nat ds))"

abbreviation parse_usize :: "string \<Rightarrow> nat option" where
  "parse_usize \<equiv> parse_uint 64"

text \<open>The members of a struct, from an object or from an array.\<close>

definition struct_of :: "'v libs \<Rightarrow> 'v \<Rightarrow> 'v fields option" where
  "struct_of L v =
     (case j_as_array (li_json L) v of
        Some vs \<Rightarrow> Some (Listed vs)
      | None \<Rightarrow> if li_entries L v = None then None else Some (Named v))"

definition nullable :: "'v libs \<Rightarrow> ('v \<Rightarrow> 'a option) \<Rightarrow> 'v \<Rightarrow> 'a option option" where
  "nullable L dec v = (if li_is_null L v then Some None else map_option Some (dec v))"

definition f64_of :: "'v libs \<Rightarrow> 'v \<Rightarrow> f64 option" where
  "f64_of L v = map_option Finite (li_as_f64 L v)"

section \<open>Questions\<close>

record decider_question =
  dq_question :: string
  dq_options :: "string list"

definition decider_question_new :: "string \<Rightarrow> string list \<Rightarrow> decider_question" where
  "decider_question_new q opts = \<lparr>dq_question = q, dq_options = opts\<rparr>"

definition blank :: "string \<Rightarrow> bool" where
  "blank s = (str_trim s = [])"

fun first_blank :: "nat \<Rightarrow> string list \<Rightarrow> nat option" where
  "first_blank i [] = None"
| "first_blank i (s # ss) = (if blank s then Some i else first_blank (i + 1) ss)"

definition question_validate :: "decider_question \<Rightarrow> string + unit" where
  "question_validate q =
     (let n = length (dq_options q); named = ''question '' @ [CHR 0x27] @ dq_question q @ [CHR 0x27] in
      if n = 0 then Inl (named @ '' has no options'')
      else if 255 < n then Inl (named @ '' has '' @ show_nat n @ '' options, exceeds max 255'')
      else (case first_blank 0 (dq_options q) of
              Some i \<Rightarrow> Inl (named @ '' option '' @ show_nat (i + 1) @ '' is empty'')
            | None \<Rightarrow> Inr ()))"

definition option_ids :: "decider_question \<Rightarrow> string list" where
  "option_ids q = map show_nat [1..<length (dq_options q) + 1]"

definition choice_text :: "decider_question \<Rightarrow> string \<Rightarrow> string option" where
  "choice_text q choice =
     (case parse_usize choice of
        None \<Rightarrow> None
      | Some i \<Rightarrow> if i = 0 \<or> length (dq_options q) < i then None else Some (dq_options q ! (i - 1)))"

definition question_of_value :: "'v libs \<Rightarrow> 'v \<Rightarrow> decider_question option" where
  "question_of_value L v =
     (case struct_of L v of
        None \<Rightarrow> None
      | Some fs \<Rightarrow>
          if fits 2 fs then
            app (app (Some decider_question_new) (required (j_as_str (li_json L)) (field (li_json L) fs 0 [''question''])))
              (required (strs_value (li_json L)) (field (li_json L) fs 1 [''options'']))
          else None)"

definition is_valid_option_id :: "string \<Rightarrow> nat \<Rightarrow> bool" where
  "is_valid_option_id s n = (case parse_usize s of None \<Rightarrow> False | Some v \<Rightarrow> 1 \<le> v \<and> v \<le> n \<and> n \<le> 255)"

section \<open>Images\<close>

definition strip_data_uri :: "string \<Rightarrow> string" where
  "strip_data_uri s =
     (case str_find '','' s of
        None \<Rightarrow> s
      | Some comma \<Rightarrow>
          let prefix = take comma s in
          if is_prefix_of ''data:'' prefix \<and> str_contains prefix ''base64'' then drop (comma + 1) s else s)"

definition validate_image_field :: "'v libs \<Rightarrow> string \<Rightarrow> string + unit" where
  "validate_image_field L s =
     (let b64 = strip_data_uri s in
      if blank b64 then Inl ''image field is empty after stripping data URI prefix''
      else let cleaned = filter (\<lambda>c. \<not> is_ws c) b64 in
           if li_base64 L cleaned \<or> li_base64_no_pad L cleaned then Inr ()
           else Inl ''image field is not valid base64 (or data URI base64)'')"

section \<open>Requests\<close>

record decider_request =
  dr_context :: string
  dr_questions :: "decider_question list"
  dr_image :: "string option"
  dr_temperature :: "f64 option"

definition decider_request_new :: "string \<Rightarrow> decider_question list \<Rightarrow> decider_request" where
  "decider_request_new c qs = \<lparr>dr_context = c, dr_questions = qs, dr_image = None, dr_temperature = None\<rparr>"

definition with_image :: "string \<Rightarrow> decider_request \<Rightarrow> decider_request" where
  "with_image s r = (if blank s then r\<lparr>dr_image := None\<rparr> else r\<lparr>dr_image := Some s\<rparr>)"

definition with_temperature :: "f64 \<Rightarrow> decider_request \<Rightarrow> decider_request" where
  "with_temperature t r = r\<lparr>dr_temperature := Some t\<rparr>"

fun validate_all :: "('a \<Rightarrow> string + unit) \<Rightarrow> 'a list \<Rightarrow> string + unit" where
  "validate_all f [] = Inr ()"
| "validate_all f (x # xs) = try_then (f x) (\<lambda>_. validate_all f xs)"

definition request_validate :: "'v libs \<Rightarrow> decider_request \<Rightarrow> string + unit" where
  "request_validate L r =
     (if dr_questions r = [] then Inl ''DeciderRequest has no questions''
      else try_then (validate_all question_validate (dr_questions r)) (\<lambda>_.
        case dr_image r of None \<Rightarrow> Inr () | Some img \<Rightarrow> validate_image_field L img))"

definition image_b64 :: "decider_request \<Rightarrow> string option" where
  "image_b64 r = map_option strip_data_uri (dr_image r)"

definition question_to_value :: "'v json_ops \<Rightarrow> decider_question \<Rightarrow> 'v" where
  "question_to_value J q = j_obj J [(''question'', j_str J (dq_question q)), (''options'', j_strs J (dq_options q))]"

text \<open>The members of the serialized request; \<open>image\<close> and \<open>temperature\<close> are left out when absent.\<close>

definition request_members :: "'v libs \<Rightarrow> decider_request \<Rightarrow> (string \<times> 'v) list" where
  "request_members L r =
     (let J = li_json L in
      [(''context'', j_str J (dr_context r)), (''questions'', j_arr J (map (question_to_value J) (dr_questions r)))]
      @ (case dr_image r of None \<Rightarrow> [] | Some img \<Rightarrow> [(''image'', j_str J img)])
      @ (case dr_temperature r of None \<Rightarrow> [] | Some t \<Rightarrow> [(''temperature'', f64_value L t)]))"

definition request_of_value :: "'v libs \<Rightarrow> 'v \<Rightarrow> decider_request option" where
  "request_of_value L v =
     (let J = li_json L; strings = nullable L (j_as_str J) in
      case struct_of L v of
        None \<Rightarrow> None
      | Some fs \<Rightarrow>
          if fits 4 fs then
            app (app (app (app (Some (\<lambda>c qs i t. \<lparr>dr_context = unwrap_or [] c, dr_questions = qs, dr_image = i, dr_temperature = t\<rparr>))
              (defaulted None strings (field J fs 0 [''context'', ''state''])))
              (defaulted [] (\<lambda>x. Option.bind (j_as_array J x) (\<lambda>xs. all_some (map (question_of_value L) xs))) (field J fs 1 [''questions''])))
              (defaulted None strings (field J fs 2 [''image''])))
              (defaulted None (nullable L (\<lambda>x. map_option round_f32 (li_as_f64 L x))) (field J fs 3 [''temperature'']))
          else None)"

section \<open>Decisions\<close>

record decision =
  dc_choice :: string
  dc_confidence :: "f64 option"
  dc_probabilities :: "(string, f64) hashmap option"

text \<open>\<open>de_choice_string\<close>: a string or an integer.\<close>

definition choice_of_value :: "'v libs \<Rightarrow> 'v \<Rightarrow> string option" where
  "choice_of_value L v =
     (case j_as_str (li_json L) v of
        Some s \<Rightarrow> Some s
      | None \<Rightarrow>
          (case j_as_u64 (li_json L) v of
             Some n \<Rightarrow> Some (show_u64 n)
           | None \<Rightarrow> map_option show_i64 (j_as_i64 (li_json L) v)))"

definition probabilities_of_value :: "'v libs \<Rightarrow> 'v \<Rightarrow> (string, f64) hashmap option" where
  "probabilities_of_value L v =
     Option.bind (li_entries L v) (\<lambda>kvs. all_some (map (\<lambda>(k, x). map_option (Pair k) (f64_of L x)) kvs))"

definition decision_of_value :: "'v libs \<Rightarrow> 'v \<Rightarrow> decision option" where
  "decision_of_value L v =
     (let J = li_json L in
      case struct_of L v of
        None \<Rightarrow> None
      | Some fs \<Rightarrow>
          if fits 3 fs then
            app (app (app (Some (\<lambda>c p ps. \<lparr>dc_choice = c, dc_confidence = p, dc_probabilities = ps\<rparr>))
              (required (choice_of_value L) (field J fs 0 [''choice''])))
              (defaulted None (nullable L (f64_of L)) (field J fs 1 [''confidence''])))
              (defaulted None (nullable L (probabilities_of_value L)) (field J fs 2 [''probabilities'']))
          else None)"

text \<open>\<open>s.parse::<usize>().map(|v| v >= 1 && v <= n).unwrap_or(false)\<close>.\<close>

definition numeric_id :: "nat \<Rightarrow> string \<Rightarrow> bool" where
  "numeric_id n s = (case parse_usize s of None \<Rightarrow> False | Some v \<Rightarrow> 1 \<le> v \<and> v \<le> n)"

definition quoted :: "string \<Rightarrow> string" where
  "quoted s = [CHR 0x27] @ s @ [CHR 0x27]"

text \<open>The probabilities of a map are checked in its iteration order.\<close>

fun check_finite :: "bool \<Rightarrow> (string \<times> f64) list \<Rightarrow> string + unit" where
  "check_finite keys [] = Inr ()"
| "check_finite keys ((k, v) # kvs) =
     (if keys \<and> blank k then Inl ''probabilities has empty key''
      else if \<not> is_finite v then Inl (''probabilities['' @ k @ ''] is non-finite: '' @ special_text v)
      else check_finite keys kvs)"

definition decision_validate ::
  "((string \<times> f64) list \<Rightarrow> (string \<times> f64) list) \<Rightarrow> decider_question option \<Rightarrow> decision \<Rightarrow> string + unit" where
  "decision_validate ord question d =
     try_then
       (case question of
          Some q \<Rightarrow>
            let n = length (dq_options q); known = (\<lambda>s. numeric_id n s \<or> s \<in> set (dq_options q)) in
            if \<not> known (dc_choice d) then
              Inl (''invalid choice '' @ quoted (dc_choice d) @ '' for question '' @ quoted (dq_question q) @ '' (options: ''
                @ show_nat n @ '', expected ID 1..'' @ show_nat n @ '' or exact option text)'')
            else (case dc_probabilities d of
                    None \<Rightarrow> Inr ()
                  | Some probs \<Rightarrow>
                      (case find (\<lambda>k. \<not> known k) (map fst (ord probs)) of
                         Some k \<Rightarrow> Inl (''probabilities key '' @ quoted k @ '' invalid for question '' @ quoted (dq_question q)
                           @ '' (expected 1..'' @ show_nat n @ '' or option text)'')
                       | None \<Rightarrow> check_finite False (ord probs)))
        | None \<Rightarrow>
            if blank (dc_choice d) then Inl ''decision choice is empty''
            else (case dc_probabilities d of None \<Rightarrow> Inr () | Some probs \<Rightarrow> check_finite True (ord probs)))
       (\<lambda>_. case dc_confidence d of
          None \<Rightarrow> Inr ()
        | Some c \<Rightarrow> if is_finite c then Inr () else Inl (''confidence is non-finite: '' @ special_text c))"

definition choice_index :: "decision \<Rightarrow> nat option" where
  "choice_index d = parse_usize (dc_choice d)"

section \<open>Responses\<close>

record 'v decider_response =
  rp_decisions :: "decision list"
  rp_model :: "string option"
  rp_device :: "string option"
  rp_latency_ms :: "nat option"
  rp_usage :: "'v option"

text \<open>The number a key of the answers map ends with; a key without one comes last.\<close>

definition answer_key_rank :: "string \<Rightarrow> nat \<times> nat" where
  "answer_key_rank k =
     (let tail = rev (takeWhile is_digit (rev k)) in
      if tail = [] then (1, 0) else (case parse_uint 64 tail of Some n \<Rightarrow> (0, n) | None \<Rightarrow> (1, 0)))"

definition answer_key_le :: "string \<Rightarrow> string \<Rightarrow> bool" where
  "answer_key_le a b =
     (case (answer_key_rank a, answer_key_rank b) of ((p, m), (q, n)) \<Rightarrow>
        p < q \<or> p = q \<and> (m < n \<or> m = n \<and> str_le a b))"

definition decisions_of_array :: "'v libs \<Rightarrow> 'v list \<Rightarrow> decision list" where
  "decisions_of_array L vs = unwrap_or [] (all_some (map (decision_of_value L) vs))"

definition decisions_of_answers :: "'v libs \<Rightarrow> (string \<times> 'v) list \<Rightarrow> decision list" where
  "decisions_of_answers L kvs =
     List.map_filter (\<lambda>k. Option.bind (map_of kvs k) (decision_of_value L)) (sort_by answer_key_le (map fst kvs))"

text \<open>\<open>v.get(a).or_else(|| v.get(b))..\<close>.\<close>

fun first_of :: "'v json_ops \<Rightarrow> 'v \<Rightarrow> string list \<Rightarrow> 'v option" where
  "first_of J v [] = None"
| "first_of J v (k # ks) = or_else (j_get J v k) (first_of J v ks)"

definition response_decisions :: "'v libs \<Rightarrow> 'v \<Rightarrow> decision list" where
  "response_decisions L v =
     (let J = li_json L in
      case first_of J v [''decisions'', ''results'', ''choices'', ''answers''] of
        Some d \<Rightarrow>
          (case j_as_array J d of
             Some arr \<Rightarrow> decisions_of_array L arr
           | None \<Rightarrow> (case li_entries L d of Some kvs \<Rightarrow> decisions_of_answers L kvs | None \<Rightarrow> []))
      | None \<Rightarrow>
          (case j_get J v ''data'' of
             Some data \<Rightarrow>
               (case Option.bind (first_of J data [''decisions'', ''results'']) (j_as_array J) of
                  Some arr \<Rightarrow> decisions_of_array L arr
                | None \<Rightarrow> [])
           | None \<Rightarrow> []))"

text \<open>A latency in milliseconds from a number, a float (rounded half away from zero, clamped to a \<open>u64\<close>) or a string.\<close>

definition latency_of_value :: "'v libs \<Rightarrow> 'v \<Rightarrow> nat option" where
  "latency_of_value L x =
     (let J = li_json L in
      case j_as_u64 J x of
        Some n \<Rightarrow> Some (unat n)
      | None \<Rightarrow>
          (case j_as_i64 J x of
             Some n \<Rightarrow> Some (nat (max 0 (sint n)))
           | None \<Rightarrow>
               (case li_as_f64 L x of
                  Some f \<Rightarrow> Some (nat (min (2 ^ 64 - 1) \<lfloor>max 0 f + 1 / 2\<rfloor>))
                | None \<Rightarrow> Option.bind (j_as_str J x) (parse_uint 64))))"

definition response_of_value :: "'v libs \<Rightarrow> 'v \<Rightarrow> 'v decider_response" where
  "response_of_value L v =
     (let J = li_json L in
      \<lparr>rp_decisions = response_decisions L v,
       rp_model = get_str J v ''model'',
       rp_device = Option.bind (first_of J v [''device'', ''device_name'', ''device_type'']) (j_as_str J),
       rp_latency_ms = Option.bind (first_of J v [''latency_ms'', ''latency'', ''took_ms'', ''elapsed_ms'', ''duration_ms'']) (latency_of_value L),
       rp_usage = j_get J v ''usage''\<rparr>)"

section \<open>Normalizing and validating\<close>

fun position :: "'a \<Rightarrow> 'a list \<Rightarrow> nat option" where
  "position x [] = None"
| "position x (y # ys) = (if x = y then Some 0 else map_option Suc (position x ys))"

definition normalize_key :: "decider_question \<Rightarrow> string \<Rightarrow> string" where
  "normalize_key q k = (case position k (dq_options q) of Some pos \<Rightarrow> show_nat (pos + 1) | None \<Rightarrow> k)"

definition normalize_decision ::
  "((string \<times> f64) list \<Rightarrow> (string \<times> f64) list) \<Rightarrow> decider_question \<Rightarrow> decision \<Rightarrow> decision" where
  "normalize_decision ord q d =
     (let d1 = (if numeric_id (length (dq_options q)) (dc_choice d) then d
                else d\<lparr>dc_choice := normalize_key q (dc_choice d)\<rparr>)
      in case dc_probabilities d1 of
           None \<Rightarrow> d1
         | Some probs \<Rightarrow> d1\<lparr>dc_probabilities := Some (foldl (\<lambda>m (k, v). hm_insert (normalize_key q k) v m) [] (ord probs))\<rparr>)"

text \<open>Decisions beyond the questions are left alone.\<close>

fun normalize_list ::
  "((string \<times> f64) list \<Rightarrow> (string \<times> f64) list) \<Rightarrow> decision list \<Rightarrow> decider_question list \<Rightarrow> decision list" where
  "normalize_list ord (d # ds) (q # qs) = normalize_decision ord q d # normalize_list ord ds qs"
| "normalize_list ord ds _ = ds"

definition normalize_choices ::
  "((string \<times> f64) list \<Rightarrow> (string \<times> f64) list) \<Rightarrow> decider_question list \<Rightarrow> 'v decider_response \<Rightarrow> 'v decider_response" where
  "normalize_choices ord qs r = r\<lparr>rp_decisions := normalize_list ord (rp_decisions r) qs\<rparr>"

definition response_validate ::
  "((string \<times> f64) list \<Rightarrow> (string \<times> f64) list) \<Rightarrow> decider_question list option \<Rightarrow> 'v decider_response \<Rightarrow> string + unit" where
  "response_validate ord questions r =
     (case questions of
        Some qs \<Rightarrow>
          if length (rp_decisions r) \<noteq> length qs then
            Inl (''response decisions count '' @ show_nat (length (rp_decisions r)) @ '' != questions count '' @ show_nat (length qs))
          else validate_all (\<lambda>(d, q). decision_validate ord (Some q) d) (zip (rp_decisions r) qs)
      | None \<Rightarrow> validate_all (decision_validate ord None) (rp_decisions r))"

section \<open>Numbers as choices\<close>

lemma is_digit_digit_char: "d < 10 \<Longrightarrow> is_digit (digit_char d)"
  by (simp add: is_digit_def of_digit_char)

lemma digits_show_nat: "list_all is_digit (show_nat n)"
  using set_show_nat [of n] by (auto simp: list_all_iff is_digit_digit_char dest!: subsetD)

lemma parse_uint_show_nat [simp]: "parse_uint bits (show_nat n) = (if n < 2 ^ bits then Some n else None)"
proof -
  obtain c cs where s: "show_nat n = c # cs" using show_nat_nonempty [of n] by (cases "show_nat n") auto
  then have "is_digit c" using digits_show_nat [of n] by simp
  then have "c \<noteq> CHR ''+''" by (auto simp: is_digit_def)
  moreover have "(2 :: int) ^ bits \<le> int n \<longleftrightarrow> 2 ^ bits \<le> n" by (metis of_nat_le_iff of_nat_numeral of_nat_power)
  ultimately show ?thesis using digits_show_nat [of n] read_nat_show_nat [of n] by (simp add: parse_uint_def Let_def s)
qed

lemma position_Some: "position x ys = Some i \<Longrightarrow> i < length ys \<and> ys ! i = x"
  by (induction ys arbitrary: i) (auto split: if_splits)

lemma position_None: "position x ys = None \<longleftrightarrow> x \<notin> set ys"
  by (induction ys) auto

lemma validate_all_Inr: "validate_all f xs = Inr u \<longleftrightarrow> (\<forall>x \<in> set xs. f x = Inr ())"
  by (induction xs) (auto simp: try_then_Inr)

lemma length_normalize_list [simp]: "length (normalize_list ord ds qs) = length ds"
  by (induction ord ds qs rule: normalize_list.induct) simp_all

lemma nth_normalize_list:
  "i < length ds \<Longrightarrow> i < length qs \<Longrightarrow> normalize_list ord ds qs ! i = normalize_decision ord (qs ! i) (ds ! i)"
  by (induction ord ds qs arbitrary: i rule: normalize_list.induct) (auto simp: nth_Cons split: nat.splits)

lemma choice_normalize_decision:
  "dc_choice (normalize_decision ord q d) =
     (if numeric_id (length (dq_options q)) (dc_choice d) then dc_choice d else normalize_key q (dc_choice d))"
  by (simp add: normalize_decision_def Let_def split: option.splits)

lemma question_validate_Inr:
  "question_validate q = Inr () \<longleftrightarrow> 0 < length (dq_options q) \<and> length (dq_options q) \<le> 255 \<and> first_blank 0 (dq_options q) = None"
  by (auto simp: question_validate_def Let_def split: option.splits)

lemma numeric_choice_text: "numeric_id (length (dq_options q)) s \<Longrightarrow> \<exists>k. parse_usize s = Some k \<and> 1 \<le> k \<and> k \<le> length (dq_options q)
    \<and> choice_text q s = Some (dq_options q ! (k - 1))"
  by (auto simp: numeric_id_def choice_text_def split: option.splits)

lemma normalize_key_names:
  assumes "s \<in> set (dq_options q)" "length (dq_options q) < 2 ^ 64"
  shows "\<exists>k. 1 \<le> k \<and> k \<le> length (dq_options q) \<and> normalize_key q s = show_nat k \<and> dq_options q ! (k - 1) = s"
proof -
  obtain pos where pos: "position s (dq_options q) = Some pos" using assms(1) position_None [of s] by blast
  then show ?thesis using position_Some [OF pos] assms(2) by (auto simp: normalize_key_def intro!: exI [of _ "pos + 1"])
qed

text \<open>
  The choice of a validated response. When the questions are valid and the response passes \<open>validate\<close>
  after \<open>normalize_choices\<close>, every choice is the decimal number of an option, the choice text is that
  option, and it is the option the server named: its number when the server answered with a number in
  range, its exact text when it answered with a text.
\<close>

lemma normalized_choice_names_option:
  assumes "response_validate ord (Some qs) (normalize_choices ord qs r) = Inr ()"
    and "validate_all question_validate qs = Inr ()" and "i < length qs"
  defines "q \<equiv> qs ! i" and "c \<equiv> dc_choice (rp_decisions r ! i)"
    and "c' \<equiv> dc_choice (rp_decisions (normalize_choices ord qs r) ! i)"
  shows "\<exists>k. parse_usize c' = Some k \<and> 1 \<le> k \<and> k \<le> length (dq_options q) \<and> choice_text q c' = Some (dq_options q ! (k - 1))
      \<and> (if numeric_id (length (dq_options q)) c then c' = c else dq_options q ! (k - 1) = c)"
proof -
  let ?n = "length (dq_options q)"
  have len: "length (rp_decisions r) = length qs"
    using assms(1) by (simp add: response_validate_def normalize_choices_def split: if_splits)
  then have i: "rp_decisions (normalize_choices ord qs r) ! i = normalize_decision ord q (rp_decisions r ! i)"
    using assms(3) by (simp add: normalize_choices_def nth_normalize_list q_def)
  have "decision_validate ord (Some q) (normalize_decision ord q (rp_decisions r ! i)) = Inr ()"
    using assms(1,3) len i [symmetric] unfolding response_validate_def option.case q_def
    by (auto simp: validate_all_Inr set_zip normalize_choices_def split: if_splits)
  then have v: "numeric_id ?n c' \<or> c' \<in> set (dq_options q)"
    unfolding c'_def i by (auto simp: decision_validate_def Let_def try_then_Inr split: if_splits)
  have n: "?n < 2 ^ 64"
    using assms(2,3) by (auto simp: validate_all_Inr question_validate_Inr q_def dest!: bspec [of _ _ "qs ! i"])
  have c': "c' = (if numeric_id ?n c then c else normalize_key q c)"
    unfolding c'_def i c_def choice_normalize_decision ..
  show ?thesis
  proof (cases "numeric_id ?n c")
    case True
    then show ?thesis using numeric_choice_text [OF True] c' by auto
  next
    case False
    have "c \<in> set (dq_options q)"
      using v False unfolding c' by (cases "position c (dq_options q)") (auto simp: normalize_key_def position_None dest: position_Some)
    then obtain k where k: "1 \<le> k" "k \<le> ?n" "c' = show_nat k" "dq_options q ! (k - 1) = c"
      using normalize_key_names [OF _ n] c' False by auto
    moreover have "k < 2 ^ 64" using k(2) n by linarith
    moreover from this have "numeric_id ?n c'" using k by (simp add: numeric_id_def)
    ultimately show ?thesis using numeric_choice_text [of q c'] False by auto
  qed
qed

definition fruit :: decider_question where
  "fruit = \<lparr>dq_question = ''pick'', dq_options = [''apple'', ''banana'']\<rparr>"

definition banana :: "json decider_response" where
  "banana = \<lparr>rp_decisions = [\<lparr>dc_choice = ''banana'', dc_confidence = Some (Finite (1 / 2)),
       dc_probabilities = Some [(''apple'', Finite (1 / 4)), (''banana'', Finite (1 / 2))]\<rparr>],
     rp_model = None, rp_device = None, rp_latency_ms = Some 257, rp_usage = None\<rparr>"

lemma fruit_normalized: "normalize_choices (\<lambda>m. m) [fruit] banana =
    banana\<lparr>rp_decisions := [\<lparr>dc_choice = ''2'', dc_confidence = Some (Finite (1 / 2)),
      dc_probabilities = Some [(''1'', Finite (1 / 4)), (''2'', Finite (1 / 2))]\<rparr>]\<rparr>"
  by code_simp

lemma banana_is_two:
  "\<exists>k. parse_usize ''2'' = Some k \<and> 1 \<le> k \<and> k \<le> length (dq_options fruit) \<and> dq_options fruit ! (k - 1) = ''banana''"
proof -
  have v: "response_validate (\<lambda>m. m) (Some [fruit]) (normalize_choices (\<lambda>m. m) [fruit] banana) = Inr ()"
    "validate_all question_validate [fruit] = Inr ()" "\<not> numeric_id (length (dq_options fruit)) ''banana''"
    by code_simp+
  show ?thesis
    using normalized_choice_names_option [OF v(1,2), of 0] v(3) unfolding fruit_normalized
    by (auto simp: banana_def)
qed

text \<open>
  An option that is itself a number is misread: the service answers with the text of the first option, 2,
  which is taken for the number of the second one, while the probabilities are renumbered as texts.
\<close>

lemma numeral_option_misread:
  "let q = \<lparr>dq_question = ''how many'', dq_options = [''2'', ''1'']\<rparr>;
       d = normalize_decision (\<lambda>m. m) q \<lparr>dc_choice = ''2'', dc_confidence = None,
             dc_probabilities = Some [(''2'', Finite (3 / 4)), (''1'', Finite (1 / 4))]\<rparr>
   in choice_text q (dc_choice d) = Some ''1'' \<and> Option.bind (dc_probabilities d) (\<lambda>m. hm_get m ''1'') = Some (Finite (3 / 4))"
  by code_simp

text \<open>The answers of a map come in the order of the numbers their keys end with.\<close>

lemma answer_keys_sorted: "sorted_wrt answer_key_le (sort_by answer_key_le ks)"
proof (rule sorted_sort_by)
  show "answer_key_le a b \<or> answer_key_le b a" for a b
    using str_le_total [of a b] by (auto simp: answer_key_le_def split: prod.splits)
  show "answer_key_le a b \<Longrightarrow> answer_key_le b c \<Longrightarrow> answer_key_le a c" for a b c
    using str_le_trans [of a b c] by (auto simp: answer_key_le_def split: prod.splits)
qed

lemma answer_keys_sample: "sort_by answer_key_le [''q1'', ''q10'', ''q2'', ''x''] = [''q1'', ''q2'', ''q10'', ''x'']"
  by code_simp

lemma strip_data_uri_payload: "strip_data_uri (''data:image/png;base64,'' @ s) = s"
  by (simp add: strip_data_uri_def Let_def)

end
