(* ===== verification/Candidates.thy ===== *)
theory Candidates
  imports Decider_Types
begin

text \<open>
  The candidates the decider chooses from (\<open>src/decider/candidates.rs\<close>): rectangles of \<open>i32\<close> words, the texts
  shown as options, the collection sorted by id with its label maps, the filters, and the groups of at most
  10 (vision) or 255 (text) options with the way back from a choice to an id. A \<open>usize\<close> is a natural
  number; where a sum of them may pass 64 bits the wrap-around is written out.
\<close>

definition vision_max_options :: nat where "vision_max_options = 10"

definition text_max_options :: nat where "text_max_options = 255"

section \<open>Rectangles\<close>

type_synonym i32 = "32 word"

record rect =
  rc_x :: i32
  rc_y :: i32
  rc_width :: i32
  rc_height :: i32

definition rect_new :: "i32 \<Rightarrow> i32 \<Rightarrow> i32 \<Rightarrow> i32 \<Rightarrow> rect" where
  "rect_new x y w h = \<lparr>rc_x = x, rc_y = y, rc_width = w, rc_height = h\<rparr>"

definition rect_is_empty :: "rect \<Rightarrow> bool" where
  "rect_is_empty r = (rc_width r \<le>s 0 \<or> rc_height r \<le>s 0)"

definition rect_area :: "rect \<Rightarrow> i64" where
  "rect_area r = scast (rc_width r) * scast (rc_height r)"

definition s_max :: "i32 \<Rightarrow> i32 \<Rightarrow> i32" where
  "s_max a b = (if a \<le>s b then b else a)"

definition s_min :: "i32 \<Rightarrow> i32 \<Rightarrow> i32" where
  "s_min a b = (if a \<le>s b then a else b)"

text \<open>The sums wrap: the release profile has no overflow checks.\<close>

definition rect_overlaps :: "rect \<Rightarrow> rect \<Rightarrow> bool" where
  "rect_overlaps a b =
     (let x1 = s_max (rc_x a) (rc_x b); y1 = s_max (rc_y a) (rc_y b);
          x2 = s_min (rc_x a + rc_width a) (rc_x b + rc_width b);
          y2 = s_min (rc_y a + rc_height a) (rc_y b + rc_height b)
      in x1 <s x2 \<and> y1 <s y2)"

definition rect_contains :: "rect \<Rightarrow> i32 \<Rightarrow> i32 \<Rightarrow> bool" where
  "rect_contains r px py =
     (rc_x r \<le>s px \<and> px <s rc_x r + rc_width r \<and> rc_y r \<le>s py \<and> py <s rc_y r + rc_height r)"

definition show_i32 :: "i32 \<Rightarrow> string" where
  "show_i32 w = show_i64 (scast w)"

section \<open>Candidates\<close>

record candidate =
  cd_id :: u32
  cd_label :: string
  cd_tag :: string
  cd_role :: string
  cd_name :: string
  cd_text :: string
  cd_rect :: rect
  cd_visible :: bool
  cd_enabled :: bool
  cd_selector :: string
  cd_target_id :: "string option"
  cd_url :: "string option"
  cd_title :: "string option"

text \<open>\<open>s.chars().take(n)\<close>: continuation bytes belong to the character before them.\<close>

definition is_continuation :: "char \<Rightarrow> bool" where
  "is_continuation c = (128 \<le> (of_char c :: nat) \<and> (of_char c :: nat) < 192)"

fun take_chars :: "nat \<Rightarrow> string \<Rightarrow> string" where
  "take_chars n [] = []"
| "take_chars n (c # cs) =
     (if is_continuation c then c # take_chars n cs else if n = 0 then [] else c # take_chars (n - 1) cs)"

definition truncate_text :: "string \<Rightarrow> nat \<Rightarrow> string" where
  "truncate_text s m = (if length s \<le> m then s else take_chars (m - 3) s @ ''...'')"

definition normalize_text :: "string \<Rightarrow> string" where
  "normalize_text s = to_lowercase (str_join '' '' (split_whitespace s))"

definition display_text :: "candidate \<Rightarrow> string" where
  "display_text c =
     (let primary = (if cd_name c \<noteq> [] then cd_name c else cd_text c) in
      str_join '' ''
        ((if cd_role c \<noteq> [] then [''['' @ cd_role c @ '']''] else [])
         @ (if cd_tag c \<noteq> [] then [''<'' @ cd_tag c @ ''>''] else [])
         @ (if primary \<noteq> [] then [truncate_text primary 80]
            else if cd_selector c \<noteq> [] then [truncate_text (cd_selector c) 40] else [])
         @ [''id='' @ show_nat (unat (cd_id c)) @ '' label='' @ cd_label c @ '' @'' @ show_i32 (rc_x (cd_rect c)) @ '',''
            @ show_i32 (rc_y (cd_rect c)) @ '' '' @ show_i32 (rc_width (cd_rect c)) @ ''x'' @ show_i32 (rc_height (cd_rect c))]))"

definition vision_text :: "candidate \<Rightarrow> string" where
  "vision_text c =
     (let s = (if cd_name c \<noteq> [] then truncate_text (cd_name c) 60
               else if cd_text c \<noteq> [] then truncate_text (cd_text c) 60
               else cd_role c @ '' '' @ cd_tag c)
      in if length s < 60 \<and> cd_label c \<noteq> [] then s @ '' ('' @ cd_label c @ '')'' else s)"

definition has_valid_geometry :: "candidate \<Rightarrow> bool" where
  "has_valid_geometry c = (\<not> rect_is_empty (cd_rect c) \<and> 0 <s rc_width (cd_rect c) \<and> 0 <s rc_height (cd_rect c))"

definition in_viewport :: "rect \<Rightarrow> candidate \<Rightarrow> bool" where
  "in_viewport vp c = rect_overlaps (cd_rect c) vp"

definition normalized_text :: "candidate \<Rightarrow> string" where
  "normalized_text c = normalize_text (cd_text c)"

definition normalized_name :: "candidate \<Rightarrow> string" where
  "normalized_name c = normalize_text (cd_name c)"

section \<open>The collection\<close>

record candidates =
  cs_candidates :: "candidate list"
  cs_label_to_id :: "(string, u32) hashmap"
  cs_id_to_label :: "(u32, string) hashmap"

definition candidates_new :: candidates where
  "candidates_new = \<lparr>cs_candidates = [], cs_label_to_id = [], cs_id_to_label = []\<rparr>"

definition map_labels :: "candidate list \<Rightarrow> (string, u32) hashmap \<times> (u32, string) hashmap" where
  "map_labels =
     foldl (\<lambda>(l, i) c. if cd_label c = [] then (l, i) else (hm_insert (cd_label c) (cd_id c) l, hm_insert (cd_id c) (cd_label c) i))
       ([], [])"

definition from_vec :: "candidate list \<Rightarrow> candidates" where
  "from_vec v =
     (let v = sort_key cd_id v; (l, i) = map_labels v in \<lparr>cs_candidates = v, cs_label_to_id = l, cs_id_to_label = i\<rparr>)"

definition cs_len :: "candidates \<Rightarrow> nat" where
  "cs_len cs = length (cs_candidates cs)"

definition cs_is_empty :: "candidates \<Rightarrow> bool" where
  "cs_is_empty cs = (cs_candidates cs = [])"

definition cs_get :: "u32 \<Rightarrow> candidates \<Rightarrow> candidate option" where
  "cs_get i cs = find (\<lambda>c. cd_id c = i) (cs_candidates cs)"

definition id_for_label :: "string \<Rightarrow> candidates \<Rightarrow> u32 option" where
  "id_for_label l cs = hm_get (cs_label_to_id cs) l"

definition get_by_label :: "string \<Rightarrow> candidates \<Rightarrow> candidate option" where
  "get_by_label l cs = Option.bind (hm_get (cs_label_to_id cs) l) (\<lambda>i. cs_get i cs)"

definition label_for_id :: "u32 \<Rightarrow> candidates \<Rightarrow> string option" where
  "label_for_id i cs = hm_get (cs_id_to_label cs) i"

definition cs_ids :: "candidates \<Rightarrow> u32 list" where
  "cs_ids cs = map cd_id (cs_candidates cs)"

definition ensure_within_limit :: "nat \<Rightarrow> candidates \<Rightarrow> string + unit" where
  "ensure_within_limit m cs =
     (if m < cs_len cs then
        Inl (''candidates count '' @ show_nat (cs_len cs) @ '' exceeds limit '' @ show_nat m
          @ '' (use hierarchical grouping or filtering '' @ em_dash @ '' never silently truncates)'')
      else Inr ())"

definition ensure_vision_limit :: "candidates \<Rightarrow> string + unit" where
  "ensure_vision_limit = ensure_within_limit vision_max_options"

definition ensure_text_limit :: "candidates \<Rightarrow> string + unit" where
  "ensure_text_limit = ensure_within_limit text_max_options"

section \<open>From a hint snapshot\<close>

text \<open>\<open>as i32\<close> keeps the low 32 bits.\<close>

definition int_member :: "'v libs \<Rightarrow> 'v \<Rightarrow> string \<Rightarrow> i64 option" where
  "int_member L v k = get_i64 (li_json L) v k"

definition parse_rect :: "'v libs \<Rightarrow> 'v \<Rightarrow> rect" where
  "parse_rect L v =
     rect_new
       (ucast (unwrap_or 0 (or_else (int_member L v ''x'') (int_member L v ''left''))))
       (ucast (unwrap_or 0 (or_else (int_member L v ''y'') (int_member L v ''top''))))
       (ucast (unwrap_or 0 (int_member L v ''width'')))
       (ucast (unwrap_or 0 (int_member L v ''height'')))"

definition candidate_of_hint ::
  "'v libs \<Rightarrow> string option \<Rightarrow> string option \<Rightarrow> string option \<Rightarrow> nat \<Rightarrow> 'v \<Rightarrow> candidate" where
  "candidate_of_hint L target url title idx h =
     (let J = li_json L;
          str = (\<lambda>k. unwrap_or [] (get_str J h k));
          flag = (\<lambda>k. unwrap_or True (Option.bind (j_get J h k) (li_as_bool L)));
          num = (\<lambda>k. ucast (unwrap_or 0 (int_member L h k)) :: i32);
          r = (case j_get J h ''rect'' of Some v \<Rightarrow> parse_rect L v | None \<Rightarrow> rect_new 0 0 0 0);
          rect = (if rect_is_empty r then
                    (if 0 <s num ''width'' \<or> 0 <s num ''height'' then rect_new (num ''x'') (num ''y'') (num ''width'') (num ''height'') else r)
                  else r)
      in \<lparr>cd_id = of_nat idx + 1, cd_label = str ''label'', cd_tag = str ''tag'', cd_role = str ''role'', cd_name = str ''name'',
          cd_text = str ''text'', cd_rect = rect, cd_visible = flag ''visible'', cd_enabled = flag ''enabled'',
          cd_selector = str ''selector'', cd_target_id = target, cd_url = url, cd_title = title\<rparr>)"

definition hints_of :: "'v libs \<Rightarrow> 'v \<Rightarrow> 'v list" where
  "hints_of L v =
     (case get_array (li_json L) v ''hints'' of
        Some hints \<Rightarrow> hints
      | None \<Rightarrow> (case j_as_array (li_json L) v of Some arr \<Rightarrow> arr | None \<Rightarrow> [v]))"

definition from_hint_snapshot ::
  "'v libs \<Rightarrow> 'v \<Rightarrow> string option \<Rightarrow> string option \<Rightarrow> string option \<Rightarrow> candidates" where
  "from_hint_snapshot L v target url title =
     from_vec (map (\<lambda>(i, h). candidate_of_hint L target url title i h) (enumerate 0 (hints_of L v)))"

definition from_hint_value :: "'v libs \<Rightarrow> 'v \<Rightarrow> candidates" where
  "from_hint_value L v = from_hint_snapshot L v None None None"

section \<open>Filters\<close>

definition filtered :: "(candidate \<Rightarrow> bool) \<Rightarrow> candidates \<Rightarrow> candidates" where
  "filtered P cs = from_vec (filter P (cs_candidates cs))"

definition filter_visible :: "candidates \<Rightarrow> candidates" where
  "filter_visible = filtered cd_visible"

definition filter_enabled :: "candidates \<Rightarrow> candidates" where
  "filter_enabled = filtered cd_enabled"

definition filter_non_empty_rect :: "candidates \<Rightarrow> candidates" where
  "filter_non_empty_rect = filtered has_valid_geometry"

definition filter_by_role :: "string \<Rightarrow> candidates \<Rightarrow> candidates" where
  "filter_by_role role = (let low = to_lowercase role in filtered (\<lambda>c. to_lowercase (cd_role c) = low))"

definition filter_by_tag :: "string \<Rightarrow> candidates \<Rightarrow> candidates" where
  "filter_by_tag tag = (let low = to_lowercase tag in filtered (\<lambda>c. to_lowercase (cd_tag c) = low))"

definition filter_by_text_exact :: "string \<Rightarrow> candidates \<Rightarrow> candidates" where
  "filter_by_text_exact t = filtered (\<lambda>c. cd_text c = t \<or> cd_name c = t)"

definition filter_by_text_normalized :: "string \<Rightarrow> candidates \<Rightarrow> candidates" where
  "filter_by_text_normalized t = (let n = normalize_text t in filtered (\<lambda>c. normalized_text c = n \<or> normalized_name c = n))"

definition filter_by_name_contains :: "string \<Rightarrow> candidates \<Rightarrow> candidates" where
  "filter_by_name_contains needle cs =
     (let n = normalize_text needle in
      if n = [] then cs else filtered (\<lambda>c. str_contains (normalized_name c) n \<or> str_contains (normalized_text c) n) cs)"

definition filter_viewport :: "rect \<Rightarrow> candidates \<Rightarrow> candidates" where
  "filter_viewport vp = filtered (in_viewport vp)"

definition filter_geometry :: "i32 \<Rightarrow> i32 \<Rightarrow> candidates \<Rightarrow> candidates" where
  "filter_geometry w h = filtered (\<lambda>c. w \<le>s rc_width (cd_rect c) \<and> h \<le>s rc_height (cd_rect c))"

definition keep_ids :: "u32 list \<Rightarrow> candidates \<Rightarrow> candidates" where
  "keep_ids ids = filtered (\<lambda>c. cd_id c \<in> set ids)"

definition filtered_for_budget :: "rect option \<Rightarrow> (i32 \<times> i32) option \<Rightarrow> candidates \<Rightarrow> candidates" where
  "filtered_for_budget viewport min_geometry cs =
     (let cur = filter_non_empty_rect (filter_enabled (filter_visible cs));
          cur = (case viewport of Some vp \<Rightarrow> filter_viewport vp cur | None \<Rightarrow> cur)
      in case min_geometry of Some (mw, mh) \<Rightarrow> filter_geometry mw mh cur | None \<Rightarrow> cur)"

record candidate_filter =
  cf_text_exact :: "string option"
  cf_text_normalized :: "string option"
  cf_name_contains :: "string option"
  cf_role :: "string option"
  cf_tag :: "string option"
  cf_visible :: "bool option"
  cf_enabled :: "bool option"
  cf_min_width :: "i32 option"
  cf_min_height :: "i32 option"
  cf_viewport :: "rect option"
  cf_ids :: "u32 list option"

text \<open>An absent field does not filter.\<close>

definition optionally :: "('a \<Rightarrow> bool) \<Rightarrow> 'a option \<Rightarrow> bool" where
  "optionally P x = (case x of None \<Rightarrow> True | Some y \<Rightarrow> P y)"

definition filter_matches :: "candidate_filter \<Rightarrow> candidate \<Rightarrow> bool" where
  "filter_matches f c =
     (optionally (\<lambda>t. cd_text c = t \<or> cd_name c = t) (cf_text_exact f)
      \<and> optionally (\<lambda>t. let n = normalize_text t in normalized_text c = n \<or> normalized_name c = n) (cf_text_normalized f)
      \<and> optionally (\<lambda>t. let n = normalize_text t in
           n = [] \<or> str_contains (normalized_name c) n \<or> str_contains (normalized_text c) n) (cf_name_contains f)
      \<and> optionally (\<lambda>r. to_lowercase (cd_role c) = to_lowercase r) (cf_role f)
      \<and> optionally (\<lambda>t. to_lowercase (cd_tag c) = to_lowercase t) (cf_tag f)
      \<and> optionally (\<lambda>v. cd_visible c = v) (cf_visible f)
      \<and> optionally (\<lambda>v. cd_enabled c = v) (cf_enabled f)
      \<and> optionally (\<lambda>mw. \<not> rc_width (cd_rect c) <s mw) (cf_min_width f)
      \<and> optionally (\<lambda>mh. \<not> rc_height (cd_rect c) <s mh) (cf_min_height f)
      \<and> optionally (\<lambda>vp. in_viewport vp c) (cf_viewport f)
      \<and> optionally (\<lambda>ids. cd_id c \<in> set ids) (cf_ids f))"

definition cs_filter :: "candidate_filter \<Rightarrow> candidates \<Rightarrow> candidates" where
  "cs_filter f = filtered (filter_matches f)"

section \<open>Groups\<close>

definition chunk_step :: "nat \<Rightarrow> candidate list list \<times> candidate list \<Rightarrow> candidate \<Rightarrow> candidate list list \<times> candidate list" where
  "chunk_step m acc c =
     (case acc of (groups, cur) \<Rightarrow>
        let cur = cur @ [c] in if m \<le> length cur then (groups @ [cur], []) else (groups, cur))"

definition chunks :: "nat \<Rightarrow> candidates \<Rightarrow> candidate list list" where
  "chunks m cs =
     (if m = 0 then []
      else let (groups, cur) = foldl (chunk_step m) ([], []) (cs_candidates cs)
           in if cur \<noteq> [] then groups @ [cur] else groups)"

definition chunks_for_text :: "candidates \<Rightarrow> candidate list list" where
  "chunks_for_text = chunks text_max_options"

definition chunks_for_vision :: "candidates \<Rightarrow> candidate list list" where
  "chunks_for_vision = chunks vision_max_options"

text \<open>The panic of a division by zero is \<^term>\<open>None\<close>.\<close>

definition hierarchical_call_count :: "nat \<Rightarrow> candidates \<Rightarrow> nat option" where
  "hierarchical_call_count m cs =
     (if cs_is_empty cs then Some 0
      else if m = 0 then None
      else Some (((cs_len cs + m) mod 2 ^ 64 + (2 ^ 64 - 1)) mod 2 ^ 64 div m))"

fun collect_winners :: "candidates \<Rightarrow> u32 list \<Rightarrow> u32 list \<Rightarrow> candidate list" where
  "collect_winners cs seen [] = []"
| "collect_winners cs seen (i # is) =
     (if i \<in> set seen then collect_winners cs seen is
      else (case cs_get i cs of Some c \<Rightarrow> [c] | None \<Rightarrow> []) @ collect_winners cs (i # seen) is)"

definition group_winners :: "u32 list \<Rightarrow> candidates \<Rightarrow> candidates" where
  "group_winners ids cs = from_vec (sort_key cd_id (collect_winners cs [] ids))"

definition to_option_texts :: "candidates \<Rightarrow> string list" where
  "to_option_texts cs = map display_text (cs_candidates cs)"

definition to_vision_option_texts :: "candidates \<Rightarrow> string list" where
  "to_vision_option_texts cs = map vision_text (cs_candidates cs)"

text \<open>The question of a group; \<open>groups\<close> is the number of groups, \<open>unit_word\<close> the word for one.\<close>

definition group_question :: "string \<Rightarrow> string \<Rightarrow> string \<Rightarrow> nat \<Rightarrow> nat \<Rightarrow> string list \<Rightarrow> decider_question" where
  "group_question pre bare unit_word groups idx opts =
     decider_question_new
       ((if pre = [] then bare @ '' ('' @ unit_word @ '' '' else pre @ '' '' @ em_dash @ '' '' @ unit_word @ '' '')
        @ show_nat (idx + 1) @ ''/'' @ show_nat groups @ (if pre = [] then '')'' else [])) opts"

definition to_text_questions :: "string \<Rightarrow> candidates \<Rightarrow> decider_question list" where
  "to_text_questions pre cs =
     map (\<lambda>(idx, chunk). group_question pre ''Select the best match'' ''group'' ((cs_len cs + text_max_options - 1) div text_max_options)
            idx (map display_text chunk))
       (enumerate 0 (chunks_for_text cs))"

definition to_vision_questions :: "string \<Rightarrow> candidates \<Rightarrow> decider_question list" where
  "to_vision_questions pre cs =
     map (\<lambda>(idx, chunk). group_question pre ''Identify the highlighted element'' ''page'' ((cs_len cs + vision_max_options - 1) div vision_max_options)
            idx (map vision_text chunk))
       (enumerate 0 (chunks_for_vision cs))"

definition map_choice_to_global_id :: "nat \<Rightarrow> string \<Rightarrow> nat \<Rightarrow> candidates \<Rightarrow> u32 option" where
  "map_choice_to_global_id chunk_idx choice m cs =
     (case parse_usize choice of
        None \<Rightarrow> None
      | Some idx \<Rightarrow>
          if idx = 0 then None
          else let off = nat (int (chunk_idx * m + (idx - 1)) mod 2 ^ 64) in
               if off < cs_len cs then Some (cd_id (cs_candidates cs ! off)) else None)"

section \<open>The collection is kept in order\<close>

text \<open>A collection as the constructors build it.\<close>

definition cs_ok :: "candidates \<Rightarrow> bool" where
  "cs_ok cs = (sorted (cs_ids cs) \<and> cs = from_vec (cs_candidates cs))"

lemma candidates_from_vec [simp]: "cs_candidates (from_vec v) = sort_key cd_id v"
  by (simp add: from_vec_def Let_def split_def)

lemma from_vec_sort [simp]: "from_vec (sort_key cd_id v) = from_vec v"
proof -
  have "sort_key cd_id (sort_key cd_id v) = sort_key cd_id v"
    by (intro sort_key_id_if_sorted) simp
  then show ?thesis by (simp add: from_vec_def)
qed

lemma cs_ok_from_vec [simp]: "cs_ok (from_vec v)"
  by (simp add: cs_ok_def cs_ids_def)

lemma cs_ok_new [simp]: "cs_ok candidates_new"
  by (simp add: cs_ok_def cs_ids_def candidates_new_def from_vec_def map_labels_def)

lemma candidates_filtered [simp]: "cs_ok cs \<Longrightarrow> cs_candidates (filtered P cs) = filter P (cs_candidates cs)"
  by (simp add: filtered_def cs_ok_def cs_ids_def sorted_filter sort_key_id_if_sorted)

lemma cs_ok_filtered [simp]: "cs_ok (filtered P cs)"
  by (simp add: filtered_def)

lemma cs_ok_eqI: "cs_ok a \<Longrightarrow> cs_ok b \<Longrightarrow> cs_candidates a = cs_candidates b \<Longrightarrow> a = b"
  unfolding cs_ok_def by metis

lemma filtered_filtered: "cs_ok cs \<Longrightarrow> filtered P (filtered Q cs) = filtered (\<lambda>c. Q c \<and> P c) cs"
  by (intro cs_ok_eqI) (simp_all add: conj_commute)

lemma filtered_true: "cs_ok cs \<Longrightarrow> (\<And>c. c \<in> set (cs_candidates cs) \<Longrightarrow> P c) \<Longrightarrow> filtered P cs = cs"
  by (intro cs_ok_eqI) (simp_all add: filter_id_conv)

text \<open>The budget filter as one filter, and as a \<open>CandidateFilter\<close>: it keeps ids and order and drops nothing else.\<close>

definition budget_filter :: "rect option \<Rightarrow> (i32 \<times> i32) option \<Rightarrow> candidate \<Rightarrow> bool" where
  "budget_filter viewport min_geometry c =
     (cd_visible c \<and> cd_enabled c \<and> has_valid_geometry c \<and> optionally (\<lambda>vp. in_viewport vp c) viewport
      \<and> optionally (\<lambda>(w, h). w \<le>s rc_width (cd_rect c) \<and> h \<le>s rc_height (cd_rect c)) min_geometry)"

lemma budget_filter_exact:
  assumes "cs_ok cs"
  shows "filtered_for_budget viewport min_geometry cs = filtered (budget_filter viewport min_geometry) cs"
  using assms
  by (cases viewport; cases min_geometry)
    (auto simp: filtered_for_budget_def Let_def filter_visible_def filter_enabled_def filter_non_empty_rect_def
      filter_viewport_def filter_geometry_def filtered_filtered budget_filter_def optionally_def
      intro!: arg_cong [of _ _ "\<lambda>P. filtered P cs"])

lemma cs_get_Some: "cs_get i cs = Some c \<Longrightarrow> c \<in> set (cs_candidates cs) \<and> cd_id c = i"
  by (auto simp: cs_get_def find_Some_iff)

lemma get_by_label_in: "get_by_label l cs = Some c \<Longrightarrow> c \<in> set (cs_candidates cs)"
  by (auto simp: get_by_label_def bind_eq_Some_conv dest!: cs_get_Some)

section \<open>Groups cover the collection\<close>

text \<open>The groups as a recursion.\<close>

fun groups_of :: "nat \<Rightarrow> 'a list \<Rightarrow> 'a list list" where
  "groups_of m xs = (if m = 0 \<or> xs = [] then [] else take m xs # groups_of m (drop m xs))"

declare groups_of.simps [simp del]

lemma groups_of_Nil [simp]: "groups_of m [] = []" "groups_of 0 xs = []"
  by (simp_all add: groups_of.simps)

lemma groups_of_step: "0 < m \<Longrightarrow> xs \<noteq> [] \<Longrightarrow> groups_of m xs = take m xs # groups_of m (drop m xs)"
  by (simp add: groups_of.simps [of m xs])

lemma fold_groups:
  assumes "0 < m" "length cur < m"
  shows "(let (groups, cur') = foldl (chunk_step m) (gs, cur) xs in if cur' \<noteq> [] then groups @ [cur'] else groups)
    = gs @ groups_of m (cur @ xs)"
  using assms(2)
proof (induction xs arbitrary: gs cur)
  case Nil
  then show ?case using assms(1) by (cases "cur = []") (simp_all add: groups_of_step)
next
  case (Cons c xs)
  show ?case
  proof (cases "m \<le> length (cur @ [c])")
    case True
    then have "length (cur @ [c]) = m" using Cons.prems by simp
    then have "groups_of m ((cur @ [c]) @ xs) = (cur @ [c]) # groups_of m xs"
      using assms(1) by (subst groups_of_step) (simp_all del: append_assoc)
    then show ?thesis using True Cons.IH [of "[]" "gs @ [cur @ [c]]"] assms(1) by (simp add: chunk_step_def)
  next
    case False
    then show ?thesis using Cons.IH [of "cur @ [c]" gs] by (simp add: chunk_step_def)
  qed
qed

lemma chunks_eq: "chunks m cs = groups_of m (cs_candidates cs)"
  using fold_groups [of m "[]" "[]" "cs_candidates cs"] by (cases "m = 0") (simp_all add: chunks_def Let_def split_def)

lemma concat_groups: "0 < m \<Longrightarrow> concat (groups_of m xs) = xs"
  by (induction m xs rule: groups_of.induct) (subst groups_of.simps, simp)

lemma groups_size: "g \<in> set (groups_of m xs) \<Longrightarrow> 0 < length g \<and> length g \<le> m"
proof (induction m xs rule: groups_of.induct)
  case (1 m xs)
  then show ?case by (subst (asm) (2) groups_of.simps) (auto split: if_splits)
qed

lemma length_groups: "0 < m \<Longrightarrow> length (groups_of m xs) = (length xs + m - 1) div m"
proof (induction m xs rule: groups_of.induct)
  case (1 m xs)
  show ?case
  proof (cases "xs = []")
    case False
    have "length (groups_of m xs) = Suc ((length xs - m + m - 1) div m)"
      using 1 False by (simp add: groups_of_step)
    also have "\<dots> = (length xs + m - 1) div m"
    proof (cases "length xs \<le> m")
      case True
      have "(length xs + m - 1) div m = Suc ((length xs - 1) div m)"
        using False 1(2) by (cases xs) (simp_all add: div_add_self2 flip: add_Suc)
      then show ?thesis using True False 1(2) by (cases xs) simp_all
    next
      case f: False
      then have "(length xs + m - 1) div m = Suc ((length xs - 1) div m)"
        using False 1(2) by (cases xs) (simp_all add: div_add_self2 flip: add_Suc)
      then show ?thesis using f by simp
    qed
    finally show ?thesis .
  qed (use 1(2) in simp)
qed

lemma nth_groups:
  "i < length (groups_of m xs) \<Longrightarrow> j < length (groups_of m xs ! i) \<Longrightarrow>
     i * m + j < length xs \<and> groups_of m xs ! i ! j = xs ! (i * m + j)"
proof (induction m xs arbitrary: i rule: groups_of.induct)
  case (1 m xs)
  then have ne: "m \<noteq> 0 \<and> xs \<noteq> []" by (auto simp: groups_of.simps [of m xs] split: if_splits)
  then have s: "groups_of m xs = take m xs # groups_of m (drop m xs)" by (simp add: groups_of_step)
  show ?case
  proof (cases i)
    case 0
    then show ?thesis using 1(2,3) s by simp
  next
    case (Suc i')
    have "i' * m + j < length (drop m xs) \<and> groups_of m (drop m xs) ! i' ! j = drop m xs ! (i' * m + j)"
      using 1(1) [of i'] ne 1(2,3) s Suc by simp
    moreover from this have "m \<le> length xs" by (cases "m \<le> length xs") simp_all
    ultimately show ?thesis using s Suc by (simp add: algebra_simps less_diff_conv)
  qed
qed

text \<open>
  C29: Grouping loses nothing and a choice leads back. The groups of at most \<open>m\<close> candidates are non-empty, put
  together they are the collection in its order, there are as many as \<open>hierarchical_call_count\<close> announces,
  and the number of an option within a group is mapped back to the id of exactly that candidate.
\<close>

theorem groups_cover_and_map_back:
  assumes "0 < m" "cs_len cs + m < 2 ^ 64"
  shows "concat (chunks m cs) = cs_candidates cs \<and> (\<forall>g \<in> set (chunks m cs). g \<noteq> [] \<and> length g \<le> m)
    \<and> hierarchical_call_count m cs = Some (length (chunks m cs))
    \<and> (\<forall>i < length (chunks m cs). \<forall>j < length (chunks m cs ! i).
         map_choice_to_global_id i (show_nat (j + 1)) m cs = Some (cd_id (chunks m cs ! i ! j)))"
proof (intro conjI ballI allI impI)
  let ?xs = "cs_candidates cs"
  show "concat (chunks m cs) = ?xs" using assms(1) by (simp add: chunks_eq concat_groups)
  fix g assume g: "g \<in> set (chunks m cs)"
  show "g \<noteq> []" "length g \<le> m" using groups_size [OF g [unfolded chunks_eq]] by auto
next
  show "hierarchical_call_count m cs = Some (length (chunks m cs))"
  proof (cases "cs_is_empty cs")
    case False
    then have p: "0 < cs_len cs" by (simp add: cs_is_empty_def cs_len_def)
    have "cs_len cs + m + (2 ^ 64 - 1) = cs_len cs + m - 1 + 2 ^ 64" using p by (cases "cs_len cs") simp_all
    then have "(cs_len cs + m + (2 ^ 64 - 1)) mod 2 ^ 64 = (cs_len cs + m - 1 + 2 ^ 64) mod 2 ^ 64" by (rule arg_cong)
    also have "\<dots> = cs_len cs + m - 1" using assms(2) by simp
    finally show ?thesis
      using False assms by (simp add: hierarchical_call_count_def chunks_eq length_groups cs_len_def)
  qed (use assms(1) in \<open>simp add: hierarchical_call_count_def cs_is_empty_def chunks_eq\<close>)
next
  fix i j assume ij: "i < length (chunks m cs)" "j < length (chunks m cs ! i)"
  have n: "i * m + j < cs_len cs" "chunks m cs ! i ! j = cs_candidates cs ! (i * m + j)"
    using nth_groups [of i m "cs_candidates cs" j] ij by (simp_all add: chunks_eq cs_len_def)
  have jb: "j + 1 < 2 ^ 64" using n(1) assms by linarith
  have "i * m + j < 2 ^ 64" using n(1) assms(2) by linarith
  then have "int (i * m + j) < 2 ^ 64" by (metis of_nat_less_iff of_nat_numeral of_nat_power)
  then have "int (i * m + j) mod 2 ^ 64 = int (i * m + j)" by (intro mod_pos_pos_trivial) simp_all
  then have off: "nat (int (i * m + j) mod 2 ^ 64) = i * m + j" by (simp only: nat_int)
  show "map_choice_to_global_id i (show_nat (j + 1)) m cs = Some (cd_id (chunks m cs ! i ! j))"
    using jb n off by (simp add: map_choice_to_global_id_def Let_def)
qed

definition sample_candidate :: "nat \<Rightarrow> string \<Rightarrow> candidate" where
  "sample_candidate i name =
     \<lparr>cd_id = of_nat i, cd_label = [], cd_tag = ''button'', cd_role = ''button'', cd_name = name, cd_text = [],
      cd_rect = rect_new 0 0 10 10, cd_visible = True, cd_enabled = True, cd_selector = [], cd_target_id = None,
      cd_url = None, cd_title = None\<rparr>"

definition sample_three :: candidates where
  "sample_three = from_vec [sample_candidate 3 ''c'', sample_candidate 1 ''a'', sample_candidate 2 ''b'']"

theorem groups_cover_and_map_back_witness:
  "concat (chunks 2 sample_three) = cs_candidates sample_three \<and> hierarchical_call_count 2 sample_three = Some 2
   \<and> map_choice_to_global_id 1 (show_nat 1) 2 sample_three = Some 3"
proof -
  have l: "cs_len sample_three = 3" "chunks 2 sample_three = [[sample_candidate 1 ''a'', sample_candidate 2 ''b''], [sample_candidate 3 ''c'']]"
    by code_simp+
  show ?thesis using groups_cover_and_map_back [of 2 sample_three] unfolding l by (auto simp: sample_candidate_def dest!: spec [of _ 1])
qed

text \<open>A choice beyond the group is not refused: it names a candidate of the next group.\<close>

lemma choice_leaves_its_group:
  "chunks 2 sample_three ! 0 = [sample_candidate 1 ''a'', sample_candidate 2 ''b'']
   \<and> map_choice_to_global_id 0 ''3'' 2 sample_three = Some 3"
  by code_simp

text \<open>A snapshot gives the ids 1, 2, .. in the order of its hints.\<close>

lemma hint_ids:
  assumes "length (hints_of L v) < 2 ^ 32"
  shows "cs_ids (from_hint_snapshot L v t u ti) = map (\<lambda>i. of_nat (i + 1)) [0..<length (hints_of L v)]"
proof -
  let ?hs = "hints_of L v"
  let ?v = "map (\<lambda>(i, h). candidate_of_hint L t u ti i h) (enumerate 0 ?hs)"
  have id: "cd_id (candidate_of_hint L t u ti i h) = of_nat (i + 1)" for i h by (simp add: candidate_of_hint_def Let_def)
  have ids: "map cd_id ?v = map (\<lambda>i. of_nat (i + 1)) [0..<length ?hs]"
    by (rule nth_equalityI) (simp_all add: nth_enumerate_eq id)
  have "sorted (map (\<lambda>i. of_nat (i + 1) :: u32) [0..<length ?hs])"
    using assms by (auto simp: sorted_iff_nth_mono word_le_nat_alt unat_of_nat simp flip: of_nat_Suc)
  then have "sort_key cd_id ?v = ?v" using ids by (intro sort_key_id_if_sorted) simp
  then show ?thesis using ids by (simp add: cs_ids_def from_hint_snapshot_def)
qed

end
