(* ===== verification/Decider_Probe.thy ===== *)
theory Decider_Probe
  imports Candidates Transport
begin

text \<open>
  Whether the decider is used (\<open>src/decider/config.rs\<close>): the environment variables, the liveness probe (a
  raw HTTP request on each of three paths within one time budget) and its process-wide cache. The network,
  the clock and the variables are the record \<open>probe_env\<close> of functions on a world, the cell of the cache is
  state passed along; times are milliseconds.
\<close>

section \<open>Strings\<close>

text \<open>\<open>trim_end_matches(c)\<close>, \<open>trim_start_matches(c)\<close>, the last part of a \<open>split\<close>, and \<open>rfind(c)\<close>.\<close>

definition trim_end_of :: "char \<Rightarrow> string \<Rightarrow> string" where
  "trim_end_of c s = rev (dropWhile (\<lambda>x. x = c) (rev s))"

definition trim_start_of :: "char \<Rightarrow> string \<Rightarrow> string" where
  "trim_start_of c s = dropWhile (\<lambda>x. x = c) s"

definition after_last :: "char \<Rightarrow> string \<Rightarrow> string" where
  "after_last c s = rev (takeWhile (\<lambda>x. x \<noteq> c) (rev s))"

definition last_index :: "char \<Rightarrow> string \<Rightarrow> nat option" where
  "last_index c s = (if c \<in> set s then Some (length s - length (after_last c s) - 1) else None)"

text \<open>\<open>lines().next()\<close>: without the line feed and a carriage return before it.\<close>

definition first_line :: "string \<Rightarrow> string option" where
  "first_line s =
     (if s = [] then None
      else let l = takeWhile (\<lambda>c. c \<noteq> CHR 0x0A) s in
           Some (if length l < length s \<and> l \<noteq> [] \<and> last l = CHR 0x0D then butlast l else l))"

section \<open>The world of the probe\<close>

record probe_slot =
  ps_url :: string
  ps_up :: bool
  ps_detail :: string
  ps_at :: nat

record ('w, 'a, 's) probe_env =
  pe_var :: "'w \<Rightarrow> string \<Rightarrow> string option"
  pe_now :: "'w \<Rightarrow> nat"
  pe_ip :: "string \<Rightarrow> nat \<Rightarrow> 'a option"
  pe_lookup :: "string \<Rightarrow> nat \<Rightarrow> 'w \<Rightarrow> (string + 'a list) \<times> 'w"
  pe_addr_text :: "'a \<Rightarrow> string"
  pe_connect :: "'a \<Rightarrow> nat \<Rightarrow> 'w \<Rightarrow> (string + 's) \<times> 'w"
  pe_read_timeout :: "'s \<Rightarrow> nat \<Rightarrow> 'w \<Rightarrow> (string + unit) \<times> 'w"
  pe_write_timeout :: "'s \<Rightarrow> nat \<Rightarrow> 'w \<Rightarrow> (string + unit) \<times> 'w"
  pe_write :: "'s \<Rightarrow> string \<Rightarrow> 'w \<Rightarrow> (string + unit) \<times> 'w"
  pe_flush :: "'s \<Rightarrow> 'w \<Rightarrow> (string + unit) \<times> 'w"
  pe_read :: "'s \<Rightarrow> nat \<Rightarrow> 'w \<Rightarrow> (string + string) \<times> 'w"

definition default_probe_timeout :: nat where "default_probe_timeout = 400"
definition probe_ttl_up :: nat where "probe_ttl_up = 60000"
definition probe_ttl_down :: nat where "probe_ttl_down = 15000"

section \<open>Addresses\<close>

record probe_target =
  pt_host :: string
  pt_port :: nat
  pt_prefix :: string

definition authority :: "probe_target \<Rightarrow> string" where
  "authority t =
     (if str_contains (pt_host t) '':'' \<and> \<not> is_prefix_of ''['' (pt_host t)
      then ''['' @ pt_host t @ '']:'' @ show_nat (pt_port t) else pt_host t @ '':'' @ show_nat (pt_port t))"

text \<open>The error of \<open>parse::<u16>\<close>, which stops at the first digit that does not fit or is none.\<close>

fun digits_error :: "nat \<Rightarrow> string \<Rightarrow> string" where
  "digits_error acc [] = []"
| "digits_error acc (c # cs) =
     (if \<not> is_digit c then ''invalid digit found in string''
      else let n = 10 * acc + (of_char c - 48) in
           if 65536 \<le> int n then ''number too large to fit in target type'' else digits_error n cs)"

definition parse_int_error :: "string \<Rightarrow> string" where
  "parse_int_error s =
     (if s = [] then ''cannot parse integer from empty string''
      else if s = ''+'' then ''invalid digit found in string''
      else digits_error 0 (if hd s = CHR ''+'' then tl s else s))"

definition parse_port :: "string \<Rightarrow> string \<Rightarrow> string + nat" where
  "parse_port tail url =
     (let s = unwrap_or [] (strip_prefix '':'' tail) in
      if s = [] then Inr 80
      else (case parse_uint 16 s of
              Some p \<Rightarrow> Inr p
            | None \<Rightarrow> Inl (''bad port in '' @ url @ '': '' @ parse_int_error s)))"

definition split_host :: "string \<Rightarrow> string \<Rightarrow> string + string \<times> nat" where
  "split_host auth url =
     (case Option.bind (strip_prefix ''['' auth) (str_find '']'') of
        Some close \<Rightarrow>
          try_then (parse_port (drop (close + 2) auth) url) (\<lambda>port. Inr (take close (drop 1 auth), port))
      | None \<Rightarrow>
          (case last_index CHR '':'' auth of
             Some i \<Rightarrow> try_then (parse_port (drop i auth) url) (\<lambda>port. Inr (take i auth, port))
           | None \<Rightarrow> Inr (auth, 80)))"

definition parse_probe_url :: "string \<Rightarrow> string + probe_target" where
  "parse_probe_url url =
     (let trimmed = str_trim url in
      if trimmed = [] then Inl ''empty url''
      else
        try_then
          (case strip_prefix ''http://'' trimmed of
             Some r \<Rightarrow> Inr r
           | None \<Rightarrow>
               (case strip_prefix ''//'' trimmed of
                  Some r \<Rightarrow> Inr r
                | None \<Rightarrow>
                    if is_prefix_of ''https://'' trimmed then Inl ''https url not supported by the sync probe''
                    else if str_contains trimmed ''://'' then Inl (''unsupported scheme in '' @ trimmed)
                    else Inr trimmed))
          (\<lambda>rest.
             let (auth, path) = (case str_find ''/'' rest of
                                   Some i \<Rightarrow> (take i rest, trim_end_of CHR ''/'' (drop i rest))
                                 | None \<Rightarrow> (rest, []));
                 auth = after_last CHR ''@'' auth
             in if auth = [] then Inl (''no host in '' @ trimmed)
                else try_then (split_host auth trimmed) (\<lambda>(host, port).
                       Inr \<lparr>pt_host = host, pt_port = port, pt_prefix = path\<rparr>)))"

section \<open>One request\<close>

datatype probe_err = NotFound string | Fatal string

definition remaining :: "('w, 'a, 's) probe_env \<Rightarrow> nat \<Rightarrow> 'w \<Rightarrow> probe_err + nat" where
  "remaining E deadline w =
     (if pe_now E w < deadline then Inr (deadline - pe_now E w) else Inl (Fatal ''probe budget exhausted''))"

definition resolve_addrs :: "('w, 'a, 's) probe_env \<Rightarrow> probe_target \<Rightarrow> 'w \<Rightarrow> (probe_err + 'a list) \<times> 'w" where
  "resolve_addrs E t w =
     (case pe_ip E (pt_host t) (pt_port t) of
        Some a \<Rightarrow> (Inr [a], w)
      | None \<Rightarrow>
          (case pe_lookup E (pt_host t) (pt_port t) w of
             (Inr [], w) \<Rightarrow> (Inl (Fatal (pt_host t @ '' did not resolve'')), w)
           | (Inr as, w) \<Rightarrow> (Inr as, w)
           | (Inl e, w) \<Rightarrow> (Inl (Fatal (''resolve '' @ pt_host t @ '' failed: '' @ e)), w)))"

text \<open>\<open>status_line\<close>; the inner result of the source is always \<open>Ok\<close>.\<close>

definition status_line :: "string \<Rightarrow> nat option" where
  "status_line buf =
     (case first_line (utf8_lossy buf) of
        None \<Rightarrow> None
      | Some line \<Rightarrow>
          if \<not> is_prefix_of ''HTTP/'' line then None
          else (case split_whitespace line of _ # code # _ \<Rightarrow> parse_uint 16 code | _ \<Rightarrow> None))"

text \<open>The reads fill a buffer of 512 bytes until the status is there.\<close>

function read_status :: "('w, 'a, 's) probe_env \<Rightarrow> string \<Rightarrow> 's \<Rightarrow> string \<Rightarrow> 'w \<Rightarrow> (string + nat) \<times> 'w" where
  "read_status E path s buf w =
     (if 512 \<le> length buf then (Inl ''status line too long'', w)
      else (case pe_read E s (512 - length buf) w of
              (Inl e, w) \<Rightarrow> (Inl (''read '' @ path @ '' failed: '' @ e), w)
            | (Inr [], w) \<Rightarrow> (Inl ''connection closed before status line'', w)
            | (Inr (c # cs), w) \<Rightarrow>
                let buf = buf @ take (512 - length buf) (c # cs) in
                (case status_line buf of Some code \<Rightarrow> (Inr code, w) | None \<Rightarrow> read_status E path s buf w)))"
  by pat_completeness auto
termination
  by (relation "measure (\<lambda>(E, path, s, buf, w). 512 - length buf)") (auto simp: min_def)

declare read_status.simps [simp del]

definition crlf :: string where "crlf = [CHR 0x0D, CHR 0x0A]"

definition probe_request :: "probe_target \<Rightarrow> string \<Rightarrow> string" where
  "probe_request t path =
     ''GET '' @ path @ '' HTTP/1.1'' @ crlf @ ''Host: '' @ authority t @ crlf @ ''User-Agent: hyprfast-decider-probe'' @ crlf
     @ ''Accept: application/json'' @ crlf @ ''Connection: close'' @ crlf @ crlf"

text \<open>One connection: the status code or why there is none.\<close>

definition exchange :: "('w, 'a, 's) probe_env \<Rightarrow> probe_target \<Rightarrow> string \<Rightarrow> 'a \<Rightarrow> nat \<Rightarrow> 'w \<Rightarrow> (string + nat) \<times> 'w" where
  "exchange E t path a left w =
     (case pe_connect E a left w of
        (Inl e, w) \<Rightarrow> (Inl (''connect '' @ pe_addr_text E a @ '' failed: '' @ e), w)
      | (Inr s, w) \<Rightarrow>
      (case pe_read_timeout E s left w of
        (Inl e, w) \<Rightarrow> (Inl (''set_read_timeout failed: '' @ e), w)
      | (Inr _, w) \<Rightarrow>
      (case pe_write_timeout E s left w of
        (Inl e, w) \<Rightarrow> (Inl (''set_write_timeout failed: '' @ e), w)
      | (Inr _, w) \<Rightarrow>
      (case pe_write E s (probe_request t path) w of
        (Inl e, w) \<Rightarrow> (Inl (''write '' @ path @ '' failed: '' @ e), w)
      | (Inr _, w) \<Rightarrow>
      (case pe_flush E s w of
        (Inl e, w) \<Rightarrow> (Inl (''flush '' @ path @ '' failed: '' @ e), w)
      | (Inr _, w) \<Rightarrow> read_status E path s [] w)))))"

definition judge_status :: "string \<Rightarrow> nat \<Rightarrow> probe_err + unit" where
  "judge_status path code =
     (if 200 \<le> code \<and> code < 400 then Inr ()
      else if code = 404 then Inl (NotFound (path @ '' -> 404''))
      else Inl (Fatal (path @ '' -> HTTP '' @ show_nat code)))"

fun probe_addrs ::
  "('w, 'a, 's) probe_env \<Rightarrow> probe_target \<Rightarrow> string \<Rightarrow> nat \<Rightarrow> string option \<Rightarrow> 'a list \<Rightarrow> 'w \<Rightarrow> (probe_err + unit) \<times> 'w" where
  "probe_addrs E t path deadline seen [] w = (Inl (Fatal (unwrap_or ''no address'' seen)), w)"
| "probe_addrs E t path deadline seen (a # as) w =
     (case remaining E deadline w of
        Inl e \<Rightarrow> (Inl e, w)
      | Inr left \<Rightarrow>
          (case exchange E t path a left w of
             (Inl e, w) \<Rightarrow> probe_addrs E t path deadline (Some e) as w
           | (Inr code, w) \<Rightarrow> (judge_status path code, w)))"

definition probe_path :: "('w, 'a, 's) probe_env \<Rightarrow> probe_target \<Rightarrow> string \<Rightarrow> nat \<Rightarrow> 'w \<Rightarrow> (probe_err + unit) \<times> 'w" where
  "probe_path E t path deadline w =
     (case resolve_addrs E t w of
        (Inl e, w) \<Rightarrow> (Inl e, w)
      | (Inr as, w) \<Rightarrow> probe_addrs E t path deadline None as w)"

definition probe_paths :: "string list" where
  "probe_paths = [''/health'', ''/v1/health'', ''/'']"

fun sweep ::
  "('w, 'a, 's) probe_env \<Rightarrow> probe_target \<Rightarrow> nat \<Rightarrow> string option \<Rightarrow> string list \<Rightarrow> 'w \<Rightarrow> (string + unit) \<times> 'w" where
  "sweep E t deadline seen [] w = (Inl (unwrap_or ''no health endpoint'' seen), w)"
| "sweep E t deadline seen (path # paths) w =
     (let full = pt_prefix t @ path in
      case probe_path E t full deadline w of
        (Inr _, w) \<Rightarrow> (Inr (), w)
      | (Inl (NotFound status), w) \<Rightarrow> sweep E t deadline (Some (full @ '' -> '' @ status)) paths w
      | (Inl (Fatal msg), w) \<Rightarrow> (Inl msg, w))"

definition probe_health :: "('w, 'a, 's) probe_env \<Rightarrow> string \<Rightarrow> nat \<Rightarrow> 'w \<Rightarrow> (string + unit) \<times> 'w" where
  "probe_health E url timeout w =
     (case parse_probe_url url of
        Inl e \<Rightarrow> (Inl e, w)
      | Inr t \<Rightarrow> sweep E t (pe_now E w + timeout) None probe_paths w)"

section \<open>The cache\<close>

type_synonym 'w prober = "probe_slot option \<times> 'w"

definition slot_answer :: "('w, 'a, 's) probe_env \<Rightarrow> string \<Rightarrow> 'w prober \<Rightarrow> (string + unit) option" where
  "slot_answer E url st =
     (case fst st of
        None \<Rightarrow> None
      | Some slot \<Rightarrow>
          if ps_url slot = url \<and> pe_now E (snd st) - ps_at slot < (if ps_up slot then probe_ttl_up else probe_ttl_down)
          then Some (if ps_up slot then Inr () else Inl (ps_detail slot)) else None)"

text \<open>The cell is written after the probe, at the time it ended.\<close>

definition probe_health_cached ::
  "('w, 'a, 's) probe_env \<Rightarrow> string \<Rightarrow> nat \<Rightarrow> 'w prober \<Rightarrow> (string + unit) \<times> 'w prober" where
  "probe_health_cached E url timeout st =
     (case slot_answer E url st of
        Some r \<Rightarrow> (r, st)
      | None \<Rightarrow>
          (case probe_health E url timeout (snd st) of
             (r, w) \<Rightarrow>
               let (up, detail) = (case r of Inr _ \<Rightarrow> (True, ''ok'') | Inl e \<Rightarrow> (False, e)) in
               (if up then Inr () else Inl detail,
                (Some \<lparr>ps_url = url, ps_up = up, ps_detail = detail, ps_at = pe_now E w\<rparr>, w))))"

section \<open>Configuration\<close>

datatype enable_source = Explicit | HealthProbe

definition parse_bool :: "string \<Rightarrow> bool" where
  "parse_bool s = (to_lowercase (str_trim s) \<in> {''1'', ''true'', ''yes'', ''on'', ''y''})"

definition explicit_enabled :: "('w, 'a, 's) probe_env \<Rightarrow> 'w \<Rightarrow> bool option" where
  "explicit_enabled E w =
     (case pe_var E w ''DECIDER_ENABLED'' of None \<Rightarrow> None | Some v \<Rightarrow> if blank v then None else Some (parse_bool v))"

definition explicit_reason :: "('w, 'a, 's) probe_env \<Rightarrow> bool \<Rightarrow> 'w \<Rightarrow> string option" where
  "explicit_reason E enabled w =
     (if enabled then None
      else let raw = unwrap_or [] (pe_var E w ''DECIDER_ENABLED'') in
           Some (''decider disabled (DECIDER_ENABLED='' @ (if blank raw then ''0'' else str_trim raw) @ '')''))"

definition resolve_enabled ::
  "('w, 'a, 's) probe_env \<Rightarrow> string \<Rightarrow> 'w prober \<Rightarrow> (bool \<times> enable_source \<times> string option) \<times> 'w prober" where
  "resolve_enabled E url st =
     (case explicit_enabled E (snd st) of
        Some b \<Rightarrow> ((b, Explicit, explicit_reason E b (snd st)), st)
      | None \<Rightarrow>
          (case probe_health_cached E url default_probe_timeout st of
             (Inr _, st) \<Rightarrow> ((True, HealthProbe, None), st)
           | (Inl e, st) \<Rightarrow> ((False, HealthProbe, Some (''decider unavailable (health probe failed: '' @ e @ '')'')), st)))"

definition default_url :: string where "default_url = ''http://127.0.0.1:8001''"

definition env_url :: "('w, 'a, 's) probe_env \<Rightarrow> 'w \<Rightarrow> string" where
  "env_url E w =
     trim_end_of CHR ''/'' (str_trim
       (case pe_var E w ''DECIDER_URL'' of None \<Rightarrow> default_url | Some s \<Rightarrow> if blank s then default_url else s))"

definition disabled_reason :: "('w, 'a, 's) probe_env \<Rightarrow> 'w prober \<Rightarrow> string option \<times> 'w prober" where
  "disabled_reason E st = (case resolve_enabled E (env_url E (snd st)) st of ((_, _, reason), st) \<Rightarrow> (reason, st))"

definition off_reason :: "('w, 'a, 's) probe_env \<Rightarrow> 'w prober \<Rightarrow> string \<times> 'w prober" where
  "off_reason E st = (case disabled_reason E st of (reason, st) \<Rightarrow> (unwrap_or ''decider disabled'' reason, st))"

record decider_config =
  dg_enabled :: bool
  dg_url :: string
  dg_timeout :: nat
  dg_max_image_dim :: nat
  dg_temperature :: f64

definition decider_config_default :: decider_config where
  "decider_config_default =
     \<lparr>dg_enabled = False, dg_url = default_url, dg_timeout = 5000, dg_max_image_dim = 1280, dg_temperature = Finite 1\<rparr>"

definition with_url :: "string \<Rightarrow> decider_config \<Rightarrow> decider_config" where
  "with_url url c = c\<lparr>dg_url := trim_end_of CHR ''/'' url\<rparr>"

definition with_timeout :: "nat \<Rightarrow> decider_config \<Rightarrow> decider_config" where
  "with_timeout t c = c\<lparr>dg_timeout := t\<rparr>"

text \<open>\<open>parse::<f32>\<close>: a sign, then \<open>inf\<close>, \<open>infinity\<close>, \<open>nan\<close> or digits with a point and an exponent.\<close>

definition parse_decimal :: "string \<Rightarrow> rat option" where
  "parse_decimal s =
     (let whole = takeWhile is_digit s; s1 = dropWhile is_digit s;
          (frac, s2) = (case s1 of c # cs \<Rightarrow> if c = CHR ''.'' then (takeWhile is_digit cs, dropWhile is_digit cs) else ([], s1)
                                 | [] \<Rightarrow> ([], []));
          mantissa = rat_of_nat (read_nat (whole @ frac)) / 10 ^ length frac
      in if whole = [] \<and> frac = [] then None
         else (case s2 of
                 [] \<Rightarrow> Some mantissa
               | c # cs \<Rightarrow>
                   let (neg, ds) = (case cs of d # ds \<Rightarrow> if d = CHR ''-'' then (True, ds) else if d = CHR ''+'' then (False, ds) else (False, cs)
                                             | [] \<Rightarrow> (False, []))
                   in if (c = CHR ''e'' \<or> c = CHR ''E'') \<and> ds \<noteq> [] \<and> list_all is_digit ds
                      then Some (if neg then mantissa / 10 ^ read_nat ds else mantissa * 10 ^ read_nat ds) else None))"

definition parse_f32 :: "string \<Rightarrow> f64 option" where
  "parse_f32 s =
     (let (neg, t) = (case s of c # cs \<Rightarrow> if c = CHR ''-'' then (True, cs) else if c = CHR ''+'' then (False, cs) else (False, s)
                             | [] \<Rightarrow> (False, []));
          v = (if to_lowercase t \<in> {''inf'', ''infinity''} then Some PosInf
               else if to_lowercase t = ''nan'' then Some NaN
               else map_option round_f32 (parse_decimal t))
      in if neg then map_option f64_neg v else v)"

definition config_from_env :: "('w, 'a, 's) probe_env \<Rightarrow> 'w prober \<Rightarrow> decider_config \<times> 'w prober" where
  "config_from_env E st =
     (let url = env_url E (snd st) in
      case resolve_enabled E url st of
        ((enabled, _, _), (cell, w)) \<Rightarrow>
          (\<lparr>dg_enabled = enabled, dg_url = url,
            dg_timeout = unwrap_or 5000 (Option.bind (pe_var E w ''DECIDER_TIMEOUT_MS'') (parse_uint 64)),
            dg_max_image_dim = max 1 (unwrap_or 1280 (Option.bind (pe_var E w ''DECIDER_MAX_IMAGE_DIM'') (parse_uint 32))),
            dg_temperature = unwrap_or (Finite 1) (Option.bind (pe_var E w ''DECIDER_TEMPERATURE'') parse_f32)\<rparr>, (cell, w)))"

section \<open>Addresses read back\<close>

text \<open>
  A target as \<open>parse_probe_url\<close> produces it: a host without the characters that end one (a colon only in an
  IPv6 address, which is put in brackets), a \<open>u16\<close> port, and a path that does not end with a slash.
\<close>

definition plain_host :: "string \<Rightarrow> bool" where
  "plain_host h = (h \<noteq> [] \<and> (\<forall>c \<in> set h. c \<notin> {CHR ''/'', CHR ''@'', CHR ''['', CHR '']''} \<and> \<not> is_ws c))"

definition plain_path :: "string \<Rightarrow> bool" where
  "plain_path p = (p = [] \<or> hd p = CHR ''/'' \<and> last p \<noteq> CHR ''/'' \<and> \<not> is_ws (last p))"

definition plain_target :: "probe_target \<Rightarrow> bool" where
  "plain_target t = (plain_host (pt_host t) \<and> pt_port t < 2 ^ 16 \<and> plain_path (pt_prefix t))"

lemma str_find_char: "str_find [c] s = (if c \<in> set s then Some (length (takeWhile (\<lambda>x. x \<noteq> c) s)) else None)"
  by (induction s) auto

lemma str_contains_char: "str_contains s [c] \<longleftrightarrow> c \<in> set s"
  by (induction s) auto

lemma takeWhile_absent:
  "c \<notin> set s \<Longrightarrow> takeWhile (\<lambda>x. x \<noteq> c) s = s" "c \<notin> set s \<Longrightarrow> takeWhile (\<lambda>x. x \<noteq> c) (s @ c # r) = s"
  by (induction s) auto

lemma after_last_absent: "c \<notin> set s \<Longrightarrow> after_last c s = s"
  by (simp add: after_last_def takeWhile_absent)

lemma after_last_mid: "c \<notin> set b \<Longrightarrow> after_last c (a @ c # b) = b"
  by (simp add: after_last_def takeWhile_absent)

lemma last_index_mid: "c \<notin> set b \<Longrightarrow> last_index c (a @ c # b) = Some (length a)"
  by (simp add: last_index_def after_last_mid)

lemma set_digits: "c \<in> set (show_nat n) \<Longrightarrow> is_digit c"
  using digits_show_nat [of n] by (simp add: list_all_iff)

lemma digits_apart: "is_digit c \<Longrightarrow> c \<notin> {CHR '':'', CHR ''/'', CHR ''@'', CHR ''['', CHR '']'', CHR ''+''} \<and> \<not> is_ws c"
  by (auto simp: is_digit_def is_ws_def)

lemma parse_port_show: "p < 2 ^ 16 \<Longrightarrow> parse_port ('':'' @ show_nat p) url = Inr p"
  by (simp add: parse_port_def strip_prefix_def)

lemma split_authority:
  assumes "plain_host (pt_host t)" "pt_port t < 2 ^ 16"
  shows "split_host (authority t) url = Inr (pt_host t, pt_port t)"
proof -
  let ?h = "pt_host t" and ?p = "show_nat (pt_port t)"
  obtain c h where h: "?h = c # h" using assms(1) by (cases ?h) (auto simp: plain_host_def)
  have no: "c \<noteq> CHR ''[''" "CHR '']'' \<notin> set ?h" using assms(1) h by (auto simp: plain_host_def)
  have port: "CHR '':'' \<notin> set ?p" using set_digits digits_apart by blast
  show ?thesis
  proof (cases "CHR '':'' \<in> set ?h")
    case True
    have a: "authority t = ''['' @ ?h @ '']:'' @ ?p" using True no h by (simp add: authority_def str_contains_char)
    have f: "str_find '']'' (?h @ '']:'' @ ?p) = Some (length ?h)" using no(2) by (simp add: str_find_char takeWhile_absent)
    show ?thesis
      using f assms(2) by (simp add: split_host_def a strip_prefix_def parse_port_show [simplified])
  next
    case False
    have a: "authority t = ?h @ '':'' @ ?p" using False by (simp add: authority_def str_contains_char)
    have "last_index CHR '':'' (authority t) = Some (length ?h)" using last_index_mid [OF port, of ?h] by (simp add: a)
    moreover have "strip_prefix ''['' (authority t) = None" using no(1) h by (simp add: a strip_prefix_def)
    ultimately show ?thesis using assms(2) by (simp add: split_host_def a parse_port_show [simplified])
  qed
qed

text \<open>
  C38: Probe addresses round trip. The URL written from a target, with the scheme \<open>http\<close> or without one, its
  \<open>authority\<close> (IPv6 hosts in brackets) and its path, is read back as that target; further slashes at the
  end make no difference.
\<close>

theorem probe_url_roundtrip:
  assumes "plain_target t"
  shows "parse_probe_url (''http://'' @ authority t @ pt_prefix t @ replicate n CHR ''/'') = Inr t
    \<and> parse_probe_url (''//'' @ authority t @ pt_prefix t @ replicate n CHR ''/'') = Inr t"
proof -
  let ?a = "authority t" and ?p = "pt_prefix t" and ?s = "replicate n CHR ''/''"
  have t: "plain_host (pt_host t)" "pt_port t < 2 ^ 16" "plain_path ?p" using assms by (simp_all add: plain_target_def)
  have ch: "c \<noteq> CHR ''/'' \<and> c \<noteq> CHR ''@'' \<and> \<not> is_ws c" if "c \<in> set ?a" for c
    using that t(1) set_digits digits_apart
    by (auto simp: authority_def plain_host_def is_ws_def split: if_splits)
  have ne: "?a \<noteq> []" by (simp add: authority_def)
  have path: "trim_end_of CHR ''/'' (?p @ ?s) = ?p"
  proof -
    have "dropWhile (\<lambda>x. x = CHR ''/'') (?s @ rev ?p) = rev ?p"
      using t(3) by (cases "?p = []") (auto simp: plain_path_def dropWhile_append dropWhile_eq_self_iff hd_rev)
    then show ?thesis by (simp add: trim_end_of_def)
  qed
  have rest: "(case str_find ''/'' (?a @ ?p @ ?s) of
                 Some i \<Rightarrow> (take i (?a @ ?p @ ?s), trim_end_of CHR ''/'' (drop i (?a @ ?p @ ?s)))
               | None \<Rightarrow> (?a @ ?p @ ?s, [])) = (?a, ?p)"
  proof (cases "?p @ ?s")
    case Nil
    then show ?thesis using ch by (auto simp: str_find_char)
  next
    case (Cons c cs)
    then have "c = CHR ''/''" using t(3) by (cases ?p; cases n) (auto simp: plain_path_def)
    moreover have "CHR ''/'' \<notin> set ?a" using ch by blast
    ultimately show ?thesis using Cons path by (simp add: str_find_char takeWhile_absent)
  qed
  have last: "\<not> is_ws (last (?a @ ?p @ ?s))"
  proof (cases "?p @ ?s = []")
    case True
    then show ?thesis using ch [of "last ?a"] ne by simp
  next
    case False
    then show ?thesis using t(3) by (cases n) (auto simp: plain_path_def last_append is_ws_def)
  qed
  have trim: "str_trim (h # x) = h # x" if "\<not> is_ws h" "\<not> is_ws (last (h # x))" for h x
    using that by (simp add: str_trim_def dropWhile_eq_self_iff hd_rev flip: rev.simps(2))
  have at: "after_last CHR ''@'' ?a = ?a" using ch by (intro after_last_absent) blast
  have tr: "str_trim (''http://'' @ ?a @ ?p @ ?s) = ''http://'' @ ?a @ ?p @ ?s" "str_trim (''//'' @ ?a @ ?p @ ?s) = ''//'' @ ?a @ ?p @ ?s"
    using trim last ne by (simp_all add: is_ws_def)
  have sp: "strip_prefix ''http://'' (''http://'' @ x) = Some x" "strip_prefix ''http://'' (''//'' @ x) = None"
    "strip_prefix ''//'' (''//'' @ x) = Some x" for x
    by (simp_all add: strip_prefix_def)
  show ?thesis
    unfolding parse_probe_url_def tr sp Let_def option.case try_then.simps rest prod.case at split_authority [OF t(1,2)]
    using ne by simp
qed

theorem probe_url_roundtrip_witness:
  "parse_probe_url ''http://[::1]:8001/api/'' = Inr \<lparr>pt_host = ''::1'', pt_port = 8001, pt_prefix = ''/api''\<rparr>"
proof -
  let ?t = "\<lparr>pt_host = ''::1'', pt_port = 8001, pt_prefix = ''/api''\<rparr>"
  have "digit_char 8 = CHR ''8''" "digit_char 0 = CHR ''0''" "digit_char (Suc 0) = CHR ''1''" by code_simp+
  then have "show_nat 8001 = ''8001''"
    by (simp add: show_nat.simps [of 8001] show_nat.simps [of 800] show_nat.simps [of 80] show_nat.simps [of 8])
  then have a: "authority ?t = ''[::1]:8001''" by (simp add: authority_def)
  show ?thesis using probe_url_roundtrip [of ?t 1]
    by (simp add: a plain_target_def plain_host_def plain_path_def is_ws_def)
qed

text \<open>What follows the bracket of an IPv6 host without a colon is dropped, and the port is 80.\<close>

lemma garbage_port_ignored:
  "parse_probe_url ''http://[::1]8001'' = Inr \<lparr>pt_host = ''::1'', pt_port = 80, pt_prefix = []\<rparr>"
  by code_simp

text \<open>
  A status line that arrives in pieces is read too early: of \<open>HTTP/1.1 200 OK\<close> cut after the first digit of
  the status the probe makes the code 2.
\<close>

lemma lossy_ascii: "list_all (\<lambda>c. (of_char c :: nat) < 128) s \<Longrightarrow> utf8_lossy s = s"
  by (induction s) (simp_all add: utf8_first_def utf8_tail_def)

lemma partial_status: "status_line ''HTTP/1.1 2'' = Some 2" "judge_status ''/health'' 2 = Inl (Fatal ''/health -> HTTP 2'')"
proof -
  have "utf8_lossy ''HTTP/1.1 2'' = ''HTTP/1.1 2''" by (rule lossy_ascii) simp
  moreover have "first_line ''HTTP/1.1 2'' = Some ''HTTP/1.1 2''" "split_whitespace ''HTTP/1.1 2'' = [''HTTP/1.1'', ''2'']"
    "parse_uint 16 ''2'' = Some 2" "show_nat 2 = ''2''" by code_simp+
  ultimately show "status_line ''HTTP/1.1 2'' = Some 2" "judge_status ''/health'' 2 = Inl (Fatal ''/health -> HTTP 2'')"
    by (simp_all add: status_line_def judge_status_def)
qed

section \<open>The cache holds\<close>


text \<open>A world that is its clock, where no host resolves.\<close>

definition dark_net :: "(nat, unit, unit) probe_env" where
  "dark_net = \<lparr>pe_var = (\<lambda>w k. None), pe_now = (\<lambda>w. w), pe_ip = (\<lambda>h p. None),
     pe_lookup = (\<lambda>h p w. (Inl ''no such host'', w + 5)), pe_addr_text = (\<lambda>a. []), pe_connect = (\<lambda>a t w. (Inl [], w)),
     pe_read_timeout = (\<lambda>s t w. (Inr (), w)), pe_write_timeout = (\<lambda>s t w. (Inr (), w)),
     pe_write = (\<lambda>s b w. (Inr (), w)), pe_flush = (\<lambda>s w. (Inr (), w)), pe_read = (\<lambda>s n w. (Inr [], w))\<rparr>"


end
