(* ===== verification/Decider_Client.thy ===== *)
theory Decider_Client
  imports Decider_Probe
begin

text \<open>
  The HTTP client of the decider service (\<open>src/decider/client.rs\<close>): \<open>decide\<close> with its three endpoints, its
  error paths and both sets of counters, the text and image forms, \<open>health\<close>, and a batch under the
  semaphore of four permits as interleaved steps. Sending is a function on the world; a response carries
  its status and what reading its body gives.
\<close>

section \<open>Counters\<close>

record decider_metrics =
  dm_request_count :: u64
  dm_success_count :: u64
  dm_error_count :: u64
  dm_total_latency_ms :: u64
  dm_timeout_count :: u64
  dm_connection_error_count :: u64
  dm_invalid_response_count :: u64

definition decider_metrics_new :: decider_metrics where
  "decider_metrics_new =
     \<lparr>dm_request_count = 0, dm_success_count = 0, dm_error_count = 0, dm_total_latency_ms = 0, dm_timeout_count = 0,
      dm_connection_error_count = 0, dm_invalid_response_count = 0\<rparr>"

definition dm_record :: "nat \<Rightarrow> bool \<Rightarrow> decider_metrics \<Rightarrow> decider_metrics" where
  "dm_record latency success m =
     (let m = m\<lparr>dm_request_count := dm_request_count m + 1, dm_total_latency_ms := dm_total_latency_ms m + of_nat latency\<rparr>
      in if success then m\<lparr>dm_success_count := dm_success_count m + 1\<rparr> else m\<lparr>dm_error_count := dm_error_count m + 1\<rparr>)"

definition dm_snapshot :: "'v json_ops \<Rightarrow> decider_metrics \<Rightarrow> 'v" where
  "dm_snapshot J m = j_obj J
     [(''request_count'', j_u64 J (dm_request_count m)), (''success_count'', j_u64 J (dm_success_count m)),
      (''error_count'', j_u64 J (dm_error_count m)), (''total_latency_ms'', j_u64 J (dm_total_latency_ms m)),
      (''timeout_count'', j_u64 J (dm_timeout_count m)), (''connection_error_count'', j_u64 J (dm_connection_error_count m)),
      (''invalid_response_count'', j_u64 J (dm_invalid_response_count m))]"

section \<open>Sending\<close>

datatype send_error = Send_timeout string | Send_connect string | Send_other string

record http_response =
  hr_status :: nat
  hr_body :: "string + string"

text \<open>\<open>ce_order\<close> is the iteration order of the probability maps.\<close>

record ('w, 'v) client_env =
  ce_libs :: "'v libs"
  ce_now :: "'w \<Rightarrow> nat"
  ce_post :: "string \<Rightarrow> 'v \<Rightarrow> 'w \<Rightarrow> (send_error + http_response) \<times> 'w"
  ce_fetch :: "string \<Rightarrow> 'w \<Rightarrow> (send_error + http_response) \<times> 'w"
  ce_status_text :: "nat \<Rightarrow> string"
  ce_order :: "(string \<times> f64) list \<Rightarrow> (string \<times> f64) list"

text \<open>The client's own counters, those of the process and the world.\<close>

record 'w client =
  cl_metrics :: decider_metrics
  cl_global :: decider_metrics
  cl_world :: 'w

definition on_metrics :: "(decider_metrics \<Rightarrow> decider_metrics) \<Rightarrow> 'w client \<Rightarrow> 'w client" where
  "on_metrics f c = c\<lparr>cl_metrics := f (cl_metrics c), cl_global := f (cl_global c)\<rparr>"

definition endpoint :: "decider_config \<Rightarrow> string \<Rightarrow> string" where
  "endpoint cfg path = trim_end_of CHR ''/'' (dg_url cfg) @ ''/'' @ trim_start_of CHR ''/'' path"

definition wire_request :: "'v libs \<Rightarrow> decider_config \<Rightarrow> decider_request \<Rightarrow> 'v" where
  "wire_request L cfg req =
     (let ms = request_members L req;
          ms = (if dr_temperature req = None \<and> dg_temperature cfg \<noteq> Finite 0
                then ms @ [(''temperature'', f64_value L (dg_temperature cfg))] else ms);
          ms = (case dr_image req of
                  Some img \<Rightarrow> if blank img then filter (\<lambda>(k, v). k \<noteq> ''image'') ms else ms
                | None \<Rightarrow> ms)
      in j_obj (li_json L) ms)"

definition elapsed :: "('w, 'v) client_env \<Rightarrow> nat \<Rightarrow> 'w client \<Rightarrow> nat" where
  "elapsed E t0 c = ce_now E (cl_world c) - t0"

text \<open>
  The loop over the endpoints: a 404 moves on unless it comes from the last one, a timeout or a failed
  connection ends the call, another error moves on. Without an answer the last 404 is taken, then the last
  error.
\<close>

fun try_urls ::
  "('w, 'v) client_env \<Rightarrow> decider_config \<Rightarrow> nat \<Rightarrow> 'v \<Rightarrow> http_response option \<Rightarrow> string option \<Rightarrow> string \<Rightarrow> string list
   \<Rightarrow> 'w client \<Rightarrow> (string + http_response \<times> string) \<times> 'w client" where
  "try_urls E cfg t0 wire last_resp last_err tried [] c =
     (case last_resp of
        Some r \<Rightarrow> (Inr (r, tried), c)
      | None \<Rightarrow> (Inl (unwrap_or ''decider no endpoint responded (tried predict/decide)'' last_err), c))"
| "try_urls E cfg t0 wire last_resp last_err tried (url # urls) c =
     (case ce_post E url wire (cl_world c) of
        (Inr r, w) \<Rightarrow>
          let c = c\<lparr>cl_world := w\<rparr> in
          if hr_status r = 404 \<and> urls \<noteq> [] then try_urls E cfg t0 wire (Some r) last_err url urls c
          else (Inr (r, url), c)
      | (Inl (Send_timeout e), w) \<Rightarrow>
          let c = c\<lparr>cl_world := w\<rparr>; ms = elapsed E t0 c in
          (Inl (''decider request timed out after '' @ show_nat (dg_timeout cfg) @ ''ms to '' @ url @ '': '' @ e),
           on_metrics (\<lambda>m. dm_record ms False (m\<lparr>dm_timeout_count := dm_timeout_count m + 1\<rparr>)) c)
      | (Inl (Send_connect e), w) \<Rightarrow>
          let c = c\<lparr>cl_world := w\<rparr>; ms = elapsed E t0 c in
          (Inl (''decider connection failed to '' @ url @ '': '' @ e),
           on_metrics (\<lambda>m. dm_record ms False (m\<lparr>dm_connection_error_count := dm_connection_error_count m + 1\<rparr>)) c)
      | (Inl (Send_other e), w) \<Rightarrow>
          try_urls E cfg t0 wire last_resp (Some (''decider request to '' @ url @ '' failed: '' @ e)) url urls (c\<lparr>cl_world := w\<rparr>))"

section \<open>\<open>decide\<close>\<close>

definition body_latency :: "'v libs \<Rightarrow> 'v \<Rightarrow> nat option" where
  "body_latency L v =
     Option.bind (first_of (li_json L) v [''latency_ms'', ''latency'', ''took_ms''])
       (\<lambda>x. or_else (map_option unat (j_as_u64 (li_json L) x)) (Option.bind (j_as_str (li_json L) x) (parse_uint 64)))"

text \<open>What becomes of the body of a successful response.\<close>

definition accept_body ::
  "('w, 'v) client_env \<Rightarrow> decider_request \<Rightarrow> nat \<Rightarrow> 'v \<Rightarrow> 'w client \<Rightarrow> (string + 'v decider_response) \<times> 'w client" where
  "accept_body E req ms parsed c =
     (let L = ce_libs E; remote = body_latency L parsed;
          typed = normalize_choices (ce_order E) (dr_questions req) (response_of_value L parsed);
          typed = (if rp_latency_ms typed = None then typed\<lparr>rp_latency_ms := or_else remote (Some ms)\<rparr> else typed)
      in case response_validate (ce_order E) (Some (dr_questions req)) typed of
           Inl e \<Rightarrow>
             (Inl (''decider invalid choice in response: '' @ e),
              on_metrics (\<lambda>m. dm_record ms False (m\<lparr>dm_invalid_response_count := dm_invalid_response_count m + 1\<rparr>)) c)
         | Inr _ \<Rightarrow>
             (Inr typed, c\<lparr>cl_metrics := dm_record ms True (cl_metrics c),
                           cl_global := dm_record (unwrap_or ms remote) True (cl_global c)\<rparr>))"

definition decide ::
  "('w, 'v) client_env \<Rightarrow> decider_config \<Rightarrow> decider_request \<Rightarrow> 'w client \<Rightarrow> (string + 'v decider_response) \<times> 'w client" where
  "decide E cfg req c =
     (case request_validate (ce_libs E) req of
        Inl e \<Rightarrow> (Inl ''decider request validation'', c)
      | Inr _ \<Rightarrow>
          let t0 = ce_now E (cl_world c); urls = map (endpoint cfg) [''predict'', ''decide'', ''v1/predict''] in
          (case try_urls E cfg t0 (wire_request (ce_libs E) cfg req) None None (hd urls) urls c of
             (Inl e, c) \<Rightarrow> (Inl e, c)
           | (Inr (resp, final_url), c) \<Rightarrow>
               let ms = elapsed E t0 c in
               (case hr_body resp of
                  Inl e \<Rightarrow> (Inl ''read decider response body'', c)
                | Inr bytes \<Rightarrow>
                    if \<not> (200 \<le> hr_status resp \<and> hr_status resp < 300) then
                      (Inl (''decider error '' @ ce_status_text E (hr_status resp) @ '' from '' @ final_url @ '': ''
                         @ take_chars 400 (utf8_lossy bytes)),
                       on_metrics (dm_record ms False) c)
                    else (case li_parse (ce_libs E) bytes of
                            None \<Rightarrow> (Inl ''decider response is not valid JSON'', c)
                          | Some parsed \<Rightarrow> accept_body E req ms parsed c))))"

definition decide_text ::
  "('w, 'v) client_env \<Rightarrow> decider_config \<Rightarrow> string \<Rightarrow> decider_question list \<Rightarrow> 'w client \<Rightarrow> (string + 'v decider_response) \<times> 'w client" where
  "decide_text E cfg context questions = decide E cfg (with_temperature (dg_temperature cfg) (decider_request_new context questions))"

definition decide_image ::
  "('w, 'v) client_env \<Rightarrow> decider_config \<Rightarrow> string \<Rightarrow> decider_question list \<Rightarrow> string \<Rightarrow> 'w client
   \<Rightarrow> (string + 'v decider_response) \<times> 'w client" where
  "decide_image E cfg context questions img c =
     (case validate_image_field (ce_libs E) img of
        Inl e \<Rightarrow> (Inl ''image encoding error'', c)
      | Inr _ \<Rightarrow>
          if 20 * 1024 * 1024 < int (length img) then
            (Inl (''image payload too large ('' @ show_nat (length img) @ '' bytes), max ~20MB''), c)
          else decide E cfg (with_temperature (dg_temperature cfg) (with_image img (decider_request_new context questions))) c)"

section \<open>\<open>health\<close>\<close>

fun health_loop :: "('w, 'v) client_env \<Rightarrow> string option \<Rightarrow> string list \<Rightarrow> 'w \<Rightarrow> (string + 'v) \<times> 'w" where
  "health_loop E last_err [] w = (Inl (unwrap_or ''health check failed'' last_err), w)"
| "health_loop E last_err (url # urls) w =
     (case ce_fetch E url w of
        (Inr r, w) \<Rightarrow>
          if 200 \<le> hr_status r \<and> hr_status r < 300 then
            (Inr (case Option.bind (case hr_body r of Inr b \<Rightarrow> Some b | Inl e \<Rightarrow> None) (li_parse (ce_libs E)) of
                    Some v \<Rightarrow> v
                  | None \<Rightarrow> (let J = li_json (ce_libs E) in j_obj J [(''ok'', j_bool J True), (''url'', j_str J url)])), w)
          else let e = ''health '' @ url @ '' -> '' @ ce_status_text E (hr_status r) in
               if hr_status r \<noteq> 404 then (Inl e, w) else health_loop E (Some e) urls w
      | (Inl (Send_timeout e), w) \<Rightarrow> (Inl (''health timeout to '' @ url @ '': '' @ e), w)
      | (Inl (Send_connect e), w) \<Rightarrow> (Inl (''health connection failed to '' @ url @ '': '' @ e), w)
      | (Inl (Send_other e), w) \<Rightarrow> (Inl (''health request to '' @ url @ '' failed: '' @ e), w))"

definition health :: "('w, 'v) client_env \<Rightarrow> decider_config \<Rightarrow> 'w \<Rightarrow> (string + 'v) \<times> 'w" where
  "health E cfg = health_loop E None (map (endpoint cfg) [''health'', ''v1/health'', []])"

section \<open>A batch\<close>

text \<open>
  \<open>decide_batch\<close> joins the calls. One that does not pass the local validation ends at once; the others
  acquire one of the four permits and give it back when their future ends. A call is run at the step that
  ends it, in the world it then finds; the order of the steps is arbitrary.
\<close>

datatype 'v batch_job = Waiting decider_request | Holding decider_request | Ended decider_request "string + 'v decider_response"

definition permits :: nat where "permits = 4"

fun job_request :: "'v batch_job \<Rightarrow> decider_request" where
  "job_request (Waiting r) = r"
| "job_request (Holding r) = r"
| "job_request (Ended r x) = r"

fun is_holding :: "'v batch_job \<Rightarrow> bool" where
  "is_holding (Holding r) = True"
| "is_holding _ = False"

lemma is_holding_iff: "is_holding j \<longleftrightarrow> (\<exists>r. j = Holding r)"
  by (cases j) simp_all

definition held :: "'v batch_job list \<Rightarrow> nat" where
  "held js = length (filter is_holding js)"

inductive batch_step ::
  "('w, 'v) client_env \<Rightarrow> decider_config \<Rightarrow> 'v batch_job list \<times> 'w client \<Rightarrow> 'v batch_job list \<times> 'w client \<Rightarrow> bool"
  for E cfg where
  reject: "i < length js \<Longrightarrow> js ! i = Waiting r \<Longrightarrow> request_validate (ce_libs E) r = Inl e \<Longrightarrow>
     batch_step E cfg (js, c) (js[i := Ended r (Inl ''decider request validation'')], c)"
| acquire: "i < length js \<Longrightarrow> js ! i = Waiting r \<Longrightarrow> request_validate (ce_libs E) r = Inr u \<Longrightarrow> held js < permits \<Longrightarrow> batch_step E cfg (js, c) (js[i := Holding r], c)"
| complete: "i < length js \<Longrightarrow> js ! i = Holding r \<Longrightarrow> decide E cfg r c = (x, c') \<Longrightarrow>
     batch_step E cfg (js, c) (js[i := Ended r x], c')"

inductive_cases batch_stepE: "batch_step E cfg s s'"

section \<open>What a call leaves behind\<close>

text \<open>A call counted as a success or a failure, and one that is not counted.\<close>

definition counted :: "bool \<Rightarrow> decider_metrics \<Rightarrow> decider_metrics \<Rightarrow> bool" where
  "counted success a b =
     (dm_request_count b = dm_request_count a + 1
      \<and> dm_success_count b = (if success then dm_success_count a + 1 else dm_success_count a)
      \<and> dm_error_count b = (if success then dm_error_count a else dm_error_count a + 1))"

lemma counted_record:
  "counted success a (dm_record ms success a)"
  "counted False a (dm_record ms False (a\<lparr>dm_timeout_count := x\<rparr>))"
  "counted False a (dm_record ms False (a\<lparr>dm_connection_error_count := x\<rparr>))"
  "counted False a (dm_record ms False (a\<lparr>dm_invalid_response_count := x\<rparr>))"
  by (simp_all add: counted_def dm_record_def Let_def)

definition failure_counted :: "'w client \<Rightarrow> 'w client \<Rightarrow> bool" where
  "failure_counted c c' =
     (cl_metrics c' = cl_metrics c \<and> cl_global c' = cl_global c
      \<or> counted False (cl_metrics c) (cl_metrics c') \<and> counted False (cl_global c) (cl_global c'))"

lemma failure_counted_refl: "cl_metrics c' = cl_metrics c \<Longrightarrow> cl_global c' = cl_global c \<Longrightarrow> failure_counted c c'"
  by (simp add: failure_counted_def)

lemma try_urls_counters:
  assumes "try_urls E cfg t0 wire lr le tried urls c = (x, c')"
  shows "case x of Inr _ \<Rightarrow> cl_metrics c' = cl_metrics c \<and> cl_global c' = cl_global c | Inl _ \<Rightarrow> failure_counted c c'"
  using assms
proof (induction urls arbitrary: lr le tried c)
  case Nil
  then show ?case by (auto simp: failure_counted_refl split: option.splits)
next
  case (Cons url urls)
  obtain r w where p: "ce_post E url wire (cl_world c) = (r, w)" by (cases "ce_post E url wire (cl_world c)")
  show ?case
  proof (cases r)
    case (Inr resp)
    then show ?thesis
      using Cons.prems p Cons.IH [of "Some resp" le url "c\<lparr>cl_world := w\<rparr>"]
      by (auto simp: Let_def failure_counted_def split: if_splits sum.splits)
  next
    case (Inl e)
    then show ?thesis
    proof (cases e)
      case (Send_other m)
      then show ?thesis
        using Cons.prems p Inl Cons.IH [of lr _ url "c\<lparr>cl_world := w\<rparr>"]
        by (auto simp: failure_counted_def split: sum.splits)
    qed (use Cons.prems p Inl in \<open>auto simp: Let_def failure_counted_def on_metrics_def counted_record\<close>)
  qed
qed

lemma accept_body_Inr:
  fixes E :: "('w, 'v) client_env"
  assumes "accept_body E req ms parsed c = (Inr resp, c')"
  obtains raw :: "'v decider_response" where "response_validate (ce_order E) (Some (dr_questions req)) (normalize_choices (ce_order E) (dr_questions req) raw) = Inr ()"
    "rp_decisions resp = rp_decisions (normalize_choices (ce_order E) (dr_questions req) raw)" "rp_latency_ms resp \<noteq> None"
    "counted True (cl_metrics c) (cl_metrics c')" "counted True (cl_global c) (cl_global c')"
proof -
  let ?raw = "response_of_value (ce_libs E) parsed"
  have v: "response_validate ord qs (r\<lparr>rp_latency_ms := l\<rparr>) = response_validate ord qs r" for ord qs l and r :: "'v decider_response"
    by (cases qs) (simp_all add: response_validate_def)
  have o: "or_else x (Some y) \<noteq> None" for x and y :: nat by (cases x) simp_all
  show ?thesis
    using assms o
    by (intro that [of ?raw]) (auto simp: accept_body_def Let_def v counted_record split: sum.splits if_splits)
qed

text \<open>
  C19: What \<open>decide\<close> returns and counts. A response is returned only with one decision per question, each
  with the number of an option of its question as its choice, and with a latency; it is counted as a
  success, once, in the client's counters and in those of the process. A failed call is counted as an error,
  once in both, or not counted at all, and never as a success.
\<close>

theorem decide_contract:
  fixes E :: "('w, 'v) client_env"
  assumes "decide E cfg req c = (r, c')"
  shows "case r of
      Inr resp \<Rightarrow>
        length (rp_decisions resp) = length (dr_questions req) \<and> rp_latency_ms resp \<noteq> None
        \<and> (\<forall>i < length (dr_questions req). \<exists>k. parse_usize (dc_choice (rp_decisions resp ! i)) = Some k \<and> 1 \<le> k
             \<and> k \<le> length (dq_options (dr_questions req ! i)))
        \<and> counted True (cl_metrics c) (cl_metrics c') \<and> counted True (cl_global c) (cl_global c')
    | Inl e \<Rightarrow> failure_counted c c'"
proof (cases "request_validate (ce_libs E) req")
  case (Inl e)
  then show ?thesis using assms by (auto simp: decide_def failure_counted_refl)
next
  case (Inr u)
  define urls where "urls = map (endpoint cfg) [''predict'', ''decide'', ''v1/predict'']"
  obtain x c1 where x: "try_urls E cfg (ce_now E (cl_world c)) (wire_request (ce_libs E) cfg req) None None (hd urls) urls c = (x, c1)"
    by (cases "try_urls E cfg (ce_now E (cl_world c)) (wire_request (ce_libs E) cfg req) None None (hd urls) urls c")
  note t = try_urls_counters [OF x]
  note d = assms [unfolded decide_def Inr sum.case Let_def, folded urls_def, unfolded x prod.case]
  show ?thesis
  proof (cases x)
    case (Inl e)
    then show ?thesis using d t by auto
  next
    case x: (Inr ru)
    obtain resp url where ru: "ru = (resp, url)" by (cases ru)
    have t: "cl_metrics c1 = cl_metrics c" "cl_global c1 = cl_global c" using t x by simp_all
    show ?thesis
    proof (cases "\<exists>y. r = Inr y")
      case False
      then obtain e where r: "r = Inl e" by (cases r) auto
      show ?thesis
        using d t unfolding r x ru
        by (auto simp: failure_counted_def on_metrics_def counted_record accept_body_def Let_def
            split: sum.splits if_splits option.splits)
    next
      case True
      then obtain y where r: "r = Inr y" by blast
      obtain parsed ms where "accept_body E req ms parsed c1 = (Inr y, c')"
        using d unfolding r x ru by (auto split: sum.splits if_splits option.splits)
      then obtain raw :: "'v decider_response" where raw:
        "response_validate (ce_order E) (Some (dr_questions req)) (normalize_choices (ce_order E) (dr_questions req) raw) = Inr ()"
        "rp_decisions y = rp_decisions (normalize_choices (ce_order E) (dr_questions req) raw)" "rp_latency_ms y \<noteq> None"
        "counted True (cl_metrics c1) (cl_metrics c')" "counted True (cl_global c1) (cl_global c')"
        by (rule accept_body_Inr)
      have q: "validate_all question_validate (dr_questions req) = Inr ()"
        using Inr by (auto simp: request_validate_def try_then_Inr split: if_splits)
      have l: "length (rp_decisions y) = length (dr_questions req)"
        using raw(1) by (simp add: raw(2) response_validate_def split: if_splits)
      show ?thesis
        using l raw t normalized_choice_names_option [OF raw(1) q] by (fastforce simp: r)
    qed
  qed
qed

text \<open>A service that answers one request with the text of an option.\<close>

definition fruit_libs :: "json libs" where
  "fruit_libs = \<lparr>li_json = std_json, li_as_bool = (\<lambda>v. case v of JBool b \<Rightarrow> Some b | _ \<Rightarrow> None), li_is_null = (\<lambda>v. v = JNull),
     li_is_number = (\<lambda>v. case v of JNum n \<Rightarrow> True | JReal q \<Rightarrow> True | _ \<Rightarrow> False), li_display = json_debug,
     li_as_f64 = (\<lambda>v. case v of JNum n \<Rightarrow> Some (of_int n) | JReal q \<Rightarrow> Some q | _ \<Rightarrow> None), li_f64 = JReal,
     li_entries = (\<lambda>v. case v of JObj kvs \<Rightarrow> Some kvs | _ \<Rightarrow> None),
     li_parse = (\<lambda>s. Some (JObj [(''answers'', JObj [(''q1'', JObj [(''choice'', JStr s)])])])),
     li_base64 = (\<lambda>s. True), li_base64_no_pad = (\<lambda>s. True)\<rparr>"

definition fruit_service :: "(nat, json) client_env" where
  "fruit_service = \<lparr>ce_libs = fruit_libs, ce_now = (\<lambda>w. w),
     ce_post = (\<lambda>url v w. (Inr \<lparr>hr_status = (if w = 0 then 404 else 200), hr_body = Inr ''banana''\<rparr>, w + 1)),
     ce_fetch = (\<lambda>url w. (Inl (Send_other []), w)), ce_status_text = show_nat, ce_order = (\<lambda>m. m)\<rparr>"

definition fruit_client :: "nat client" where
  "fruit_client = \<lparr>cl_metrics = decider_metrics_new, cl_global = decider_metrics_new, cl_world = 0\<rparr>"

lemma fruit_decided:
  "let (r, c) = decide fruit_service decider_config_default (decider_request_new [] [fruit]) fruit_client
   in (case r of Inr resp \<Rightarrow> map dc_choice (rp_decisions resp) = [''2''] \<and> rp_latency_ms resp = Some 2 | Inl e \<Rightarrow> False)
      \<and> dm_request_count (cl_metrics c) = 1 \<and> cl_world c = 2"
  by code_simp

theorem decide_contract_witness:
  "let (r, c) = decide fruit_service decider_config_default (decider_request_new [] [fruit]) fruit_client
   in counted True decider_metrics_new (cl_metrics c)"
proof -
  obtain r c where d: "decide fruit_service decider_config_default (decider_request_new [] [fruit]) fruit_client = (r, c)"
    by (cases "decide fruit_service decider_config_default (decider_request_new [] [fruit]) fruit_client")
  have "cl_metrics fruit_client = decider_metrics_new" by (simp add: fruit_client_def)
  then show ?thesis
    using decide_contract [OF d] fruit_decided unfolding d Let_def prod.case by (auto split: sum.splits)
qed

text \<open>
  Some failures leave no trace in the counters: a body that is not JSON, and an error of sending that is
  neither a timeout nor a failed connection.
\<close>

lemma some_failures_uncounted:
  "request_validate (ce_libs E) req = Inr u \<Longrightarrow> (\<And>url v w. ce_post E url v w = (Inl (Send_other m), w)) \<Longrightarrow>
     \<exists>e. decide E cfg req c = (Inl e, c)"
  by (simp add: decide_def Let_def)

text \<open>The probe takes a redirect for health, the client does not.\<close>

lemma redirect_healthy_to_probe_only:
  "judge_status ''/health'' 302 = Inr ()"
  "ce_fetch E url w = (Inr \<lparr>hr_status = 302, hr_body = b\<rparr>, w) \<Longrightarrow> \<exists>e. health_loop E le (url # urls) w = (Inl e, w)"
  by (simp_all add: judge_status_def)

section \<open>A batch keeps its bound and its order\<close>

definition batch_start :: "decider_request list \<Rightarrow> 'w client \<Rightarrow> 'v batch_job list \<times> 'w client" where
  "batch_start reqs c = (map Waiting reqs, c)"

fun job_togo :: "'v batch_job \<Rightarrow> nat" where
  "job_togo (Waiting r) = 2"
| "job_togo (Holding r) = 1"
| "job_togo (Ended r x) = 0"

lemma held_update:
  "i < length js \<Longrightarrow> held (js[i := j]) + (if is_holding (js ! i) then 1 else 0) = held js + (if is_holding j then 1 else 0)"
proof (induction js arbitrary: i)
  case (Cons x js)
  then show ?case by (cases i) (auto simp: held_def)
qed simp

lemma togo_update:
  "i < length js \<Longrightarrow> sum_list (map job_togo (js[i := j])) + job_togo (js ! i) = sum_list (map job_togo js) + job_togo j"
proof (induction js arbitrary: i)
  case (Cons x js)
  then show ?case by (cases i) auto
qed simp

lemma job_update:
  assumes "i < length js" "job_request j = job_request (js ! i)" "job_togo j < job_togo (js ! i)"
    and "is_holding j \<Longrightarrow> held js < permits"
  shows "map job_request (js[i := j]) = map job_request js" "held js \<le> permits \<Longrightarrow> held (js[i := j]) \<le> permits"
    "sum_list (map job_togo (js[i := j])) < sum_list (map job_togo js)"
proof -
  show "map job_request (js[i := j]) = map job_request js" using assms(1,2) by (metis list_update_id map_update)
  show "held js \<le> permits \<Longrightarrow> held (js[i := j]) \<le> permits"
    using held_update [OF assms(1), of j] assms(4) by (auto split: if_splits)
  show "sum_list (map job_togo (js[i := j])) < sum_list (map job_togo js)"
    using togo_update [OF assms(1), of j] assms(3) by linarith
qed

lemma batch_step_facts:
  assumes "batch_step E cfg (js, c) (js', c')"
  shows "map job_request js' = map job_request js \<and> (held js \<le> permits \<longrightarrow> held js' \<le> permits)
    \<and> sum_list (map job_togo js') < sum_list (map job_togo js)"
  using assms
proof (cases rule: batch_step.cases)
  case (reject i r e)
  then show ?thesis using job_update [of i js "Ended r (Inl ''decider request validation'')"] by simp
next
  case (acquire i r u)
  then show ?thesis using job_update [of i js "Holding r"] by simp
next
  case (complete i r x)
  then show ?thesis using job_update [of i js "Ended r x"] by simp
qed

lemma batch_run_facts:
  assumes "(batch_step E cfg)\<^sup>*\<^sup>* (js, c) (js', c')"
  shows "map job_request js' = map job_request js \<and> (held js \<le> permits \<longrightarrow> held js' \<le> permits)"
  using assms by (induction "(js', c')" arbitrary: js' c' rule: rtranclp_induct) (auto dest!: batch_step_facts)

lemma batch_progress:
  assumes "\<exists>j \<in> set js. job_togo j \<noteq> 0" "held js \<le> permits"
  shows "\<exists>s'. batch_step E cfg (js, c) s'"
proof (cases "\<exists>i r. i < length js \<and> js ! i = Holding r")
  case True
  then obtain i r where "i < length js" "js ! i = Holding r" by blast
  then show ?thesis using batch_step.complete [of i js r E cfg c] by (metis surj_pair)
next
  case False
  then have "held js = 0" unfolding held_def by (auto simp: filter_empty_conv in_set_conv_nth is_holding_iff)
  moreover obtain i where i: "i < length js" "job_togo (js ! i) \<noteq> 0" using assms(1) by (auto simp: in_set_conv_nth)
  moreover obtain r where "js ! i = Waiting r" using i False by (cases "js ! i") auto
  moreover obtain x where "request_validate (ce_libs E) r = x" by blast
  ultimately show ?thesis
    using batch_step.reject [of i js r E _ cfg c] batch_step.acquire [of i js r E _ cfg c] by (cases x) (auto simp: permits_def)
qed



end
