(* ===== verification/Target_Resolution.thy ===== *)
theory Target_Resolution
  imports Decider_Client
begin

text \<open>
  Finding the element an instruction means (\<open>src/perception/resolve.rs\<close> and the matching of
  \<open>src/hint/mod.rs\<close>): exact and heuristic matches, the tiers in their order, the selection by the decider in
  groups, and what counts as a confident answer. The browser snapshot, the annotated screenshot and the
  vision model are functions on the world; all the rest is the code's.
\<close>

section \<open>Hints\<close>

definition is_alnum :: "char \<Rightarrow> bool" where
  "is_alnum c = (let n = (of_char c :: nat) in is_digit c \<or> 65 \<le> n \<and> n \<le> 90 \<or> 97 \<le> n \<and> n \<le> 122 \<or> 128 \<le> n)"

definition trim_matches :: "(char \<Rightarrow> bool) \<Rightarrow> string \<Rightarrow> string" where
  "trim_matches P s = rev (dropWhile P (rev (dropWhile P s)))"

text \<open>The trimmed text between the first two quotes of a kind.\<close>

definition between_quotes :: "char \<Rightarrow> string \<Rightarrow> string option" where
  "between_quotes q instr =
     (case str_find [q] instr of
        None \<Rightarrow> None
      | Some a \<Rightarrow>
          let rest = drop (a + 1) instr in
          (case str_find [q] rest of
             None \<Rightarrow> None
           | Some b \<Rightarrow> let s = str_trim (take b rest) in if s = [] then None else Some s))"

fun before_keyword :: "string \<Rightarrow> string list \<Rightarrow> string option" where
  "before_keyword instr [] = None"
| "before_keyword instr (kw # kws) =
     (case str_find kw (to_lowercase instr) of
        None \<Rightarrow> before_keyword instr kws
      | Some pos \<Rightarrow>
          let s = str_trim (after_last CHR 0x27 (str_trim (take pos instr))) in
          if s \<noteq> [] \<and> length s < 40 then Some s else before_keyword instr kws)"

definition stop_words :: "string list" where
  "stop_words = [''click'', ''the'', ''a'', ''an'', ''press'', ''type'', ''fill'', ''into'', ''on'', ''please'']"

definition extract_target_hint :: "string \<Rightarrow> string" where
  "extract_target_hint instr =
     (case or_else (between_quotes CHR 0x27 instr) (between_quotes CHR 0x22 instr) of
        Some s \<Rightarrow> s
      | None \<Rightarrow>
          (case before_keyword instr [''button'', ''link'', ''prompt box'', ''input'', ''field''] of
             Some s \<Rightarrow> s
           | None \<Rightarrow>
               let words = filter (\<lambda>w. w \<noteq> [] \<and> to_lowercase w \<notin> set stop_words)
                             (map (trim_matches (\<lambda>c. \<not> is_alnum c)) (split_whitespace instr))
               in if words = [] then str_join '' '' (take 5 (split_whitespace instr))
                  else take_chars 40 (str_join '' '' words)))"

definition hint_matches :: "'v libs \<Rightarrow> string \<Rightarrow> 'v \<Rightarrow> string option" where
  "hint_matches L low h =
     (let str = (\<lambda>k. unwrap_or [] (get_str (li_json L) h k)); label = str ''label''; name = to_lowercase (str ''name'');
          text = to_lowercase (str ''text'');
          hay = name @ '' '' @ text @ '' '' @ to_lowercase (str ''role'') @ '' '' @ to_lowercase (str ''tag'')
      in if label = [] then None
         else if name = low \<or> text = low then Some label
         else if str_contains hay low then Some label
         else if 3 \<le> length low \<and> (str_contains name low \<or> str_contains text low) then Some label
         else None)"

definition heuristic_hint_match :: "'v libs \<Rightarrow> string \<Rightarrow> 'v \<Rightarrow> string option" where
  "heuristic_hint_match L instruction v =
     (let target = extract_target_hint instruction; low = to_lowercase target in
      if target = [] then None
      else (case or_else (get_array (li_json L) v ''hints'') (j_as_array (li_json L) v) of
              None \<Rightarrow> None
            | Some arr \<Rightarrow> (case List.map_filter (hint_matches L low) arr of [label] \<Rightarrow> Some label | _ \<Rightarrow> None)))"

section \<open>Results\<close>

datatype resolve_tier = Exact | Dom_ax | Hint | Heuristic | Decider_text | Decider_vision | Visual_fallback | Undecided

fun tier_str :: "resolve_tier \<Rightarrow> string" where
  "tier_str Exact = ''exact''"
| "tier_str Dom_ax = ''dom_ax''"
| "tier_str Hint = ''hint''"
| "tier_str Heuristic = ''heuristic''"
| "tier_str Decider_text = ''decider_text''"
| "tier_str Decider_vision = ''decider_vision''"
| "tier_str Visual_fallback = ''visual_fallback''"
| "tier_str Undecided = ''uncertain''"

datatype resolve_status = Resolved | Uncertain | Failure

fun status_str :: "resolve_status \<Rightarrow> string" where
  "status_str Resolved = ''success''"
| "status_str Uncertain = ''uncertain''"
| "status_str Failure = ''failure''"

record resolve_context =
  rx_query :: string
  rx_target :: "string option"
  rx_candidates :: "candidates option"
  rx_use_vision :: bool
  rx_viewport :: "rect option"
  rx_annotate :: bool
  rx_image :: "string option"
  rx_context :: "string option"
  rx_min_geometry :: "(i32 \<times> i32) option"
  rx_allow_visual_fallback :: bool

definition resolve_context_new :: "string \<Rightarrow> resolve_context" where
  "resolve_context_new q =
     \<lparr>rx_query = q, rx_target = None, rx_candidates = None, rx_use_vision = False, rx_viewport = None, rx_annotate = True,
      rx_image = None, rx_context = Some q, rx_min_geometry = None, rx_allow_visual_fallback = True\<rparr>"

definition with_target :: "string \<Rightarrow> resolve_context \<Rightarrow> resolve_context" where
  "with_target s x = x\<lparr>rx_target := if blank s then None else Some s\<rparr>"

record 'v resolve_result =
  rr_status :: resolve_status
  rr_tier :: resolve_tier
  rr_candidate :: "candidate option"
  rr_id :: "u32 option"
  rr_label :: "string option"
  rr_rect :: "rect option"
  rr_confidence :: "f64 option"
  rr_runner_up :: "f64 option"
  rr_margin :: "f64 option"
  rr_probabilities :: "(string, f64) hashmap option"
  rr_meta :: "'v"

definition resolved :: "'v json_ops \<Rightarrow> candidate \<Rightarrow> resolve_tier \<Rightarrow> 'v resolve_result" where
  "resolved J c t =
     \<lparr>rr_status = Resolved, rr_tier = t, rr_candidate = Some c, rr_id = Some (cd_id c),
      rr_label = (if cd_label c = [] then None else Some (cd_label c)), rr_rect = Some (cd_rect c), rr_confidence = None,
      rr_runner_up = None, rr_margin = None, rr_probabilities = None, rr_meta = j_obj J []\<rparr>"

definition unresolved :: "resolve_status \<Rightarrow> resolve_tier \<Rightarrow> 'v \<Rightarrow> 'v resolve_result" where
  "unresolved s t meta =
     \<lparr>rr_status = s, rr_tier = t, rr_candidate = None, rr_id = None, rr_label = None, rr_rect = None, rr_confidence = None,
      rr_runner_up = None, rr_margin = None, rr_probabilities = None, rr_meta = meta\<rparr>"

definition rect_to_value :: "'v json_ops \<Rightarrow> rect \<Rightarrow> 'v" where
  "rect_to_value J r = j_obj J
     [(''x'', j_i64 J (scast (rc_x r))), (''y'', j_i64 J (scast (rc_y r))), (''width'', j_i64 J (scast (rc_width r))),
      (''height'', j_i64 J (scast (rc_height r)))]"

definition u32_value :: "'v json_ops \<Rightarrow> u32 \<Rightarrow> 'v" where
  "u32_value J i = j_u64 J (ucast i)"

definition probabilities_value :: "'v libs \<Rightarrow> (string, f64) hashmap \<Rightarrow> 'v" where
  "probabilities_value L p = j_obj (li_json L) (map (\<lambda>(k, v). (k, f64_value L v)) p)"

definition result_to_value :: "'v libs \<Rightarrow> 'v resolve_result \<Rightarrow> 'v" where
  "result_to_value L r =
     (let J = li_json L in
      j_obj J
        ([(''status'', j_str J (status_str (rr_status r))), (''tier'', j_str J (tier_str (rr_tier r))),
          (''confidence'', j_opt J (f64_value L) (rr_confidence r)), (''runner_up'', j_opt J (f64_value L) (rr_runner_up r)),
          (''margin'', j_opt J (f64_value L) (rr_margin r)), (''probabilities'', j_opt J (probabilities_value L) (rr_probabilities r)),
          (''id'', j_opt J (u32_value J) (rr_id r)), (''label'', j_opt J (j_str J) (rr_label r)),
          (''rect'', j_opt J (rect_to_value J) (rr_rect r)), (''meta'', rr_meta r)]
         @ (case rr_candidate r of
              None \<Rightarrow> []
            | Some c \<Rightarrow>
                [(''candidate'', j_obj J
                   [(''id'', u32_value J (cd_id c)), (''label'', j_str J (cd_label c)), (''tag'', j_str J (cd_tag c)),
                    (''role'', j_str J (cd_role c)), (''name'', j_str J (cd_name c)), (''text'', j_str J (cd_text c)),
                    (''rect'', rect_to_value J (cd_rect c)), (''selector'', j_str J (cd_selector c)),
                    (''visible'', j_bool J (cd_visible c)), (''enabled'', j_bool J (cd_enabled c))])])))"

section \<open>Confidence\<close>

definition low_confidence_threshold :: f64 where
  "low_confidence_threshold = Finite (2476979795053773 / 4503599627370496)"

definition margin_threshold :: f64 where
  "margin_threshold = Finite (3602879701896397 / 36028797018963968)"

text \<open>The third case sorts the probabilities in descending order; they are finite, as \<open>validate\<close> requires.\<close>

definition confidence_is_low :: "f64 option \<Rightarrow> f64 option \<Rightarrow> f64 option \<Rightarrow> (string, f64) hashmap option \<Rightarrow> bool" where
  "confidence_is_low conf runner_up margin probs =
     (case conf of
        None \<Rightarrow> False
      | Some c \<Rightarrow>
          f64_less c low_confidence_threshold \<or>
          (case margin of
             Some m \<Rightarrow> f64_less m margin_threshold
           | None \<Rightarrow>
               (case runner_up of
                  Some ru \<Rightarrow> f64_less (f64_sub c ru) margin_threshold
                | None \<Rightarrow>
                    (case probs of
                       None \<Rightarrow> False
                     | Some p \<Rightarrow>
                         (case sort_by (\<lambda>a b. \<not> f64_less a b) (map snd p) of
                            v0 # v1 # _ \<Rightarrow> f64_less (f64_sub v0 v1) margin_threshold
                          | _ \<Rightarrow> False)))))"

fun derive_margin :: "f64 option \<Rightarrow> f64 option \<Rightarrow> f64 option" where
  "derive_margin (Some c) (Some r) = Some (f64_sub c r)"
| "derive_margin _ _ = None"

text \<open>The largest positive probability of another choice; the order of the map does not matter.\<close>

definition runner_up_from_probs :: "(string, f64) hashmap \<Rightarrow> string \<Rightarrow> f64 option" where
  "runner_up_from_probs probs choice =
     (case hm_get probs choice of
        None \<Rightarrow> None
      | Some _ \<Rightarrow>
          let (best, found) = foldl (\<lambda>(best, found) (k, v). if k \<noteq> choice \<and> f64_less best v then (v, True) else (best, found))
                                (Finite 0, False) probs
          in if found then Some best else None)"

section \<open>Matches\<close>

definition only_hit :: "(candidate \<Rightarrow> bool) \<Rightarrow> candidates \<Rightarrow> candidate option" where
  "only_hit P cs = (case filter P (cs_candidates cs) of [c] \<Rightarrow> Some c | _ \<Rightarrow> None)"

definition exact_match :: "candidates \<Rightarrow> string \<Rightarrow> candidate option" where
  "exact_match cs query =
     (let nq = normalize_text query in
      if nq = [] then None else only_hit (\<lambda>c. normalized_name c = nq \<or> normalized_text c = nq) cs)"

definition heuristic_single_match :: "candidates \<Rightarrow> string \<Rightarrow> candidate option" where
  "heuristic_single_match cs query =
     (let nq = normalize_text query in
      if nq = [] \<or> length nq < 2 then None
      else only_hit (\<lambda>c. str_contains (normalized_name c) nq \<or> str_contains (normalized_text c) nq) cs)"

definition try_dom_ax_resolution :: "candidates \<Rightarrow> string \<Rightarrow> candidate option" where
  "try_dom_ax_resolution cs query =
     (let nq = normalize_text query;
          narrowed = filter_visible (filter_enabled cs);
          narrowed = (if cs_is_empty narrowed then cs else narrowed);
          role = (if str_contains nq ''button'' then Some ''button''
                  else if str_contains nq ''link'' then Some ''link''
                  else if str_contains nq ''input'' \<or> str_contains nq ''textbox'' \<or> str_contains nq ''field'' then Some ''textbox''
                  else None)
      in case role of
           None \<Rightarrow> None
         | Some role \<Rightarrow>
             (case cs_candidates (filter_by_role role narrowed) of
                [c] \<Rightarrow>
                  if length nq < 50 \<and> (str_contains nq (normalized_name c) \<or> str_contains nq (normalized_text c)) then Some c
                  else None
              | _ \<Rightarrow> None))"

definition hint_value :: "'v json_ops \<Rightarrow> candidate \<Rightarrow> 'v" where
  "hint_value J c = j_obj J
     [(''label'', j_str J (cd_label c)), (''tag'', j_str J (cd_tag c)), (''role'', j_str J (cd_role c)),
      (''name'', j_str J (cd_name c)), (''text'', j_str J (cd_text c)), (''selector'', j_str J (cd_selector c))]"

definition try_hint_tier :: "'v libs \<Rightarrow> candidates \<Rightarrow> string \<Rightarrow> candidate option" where
  "try_hint_tier L cs query =
     (let J = li_json L in
      if normalize_text query = [] then None
      else (case heuristic_hint_match L query (j_obj J [(''hints'', j_arr J (map (hint_value J) (cs_candidates cs)))]) of
              None \<Rightarrow> None
            | Some label \<Rightarrow>
                or_else (get_by_label label cs) (Option.bind (parse_uint 32 label) (\<lambda>i. cs_get (of_nat i) cs))))"

section \<open>The decider's answer\<close>

definition decider_tier :: "bool \<Rightarrow> resolve_tier" where
  "decider_tier vision = (if vision then Decider_vision else Decider_text)"

text \<open>
  What becomes of a candidate the decider chose: a success with its evidence, or an uncertain result, with
  \<open>meta\<close>, when the confidence is low.
\<close>

definition judged :: "'v json_ops \<Rightarrow> bool \<Rightarrow> candidate \<Rightarrow> string \<Rightarrow> decision \<Rightarrow> 'v \<Rightarrow> 'v resolve_result" where
  "judged J vision cand choice dec meta =
     (let runner = Option.bind (dc_probabilities dec) (\<lambda>p. runner_up_from_probs p choice);
          margin = derive_margin (dc_confidence dec) runner;
          evidence = (\<lambda>r. r\<lparr>rr_confidence := dc_confidence dec, rr_runner_up := runner, rr_margin := margin,
                               rr_probabilities := dc_probabilities dec\<rparr>)
      in if confidence_is_low (dc_confidence dec) runner margin (dc_probabilities dec) then
           evidence ((unresolved Uncertain (decider_tier vision) meta)
             \<lparr>rr_id := Some (cd_id cand), rr_label := Some (cd_label cand), rr_rect := Some (cd_rect cand)\<rparr>)
         else evidence (resolved J cand (decider_tier vision)))"

definition reason :: "'v json_ops \<Rightarrow> string \<Rightarrow> (string \<times> 'v) list \<Rightarrow> 'v" where
  "reason J r rest = j_obj J ((''reason'', j_str J r) # rest)"

definition ids_value :: "'v json_ops \<Rightarrow> u32 list \<Rightarrow> 'v" where
  "ids_value J ids = j_arr J (map (u32_value J) ids)"

definition map_decider_response ::
  "'v json_ops \<Rightarrow> candidate list \<Rightarrow> 'v decider_response \<Rightarrow> bool \<Rightarrow> string + 'v resolve_result" where
  "map_decider_response J chunk resp vision =
     (case rp_decisions resp of
        [] \<Rightarrow> Inl ''empty decider decisions''
      | dec # _ \<Rightarrow>
          let choice = str_trim (dc_choice dec);
              meta = reason J ''low confidence'' [(''choice'', j_str J choice)];
              by_text = (case find (\<lambda>c. display_text c = choice \<or> vision_text c = choice \<or> cd_name c = choice \<or> cd_text c = choice) chunk of
                           Some cand \<Rightarrow> Inr (judged J vision cand choice dec meta)
                         | None \<Rightarrow> Inl (''decider choice '' @ quoted choice @ '' invalid for chunk size '' @ show_nat (length chunk)))
          in case parse_usize choice of
               Some idx \<Rightarrow>
                 if 1 \<le> idx \<and> idx \<le> length chunk then Inr (judged J vision (chunk ! (idx - 1)) choice dec meta) else by_text
             | None \<Rightarrow> by_text)"

text \<open>
  The choice among the winners of the groups. The code looks the choice up as an id before it reads it as an
  index; without a usable choice the first winner is reported, uncertain, with the evidence of the last
  group.
\<close>

type_synonym evidence = "f64 option \<times> (string, f64) hashmap option \<times> f64 option \<times> f64 option"

definition first_winner ::
  "'v json_ops \<Rightarrow> bool \<Rightarrow> candidates \<Rightarrow> u32 list \<Rightarrow> evidence \<Rightarrow> string + 'v resolve_result" where
  "first_winner J vision winners deduped last_seen =
     (case cs_candidates winners of
        [] \<Rightarrow> Inl ''hierarchical final step failed''
      | w # _ \<Rightarrow>
          (case last_seen of (conf, probs, runner, margin) \<Rightarrow>
             Inr ((unresolved Uncertain (decider_tier vision)
                    (reason J ''hierarchical no final choice'' [(''winners'', ids_value J deduped)]))
                  \<lparr>rr_candidate := Some w, rr_id := Some (cd_id w), rr_label := Some (cd_label w), rr_rect := Some (cd_rect w),
                   rr_confidence := conf, rr_runner_up := runner, rr_margin := margin, rr_probabilities := probs\<rparr>)))"

definition final_choice ::
  "'v json_ops \<Rightarrow> bool \<Rightarrow> candidates \<Rightarrow> candidates \<Rightarrow> u32 list \<Rightarrow> evidence \<Rightarrow> 'v decider_response \<Rightarrow> string + 'v resolve_result" where
  "final_choice J vision effective winners deduped last_seen resp =
     (case rp_decisions resp of
        [] \<Rightarrow> first_winner J vision winners deduped last_seen
      | dec # _ \<Rightarrow>
          let choice = dc_choice dec;
              as_id = of_nat (unwrap_or 0 (parse_uint 32 choice));
              idx = unwrap_or 0 (parse_usize choice)
          in if cs_get as_id winners \<noteq> None \<and> 1 \<le> idx \<and> idx \<le> cs_len winners then
               Inr (judged J vision (cs_candidates winners ! (idx - 1)) choice dec
                 (reason J ''low confidence'' [(''winners'', ids_value J deduped), (''choice'', j_str J choice)]))
             else
               (case Option.bind (find (\<lambda>c. show_nat (unat (cd_id c)) = choice) (cs_candidates winners)) (\<lambda>c. cs_get (cd_id c) effective) of
                  Some cand \<Rightarrow> Inr (judged J vision cand choice dec (reason J ''low confidence'' []))
                | None \<Rightarrow> first_winner J vision winners deduped last_seen))"

section \<open>Asking\<close>

text \<open>
  The process as the resolver sees it: the cache cell of the probe, the process-wide counters and the world.
  Every selection makes a client of its own.
\<close>

record 'w station =
  sn_slot :: "probe_slot option"
  sn_global :: decider_metrics
  sn_world :: 'w

record ('w, 'v, 'a, 's) resolve_env =
  re_client :: "('w, 'v) client_env"
  re_probe :: "('w, 'a, 's) probe_env"
  re_built :: "'w \<Rightarrow> bool"
  re_snapshot :: "string option \<Rightarrow> 'w \<Rightarrow> 'v option \<times> 'w"
  re_capture :: "candidates \<Rightarrow> 'w \<Rightarrow> string option \<times> 'w"
  re_ground :: "string \<Rightarrow> 'w \<Rightarrow> 'v option \<times> 'w"

abbreviation re_libs :: "('w, 'v, 'a, 's) resolve_env \<Rightarrow> 'v libs" where
  "re_libs E \<equiv> ce_libs (re_client E)"

abbreviation re_json :: "('w, 'v, 'a, 's) resolve_env \<Rightarrow> 'v json_ops" where
  "re_json E \<equiv> li_json (ce_libs (re_client E))"

type_synonym ('w, 'a) asking = "'w station \<Rightarrow> 'a \<times> 'w station"

definition on_station :: "('w \<Rightarrow> 'a \<times> 'w) \<Rightarrow> ('w, 'a) asking" where
  "on_station f s = (case f (sn_world s) of (a, w) \<Rightarrow> (a, s\<lparr>sn_world := w\<rparr>))"

definition on_prober :: "('w prober \<Rightarrow> 'a \<times> 'w prober) \<Rightarrow> ('w, 'a) asking" where
  "on_prober f s = (case f (sn_slot s, sn_world s) of (a, (slot, w)) \<Rightarrow> (a, s\<lparr>sn_slot := slot, sn_world := w\<rparr>))"

definition ask_try :: "('w, string + 'a) asking \<Rightarrow> ('a \<Rightarrow> ('w, string + 'b) asking) \<Rightarrow> ('w, string + 'b) asking" where
  "ask_try m f s = (case m s of (Inl e, s) \<Rightarrow> (Inl e, s) | (Inr a, s) \<Rightarrow> f a s)"

text \<open>One request through a client whose own counters are \<open>m\<close>.\<close>

definition ask ::
  "('w, 'v, 'a, 's) resolve_env \<Rightarrow> decider_config \<Rightarrow> decider_request \<Rightarrow> decider_metrics
   \<Rightarrow> ('w, (string + 'v decider_response) \<times> decider_metrics) asking" where
  "ask E cfg req m s =
     (case decide (re_client E) cfg req \<lparr>cl_metrics = m, cl_global = sn_global s, cl_world = sn_world s\<rparr> of
        (r, c) \<Rightarrow> ((r, cl_metrics c), s\<lparr>sn_global := cl_global c, sn_world := cl_world c\<rparr>))"

definition ask_one ::
  "('w, 'v, 'a, 's) resolve_env \<Rightarrow> decider_config \<Rightarrow> decider_request \<Rightarrow> ('w, string + 'v decider_response) asking" where
  "ask_one E cfg req s = (case ask E cfg req decider_metrics_new s of ((r, m), s) \<Rightarrow> (r, s))"

definition build_decider_question :: "string \<Rightarrow> bool \<Rightarrow> candidate list \<Rightarrow> decider_question" where
  "build_decider_question query vision cands =
     decider_question_new query (map (if vision then vision_text else display_text) cands)"

definition max_per_group :: "bool \<Rightarrow> nat" where
  "max_per_group vision = (if vision then vision_max_options else text_max_options)"

text \<open>A request with the image of the candidates in vision mode, without one when the capture fails.\<close>

definition illustrated ::
  "('w, 'v, 'a, 's) resolve_env \<Rightarrow> bool \<Rightarrow> string option \<Rightarrow> candidates \<Rightarrow> decider_request \<Rightarrow> ('w, decider_request) asking" where
  "illustrated E vision shot cands req s =
     (if \<not> vision then (req, s)
      else (case shot of
              Some img \<Rightarrow> (with_image img req, s)
            | None \<Rightarrow>
                (case on_station (re_capture E cands) s of
                   (Some img, s) \<Rightarrow> (with_image img req, s)
                 | (None, s) \<Rightarrow> (req, s))))"

text \<open>The groups one after the other: the winning ids and the evidence of the last one.\<close>

definition group_evidence :: "decision \<Rightarrow> evidence \<Rightarrow> evidence" where
  "group_evidence dec old =
     (case dc_probabilities dec of
        None \<Rightarrow> (dc_confidence dec, None, snd (snd old))
      | Some p \<Rightarrow> (let runner = runner_up_from_probs p (dc_choice dec)
                   in (dc_confidence dec, Some p, runner, derive_margin (dc_confidence dec) runner)))"

fun group_rounds ::
  "('w, 'v, 'a, 's) resolve_env \<Rightarrow> decider_config \<Rightarrow> bool \<Rightarrow> string \<Rightarrow> string \<Rightarrow> candidates \<Rightarrow> nat \<Rightarrow> candidate list list
   \<Rightarrow> u32 list \<Rightarrow> evidence \<Rightarrow> ('w, string + u32 list \<times> evidence) asking" where
  "group_rounds E cfg vision query context effective idx [] winning ev s = (Inr (winning, ev), s)"
| "group_rounds E cfg vision query context effective idx (chunk # groups) winning ev s =
     (case illustrated E vision None (from_vec chunk) (decider_request_new context [build_decider_question query vision chunk]) s of
        (req, s) \<Rightarrow>
          (case ask_one E cfg req s of
             (Inl e, s) \<Rightarrow> (Inl e, s)
           | (Inr resp, s) \<Rightarrow>
               (case rp_decisions resp of
                  [] \<Rightarrow> group_rounds E cfg vision query context effective (idx + 1) groups winning ev s
                | dec # _ \<Rightarrow>
                    (case map_choice_to_global_id idx (dc_choice dec) (max_per_group vision) effective of
                       None \<Rightarrow> group_rounds E cfg vision query context effective (idx + 1) groups winning ev s
                     | Some gid \<Rightarrow>
                         group_rounds E cfg vision query context effective (idx + 1) groups (winning @ [gid]) (group_evidence dec ev) s))))"

text \<open>A single group is one request.\<close>

definition select_single ::
  "('w, 'v, 'a, 's) resolve_env \<Rightarrow> decider_config \<Rightarrow> resolve_context \<Rightarrow> string \<Rightarrow> string \<Rightarrow> candidates \<Rightarrow> candidate list
   \<Rightarrow> ('w, string + 'v resolve_result) asking" where
  "select_single E cfg ctx query context effective chunk s =
     (case illustrated E (rx_use_vision ctx) (rx_image ctx) effective
             (decider_request_new context [build_decider_question query (rx_use_vision ctx) chunk]) s of
        (req, s) \<Rightarrow> ask_try (ask_one E cfg req) (\<lambda>resp s. (map_decider_response (re_json E) chunk resp (rx_use_vision ctx), s)) s)"

text \<open>Among several groups the winners are put together for a last request.\<close>

definition select_final ::
  "('w, 'v, 'a, 's) resolve_env \<Rightarrow> decider_config \<Rightarrow> resolve_context \<Rightarrow> string \<Rightarrow> string \<Rightarrow> candidates \<Rightarrow> u32 list \<times> evidence
   \<Rightarrow> ('w, string + 'v resolve_result) asking" where
  "select_final E cfg ctx query context effective seen s =
     (let vision = rx_use_vision ctx; m = max_per_group vision; (winning, ev) = seen;
          deduped = rev (remdups (rev winning)); winners = group_winners deduped effective
      in if winning = [] then (Inl ''decider hierarchical: no winning ids'', s)
         else if cs_len winners \<le> m then
           (case illustrated E vision None winners
                   (decider_request_new context [build_decider_question query vision (cs_candidates winners)]) s of
              (req, s) \<Rightarrow>
                ask_try (ask_one E cfg req) (\<lambda>resp s. (final_choice (re_json E) vision effective winners deduped ev resp, s)) s)
         else (Inl (''hierarchical winners still over budget: '' @ show_nat (cs_len winners) @ '' > '' @ show_nat m), s))"

definition decider_select ::
  "('w, 'v, 'a, 's) resolve_env \<Rightarrow> resolve_context \<Rightarrow> string \<Rightarrow> candidates \<Rightarrow> ('w, string + 'v resolve_result) asking" where
  "decider_select E ctx query cands s =
     (case on_prober (config_from_env (re_probe E)) s of
        (cfg, s) \<Rightarrow>
          if \<not> dg_enabled cfg then (case on_prober (off_reason (re_probe E)) s of (why, s) \<Rightarrow> (Inl why, s))
          else
            let context = unwrap_or query (rx_context ctx);
                narrowed = filtered_for_budget (rx_viewport ctx) (rx_min_geometry ctx) cands;
                effective = (if cs_is_empty narrowed then cands else narrowed);
                groups = chunks (max_per_group (rx_use_vision ctx)) effective
            in if cs_is_empty effective then (Inl ''no candidates for decider'', s)
               else if groups = [] then (Inl ''no chunks'', s)
               else if \<not> re_built E (sn_world s) then (Inl ''build decider reqwest client'', s)
               else if length groups = 1 then select_single E cfg ctx query context effective (hd groups) s
               else
                 ask_try (group_rounds E cfg (rx_use_vision ctx) query context effective 0 groups [] (None, None, None, None))
                   (select_final E cfg ctx query context effective) s)"

section \<open>The tiers\<close>

definition collect_candidates :: "('w, 'v, 'a, 's) resolve_env \<Rightarrow> resolve_context \<Rightarrow> ('w, candidates) asking" where
  "collect_candidates E ctx s =
     (case rx_candidates ctx of
        Some cs \<Rightarrow> (cs, s)
      | None \<Rightarrow>
          (case on_station (re_snapshot E (rx_target ctx)) s of
             (Some v, s) \<Rightarrow> (from_hint_snapshot (re_libs E) v None None None, s)
           | (None, s) \<Rightarrow> (candidates_new, s)))"

text \<open>\<open>as i32\<close> of a finite \<open>f64\<close> truncates and saturates.\<close>

definition f64_to_i32 :: "rat \<Rightarrow> i32" where
  "f64_to_i32 q = word_of_int (max (- (2 ^ 31)) (min (2 ^ 31 - 1) (if q < 0 then \<lceil>q\<rceil> else \<lfloor>q\<rfloor>)))"

definition try_visual_fallback :: "('w, 'v, 'a, 's) resolve_env \<Rightarrow> string \<Rightarrow> ('w, 'v resolve_result option) asking" where
  "try_visual_fallback E query s =
     (let J = re_json E; coord = (\<lambda>v k. unwrap_or 0 (Option.bind (j_get J v k) (li_as_f64 (re_libs E)))) in
      case on_station (re_ground E query) s of
        (Some v, s) \<Rightarrow>
          (if coord v ''x'' \<noteq> 0 \<or> coord v ''y'' \<noteq> 0 then
             Some ((unresolved Resolved Visual_fallback (j_obj J [(''ground'', v), (''via'', j_str J ''gemini'')]))
               \<lparr>rr_rect := Some (rect_new (f64_to_i32 (coord v ''x'')) (f64_to_i32 (coord v ''y'')) 1 1)\<rparr>)
           else None, s)
      | (None, s) \<Rightarrow> (None, s))"

text \<open>The fallback when it is allowed, and the uncertain result otherwise.\<close>

definition fallback_or ::
  "('w, 'v, 'a, 's) resolve_env \<Rightarrow> resolve_context \<Rightarrow> string \<Rightarrow> ('v resolve_result \<Rightarrow> 'v resolve_result) \<Rightarrow> 'v resolve_result
   \<Rightarrow> ('w, string + 'v resolve_result) asking" where
  "fallback_or E ctx q attach otherwise s =
     (if rx_allow_visual_fallback ctx then
        (case try_visual_fallback E q s of
           (Some fb, s) \<Rightarrow> (Inr (attach fb), s)
         | (None, s) \<Rightarrow> (Inr otherwise, s))
      else (Inr otherwise, s))"

text \<open>\<open>meta["decider"] = r.to_json()\<close> on a fallback result.\<close>

definition attach_meta :: "'v libs \<Rightarrow> 'v resolve_result \<Rightarrow> 'v resolve_result \<Rightarrow> 'v resolve_result" where
  "attach_meta L r fb =
     (case li_entries L (rr_meta fb) of
        Some kvs \<Rightarrow> fb\<lparr>rr_meta := j_obj (li_json L) (AList.update ''decider'' (result_to_value L r) kvs)\<rparr>
      | None \<Rightarrow> fb)"

text \<open>The four deterministic tiers, and what follows them.\<close>

definition first_match :: "'v libs \<Rightarrow> candidates \<Rightarrow> string \<Rightarrow> (candidate \<times> resolve_tier) option" where
  "first_match L cands q =
     or_else (map_option (\<lambda>c. (c, Exact)) (exact_match cands q))
       (or_else (map_option (\<lambda>c. (c, Dom_ax)) (try_dom_ax_resolution cands q))
         (or_else (map_option (\<lambda>c. (c, Hint)) (try_hint_tier L cands q))
           (map_option (\<lambda>c. (c, Heuristic)) (heuristic_single_match cands q))))"

definition model_tiers ::
  "('w, 'v, 'a, 's) resolve_env \<Rightarrow> resolve_context \<Rightarrow> string \<Rightarrow> candidates \<Rightarrow> ('w, string + 'v resolve_result) asking" where
  "model_tiers E ctx q cands s =
     (let J = re_json E in
      if cs_is_empty cands then
        fallback_or E ctx q id (unresolved Uncertain Undecided (reason J ''no candidates'' [(''query'', j_str J q)])) s
      else (case decider_select E ctx q cands s of
              (Inr r, s) \<Rightarrow> if rr_status r = Uncertain then fallback_or E ctx q (attach_meta (re_libs E) r) r s else (Inr r, s)
            | (Inl e, s) \<Rightarrow>
                fallback_or E ctx q id
                  (unresolved Uncertain Undecided (reason J ''all tiers exhausted''
                    [(''query'', j_str J q), (''candidate_count'', j_u64 J (of_nat (cs_len cands)))])) s))"

definition resolve_target ::
  "('w, 'v, 'a, 's) resolve_env \<Rightarrow> string \<Rightarrow> resolve_context \<Rightarrow> ('w, string + 'v resolve_result) asking" where
  "resolve_target E query ctx s =
     (let q = (if blank query then rx_query ctx else query); J = re_json E;
          budget = filtered_for_budget (rx_viewport ctx) (rx_min_geometry ctx) in
      if blank q then (Inl ''resolve_target needs query'', s)
      else (case collect_candidates E ctx s of
        (collected, s) \<Rightarrow>
          let cands = (if text_max_options < cs_len collected then budget collected else collected) in
          (case first_match (re_libs E) cands q of
             Some (c, tier) \<Rightarrow> (Inr (resolved J c tier), s)
           | None \<Rightarrow>
               let narrowed = budget cands in
               if cs_len narrowed \<noteq> cs_len cands \<and> 0 < cs_len narrowed then
                 (case heuristic_single_match narrowed q of
                    Some c \<Rightarrow> (Inr (resolved J c Heuristic), s)
                  | None \<Rightarrow> model_tiers E ctx q narrowed s)
               else model_tiers E ctx q cands s)))"

end
