(* ===== verification/Target_Props.thy ===== *)
theory Target_Props
  imports Target_Resolution
begin

text \<open>
  What a resolved target is: one of the collected candidates, never one the decider was not confident about,
  and coordinates only from the vision model. The last section shows where the choice goes astray.
\<close>

section \<open>Candidates stay candidates\<close>

lemma set_filtered [simp]: "set (cs_candidates (filtered P cs)) = {c \<in> set (cs_candidates cs). P c}"
  by (auto simp: filtered_def)

lemma set_budget: "set (cs_candidates (filtered_for_budget vp mg cs)) \<subseteq> set (cs_candidates cs)"
  by (auto simp: filtered_for_budget_def Let_def filter_visible_def filter_enabled_def filter_non_empty_rect_def
      filter_viewport_def filter_geometry_def split: option.splits)

lemma only_hit_Some: "only_hit P cs = Some c \<Longrightarrow> c \<in> set (cs_candidates cs) \<and> P c"
proof -
  assume "only_hit P cs = Some c"
  then have "filter P (cs_candidates cs) = [c]" by (auto simp: only_hit_def split: list.splits)
  then show ?thesis by (metis (no_types, lifting) list.set_intros(1) mem_Collect_eq set_filter)
qed

lemma exact_match_Some:
  "exact_match cs q = Some c \<Longrightarrow> c \<in> set (cs_candidates cs) \<and> normalize_text q \<in> {normalized_name c, normalized_text c}"
  by (auto simp: exact_match_def Let_def dest!: only_hit_Some split: if_splits)

lemma heuristic_single_match_Some: "heuristic_single_match cs q = Some c \<Longrightarrow> c \<in> set (cs_candidates cs)"
  by (auto simp: heuristic_single_match_def Let_def dest!: only_hit_Some split: if_splits)

lemma try_dom_ax_Some: "try_dom_ax_resolution cs q = Some c \<Longrightarrow> c \<in> set (cs_candidates cs)"
proof -
  assume a: "try_dom_ax_resolution cs q = Some c"
  let ?n = "filter_visible (filter_enabled cs)"
  obtain role where "cs_candidates (filter_by_role role (if cs_is_empty ?n then cs else ?n)) = [c]"
    using a unfolding try_dom_ax_resolution_def Let_def
    by (auto split: option.splits list.splits if_splits)
  then have "c \<in> set (cs_candidates (filter_by_role role (if cs_is_empty ?n then cs else ?n)))" by simp
  then show ?thesis
    by (auto simp: filter_by_role_def Let_def filter_visible_def filter_enabled_def simp del: cs_candidates_def split: if_splits)
qed

lemma try_hint_tier_Some: "try_hint_tier L cs q = Some c \<Longrightarrow> c \<in> set (cs_candidates cs)"
  by (auto simp: try_hint_tier_def Let_def or_else_Some bind_eq_Some_conv dest!: get_by_label_in cs_get_Some
      split: option.splits if_splits)

lemma set_collect_winners: "set (collect_winners cs seen ids) \<subseteq> set (cs_candidates cs)"
  by (induction cs seen ids rule: collect_winners.induct) (auto dest: cs_get_Some [OF sym] split: option.splits)

lemma set_group_winners: "set (cs_candidates (group_winners ids cs)) \<subseteq> set (cs_candidates cs)"
  using set_collect_winners by (simp add: group_winners_def)

lemma set_chunk: "g \<in> set (chunks m cs) \<Longrightarrow> set g \<subseteq> set (cs_candidates cs)"
  by (metis UN_upper chunks_eq concat_groups equals0D groups_of_Nil(2) list.set(1) neq0_conv set_concat)

section \<open>Trustworthy results\<close>

text \<open>
  A success names a candidate, its id and its rectangle; one by the decider has no low confidence; only the
  vision model gives coordinates without a candidate.
\<close>

definition trustworthy :: "candidate set \<Rightarrow> 'v resolve_result \<Rightarrow> bool" where
  "trustworthy S r =
     (rr_status r \<noteq> Failure \<and>
      (rr_status r = Resolved \<longrightarrow>
         rr_tier r = Visual_fallback \<and> rr_candidate r = None
         \<or> rr_tier r \<noteq> Visual_fallback \<and> (\<exists>c \<in> S. rr_candidate r = Some c \<and> rr_id r = Some (cd_id c) \<and> rr_rect r = Some (cd_rect c))
           \<and> (rr_tier r \<in> {Decider_text, Decider_vision} \<longrightarrow>
                \<not> confidence_is_low (rr_confidence r) (rr_runner_up r) (rr_margin r) (rr_probabilities r))))"

lemma trustworthy_mono: "trustworthy S r \<Longrightarrow> S \<subseteq> T \<Longrightarrow> trustworthy T r"
  unfolding trustworthy_def by blast

lemma trustworthy_resolved: "c \<in> S \<Longrightarrow> t \<notin> {Visual_fallback, Decider_text, Decider_vision} \<Longrightarrow> trustworthy S (resolved J c t)"
  by (simp add: trustworthy_def resolved_def)

lemma trustworthy_judged: "c \<in> S \<Longrightarrow> trustworthy S (judged J vision c choice dec meta)"
  by (auto simp: judged_def Let_def trustworthy_def resolved_def unresolved_def decider_tier_def)

lemma map_decider_response_trustworthy:
  assumes "map_decider_response J chunk resp vision = Inr r"
  shows "trustworthy (set chunk) r"
proof (cases "rp_decisions resp")
  case (Cons dec ds)
  have f: "find P chunk = Some c \<Longrightarrow> c \<in> set chunk" for P c by (auto simp: find_Some_iff)
  show ?thesis
    using assms Cons
    by (auto simp: map_decider_response_def Let_def intro!: trustworthy_judged dest!: f split: option.splits if_splits)
qed (use assms in \<open>simp add: map_decider_response_def\<close>)

lemma final_choice_cases:
  assumes "final_choice J vision effective winners deduped ev resp = Inr r" "set (cs_candidates winners) \<subseteq> set (cs_candidates effective)"
  shows "first_winner J vision winners deduped ev = Inr r
    \<or> (\<exists>c \<in> set (cs_candidates effective). \<exists>choice dec meta. r = judged J vision c choice dec meta)"
proof (cases "rp_decisions resp")
  case (Cons dec ds)
  let ?choice = "dc_choice dec"
  let ?idx = "unwrap_or 0 (parse_usize ?choice)"
  let ?use = "cs_get (of_nat (unwrap_or 0 (parse_uint 32 ?choice))) winners \<noteq> None \<and> 1 \<le> ?idx \<and> ?idx \<le> cs_len winners"
  note d = assms(1) [unfolded final_choice_def Cons list.case Let_def]
  show ?thesis
  proof (cases ?use)
    case True
    then have "cs_candidates winners ! (?idx - 1) \<in> set (cs_candidates effective)"
      using assms(2) nth_mem [of "?idx - 1" "cs_candidates winners"] by (auto simp: cs_len_def)
    then show ?thesis using d unfolding if_P [OF True] by auto
  next
    case False
    then show ?thesis using d unfolding if_not_P [OF False] by (auto split: option.splits dest!: cs_get_Some simp: bind_eq_Some_conv)
  qed
qed (use assms(1) in \<open>simp add: final_choice_def\<close>)

lemma final_choice_trustworthy:
  assumes "final_choice J vision effective winners deduped ev resp = Inr r" "set (cs_candidates winners) \<subseteq> set (cs_candidates effective)"
  shows "trustworthy (set (cs_candidates effective)) r"
proof -
  have "first_winner J vision winners deduped ev = Inr r \<Longrightarrow> trustworthy S r" for S
    by (auto simp: first_winner_def trustworthy_def unresolved_def split: list.splits prod.splits)
  then show ?thesis using final_choice_cases [OF assms] by (elim disjE bexE exE) (simp_all add: trustworthy_judged)
qed

lemma ask_try_Inr: "ask_try m f s = (Inr b, s') \<longleftrightarrow> (\<exists>a s1. m s = (Inr a, s1) \<and> f a s1 = (Inr b, s'))"
proof (cases "m s")
  case (Pair x s1)
  then show ?thesis by (cases x) (simp_all add: ask_try_def)
qed

lemma select_single_from:
  assumes "select_single E cfg ctx query context effective chunk s = (Inr r, s')"
  shows "\<exists>resp. map_decider_response (re_json E) chunk resp (rx_use_vision ctx) = Inr r"
proof -
  obtain req s1 where i: "illustrated E (rx_use_vision ctx) (rx_image ctx) effective
      (decider_request_new context [build_decider_question query (rx_use_vision ctx) chunk]) s = (req, s1)"
    by (cases "illustrated E (rx_use_vision ctx) (rx_image ctx) effective
      (decider_request_new context [build_decider_question query (rx_use_vision ctx) chunk]) s")
  show ?thesis using assms unfolding select_single_def i prod.case ask_try_Inr by auto
qed

lemma select_final_from:
  assumes "select_final E cfg ctx query context effective seen s = (Inr r, s')"
  shows "\<exists>ids ev resp. final_choice (re_json E) (rx_use_vision ctx) effective (group_winners ids effective) ids ev resp = Inr r"
proof -
  obtain winning ev where seen: "seen = (winning, ev)" by (cases seen)
  define deduped where "deduped = rev (remdups (rev winning))"
  let ?w = "group_winners deduped effective"
  note d = assms [unfolded select_final_def Let_def seen prod.case, folded deduped_def]
  obtain req s1 where i: "illustrated E (rx_use_vision ctx) None ?w
      (decider_request_new context [build_decider_question query (rx_use_vision ctx) (cs_candidates ?w)]) s = (req, s1)"
    by (cases "illustrated E (rx_use_vision ctx) None ?w
      (decider_request_new context [build_decider_question query (rx_use_vision ctx) (cs_candidates ?w)]) s")
  have "ask_try (ask_one E cfg req)
      (\<lambda>resp s. (final_choice (re_json E) (rx_use_vision ctx) effective ?w deduped ev resp, s)) s1 = (Inr r, s')"
    using d unfolding i prod.case by (simp split: if_splits)
  then obtain resp where "final_choice (re_json E) (rx_use_vision ctx) effective ?w deduped ev resp = Inr r"
    unfolding ask_try_Inr by auto
  then show ?thesis by blast
qed

lemma decider_select_from:
  assumes "decider_select E ctx q cands s = (Inr r, s')"
  shows "\<exists>effective. set (cs_candidates effective) \<subseteq> set (cs_candidates cands)
    \<and> ((\<exists>chunk resp. set chunk \<subseteq> set (cs_candidates effective) \<and> map_decider_response (re_json E) chunk resp (rx_use_vision ctx) = Inr r)
       \<or> (\<exists>ids ev resp. final_choice (re_json E) (rx_use_vision ctx) effective (group_winners ids effective) ids ev resp = Inr r))"
proof -
  let ?n = "filtered_for_budget (rx_viewport ctx) (rx_min_geometry ctx) cands"
  define effective where "effective = (if cs_is_empty ?n then cands else ?n)"
  define groups where "groups = chunks (max_per_group (rx_use_vision ctx)) effective"
  have sub: "set (cs_candidates effective) \<subseteq> set (cs_candidates cands)"
    using set_budget [of "rx_viewport ctx" "rx_min_geometry ctx" cands] by (simp add: effective_def)
  obtain cfg s1 where c: "on_prober (config_from_env (re_probe E)) s = (cfg, s1)" by (cases "on_prober (config_from_env (re_probe E)) s")
  note d = assms [unfolded decider_select_def Let_def effective_def [symmetric] groups_def [symmetric] c prod.case]
  consider (single) con where "groups \<noteq> []" "select_single E cfg ctx q con effective (hd groups) s1 = (Inr r, s')"
    | (final) con seen s2 where "select_final E cfg ctx q con effective seen s2 = (Inr r, s')"
    using d by (auto simp: ask_try_Inr split: if_splits prod.splits)
  then show ?thesis
  proof cases
    case single
    then have "set (hd groups) \<subseteq> set (cs_candidates effective)" unfolding groups_def using set_chunk hd_in_set by blast
    then show ?thesis using sub select_single_from [OF single(2)] by blast
  next
    case final
    then show ?thesis using sub select_final_from [OF final] by blast
  qed
qed

lemma decider_select_trustworthy:
  assumes "decider_select E ctx q cands s = (Inr r, s')"
  shows "trustworthy (set (cs_candidates cands)) r"
proof -
  obtain effective where e: "set (cs_candidates effective) \<subseteq> set (cs_candidates cands)"
    and c: "(\<exists>chunk resp. set chunk \<subseteq> set (cs_candidates effective) \<and> map_decider_response (re_json E) chunk resp (rx_use_vision ctx) = Inr r)
       \<or> (\<exists>ids ev resp. final_choice (re_json E) (rx_use_vision ctx) effective (group_winners ids effective) ids ev resp = Inr r)"
    using decider_select_from [OF assms] by blast
  have "trustworthy (set (cs_candidates effective)) r"
    using c map_decider_response_trustworthy [THEN trustworthy_mono] final_choice_trustworthy [OF _ set_group_winners] by metis
  then show ?thesis using e by (rule trustworthy_mono)
qed

lemma judged_tier: "rr_tier (judged J vision c choice dec meta) = decider_tier vision"
  by (simp add: judged_def Let_def resolved_def unresolved_def)

lemma decider_select_tier:
  assumes "decider_select E ctx q cands s = (Inr r, s')"
  shows "rr_tier r = decider_tier (rx_use_vision ctx)"
proof -
  have m: "map_decider_response J chunk resp vision = Inr r \<Longrightarrow> rr_tier r = decider_tier vision" for J chunk resp vision
    by (auto simp: map_decider_response_def Let_def judged_tier split: list.splits option.splits if_splits)
  have w: "first_winner J vision winners deduped ev = Inr r \<Longrightarrow> rr_tier r = decider_tier vision" for J vision winners deduped ev
    by (auto simp: first_winner_def unresolved_def split: list.splits prod.splits)
  have "final_choice J vision e (group_winners ids e) ids ev resp = Inr r \<Longrightarrow> rr_tier r = decider_tier vision" for J vision e ids ev resp
    using final_choice_cases [OF _ set_group_winners, of J vision e ids ids ev resp r] w judged_tier by metis
  then show ?thesis using decider_select_from [OF assms] m by metis
qed

lemma fallback_trustworthy:
  assumes "fallback_or E ctx q attach otherwise s = (r, s')" "trustworthy S otherwise" "rr_tier otherwise \<notin> {Exact, Visual_fallback}"
    and "\<And>fb. attach fb = fb\<lparr>rr_meta := rr_meta (attach fb)\<rparr>"
  shows "\<exists>x. r = Inr x \<and> trustworthy S x \<and> rr_tier x \<noteq> Exact \<and> (rr_tier x = Visual_fallback \<longrightarrow> rx_allow_visual_fallback ctx)"
proof -
  have fb: "trustworthy S (attach fb) \<and> rr_tier (attach fb) = Visual_fallback" if "try_visual_fallback E q s = (Some fb, t)" for fb t
  proof -
    have f: "rr_status fb = Resolved" "rr_tier fb = Visual_fallback" "rr_candidate fb = None"
      using that by (auto simp: try_visual_fallback_def Let_def unresolved_def split: prod.splits option.splits if_splits)
    then have "rr_status (attach fb) = Resolved" "rr_tier (attach fb) = Visual_fallback" "rr_candidate (attach fb) = None"
      by (subst assms(4), simp)+
    then show ?thesis by (simp add: trustworthy_def)
  qed
  show ?thesis using assms(1-3) fb by (auto simp: fallback_or_def split: if_splits prod.splits option.splits)
qed

lemma attach_meta_only: "attach_meta L r fb = fb\<lparr>rr_meta := rr_meta (attach_meta L r fb)\<rparr>"
  by (cases "li_entries L (rr_meta fb)") (simp_all add: attach_meta_def)

lemma model_tiers_trustworthy:
  fixes E :: "('w, 'v, 'a, 's) resolve_env"
  assumes "model_tiers E ctx q cands s = (Inr r, s')" "set (cs_candidates cands) \<subseteq> S"
  shows "trustworthy S r \<and> rr_tier r \<noteq> Exact \<and> (rr_tier r = Visual_fallback \<longrightarrow> rx_allow_visual_fallback ctx)"
proof -
  have u: "trustworthy S (unresolved Uncertain Undecided meta)" for meta :: 'v by (simp add: trustworthy_def unresolved_def)
  have f: "fallback_or E ctx q id (unresolved Uncertain Undecided meta) s1 = (Inr r, s') \<Longrightarrow> ?thesis" for meta s1
    using fallback_trustworthy [of E ctx q id "unresolved Uncertain Undecided meta" s1 "Inr r" s' S, OF _ u]
    by (auto simp: unresolved_def)
  show ?thesis
  proof (cases "cs_is_empty cands")
    case True
    then show ?thesis using assms(1) f by (auto simp: model_tiers_def Let_def)
  next
    case False
    obtain x s1 where x: "decider_select E ctx q cands s = (x, s1)" by (cases "decider_select E ctx q cands s")
    note d = assms(1) [unfolded model_tiers_def Let_def if_not_P [OF False] x prod.case]
    show ?thesis
    proof (cases x)
      case (Inl e)
      then show ?thesis using d f by auto
    next
      case (Inr y)
      note x = x [unfolded Inr]
      have t: "trustworthy S y" by (rule trustworthy_mono [OF decider_select_trustworthy [OF x] assms(2)])
      have tier: "rr_tier y \<in> {Decider_text, Decider_vision}"
        unfolding decider_select_tier [OF x] by (simp add: decider_tier_def)
      show ?thesis
      proof (cases "rr_status y = Uncertain")
        case True
        then show ?thesis
          using d Inr tier fallback_trustworthy [of E ctx q "attach_meta (re_libs E) y" y s1 "Inr r" s' S, OF _ t _ attach_meta_only] by auto
      next
        case False
        then show ?thesis using d Inr t tier by auto
      qed
    qed
  qed
qed

lemma first_match_Some:
  assumes "first_match L cs q = Some (c, t)"
  shows "c \<in> set (cs_candidates cs) \<and> t \<in> {Exact, Dom_ax, Hint, Heuristic}
    \<and> (t = Exact \<longrightarrow> normalize_text q \<in> {normalized_name c, normalized_text c})"
  using assms exact_match_Some try_dom_ax_Some try_hint_tier_Some heuristic_single_match_Some
  by (fastforce simp: first_match_def or_else_Some)

section \<open>The policy\<close>

text \<open>
  C18: What \<open>resolve_target\<close> may return. Its result is never a failure value, and a success is one of two: a
  candidate of the collection (with its id and rectangle), whose name or text is the query when the tier is
  \<open>exact\<close> and whose evidence has no low confidence when the decider chose it, or coordinates of the vision
  model, which need the permission of the context.
\<close>

theorem resolve_target_trustworthy:
  assumes "resolve_target E query ctx s = (Inr r, s')"
  defines "S \<equiv> set (cs_candidates (fst (collect_candidates E ctx s)))"
    and "q \<equiv> if blank query then rx_query ctx else query"
  shows "trustworthy S r
    \<and> (rr_tier r = Exact \<longrightarrow> (\<exists>c \<in> S. rr_candidate r = Some c \<and> normalize_text q \<in> {normalized_name c, normalized_text c}))
    \<and> (rr_tier r = Visual_fallback \<longrightarrow> rx_allow_visual_fallback ctx)"
proof -
  obtain collected s1 where c: "collect_candidates E ctx s = (collected, s1)" by (cases "collect_candidates E ctx s")
  define budget where "budget = filtered_for_budget (rx_viewport ctx) (rx_min_geometry ctx)"
  define cands where "cands = (if text_max_options < cs_len collected then budget collected else collected)"
  have b: "set (cs_candidates (budget x)) \<subseteq> set (cs_candidates x)" for x unfolding budget_def by (rule set_budget)
  have S: "set (cs_candidates cands) \<subseteq> S" using b [of collected] by (auto simp: S_def c cands_def)
  have S2: "set (cs_candidates (budget cands)) \<subseteq> S" using b [of cands] S by blast
  note d = assms(1) [unfolded resolve_target_def Let_def, folded q_def budget_def, unfolded c prod.case, folded cands_def]
  show ?thesis
  proof (cases "first_match (re_libs E) cands q")
    case (Some m)
    obtain c t where m: "m = (c, t)" by (cases m)
    have "r = resolved (re_json E) c t" using d Some m by (auto split: if_splits)
    then show ?thesis
      using first_match_Some [OF Some [unfolded m]] S trustworthy_resolved [of c S t "re_json E"] by (auto simp: resolved_def)
  next
    case None
    note d = d [unfolded None option.case]
    show ?thesis
    proof (cases "cs_len (budget cands) \<noteq> cs_len cands \<and> 0 < cs_len (budget cands)")
      case True
      show ?thesis
      proof (cases "heuristic_single_match (budget cands) q")
        case None
        then show ?thesis using d True model_tiers_trustworthy [of E ctx q "budget cands" s1 r s', OF _ S2] by (auto split: if_splits)
      next
        case (Some c)
        then have "c \<in> S" using heuristic_single_match_Some S2 by blast
        moreover have "r = resolved (re_json E) c Heuristic" using d True Some by (auto split: if_splits)
        ultimately show ?thesis using trustworthy_resolved [of c S Heuristic "re_json E"] by (simp add: resolved_def)
      qed
    next
      case False
      then show ?thesis using d model_tiers_trustworthy [of E ctx q cands s1 r s', OF _ S] by (auto split: if_splits)
    qed
  qed
qed

section \<open>A sample page\<close>

text \<open>The environment answers nothing; the variables switch the decider off.\<close>

definition page_probe :: "(nat, unit, unit) probe_env" where
  "page_probe = dark_net\<lparr>pe_var := (\<lambda>w k. if k = ''DECIDER_ENABLED'' then Some ''0'' else None)\<rparr>"

definition sample_page :: "(nat, json, unit, unit) resolve_env" where
  "sample_page = \<lparr>re_client = fruit_service, re_probe = page_probe, re_built = (\<lambda>w. True), re_snapshot = (\<lambda>t w. (None, w)),
     re_capture = (\<lambda>cs w. (None, w)), re_ground = (\<lambda>q w. (None, w))\<rparr>"

definition sample_station :: "nat station" where
  "sample_station = \<lparr>sn_slot = None, sn_global = decider_metrics_new, sn_world = 0\<rparr>"

definition with_three :: resolve_context where
  "with_three = (resolve_context_new ''B'')\<lparr>rx_candidates := Some sample_three\<rparr>"

theorem resolve_target_trustworthy_witness:
  "case resolve_target sample_page ''B'' with_three sample_station of
     (Inr r, s) \<Rightarrow> rr_tier r = Exact \<and> (\<exists>c \<in> set (cs_candidates sample_three). rr_candidate r = Some c)
   | (Inl e, s) \<Rightarrow> False"
proof -
  have e: "exact_match sample_three ''B'' = Some (sample_candidate 2 ''b'')" "\<not> text_max_options < cs_len sample_three" "\<not> blank ''B''"
    by code_simp+
  have c: "collect_candidates sample_page with_three sample_station = (sample_three, sample_station)"
    by (simp add: collect_candidates_def with_three_def)
  have j: "re_json sample_page = std_json" by (simp add: sample_page_def fruit_service_def fruit_libs_def)
  have r: "resolve_target sample_page ''B'' with_three sample_station = (Inr (resolved std_json (sample_candidate 2 ''b'') Exact), sample_station)"
    using j by (simp add: resolve_target_def Let_def c e first_match_def)
  show ?thesis using resolve_target_trustworthy [OF r] c by (auto simp: r resolved_def)
qed

section \<open>Where the choice goes astray\<close>

text \<open>
  The substring test that is to keep the role match from false positives holds for a candidate without text:
  the empty text is a substring of every query. The only button of a page is pressed whatever its name.
\<close>

lemma role_match_ignores_name:
  "try_dom_ax_resolution (from_vec [sample_candidate 1 ''Cancel'']) ''press the login button'' = Some (sample_candidate 1 ''Cancel'')"
  by code_simp

text \<open>
  The last choice among the winners of the groups is a number from 1, but it is first looked up as a
  candidate id. With the winners 7 and 260 the confident choice of the second is lost, and the first is
  reported, uncertain.
\<close>

definition far_winners :: candidates where
  "far_winners = from_vec [sample_candidate 7 ''Search'', sample_candidate 260 ''Login'']"

definition second_chosen :: "json decider_response" where
  "second_chosen = \<lparr>rp_decisions = [\<lparr>dc_choice = ''2'', dc_confidence = Some (Finite (9 / 10)), dc_probabilities = None\<rparr>],
     rp_model = None, rp_device = None, rp_latency_ms = None, rp_usage = None\<rparr>"

lemma final_choice_lost:
  "case final_choice std_json False far_winners far_winners [7, 260] (None, None, None, None) second_chosen of
     Inr r \<Rightarrow> rr_status r = Uncertain \<and> rr_id r = Some 7
   | Inl e \<Rightarrow> False"
  by code_simp

text \<open>An answer without a confidence is taken for a confident one.\<close>

lemma no_confidence_is_not_low: "\<not> confidence_is_low None ru m p"
  by (simp add: confidence_is_low_def)

end
