(* ===== verification/Hint_Choice.thy ===== *)
theory Hint_Choice
  imports Target_Props
begin

text \<open>
  Clicking the hint an instruction means (\<open>src/decider/hint_resolve.rs\<close>): the heuristic fast path, the
  selection by the decider with its groups, the way from its choice to a candidate, and the same for a key
  of an on-screen keyboard. Snapshots, clicks and screenshots are functions on the world.
\<close>

section \<open>From a choice to a candidate\<close>

definition resolve_global_id :: "candidates \<Rightarrow> string \<Rightarrow> string + u32" where
  "resolve_global_id cs choice =
     (let by_text =
            (case find (\<lambda>c. display_text c = choice \<or> vision_text c = choice \<or> cd_name c = choice) (cs_candidates cs) of
               Some c \<Rightarrow> Inr (cd_id c)
             | None \<Rightarrow> Inl (''choice '' @ quoted choice @ '' does not map to a candidate''))
      in case parse_uint 32 choice of
           None \<Rightarrow> by_text
         | Some i \<Rightarrow>
             if cs_get (of_nat i) cs \<noteq> None then Inr (of_nat i)
             else if 1 \<le> i \<and> i \<le> cs_len cs then Inr (cd_id (cs_candidates cs ! (i - 1)))
             else by_text)"

section \<open>The world\<close>

record ('w, 'v, 'a, 's) hint_env =
  he_resolve :: "('w, 'v, 'a, 's) resolve_env"
  he_snapshot :: "string option \<Rightarrow> 'w \<Rightarrow> (string + 'v) \<times> 'w"
  he_click :: "string \<Rightarrow> string option \<Rightarrow> 'w \<Rightarrow> (string + 'v) \<times> 'w"
  he_point_click :: "f64 \<Rightarrow> f64 \<Rightarrow> 'w \<Rightarrow> (string + unit) \<times> 'w"

abbreviation he_libs :: "('w, 'v, 'a, 's) hint_env \<Rightarrow> 'v libs" where
  "he_libs E \<equiv> re_libs (he_resolve E)"

abbreviation he_json :: "('w, 'v, 'a, 's) hint_env \<Rightarrow> 'v json_ops" where
  "he_json E \<equiv> li_json (he_libs E)"

text \<open>The centre of a rectangle; halves of an \<open>i32\<close> and their sums are exact.\<close>

definition centre :: "rect \<Rightarrow> f64 \<times> f64" where
  "centre r = (Finite (of_int (sint (rc_x r)) + of_int (sint (rc_width r)) / 2),
               Finite (of_int (sint (rc_y r)) + of_int (sint (rc_height r)) / 2))"

section \<open>Selection\<close>

text \<open>An image that does not validate is left out.\<close>

definition with_checked_image :: "'v libs \<Rightarrow> string option \<Rightarrow> decider_request \<Rightarrow> decider_request" where
  "with_checked_image L shot req =
     (case shot of Some img \<Rightarrow> if is_ok (validate_image_field L img) then with_image img req else req | None \<Rightarrow> req)"

text \<open>The image of a group, or the one taken before.\<close>

definition group_image ::
  "('w, 'v, 'a, 's) hint_env \<Rightarrow> bool \<Rightarrow> string option \<Rightarrow> candidates \<Rightarrow> decider_request \<Rightarrow> ('w, decider_request) asking" where
  "group_image E vision shot cands req s =
     (if \<not> vision then (req, s)
      else (case on_station (re_capture (he_resolve E) cands) s of
              (Some img, s) \<Rightarrow> (with_image img req, s)
            | (None, s) \<Rightarrow> (case shot of Some img \<Rightarrow> (with_image img req, s) | None \<Rightarrow> (req, s))))"

definition winner_of :: "candidate list \<Rightarrow> string \<Rightarrow> u32 list" where
  "winner_of chunk choice =
     (case parse_usize choice of
        Some i \<Rightarrow> if 1 \<le> i \<and> i \<le> length chunk then [cd_id (chunk ! (i - 1))] else []
      | None \<Rightarrow>
          (case find (\<lambda>c. display_text c = choice \<or> vision_text c = choice) chunk of Some c \<Rightarrow> [cd_id c] | None \<Rightarrow> []))"

text \<open>The requests of one selection share the counters \<open>m\<close> of their client.\<close>

fun hint_rounds ::
  "('w, 'v, 'a, 's) hint_env \<Rightarrow> decider_config \<Rightarrow> bool \<Rightarrow> string option \<Rightarrow> string \<Rightarrow> string \<Rightarrow> nat \<Rightarrow> nat \<Rightarrow> candidate list list
   \<Rightarrow> u32 list \<Rightarrow> decider_metrics \<Rightarrow> ('w, (string + u32 list) \<times> decider_metrics) asking" where
  "hint_rounds E cfg vision shot query context count_all idx [] winning m s = ((Inr winning, m), s)"
| "hint_rounds E cfg vision shot query context count_all idx (chunk # groups) winning m s =
     (let q = (if 1 < count_all then query @ '' '' @ em_dash @ '' group '' @ show_nat (idx + 1) @ ''/'' @ show_nat count_all else query)
      in case group_image E vision shot (from_vec chunk) (decider_request_new context [build_decider_question q vision chunk]) s of
           (req, s) \<Rightarrow>
             (case ask (he_resolve E) cfg req m s of
                ((Inl e, m), s) \<Rightarrow> ((Inl e, m), s)
              | ((Inr resp, m), s) \<Rightarrow>
                  hint_rounds E cfg vision shot query context count_all (idx + 1) groups
                    (winning @ (case rp_decisions resp of [] \<Rightarrow> [] | dec # _ \<Rightarrow> winner_of chunk (dc_choice dec))) m s))"

definition first_decision :: "string \<Rightarrow> 'v decider_response \<Rightarrow> string + decision" where
  "first_decision msg resp = (case rp_decisions resp of [] \<Rightarrow> Inl msg | dec # _ \<Rightarrow> Inr dec)"

text \<open>The last choice carries the id of the winner it names.\<close>

definition winner_decision :: "candidates \<Rightarrow> decision \<Rightarrow> decision" where
  "winner_decision winners dec =
     (case parse_usize (dc_choice dec) of
        Some i \<Rightarrow>
          if 1 \<le> i \<and> i \<le> cs_len winners then dec\<lparr>dc_choice := show_nat (unat (cd_id (cs_candidates winners ! (i - 1))))\<rparr> else dec
      | None \<Rightarrow> dec)"

definition select_with_candidates ::
  "('w, 'v, 'a, 's) hint_env \<Rightarrow> candidates \<Rightarrow> string \<Rightarrow> string \<Rightarrow> bool \<Rightarrow> string option \<Rightarrow> ('w, string + decision) asking" where
  "select_with_candidates E cs query context vision shot s =
     (case on_prober (config_from_env (re_probe (he_resolve E))) s of
        (cfg, s) \<Rightarrow>
          if \<not> re_built (he_resolve E) (sn_world s) then (Inl ''build decider reqwest client'', s)
          else if cs_len cs \<le> max_per_group vision then
            ask_try
              (ask_one (he_resolve E) cfg
                (with_checked_image (he_libs E) shot
                  (decider_request_new context [build_decider_question query vision (cs_candidates cs)])))
              (\<lambda>resp s. (first_decision ''empty decisions'' resp, s)) s
          else
            (let groups = chunks (max_per_group vision) cs in
             case hint_rounds E cfg vision shot query context (length groups) 0 groups [] decider_metrics_new s of
               ((Inl e, m), s) \<Rightarrow> (Inl e, s)
             | ((Inr winning, m), s) \<Rightarrow>
                 let winners = group_winners winning cs in
                 if winning = [] then (Inl ''hierarchical: no winners'', s)
                 else if cs_len winners \<le> max_per_group vision then
                   (case group_image E vision shot winners
                           (decider_request_new context [build_decider_question query vision (cs_candidates winners)]) s of
                      (req, s) \<Rightarrow>
                        (case ask (he_resolve E) cfg req m s of
                           ((r, m), s) \<Rightarrow>
                             (try_then r (\<lambda>resp. try_then (first_decision ''empty final decision'' resp) (\<lambda>dec. Inr (winner_decision winners dec))), s)))
                 else (Inl (''hierarchical winners still over budget after dedup: '' @ show_nat (cs_len winners) @ '' > ''
                         @ show_nat (max_per_group vision)), s)))"

section \<open>\<open>hint_resolve\<close>\<close>

definition candidate_brief :: "'v json_ops \<Rightarrow> candidate \<Rightarrow> 'v" where
  "candidate_brief J c = j_obj J [(''id'', u32_value J (cd_id c)), (''label'', j_str J (cd_label c))]"

text \<open>The answer to an unsure choice, if it is one: the confidence, then its distance to the runner-up.\<close>

definition unsure ::
  "'v libs \<Rightarrow> string \<Rightarrow> nat \<Rightarrow> decision \<Rightarrow> 'v option" where
  "unsure L instruction n_candidates dec =
     (let J = li_json L; choice = j_str J (dc_choice dec); instr = j_str J instruction in
      case dc_confidence dec of
        None \<Rightarrow> None
      | Some c \<Rightarrow>
          if f64_less c low_confidence_threshold then
            Some (j_obj J
              [(''success'', j_bool J False), (''status'', j_str J ''uncertain''), (''reason'', j_str J ''low confidence''),
               (''confidence'', f64_value L c), (''probabilities'', j_opt J (probabilities_value L) (dc_probabilities dec)),
               (''instruction'', instr), (''choice'', choice), (''candidate_count'', j_u64 J (of_nat n_candidates))])
          else
            (case dc_probabilities dec of
               None \<Rightarrow> None
             | Some p \<Rightarrow>
                 (case runner_up_from_probs p (dc_choice dec) of
                    None \<Rightarrow> None
                  | Some ru \<Rightarrow>
                      if f64_less (f64_sub c ru) margin_threshold then
                        Some (j_obj J
                          [(''success'', j_bool J False), (''status'', j_str J ''uncertain''), (''reason'', j_str J ''low margin''),
                           (''confidence'', f64_value L c), (''runner_up'', f64_value L ru), (''margin'', f64_value L (f64_sub c ru)),
                           (''probabilities'', probabilities_value L p), (''instruction'', instr), (''choice'', choice)])
                      else None)))"

text \<open>A labelled candidate is clicked by its label, another one at its centre.\<close>

definition click_candidate ::
  "('w, 'v, 'a, 's) hint_env \<Rightarrow> string option \<Rightarrow> candidate \<Rightarrow> ('w, string + 'v) asking" where
  "click_candidate E target c s =
     (if cd_label c \<noteq> [] then on_station (he_click E (cd_label c) target) s
      else (let J = he_json E; (x, y) = centre (cd_rect c) in
            ask_try (on_station (he_point_click E x y)) (\<lambda>_ s.
              (Inr (j_obj J [(''clicked'', j_bool J True), (''x'', f64_value (he_libs E) x), (''y'', f64_value (he_libs E) y),
                 (''via'', j_str J ''rect_center'')]), s)) s))"

definition decided_click ::
  "('w, 'v, 'a, 's) hint_env \<Rightarrow> string \<Rightarrow> string option \<Rightarrow> bool \<Rightarrow> candidates \<Rightarrow> decision \<Rightarrow> ('w, string + 'v) asking" where
  "decided_click E instruction target vision cs dec s =
     (let J = he_json E; L = he_libs E in
      case unsure L instruction (cs_len cs) dec of
        Some v \<Rightarrow> (Inr v, s)
      | None \<Rightarrow>
          (case resolve_global_id cs (dc_choice dec) of
             Inl e \<Rightarrow> (Inl e, s)
           | Inr i \<Rightarrow>
               (case cs_get i cs of
                  None \<Rightarrow> (Inl (''candidate '' @ show_nat (unat i) @ '' not found''), s)
                | Some c \<Rightarrow>
                    ask_try (click_candidate E target c) (\<lambda>res s.
                      (Inr (j_obj J
                        [(''success'', j_bool J True), (''tier'', j_str J (tier_str (decider_tier vision))),
                         (''candidate'', j_obj J
                            [(''id'', u32_value J (cd_id c)), (''label'', j_str J (cd_label c)), (''tag'', j_str J (cd_tag c)),
                             (''role'', j_str J (cd_role c)), (''name'', j_str J (cd_name c)),
                             (''rect'', rect_to_value J (cd_rect c)), (''selector'', j_str J (cd_selector c))]),
                         (''id'', u32_value J (cd_id c)), (''label'', j_str J (cd_label c)), (''choice'', j_str J (dc_choice dec)),
                         (''confidence'', j_opt J (f64_value L) (dc_confidence dec)),
                         (''probabilities'', j_opt J (probabilities_value L) (dc_probabilities dec)),
                         (''via'', j_str J ''hint_resolve_decider''), (''instruction'', j_str J instruction), (''result'', res)]), s)) s)))"

text \<open>Without the decider only a unique candidate whose name and text contain the instruction is clicked.\<close>

definition deterministic_click ::
  "('w, 'v, 'a, 's) hint_env \<Rightarrow> string \<Rightarrow> string option \<Rightarrow> candidates \<Rightarrow> ('w, string + 'v) asking" where
  "deterministic_click E instruction target cs s =
     (let J = he_json E; nq = to_lowercase (str_trim (normalize_text instruction)) in
      case filter (\<lambda>c. str_contains (to_lowercase (cd_name c @ '' '' @ cd_text c)) nq) (cs_candidates cs) of
        [c] \<Rightarrow>
          ask_try (on_station (he_click E (cd_label c) target)) (\<lambda>res s.
            (Inr (j_obj J
              [(''success'', j_bool J True), (''tier'', j_str J ''heuristic_fallback''), (''candidate'', candidate_brief J c),
               (''label'', j_str J (cd_label c)), (''id'', u32_value J (cd_id c)), (''via'', j_str J ''hint_resolve''), (''result'', res)]), s)) s
      | _ \<Rightarrow>
          (case on_prober (off_reason (re_probe (he_resolve E))) s of
             (why, s) \<Rightarrow> (Inl (''hint_resolve: '' @ why @ '' and deterministic matching found no match for '' @ quoted instruction), s)))"

definition hint_resolve ::
  "('w, 'v, 'a, 's) hint_env \<Rightarrow> string \<Rightarrow> string option \<Rightarrow> bool \<Rightarrow> ('w, string + 'v) asking" where
  "hint_resolve E instruction target vision s =
     (let J = he_json E; L = he_libs E in
      if blank instruction then (Inl ''hint_resolve needs instruction'', s)
      else
        ask_try (on_station (he_snapshot E target)) (\<lambda>snap s.
          let all = from_hint_snapshot L snap None None None; narrowed = filtered_for_budget None None all;
              cs = (if \<not> cs_is_empty narrowed \<and> cs_len narrowed \<noteq> cs_len all then narrowed else all) in
          if cs_is_empty all then (Inl ''hint snapshot empty (no candidates)'', s)
          else
            (case Option.bind (heuristic_hint_match L instruction snap) (\<lambda>label. map_option (Pair label) (get_by_label label cs)) of
               Some (label, c) \<Rightarrow>
                 ask_try (on_station (he_click E label target)) (\<lambda>res s.
                   (Inr (j_obj J
                     [(''success'', j_bool J True), (''tier'', j_str J ''heuristic''),
                      (''candidate'', j_obj J
                         [(''id'', u32_value J (cd_id c)), (''label'', j_str J (cd_label c)), (''selector'', j_str J (cd_selector c)),
                          (''rect'', rect_to_value J (cd_rect c))]),
                      (''label'', j_str J label), (''id'', u32_value J (cd_id c)), (''via'', j_str J ''hint_resolve_heuristic''),
                      (''instruction'', j_str J instruction), (''result'', res)]), s)) s
             | None \<Rightarrow>
                 (case on_prober (config_from_env (re_probe (he_resolve E))) s of
                    (cfg, s) \<Rightarrow>
                      if \<not> dg_enabled cfg then deterministic_click E instruction target cs s
                      else
                        (case (if vision then on_station (re_capture (he_resolve E) cs) s else (None, s)) of
                           (shot, s) \<Rightarrow>
                             ask_try (select_with_candidates E cs instruction instruction vision shot)
                               (decided_click E instruction target vision cs) s)))) s)"

section \<open>Keys of a keyboard\<close>

definition looks_like_key :: "rect option \<Rightarrow> candidate \<Rightarrow> bool" where
  "looks_like_key keyboard c =
     (let looks = to_lowercase (cd_role c) \<in> {''button'', ''key'', ''keyboard'', ''generic''}
                  \<or> length (str_trim (cd_name c)) = 1 \<or> length (str_trim (cd_text c)) = 1
                  \<or> cd_tag c = ''button'' \<or> length (cd_text c) \<le> 3
      in looks \<and> optionally (rect_overlaps (cd_rect c)) keyboard)"

definition keyboard_candidates :: "rect option \<Rightarrow> candidates \<Rightarrow> candidates" where
  "keyboard_candidates keyboard all =
     (let keys = filtered (looks_like_key keyboard) all in
      if cs_is_empty keys then (case keyboard of Some r \<Rightarrow> filter_viewport r all | None \<Rightarrow> all) else keys)"

text \<open>The key a one-byte query names, and the one that contains the query when the decider is off.\<close>

definition exact_key :: "string \<Rightarrow> candidates \<Rightarrow> candidate option" where
  "exact_key query cs =
     (let nq = str_trim query in
      if length nq = 1 then
        find (\<lambda>c. str_trim (cd_name c) = nq \<or> str_trim (cd_text c) = nq \<or> to_lowercase (str_trim (cd_name c)) = to_lowercase nq)
          (cs_candidates cs)
      else None)"

definition contained_key :: "string \<Rightarrow> candidates \<Rightarrow> candidate option" where
  "contained_key query cs =
     (let low = to_lowercase (str_trim query) in
      find (\<lambda>c. str_contains (normalized_name c) low \<or> str_contains (normalized_text c) low) (cs_candidates cs))"

text \<open>
  A key is clicked by its label, an unlabelled one at its centre, whether or not that click succeeds; \<open>report\<close>
  tells whether the answer names the point.
\<close>

definition press_key ::
  "('w, 'v, 'a, 's) hint_env \<Rightarrow> string option \<Rightarrow> bool \<Rightarrow> candidate \<Rightarrow> ('w, string + 'v) asking" where
  "press_key E target report c s =
     (if cd_label c \<noteq> [] then on_station (he_click E (cd_label c) target) s
      else (let J = he_json E; L = he_libs E; (x, y) = centre (cd_rect c) in
            case on_station (he_point_click E x y) s of
              (_, s) \<Rightarrow>
                (Inr (j_obj J ([(''clicked'', j_bool J True), (''via'', j_str J ''rect_center'')]
                   @ (if report then [(''x'', f64_value L x), (''y'', f64_value L y)] else []))), s)))"

definition key_brief :: "'v json_ops \<Rightarrow> candidate \<Rightarrow> (string \<times> 'v) list" where
  "key_brief J c = [(''id'', u32_value J (cd_id c)), (''label'', j_str J (cd_label c)), (''name'', j_str J (cd_name c))]"

definition chosen_key ::
  "('w, 'v, 'a, 's) hint_env \<Rightarrow> string \<Rightarrow> string option \<Rightarrow> bool \<Rightarrow> candidates \<Rightarrow> decision \<Rightarrow> ('w, string + 'v) asking" where
  "chosen_key E query target vision keys dec s =
     (let J = he_json E; L = he_libs E in
      case resolve_global_id keys (dc_choice dec) of
        Inl e \<Rightarrow> (Inl e, s)
      | Inr i \<Rightarrow>
          (case cs_get i keys of
             None \<Rightarrow> (Inl (''key candidate '' @ show_nat (unat i) @ '' not found''), s)
           | Some c \<Rightarrow>
               ask_try (press_key E target True c) (\<lambda>res s.
                 (Inr (j_obj J
                   [(''success'', j_bool J True),
                    (''tier'', j_str J (if vision then ''decider_vision_keyboard'' else ''decider_text_keyboard'')),
                    (''candidate'', j_obj J (key_brief J c @ [(''rect'', rect_to_value J (cd_rect c))])),
                    (''id'', u32_value J (cd_id c)), (''label'', j_str J (cd_label c)), (''choice'', j_str J (dc_choice dec)),
                    (''confidence'', j_opt J (f64_value L) (dc_confidence dec)),
                    (''probabilities'', j_opt J (probabilities_value L) (dc_probabilities dec)),
                    (''key'', j_str J query), (''result'', res)]), s)) s))"

definition decided_key ::
  "('w, 'v, 'a, 's) hint_env \<Rightarrow> string \<Rightarrow> string option \<Rightarrow> bool \<Rightarrow> candidates \<Rightarrow> decision \<Rightarrow> ('w, string + 'v) asking" where
  "decided_key E query target vision keys dec s =
     (let J = he_json E; L = he_libs E; choice = j_str J (dc_choice dec) in
      case dc_confidence dec of
        Some c \<Rightarrow>
          if f64_less c low_confidence_threshold then
            (Inr (j_obj J [(''success'', j_bool J False), (''status'', j_str J ''uncertain''), (''reason'', j_str J ''low confidence''),
               (''confidence'', f64_value L c), (''choice'', choice), (''key'', j_str J query)]), s)
          else chosen_key E query target vision keys dec s
      | None \<Rightarrow> chosen_key E query target vision keys dec s)"

text \<open>Without the decider the first key that contains the query is taken, and pressed if it has a label.\<close>

definition guessed_key ::
  "('w, 'v, 'a, 's) hint_env \<Rightarrow> string \<Rightarrow> string option \<Rightarrow> candidates \<Rightarrow> ('w, string + 'v) asking" where
  "guessed_key E query target keys s =
     (let J = he_json E in
      case contained_key query keys of
        Some c \<Rightarrow>
          ask_try (\<lambda>s. if cd_label c \<noteq> [] then on_station (he_click E (cd_label c) target) s else (Inr (j_obj J []), s))
            (\<lambda>res s. (Inr (j_obj J
              [(''success'', j_bool J True), (''tier'', j_str J ''heuristic_keyboard_fallback''), (''candidate'', candidate_brief J c),
               (''id'', u32_value J (cd_id c)), (''result'', res)]), s)) s
      | None \<Rightarrow>
          (case on_prober (off_reason (re_probe (he_resolve E))) s of
             (why, s) \<Rightarrow> (Inl (''key_identify: '' @ why @ '' and no heuristic match for key '' @ quoted query), s)))"

definition key_identify ::
  "('w, 'v, 'a, 's) hint_env \<Rightarrow> string \<Rightarrow> rect option \<Rightarrow> string option \<Rightarrow> bool \<Rightarrow> ('w, string + 'v) asking" where
  "key_identify E query keyboard target vision s =
     (let J = he_json E; L = he_libs E in
      if blank query then (Inl ''key_identify needs key query'', s)
      else
        ask_try (on_station (he_snapshot E target)) (\<lambda>snap s.
          let all = from_hint_snapshot L snap None None None; keys = keyboard_candidates keyboard all in
          if cs_is_empty all then (Inl ''key_identify: no candidates from hint'', s)
          else
            (case exact_key query keys of
               Some c \<Rightarrow>
                 ask_try (press_key E target False c) (\<lambda>res s.
                   (Inr (j_obj J
                     [(''success'', j_bool J True), (''tier'', j_str J ''heuristic_keyboard''), (''candidate'', j_obj J (key_brief J c)),
                      (''label'', j_str J (cd_label c)), (''id'', u32_value J (cd_id c)), (''key'', j_str J query), (''result'', res)]), s)) s
             | None \<Rightarrow>
                 (case on_prober (config_from_env (re_probe (he_resolve E))) s of
                    (cfg, s) \<Rightarrow>
                      if \<not> dg_enabled cfg then guessed_key E query target keys s
                      else
                        (case (if vision then on_station (re_capture (he_resolve E) keys) s else (None, s)) of
                           (shot, s) \<Rightarrow>
                             ask_try (select_with_candidates E keys query (''Identify keyboard key '' @ quoted query) vision shot)
                               (decided_key E query target vision keys) s)))) s)"

section \<open>What a choice picks\<close>

lemma cs_get_nth:
  assumes "distinct (cs_ids cs)" "i < cs_len cs"
  shows "cs_get (cd_id (cs_candidates cs ! i)) cs = Some (cs_candidates cs ! i)"
proof -
  have "j = i" if "j < length (cs_candidates cs)" "cd_id (cs_candidates cs ! j) = cd_id (cs_candidates cs ! i)" for j
    using assms that unfolding cs_ids_def cs_len_def by (simp add: distinct_conv_nth) metis
  then show ?thesis
    using assms(2) unfolding cs_get_def cs_len_def find_Some_iff
    by (intro exI [of _ i] conjI allI impI notI) (auto dest: less_trans)
qed

text \<open>
  C28: The choice picks the option it numbers. As long as the candidates are those of a whole snapshot, with the
  ids 1 to \<open>N\<close> in order, the choice \<open>k\<close> among all of them leads to the \<open>k\<close>th candidate; and the choice among the
  winners of the groups always does, since it is turned into the winner's id before it is looked up.
\<close>

theorem choice_picks_its_option:
  assumes "distinct (cs_ids cs)" "1 \<le> k" "k \<le> cs_len shown" "k < 2 ^ 32"
    and "set (cs_candidates shown) \<subseteq> set (cs_candidates cs)" "dc_choice dec = show_nat k"
  defines "c \<equiv> cs_candidates shown ! (k - 1)"
  shows "resolve_global_id cs (dc_choice (winner_decision shown dec)) = Inr (cd_id c)
    \<and> cs_get (cd_id c) cs = Some c
    \<and> (shown = cs \<and> cs_ids cs = map (\<lambda>i. of_nat (i + 1)) [0..<cs_len cs] \<longrightarrow> resolve_global_id cs (dc_choice dec) = Inr (cd_id c))"
proof (intro conjI impI)
  have "c \<in> set (cs_candidates cs)"
    using assms(2,3,5) nth_mem [of "k - 1" "cs_candidates shown"] by (auto simp: c_def cs_len_def)
  then obtain i where i: "i < cs_len cs" "cs_candidates cs ! i = c" by (auto simp: in_set_conv_nth cs_len_def)
  show g: "cs_get (cd_id c) cs = Some c" using cs_get_nth [OF assms(1) i(1)] i(2) by simp
  have "k < 2 ^ 64" using assms(4) by simp
  then have w: "dc_choice (winner_decision shown dec) = show_nat (unat (cd_id c))"
    using assms(2,3,6) by (simp add: winner_decision_def c_def)
  have "unat (cd_id c) < 2 ^ 32" using unsigned_less [of "cd_id c"] by simp
  then show "resolve_global_id cs (dc_choice (winner_decision shown dec)) = Inr (cd_id c)"
    using g by (simp add: w resolve_global_id_def)
  assume a: "shown = cs \<and> cs_ids cs = map (\<lambda>i. of_nat (i + 1)) [0..<cs_len cs]"
  then have ids: "cs_ids cs = map (\<lambda>i. of_nat (i + 1)) [0..<cs_len cs]" and "shown = cs" by simp_all
  have "cd_id c = cs_ids cs ! (k - 1)"
    using assms(2,3) \<open>shown = cs\<close> unfolding c_def cs_ids_def cs_len_def by simp
  also have "cs_ids cs ! (k - 1) = of_nat (k - 1 + 1)" using assms(2,3) \<open>shown = cs\<close> by (cases k) (simp_all add: ids)
  finally have "cd_id c = of_nat k" using assms(2) by simp
  then show "resolve_global_id cs (dc_choice dec) = Inr (cd_id c)"
    using g assms(4,6) by (simp add: resolve_global_id_def)
qed

definition choose_two :: decision where
  "choose_two = \<lparr>dc_choice = ''2'', dc_confidence = None, dc_probabilities = None\<rparr>"

theorem choice_picks_its_option_witness:
  "resolve_global_id sample_three ''2'' = Inr 2 \<and> cs_get 2 sample_three = Some (sample_candidate 2 ''b'')"
proof -
  have e: "cs_candidates sample_three = [sample_candidate 1 ''a'', sample_candidate 2 ''b'', sample_candidate 3 ''c'']" "show_nat 2 = ''2''"
    by code_simp+
  then have "cs_ids sample_three = [1, 2, 3]" "cs_len sample_three = 3" by (simp_all add: cs_ids_def cs_len_def sample_candidate_def)
  then show ?thesis
    using choice_picks_its_option [of sample_three 2 sample_three choose_two] e
    by (simp add: choose_two_def upt_rec sample_candidate_def)
qed

text \<open>
  With candidates filtered out the numbers no longer agree: \<open>hint_resolve\<close> shows the candidates 2 and 3 as the
  options 1 and 2, and takes the choice of the second option for the id 2, that is for the first one.
\<close>

lemma filtered_choice_picks_another:
  "let cs = from_vec [sample_candidate 2 ''Cancel'', sample_candidate 3 ''Login'']
   in choice_text (build_decider_question ''login'' True (cs_candidates cs)) ''2'' = Some ''Login''
      \<and> resolve_global_id cs ''2'' = Inr 2 \<and> cs_get 2 cs = Some (sample_candidate 2 ''Cancel'')"
  by code_simp

end
